(* ===== verification/Go_Prelude.thy ===== *)
theory Go_Prelude
  imports Main "HOL-Library.Word" "HOL-Library.Char_ord" "HOL-Library.List_Lexorder"
begin

text \<open>
  The vocabulary shared by all components: the outcome of a Go call (a value, an error or a
  panic), stateful calls over it, fixed-width integers, byte slices and strings, and the generic
  lemmas on lists that the component proofs use.
\<close>

named_theorems outcome_simps \<open>inversion rules for successful outcomes\<close>

section \<open>Integers, bytes and strings\<close>

type_synonym byte = "8 word"
type_synonym bytes = "8 word list"
type_synonym u32 = "32 word"
type_synonym u64 = "64 word"
type_synonym i64 = "64 word"

text \<open>
  A Go byte slice can be \<open>nil\<close>, which several checks of the program tell apart from an empty
  slice; \<open>None\<close> is the \<open>nil\<close> slice. The function \<open>len\<close> and a \<open>range\<close> loop read both as empty.
\<close>

type_synonym slice = "bytes option"

definition slice_bytes :: "slice \<Rightarrow> bytes" where
  "slice_bytes s = (case s of None \<Rightarrow> [] | Some b \<Rightarrow> b)"

lemma slice_bytes_simps [simp]: "slice_bytes None = []" "slice_bytes (Some b) = b"
  by (simp_all add: slice_bytes_def)

text \<open>Conversions between a Go string (a sequence of bytes) and a byte slice.\<close>

definition byte_of_char :: "char \<Rightarrow> byte" where
  "byte_of_char c = word_of_nat (of_char c)"

definition char_of_byte :: "byte \<Rightarrow> char" where
  "char_of_byte b = char_of (unat b)"

definition bytes_of_string :: "string \<Rightarrow> bytes" where
  "bytes_of_string s = map byte_of_char s"

definition string_of_bytes :: "bytes \<Rightarrow> string" where
  "string_of_bytes b = map char_of_byte b"

lemma char_of_byte_of_char [simp]: "char_of_byte (byte_of_char c) = c"
proof -
  have "(of_char c :: nat) < 256"
    using of_char_mod_256 [of c, where ?'a = nat] by (metis mod_less_divisor zero_less_numeral)
  then have "unat (word_of_nat (of_char c) :: byte) = of_char c"
    by (simp add: unat_of_nat)
  then show ?thesis by (simp add: char_of_byte_def byte_of_char_def)
qed

lemma byte_of_char_of_byte [simp]: "byte_of_char (char_of_byte b) = b"
proof -
  have "unat b < 256" using unsigned_less [of b, where ?'a = nat] by simp
  then have "of_char (char_of (unat b) :: char) = unat b" by simp
  then show ?thesis by (simp add: char_of_byte_def byte_of_char_def)
qed

lemma string_of_bytes_of_string [simp]: "string_of_bytes (bytes_of_string s) = s"
  by (simp add: string_of_bytes_def bytes_of_string_def comp_def)

lemma bytes_of_string_of_bytes [simp]: "bytes_of_string (string_of_bytes b) = b"
  by (simp add: string_of_bytes_def bytes_of_string_def comp_def)

lemma length_bytes_of_string [simp]: "length (bytes_of_string s) = length s"
  by (simp add: bytes_of_string_def)

lemma length_string_of_bytes [simp]: "length (string_of_bytes b) = length b"
  by (simp add: string_of_bytes_def)

lemma bytes_of_string_inject [simp]: "bytes_of_string s = bytes_of_string t \<longleftrightarrow> s = t"
  by (metis string_of_bytes_of_string)

lemma bytes_of_string_Nil [simp]: "bytes_of_string s = [] \<longleftrightarrow> s = []"
  by (simp add: bytes_of_string_def)

lemma bytes_of_string_append [simp]:
  "bytes_of_string (s @ t) = bytes_of_string s @ bytes_of_string t"
  by (simp add: bytes_of_string_def)

text \<open>
  Signed 64-bit arithmetic: an \<open>int64\<close> (and Go's \<open>int\<close> on the supported platforms) is the word
  read by \<open>sint\<close>, so sums wrap; the quotient truncates towards zero.
\<close>

definition i64_quot :: "i64 \<Rightarrow> i64 \<Rightarrow> i64" where
  "i64_quot a b = word_of_int (sgn (sint a) * sgn (sint b) * (\<bar>sint a\<bar> div \<bar>sint b\<bar>))"

text \<open>Wrap-around of a mathematical integer to the range of \<open>int\<close>.\<close>

definition wrap_int :: "int \<Rightarrow> int" where
  "wrap_int x = sint (word_of_int x :: i64)"

lemma wrap_int_id: "- (2 ^ 63) \<le> x \<Longrightarrow> x < 2 ^ 63 \<Longrightarrow> wrap_int x = x"
  by (simp add: wrap_int_def sint_sbintrunc' signed_take_bit_int_eq_self)

section \<open>Outcomes\<close>

text \<open>
  Errors. \<open>ErrorNew\<close> is an error made by \<open>errors.New\<close> or \<open>fmt.Errorf\<close>, represented by its
  (format) string; \<open>ErrorRoot\<close> is a registered error variable of the Cosmos SDK or of ibc-go;
  \<open>ErrorWrap\<close> is what \<open>sdkerrors.Wrap\<close> and \<open>Wrapf\<close> make of an error and a description.
\<close>

datatype error = ErrorNew string | ErrorRoot string | ErrorWrap error string

text \<open>The \<open>Error\<close> method: a wrapped error prints its description first.\<close>

fun error_string :: "error \<Rightarrow> string" where
  "error_string (ErrorNew s) = s"
| "error_string (ErrorRoot s) = s"
| "error_string (ErrorWrap e s) = s @ '': '' @ error_string e"

text \<open>A call returns a value, returns an error, or panics.\<close>

datatype 'a outcome = Ok 'a | Err error | Panic string

fun and_then :: "'a outcome \<Rightarrow> ('a \<Rightarrow> 'b outcome) \<Rightarrow> 'b outcome" where
  "and_then (Ok a) f = f a"
| "and_then (Err e) f = Err e"
| "and_then (Panic p) f = Panic p"

text \<open>\<open>if err != nil { return wrap(err) }\<close>\<close>

fun map_err :: "(error \<Rightarrow> error) \<Rightarrow> 'a outcome \<Rightarrow> 'a outcome" where
  "map_err w (Ok a) = Ok a"
| "map_err w (Err e) = Err (w e)"
| "map_err w (Panic p) = Panic p"

fun is_ok :: "'a outcome \<Rightarrow> bool" where
  "is_ok (Ok a) = True"
| "is_ok (Err e) = False"
| "is_ok (Panic p) = False"

definition panics :: "'a outcome \<Rightarrow> bool" where
  "panics r \<longleftrightarrow> (\<exists>p. r = Panic p)"

lemma panics_simps [simp]:
  "\<not> panics (Ok a)" "\<not> panics (Err e)" "panics (Panic p)"
  by (simp_all add: panics_def)

lemma and_then_Ok [outcome_simps]:
  "and_then m f = Ok b \<longleftrightarrow> (\<exists>a. m = Ok a \<and> f a = Ok b)"
  by (cases m) auto

lemma and_then_Panic [outcome_simps]:
  "and_then m f = Panic p \<longleftrightarrow> m = Panic p \<or> (\<exists>a. m = Ok a \<and> f a = Panic p)"
  by (cases m) auto

lemma map_err_Ok [outcome_simps]: "map_err w m = Ok b \<longleftrightarrow> m = Ok b"
  by (cases m) auto

lemma map_err_Panic [outcome_simps]: "map_err w m = Panic p \<longleftrightarrow> m = Panic p"
  by (cases m) auto

lemma is_ok_iff [outcome_simps]: "is_ok m \<longleftrightarrow> (\<exists>a. m = Ok a)"
  by (cases m) auto

lemma not_panics_and_then:
  "\<not> panics m \<Longrightarrow> (\<And>a. m = Ok a \<Longrightarrow> \<not> panics (f a)) \<Longrightarrow> \<not> panics (and_then m f)"
  by (cases m) auto

lemma panics_and_then:
  "panics (and_then m f) \<longleftrightarrow> panics m \<or> (\<exists>a. m = Ok a \<and> panics (f a))"
  by (cases m) auto

lemma panics_map_err [simp]: "panics (map_err w m) \<longleftrightarrow> panics m"
  by (cases m) auto

lemma and_then_assoc: "and_then (and_then m f) g = and_then m (\<lambda>a. and_then (f a) g)"
  by (cases m) auto

lemma and_then_cong [fundef_cong]:
  "m = m' \<Longrightarrow> (\<And>a. m' = Ok a \<Longrightarrow> f a = f' a) \<Longrightarrow> and_then m f = and_then m' f'"
  by (cases m') auto

text \<open>A check without a value: \<open>if cond { return err }\<close>.\<close>

definition require :: "bool \<Rightarrow> error \<Rightarrow> unit outcome" where
  "require b e = (if b then Ok () else Err e)"

lemma require_Ok [outcome_simps]: "require b e = Ok u \<longleftrightarrow> b"
  by (simp add: require_def)

lemma require_Panic [outcome_simps]: "require b e \<noteq> Panic p"
  by (simp add: require_def)

lemma require_simps [simp]: "require True e = Ok ()" "require False e = Err e"
  by (simp_all add: require_def)

lemma not_panics_require [simp]: "\<not> panics (require b e)"
  by (simp add: require_def)

text \<open>\<open>x, err := f(\<dots>); if err != nil { panic(err) }\<close>\<close>

definition must :: "'a outcome \<Rightarrow> 'a outcome" where
  "must r = (case r of Err e \<Rightarrow> Panic (error_string e) | _ \<Rightarrow> r)"

lemma must_simps [simp]:
  "must (Ok a) = Ok a" "must (Err e) = Panic (error_string e)" "must (Panic p) = Panic p"
  by (simp_all add: must_def)

lemma must_Ok [outcome_simps]: "must r = Ok a \<longleftrightarrow> r = Ok a"
  by (cases r) simp_all

section \<open>Stateful calls\<close>

text \<open>
  A call that reads and writes a state. The state a call leaves behind is kept when it returns
  an error, since a Go method that fails keeps the writes it has already made.
\<close>

type_synonym ('s, 'a) call = "'s \<Rightarrow> 'a outcome \<times> 's"

definition give :: "'a \<Rightarrow> ('s, 'a) call" where
  "give a s = (Ok a, s)"

definition fail :: "error \<Rightarrow> ('s, 'a) call" where
  "fail e s = (Err e, s)"

definition lift :: "'a outcome \<Rightarrow> ('s, 'a) call" where
  "lift r s = (r, s)"

definition reads :: "('s \<Rightarrow> 'a outcome) \<Rightarrow> ('s, 'a) call" where
  "reads f s = (f s, s)"

definition then_call :: "('s, 'a) call \<Rightarrow> ('a \<Rightarrow> ('s, 'b) call) \<Rightarrow> ('s, 'b) call" where
  "then_call m f s = (case m s of
     (Ok a, t) \<Rightarrow> f a t
   | (Err e, t) \<Rightarrow> (Err e, t)
   | (Panic p, t) \<Rightarrow> (Panic p, t))"

lemma call_simps [simp]:
  "give a s = (Ok a, s)" "fail e s = (Err e, s)" "lift r s = (r, s)" "reads g s = (g s, s)"
  by (simp_all add: give_def fail_def lift_def reads_def)

lemma then_call_Ok [outcome_simps]:
  "then_call m f s = (Ok b, u) \<longleftrightarrow> (\<exists>a t. m s = (Ok a, t) \<and> f a t = (Ok b, u))"
  by (auto simp: then_call_def split: prod.splits outcome.splits)

lemma then_call_Panic [outcome_simps]:
  "then_call m f s = (Panic p, u) \<longleftrightarrow>
     m s = (Panic p, u) \<or> (\<exists>a t. m s = (Ok a, t) \<and> f a t = (Panic p, u))"
  by (auto simp: then_call_def split: prod.splits outcome.splits)

lemma then_call_step:
  "m s = (Ok a, t) \<Longrightarrow> then_call m f s = f a t"
  "m s = (Err e, t) \<Longrightarrow> then_call m f s = (Err e, t)"
  "m s = (Panic p, t) \<Longrightarrow> then_call m f s = (Panic p, t)"
  by (simp_all add: then_call_def)

text \<open>A loop over a list whose body may stop with an error.\<close>

fun for_each :: "('a \<Rightarrow> ('s, unit) call) \<Rightarrow> 'a list \<Rightarrow> ('s, unit) call" where
  "for_each f [] s = (Ok (), s)"
| "for_each f (x # xs) s = then_call (f x) (\<lambda>_. for_each f xs) s"

fun fold_outcome :: "('b \<Rightarrow> 'a \<Rightarrow> 'b outcome) \<Rightarrow> 'b \<Rightarrow> 'a list \<Rightarrow> 'b outcome" where
  "fold_outcome f b [] = Ok b"
| "fold_outcome f b (x # xs) = and_then (f b x) (\<lambda>b'. fold_outcome f b' xs)"

lemma fold_outcome_append:
  "fold_outcome f b (xs @ ys) = and_then (fold_outcome f b xs) (\<lambda>b'. fold_outcome f b' ys)"
  by (induction xs arbitrary: b) (auto simp: and_then_assoc)

section \<open>Indexed access\<close>

text \<open>\<open>xs[i]\<close>: an index out of range panics.\<close>

definition index :: "'a list \<Rightarrow> nat \<Rightarrow> 'a outcome" where
  "index xs i = (if i < length xs then Ok (xs ! i) else Panic ''index out of range'')"

lemma index_Ok [outcome_simps]: "index xs i = Ok x \<longleftrightarrow> i < length xs \<and> xs ! i = x"
  by (simp add: index_def)

lemma index_Panic [outcome_simps]:
  "index xs i = Panic p \<longleftrightarrow> length xs \<le> i \<and> p = ''index out of range''"
  by (auto simp: index_def)

lemma panics_index [simp]: "panics (index xs i) \<longleftrightarrow> length xs \<le> i"
  by (simp add: index_def)

section \<open>Lists\<close>

lemma append_sep_inject:
  assumes "xs @ c # ys = xs' @ c # ys'" and "c \<notin> set xs" and "c \<notin> set xs'"
  shows "xs = xs' \<and> ys = ys'"
  using assms
proof (induction xs arbitrary: xs')
  case Nil
  then show ?case by (cases xs') auto
next
  case (Cons x xs)
  then show ?case by (cases xs') auto
qed

lemma drop_append_length: "drop i d = xs @ ys \<Longrightarrow> drop (i + length xs) d = ys"
  by (metis add.commute append_eq_conv_conj drop_drop)

lemma drop_eq_append_take: "drop i d = xs @ ys \<Longrightarrow> take (length xs) (drop i d) = xs"
  by simp

lemma drop_Cons_nth: "drop i d = x # xs \<Longrightarrow> i < length d \<and> d ! i = x \<and> drop (Suc i) d = xs"
  by (metis Cons_nth_drop_Suc drop_all leI list.distinct(1) list.inject)

lemma drop_Suc_eq: "drop i d = x # xs \<Longrightarrow> drop (Suc i) d = xs"
  using drop_Cons_nth by fast

end
