(* ===== verification/Go_Text.thy ===== *)
theory Go_Text
  imports Go_Prelude
begin

text \<open>
  The parts of Go's standard library the program formats and parses text with: decimal numbers
  (\<open>fmt\<close> and \<open>strconv\<close>), hexadecimal and base64 (\<open>encoding/hex\<close>, \<open>encoding/base64\<close>), and the
  separators and blanks of \<open>strings\<close>. Each encoder has its round trip with the decoder here, and
  the hexadecimal encoding is shown to keep the lexicographic order of byte strings.
\<close>

section \<open>Decimal numbers\<close>

definition digit_char :: "nat \<Rightarrow> char" where
  "digit_char d = char_of (48 + d)"

fun show_nat :: "nat \<Rightarrow> string" where
  "show_nat n = (if n < 10 then [digit_char n] else show_nat (n div 10) @ [digit_char (n mod 10)])"

declare show_nat.simps [simp del]

text \<open>The verb \<open>%v\<close> (and \<open>%d\<close>) on an unsigned integer.\<close>

definition format_u64 :: "u64 \<Rightarrow> string" where
  "format_u64 v = show_nat (unat v)"

definition is_digit :: "char \<Rightarrow> bool" where
  "is_digit c \<longleftrightarrow> 48 \<le> (of_char c :: nat) \<and> (of_char c :: nat) \<le> 57"

definition digit_value :: "char \<Rightarrow> nat" where
  "digit_value c = of_char c - 48"

definition max_uint64 :: nat where
  "max_uint64 = 18446744073709551615"

text \<open>
  The loop of \<open>strconv.ParseUint(s, 10, 64)\<close>: \<open>cutoff\<close> is \<open>maxUint64/10 + 1\<close>, and the second
  range check is the wrap-around test \<open>n1 < n\<close> of the source.
\<close>

fun parse_digits :: "nat \<Rightarrow> string \<Rightarrow> nat outcome" where
  "parse_digits n [] = Ok n"
| "parse_digits n (c # cs) =
     (if \<not> is_digit c then Err (ErrorNew ''invalid syntax'')
      else if max_uint64 div 10 + 1 \<le> n then Err (ErrorNew ''value out of range'')
      else if max_uint64 < 10 * n + digit_value c then Err (ErrorNew ''value out of range'')
      else parse_digits (10 * n + digit_value c) cs)"

definition parse_uint :: "string \<Rightarrow> u64 outcome" where
  "parse_uint s =
     (if s = [] then Err (ErrorNew ''invalid syntax'')
      else and_then (parse_digits 0 s) (\<lambda>n. Ok (word_of_nat n)))"

lemma digit_char_is_digit [simp]: "d < 10 \<Longrightarrow> is_digit (digit_char d)"
  by (simp add: is_digit_def digit_char_def)

lemma digit_value_char [simp]: "d < 10 \<Longrightarrow> digit_value (digit_char d) = d"
  by (simp add: digit_value_def digit_char_def)

lemma show_nat_not_Nil [simp]: "show_nat n \<noteq> []"
  by (subst show_nat.simps) simp

lemma show_nat_digits: "\<forall>c \<in> set (show_nat n). is_digit c"
proof (induction n rule: show_nat.induct)
  case (1 n)
  then show ?case by (subst show_nat.simps) (auto simp del: digit_char_is_digit intro: digit_char_is_digit)
qed

lemma parse_digits_append:
  "parse_digits n (xs @ ys) = and_then (parse_digits n xs) (\<lambda>m. parse_digits m ys)"
  by (induction xs arbitrary: n) auto

lemma parse_digits_show:
  "n \<le> max_uint64 \<Longrightarrow> parse_digits 0 (show_nat n) = Ok n"
proof (induction n rule: show_nat.induct)
  case (1 n)
  show ?case
  proof (cases "n < 10")
    case True
    then show ?thesis by (subst show_nat.simps) (simp add: max_uint64_def)
  next
    case False
    have "parse_digits 0 (show_nat (n div 10)) = Ok (n div 10)"
      using "1.IH" [OF False] "1.prems" by simp
    moreover have "\<not> max_uint64 div 10 + 1 \<le> n div 10"
      using "1.prems" div_le_mono [of n max_uint64 10] by simp
    moreover have "10 * (n div 10) + n mod 10 = n" by simp
    ultimately show ?thesis using False "1.prems"
      by (subst show_nat.simps) (simp add: parse_digits_append)
  qed
qed

lemma parse_uint_format [simp]: "parse_uint (format_u64 v) = Ok v"
proof -
  have "unat v \<le> max_uint64"
    using unsigned_less [of v, where ?'a = nat] by (simp add: max_uint64_def)
  then show ?thesis by (simp add: parse_uint_def format_u64_def parse_digits_show)
qed

lemma parse_digits_all_digits: "parse_digits n s = Ok m \<Longrightarrow> \<forall>c \<in> set s. is_digit c"
  by (induction n s rule: parse_digits.induct) (auto split: if_splits)

lemma parse_uint_all_digits: "parse_uint s = Ok v \<Longrightarrow> s \<noteq> [] \<and> (\<forall>c \<in> set s. is_digit c)"
  by (auto simp: parse_uint_def outcome_simps split: if_splits dest: parse_digits_all_digits)

lemma format_u64_inject [simp]: "format_u64 v = format_u64 w \<longleftrightarrow> v = w"
  by (metis parse_uint_format outcome.inject(1))

lemma is_digit_not_sep: "\<not> is_digit CHR ''/''" "\<not> is_digit CHR ''-''"
  by (simp_all add: is_digit_def)

lemma format_u64_no_sep [simp]:
  "CHR ''/'' \<notin> set (format_u64 v)" "CHR ''-'' \<notin> set (format_u64 v)"
  using show_nat_digits [of "unat v"] is_digit_not_sep by (auto simp: format_u64_def)

lemma format_u64_not_Nil [simp]: "format_u64 v \<noteq> []"
  by (simp add: format_u64_def)

section \<open>Hexadecimal\<close>

definition hex_char :: "nat \<Rightarrow> char" where
  "hex_char n = (if n < 10 then char_of (48 + n) else char_of (87 + n))"

text \<open>\<open>fromHexChar\<close> of \<open>encoding/hex\<close>.\<close>

definition from_hex_char :: "char \<Rightarrow> nat option" where
  "from_hex_char c =
     (let n = (of_char c :: nat) in
      if 48 \<le> n \<and> n \<le> 57 then Some (n - 48)
      else if 97 \<le> n \<and> n \<le> 102 then Some (n - 97 + 10)
      else if 65 \<le> n \<and> n \<le> 70 then Some (n - 65 + 10)
      else None)"

definition hex_byte :: "byte \<Rightarrow> string" where
  "hex_byte b = [hex_char (unat b div 16), hex_char (unat b mod 16)]"

definition hex_encode :: "bytes \<Rightarrow> string" where
  "hex_encode bs = concat (map hex_byte bs)"

fun hex_decode :: "string \<Rightarrow> bytes outcome" where
  "hex_decode [] = Ok []"
| "hex_decode [c] =
     (case from_hex_char c of None \<Rightarrow> Err (ErrorNew ''encoding/hex: invalid byte'')
      | Some _ \<Rightarrow> Err (ErrorNew ''encoding/hex: odd length hex string''))"
| "hex_decode (c # d # cs) =
     (case from_hex_char c of None \<Rightarrow> Err (ErrorNew ''encoding/hex: invalid byte'')
      | Some h \<Rightarrow> (case from_hex_char d of None \<Rightarrow> Err (ErrorNew ''encoding/hex: invalid byte'')
         | Some l \<Rightarrow> and_then (hex_decode cs) (\<lambda>bs. Ok (word_of_nat (16 * h + l) # bs))))"

lemma hex_encode_simps [simp]:
  "hex_encode [] = []"
  "hex_encode (b # bs) = hex_char (unat b div 16) # hex_char (unat b mod 16) # hex_encode bs"
  by (simp_all add: hex_encode_def hex_byte_def)

lemma hex_encode_append [simp]: "hex_encode (as @ bs) = hex_encode as @ hex_encode bs"
  by (simp add: hex_encode_def)

lemma from_hex_char_hex_char [simp]: "n < 16 \<Longrightarrow> from_hex_char (hex_char n) = Some n"
  by (auto simp: from_hex_char_def hex_char_def Let_def)

lemma unat_byte_less [simp]: "unat (b :: byte) < 256"
  using unsigned_less [of b, where ?'a = nat] by simp

lemma hex_decode_encode [simp]: "hex_decode (hex_encode bs) = Ok bs"
proof (induction bs)
  case Nil
  show ?case by simp
next
  case (Cons b bs)
  have "unat b div 16 < 16" using unat_byte_less [of b] by (simp add: less_mult_imp_div_less)
  then show ?case using Cons by (simp add: mult.commute [of 16])
qed

lemma hex_encode_inject [simp]: "hex_encode as = hex_encode bs \<longleftrightarrow> as = bs"
  by (metis hex_decode_encode outcome.inject(1))

lemma hex_encode_Nil [simp]: "hex_encode bs = [] \<longleftrightarrow> bs = []" "[] = hex_encode bs \<longleftrightarrow> bs = []"
  by (cases bs; simp)+

lemma hex_char_less:
  assumes "m < 16" and "n < 16"
  shows "hex_char m < hex_char n \<longleftrightarrow> m < n"
  using assms by (auto simp: hex_char_def less_char_def)

lemma hex_char_eq:
  assumes "m < 16" and "n < 16"
  shows "hex_char m = hex_char n \<longleftrightarrow> m = n"
  using assms by (metis from_hex_char_hex_char option.inject)

lemma less_iff_div_mod_less:
  fixes m n k :: nat
  assumes "0 < k"
  shows "m < n \<longleftrightarrow> m div k < n div k \<or> m div k = n div k \<and> m mod k < n mod k"
proof (cases "m div k = n div k")
  case True
  then show ?thesis
    using div_mult_mod_eq [of m k] div_mult_mod_eq [of n k] by (metis add_less_cancel_left less_irrefl)
next
  case False
  then show ?thesis
    using div_le_mono [of m n k] div_le_mono [of n m k] by linarith
qed

text \<open>The encoding keeps the order: keys sort the same before and after it.\<close>

lemma hex_encode_less: "hex_encode as < hex_encode bs \<longleftrightarrow> as < bs"
proof (induction as arbitrary: bs)
  case Nil
  show ?case by (cases bs) auto
next
  case (Cons a as)
  show ?case
  proof (cases bs)
    case Nil
    then show ?thesis by simp
  next
    case (Cons b bs')
    have *: "unat a div 16 < 16" "unat b div 16 < 16"
      using unat_byte_less by (simp_all add: less_mult_imp_div_less)
    have "a < b \<longleftrightarrow> unat a div 16 < unat b div 16 \<or>
        unat a div 16 = unat b div 16 \<and> unat a mod 16 < unat b mod 16"
      unfolding word_less_nat_alt by (rule less_iff_div_mod_less) simp
    moreover have "a = b \<longleftrightarrow> unat a div 16 = unat b div 16 \<and> unat a mod 16 = unat b mod 16"
      by (metis mult_div_mod_eq unsigned_word_eqI)
    ultimately show ?thesis
      using * Cons Cons.IH [of bs'] by (auto simp: hex_char_less hex_char_eq)
  qed
qed

lemma hex_encode_le: "hex_encode as \<le> hex_encode bs \<longleftrightarrow> as \<le> bs"
  using hex_encode_less [of bs as] by (simp add: not_less [symmetric])

lemma hex_char_not_sep: "n < 16 \<Longrightarrow> hex_char n \<noteq> CHR ''/''"
  using from_hex_char_hex_char [of n] by (auto simp: from_hex_char_def)

section \<open>Base64\<close>

text \<open>The standard alphabet with padding (\<open>base64.StdEncoding\<close>).\<close>

definition b64_char :: "nat \<Rightarrow> char" where
  "b64_char n =
     (if n < 26 then char_of (65 + n)
      else if n < 52 then char_of (71 + n)
      else if n < 62 then char_of (n - 4)
      else if n = 62 then CHR ''+'' else CHR ''/'')"

definition b64_value :: "char \<Rightarrow> nat option" where
  "b64_value c =
     (let n = (of_char c :: nat) in
      if 65 \<le> n \<and> n \<le> 90 then Some (n - 65)
      else if 97 \<le> n \<and> n \<le> 122 then Some (n - 71)
      else if 48 \<le> n \<and> n \<le> 57 then Some (n + 4)
      else if n = 43 then Some 62
      else if n = 47 then Some 63
      else None)"

fun b64_encode :: "bytes \<Rightarrow> string" where
  "b64_encode [] = []"
| "b64_encode [a] =
     [b64_char (unat a div 4), b64_char (unat a mod 4 * 16), CHR ''='', CHR ''='']"
| "b64_encode [a, b] =
     [b64_char (unat a div 4), b64_char (unat a mod 4 * 16 + unat b div 16),
      b64_char (unat b mod 16 * 4), CHR ''='']"
| "b64_encode (a # b # c # bs) =
     [b64_char (unat a div 4), b64_char (unat a mod 4 * 16 + unat b div 16),
      b64_char (unat b mod 16 * 4 + unat c div 64), b64_char (unat c mod 64)] @ b64_encode bs"

abbreviation b64_corrupt :: "'a outcome" where
  "b64_corrupt \<equiv> Err (ErrorNew ''illegal base64 data at input byte'')"

text \<open>
  \<open>decodeQuantum\<close> repeated: four characters at a time, padding only in the last group and only in
  its last two places. The bits that a padded group does not use are not checked (the encoding
  is not \<open>Strict\<close>).
\<close>

definition b64_byte1 :: "nat \<Rightarrow> nat \<Rightarrow> byte" where
  "b64_byte1 i j = word_of_nat (i * 4 + j div 16)"

definition b64_byte2 :: "nat \<Rightarrow> nat \<Rightarrow> byte" where
  "b64_byte2 j k = word_of_nat (j mod 16 * 16 + k div 4)"

definition b64_byte3 :: "nat \<Rightarrow> nat \<Rightarrow> byte" where
  "b64_byte3 k l = word_of_nat (k mod 4 * 64 + l)"

fun b64_decode_quanta :: "string \<Rightarrow> bytes outcome" where
  "b64_decode_quanta [] = Ok []"
| "b64_decode_quanta (p # q # r # s # cs) =
     (case (b64_value p, b64_value q) of
        (Some i, Some j) \<Rightarrow>
          (if r = CHR ''='' then
             (if s = CHR ''='' \<and> cs = [] then Ok [b64_byte1 i j] else b64_corrupt)
           else (case b64_value r of
              None \<Rightarrow> b64_corrupt
            | Some k \<Rightarrow>
                (if s = CHR ''='' then
                   (if cs = [] then
                      Ok [b64_byte1 i j, b64_byte2 j k]
                    else b64_corrupt)
                 else (case b64_value s of
                    None \<Rightarrow> b64_corrupt
                  | Some l \<Rightarrow>
                      and_then (b64_decode_quanta cs) (\<lambda>bs.
                        Ok (b64_byte1 i j # b64_byte2 j k
                            # b64_byte3 k l # bs))))))
      | _ \<Rightarrow> b64_corrupt)"
| "b64_decode_quanta _ = b64_corrupt"

text \<open>Line breaks are skipped wherever they occur.\<close>

definition b64_decode :: "string \<Rightarrow> bytes outcome" where
  "b64_decode s = b64_decode_quanta (filter (\<lambda>c. c \<noteq> CHR 0x0A \<and> c \<noteq> CHR 0x0D) s)"

lemma b64_value_char [simp]: "n < 64 \<Longrightarrow> b64_value (b64_char n) = Some n"
  by (auto simp: b64_value_def b64_char_def Let_def)

lemma b64_char_not_special [simp]:
  assumes "n < 64"
  shows "b64_char n \<noteq> CHR ''=''" "b64_char n \<noteq> CHR 0x0A" "b64_char n \<noteq> CHR 0x0D"
  using b64_value_char [OF assms] by (auto simp: b64_value_def)

lemma word_nat_cast_id: "word_of_nat (unat (w :: byte)) = w"
  by simp

lemma b64_group_bounds [simp]:
  "unat (a :: byte) div 4 < 64" "unat a mod 4 * 16 < 64" "unat b mod 16 * 4 < 64"
  "unat (c :: byte) mod 64 < 64"
  "unat a mod 4 * 16 + unat (b :: byte) div 16 < 64"
  "unat b mod 16 * 4 + unat c div 64 < 64"
proof -
  have "unat b div 16 < 16" "unat c div 64 < 4" "unat a div 4 < 64"
    using unat_byte_less by (simp_all add: less_mult_imp_div_less)
  moreover have "unat a mod 4 < 4" "unat b mod 16 < 16" "unat c mod 64 < 64" by simp_all
  ultimately show "unat (a :: byte) div 4 < 64" "unat a mod 4 * 16 < 64" "unat b mod 16 * 4 < 64"
    "unat (c :: byte) mod 64 < 64" "unat a mod 4 * 16 + unat (b :: byte) div 16 < 64"
    "unat b mod 16 * 4 + unat c div 64 < 64"
    by linarith+
qed

lemma b64_group_values [simp]:
  "b64_byte1 (unat a div 4) (unat a mod 4 * 16) = a"
  "b64_byte1 (unat a div 4) (unat a mod 4 * 16 + unat b div 16) = a"
  "b64_byte2 (unat a mod 4 * 16 + unat b div 16) (unat b mod 16 * 4) = b"
  "b64_byte2 (unat a mod 4 * 16 + unat b div 16) (unat b mod 16 * 4 + unat (c :: byte) div 64) = b"
  "b64_byte3 (unat b mod 16 * 4 + unat c div 64) (unat c mod 64) = c"
proof -
  have "unat b div 16 < 16" "unat c div 64 < 4"
    using unat_byte_less by (simp_all add: less_mult_imp_div_less)
  then have "(unat a mod 4 * 16 + unat b div 16) div 16 = unat a mod 4"
    "(unat a mod 4 * 16 + unat b div 16) mod 16 = unat b div 16"
    "(unat b mod 16 * 4 + unat c div 64) div 4 = unat b mod 16"
    "(unat b mod 16 * 4 + unat c div 64) mod 4 = unat c div 64"
    by simp_all
  moreover have "(unat a mod 4 * 16) div 16 = unat a mod 4" "(unat b mod 16 * 4) div 4 = unat b mod 16"
    by simp_all
  ultimately show
    "b64_byte1 (unat a div 4) (unat a mod 4 * 16) = a"
    "b64_byte1 (unat a div 4) (unat a mod 4 * 16 + unat b div 16) = a"
    "b64_byte2 (unat a mod 4 * 16 + unat b div 16) (unat b mod 16 * 4) = b"
    "b64_byte2 (unat a mod 4 * 16 + unat b div 16) (unat b mod 16 * 4 + unat c div 64) = b"
    "b64_byte3 (unat b mod 16 * 4 + unat c div 64) (unat c mod 64) = c"
    by (simp_all only: b64_byte1_def b64_byte2_def b64_byte3_def div_mult_mod_eq word_nat_cast_id)
qed

lemma b64_encode_no_break:
  "filter (\<lambda>c. c \<noteq> CHR 0x0A \<and> c \<noteq> CHR 0x0D) (b64_encode bs) = b64_encode bs"
  by (induction bs rule: b64_encode.induct) simp_all

lemma b64_decode_quanta_encode: "b64_decode_quanta (b64_encode bs) = Ok bs"
  by (induction bs rule: b64_encode.induct) simp_all

lemma b64_decode_encode [simp]: "b64_decode (b64_encode bs) = Ok bs"
  by (simp add: b64_decode_def b64_encode_no_break b64_decode_quanta_encode)

section \<open>Separators and blanks\<close>

text \<open>\<open>strings.Split(s, sep)\<close> for a separator of one byte.\<close>

fun split_on :: "char \<Rightarrow> string \<Rightarrow> string list" where
  "split_on sep [] = [[]]"
| "split_on sep (c # cs) =
     (if c = sep then [] # split_on sep cs
      else (case split_on sep cs of [] \<Rightarrow> [[c]] | w # ws \<Rightarrow> (c # w) # ws))"

text \<open>\<open>strings.SplitN(s, sep, 2)\<close>: the pieces before and after the first separator.\<close>

fun split_once :: "char \<Rightarrow> string \<Rightarrow> string \<times> string option" where
  "split_once sep [] = ([], None)"
| "split_once sep (c # cs) =
     (if c = sep then ([], Some cs) else map_prod (Cons c) id (split_once sep cs))"

text \<open>\<open>strings.Join(ws, sep)\<close>.\<close>

fun join_with :: "char \<Rightarrow> string list \<Rightarrow> string" where
  "join_with sep [] = []"
| "join_with sep [w] = w"
| "join_with sep (w # ws) = w @ sep # join_with sep ws"

lemma split_on_not_Nil [simp]: "split_on sep s \<noteq> []"
  by (induction s) (auto split: list.splits)

lemma split_on_no_sep: "sep \<notin> set s \<Longrightarrow> split_on sep s = [s]"
  by (induction s) auto

lemma split_on_append:
  "sep \<notin> set s \<Longrightarrow> split_on sep (s @ sep # t) = s # split_on sep t"
  by (induction s) auto

lemma split_once_append:
  "sep \<notin> set s \<Longrightarrow> split_once sep (s @ sep # t) = (s, Some t)"
  by (induction s) auto

lemma split_once_no_sep: "sep \<notin> set s \<Longrightarrow> split_once sep s = (s, None)"
  by (induction s) auto

lemma join_with_Cons: "ws \<noteq> [] \<Longrightarrow> join_with sep (w # ws) = w @ sep # join_with sep ws"
  by (cases ws) auto

lemma join_split [simp]: "join_with sep (split_on sep s) = s"
proof (induction s)
  case Nil
  show ?case by simp
next
  case (Cons c cs)
  then show ?case
    by (cases "split_on sep cs"; cases "tl (split_on sep cs)")
      (auto simp: join_with_Cons neq_Nil_conv)
qed

lemma split_on_parts_no_sep: "w \<in> set (split_on sep s) \<Longrightarrow> sep \<notin> set w"
proof (induction s arbitrary: w)
  case Nil
  then show ?case by simp
next
  case (Cons c cs)
  obtain v vs where "split_on sep cs = v # vs"
    by (metis list.exhaust split_on_not_Nil)
  with Cons show ?case by (auto split: if_splits)
qed

lemma split_join: "ws \<noteq> [] \<Longrightarrow> (\<And>w. w \<in> set ws \<Longrightarrow> sep \<notin> set w) \<Longrightarrow> split_on sep (join_with sep ws) = ws"
  by (induction sep ws rule: join_with.induct) (simp_all add: split_on_append split_on_no_sep)

lemma join_with_inject:
  assumes "join_with sep vs = join_with sep ws" "vs \<noteq> []" "ws \<noteq> []"
    and "\<And>v. v \<in> set vs \<Longrightarrow> sep \<notin> set v" "\<And>w. w \<in> set ws \<Longrightarrow> sep \<notin> set w"
  shows "vs = ws"
  using split_join [OF assms(2,4)] split_join [OF assms(3,5)] assms(1) by metis

text \<open>
  \<open>strings.TrimSpace\<close> removes leading and trailing Unicode white space. The white space characters are
  given by their UTF-8 encodings; on the right their reversals are removed from the reversed string.
\<close>

definition white_spaces :: "string list" where
  "white_spaces =
     [[CHR 0x09], [CHR 0x0A], [CHR 0x0B], [CHR 0x0C], [CHR 0x0D], [CHR 0x20],
      [CHR 0xC2, CHR 0x85], [CHR 0xC2, CHR 0xA0], [CHR 0xE1, CHR 0x9A, CHR 0x80],
      [CHR 0xE2, CHR 0x80, CHR 0x80], [CHR 0xE2, CHR 0x80, CHR 0x81], [CHR 0xE2, CHR 0x80, CHR 0x82],
      [CHR 0xE2, CHR 0x80, CHR 0x83], [CHR 0xE2, CHR 0x80, CHR 0x84], [CHR 0xE2, CHR 0x80, CHR 0x85],
      [CHR 0xE2, CHR 0x80, CHR 0x86], [CHR 0xE2, CHR 0x80, CHR 0x87], [CHR 0xE2, CHR 0x80, CHR 0x88],
      [CHR 0xE2, CHR 0x80, CHR 0x89], [CHR 0xE2, CHR 0x80, CHR 0x8A], [CHR 0xE2, CHR 0x80, CHR 0xA8],
      [CHR 0xE2, CHR 0x80, CHR 0xA9], [CHR 0xE2, CHR 0x80, CHR 0xAF],
      [CHR 0xE2, CHR 0x81, CHR 0x9F], [CHR 0xE3, CHR 0x80, CHR 0x80]]"

definition piece_at :: "string list \<Rightarrow> string \<Rightarrow> nat" where
  "piece_at ws s = (case find (\<lambda>w. take (length w) s = w) ws of None \<Rightarrow> 0 | Some w \<Rightarrow> length w)"

function trim_with :: "string list \<Rightarrow> string \<Rightarrow> string" where
  "trim_with ws s = (if s = [] \<or> piece_at ws s = 0 then s else trim_with ws (drop (piece_at ws s) s))"
  by pat_completeness auto
termination
  by (relation "measure (\<lambda>(_, s). length s)") auto

declare trim_with.simps [simp del]

definition trim_space :: "string \<Rightarrow> string" where
  "trim_space s = rev (trim_with (map rev white_spaces) (rev (trim_with white_spaces s)))"

lemma slash_not_white: "w \<in> set white_spaces \<Longrightarrow> CHR ''/'' \<notin> set w"
  by (auto simp: white_spaces_def)

lemma trim_with_keeps:
  "(\<And>w. w \<in> set ws \<Longrightarrow> c \<notin> set w) \<Longrightarrow> c \<in> set s \<Longrightarrow> c \<in> set (trim_with ws s)"
proof (induction ws s rule: trim_with.induct)
  case (1 ws s)
  have "c \<in> set (drop (piece_at ws s) s)"
  proof (cases "find (\<lambda>w. take (length w) s = w) ws")
    case (Some w)
    then have "w \<in> set ws" "take (length w) s = w" by (auto simp: find_Some_iff)
    then have "c \<notin> set (take (length w) s)" using "1.prems"(1) by simp
    moreover have "set s = set (take (length w) s) \<union> set (drop (length w) s)"
      by (metis append_take_drop_id set_append)
    ultimately show ?thesis using "1.prems" Some by (auto simp: piece_at_def)
  qed (use "1.prems" in \<open>simp add: piece_at_def\<close>)
  then show ?case using "1.IH" "1.prems" by (subst trim_with.simps) auto
qed

lemma trim_space_slash: "CHR ''/'' \<in> set s \<Longrightarrow> CHR ''/'' \<in> set (trim_space s)"
  using slash_not_white by (auto simp: trim_space_def intro!: trim_with_keeps)

end
