(* ===== verification/Stub.thy ===== *)
theory Stub
  imports Go_Text "HOL-Library.DAList"
begin

text \<open>
  The ledger as the chaincode sees it through \<open>shim.ChaincodeStubInterface\<close>. The interface belongs
  to Fabric: it is a record of calls over some state. What the chaincode relies on is the locale
  \<open>ledger_stub\<close>, which is stated so that a stub may show the writes of the running transaction at once
  or, as a peer does, only after the transaction is committed. The stub of
  \<open>chaincode/tests/stub/stub.go\<close>, on which the packages are exercised, is modelled and shown to
  satisfy it.
\<close>

section \<open>The stub interface\<close>

text \<open>
  A range query is the sequence of what its \<open>Next\<close> will return; \<open>HasNext\<close> tests whether it is
  non-empty. The timestamp is the \<open>Seconds\<close> of the transaction timestamp, \<open>None\<close> a \<open>nil\<close> pointer.
\<close>

type_synonym kv = "string \<times> slice"

record 's stub =
  GetState :: "string \<Rightarrow> ('s, slice) call"
  PutState :: "string \<Rightarrow> slice \<Rightarrow> ('s, unit) call"
  DelState :: "string \<Rightarrow> ('s, unit) call"
  GetStateByRange :: "string \<Rightarrow> string \<Rightarrow> ('s, kv outcome list) call"
  GetTxTimestamp :: "('s, i64 option) call"
  GetCreator :: "('s, slice) call"
  GetArgs :: "'s \<Rightarrow> bytes list"
  SetEvent :: "string \<Rightarrow> bytes \<Rightarrow> ('s, unit) call"

text \<open>The half-open range of keys of a query; an empty bound is no bound.\<close>

definition in_range :: "string \<Rightarrow> string \<Rightarrow> string \<Rightarrow> bool" where
  "in_range start end' key \<longleftrightarrow> (start \<le> key \<or> start = []) \<and> (key < end' \<or> end' = [])"

text \<open>
  The contract. \<open>view\<close> is what the transaction reads, \<open>final\<close> what the ledger will hold if it is
  committed after the calls made so far; a missing key is \<open>None\<close>. Read calls leave the state alone, a
  write that returns no error changes \<open>final\<close> at its key and nowhere else, and a failed write
  changes nothing.
\<close>

definition slice_of :: "slice option \<Rightarrow> slice" where
  "slice_of v = (case v of None \<Rightarrow> None | Some s \<Rightarrow> s)"

lemma slice_of_simps [simp]: "slice_of None = None" "slice_of (Some s) = s"
  by (simp_all add: slice_of_def)

locale ledger_stub =
  fixes S :: "'s stub"
    and view final :: "'s \<Rightarrow> string \<Rightarrow> slice option"
    and commit :: "'s \<Rightarrow> 's"
  assumes get_reads: "GetState S k s = (r, s') \<Longrightarrow> s' = s \<and> (\<forall>v. r = Ok v \<longrightarrow> v = slice_of (view s k))"
    and put_writes: "PutState S k (Some b) s = (Ok u, s') \<Longrightarrow> final s' = (final s)(k \<mapsto> Some b)"
    and put_fails: "PutState S k v s = (Err e, s') \<Longrightarrow> final s' = final s"
    and del_writes: "DelState S k s = (Ok u, s') \<Longrightarrow> final s' = (final s)(k := None)"
    and del_fails: "DelState S k s = (Err e, s') \<Longrightarrow> final s' = final s"
    and put_only: "PutState S k v s = (Ok u, s') \<Longrightarrow> \<exists>w. final s' = (final s)(k \<mapsto> w)"
    and range_reads: "GetStateByRange S lo hi s = (Ok its, s') \<Longrightarrow> s' = s \<and>
      (\<exists>kvs. its = map Ok kvs \<and> sorted_wrt (<) (map fst kvs) \<and>
         set kvs = {(k, v). view s k = Some v \<and> in_range lo hi k})"
    and timestamp_reads: "GetTxTimestamp S s = (tm, s') \<Longrightarrow> s' = s"
    and creator_reads: "GetCreator S s = (cr, s') \<Longrightarrow> s' = s"
    and event_keeps: "SetEvent S name payload s = (ev, s') \<Longrightarrow> final s' = final s"
    and commit_view: "view (commit s) = final s"
    and commit_final: "final (commit s) = final s"

section \<open>The in-memory stub\<close>

text \<open>
  \<open>fakePublicKVStore\<close> is a Go map; what the tests set for the other calls is the rest of the record.
\<close>

record fake_ledger =
  fakePublicKVStore :: "(string, slice) alist"
  fake_timestamp :: "i64 option"
  fake_creator :: slice
  fake_args :: "bytes list"
  fake_events :: "(string \<times> bytes) list"

definition fake_GetState :: "string \<Rightarrow> (fake_ledger, slice) call" where
  "fake_GetState key s = (Ok (slice_of (DAList.lookup (fakePublicKVStore s) key)), s)"

definition fake_PutState :: "string \<Rightarrow> slice \<Rightarrow> (fake_ledger, unit) call" where
  "fake_PutState key v s =
     (Ok (), s\<lparr>fakePublicKVStore := DAList.update key v (fakePublicKVStore s)\<rparr>)"

definition fake_DelState :: "string \<Rightarrow> (fake_ledger, unit) call" where
  "fake_DelState key s =
     (Ok (), s\<lparr>fakePublicKVStore := DAList.delete key (fakePublicKVStore s)\<rparr>)"

definition fake_GetStateByRange :: "string \<Rightarrow> string \<Rightarrow> (fake_ledger, kv outcome list) call" where
  "fake_GetStateByRange start end' s =
     (let items = filter (\<lambda>(key, v). in_range start end' key) (DAList.impl_of (fakePublicKVStore s))
      in (Ok (map Ok (sort_key fst items)), s))"

definition MakeFakeStub :: "fake_ledger stub" where
  "MakeFakeStub =
     \<lparr>GetState = fake_GetState, PutState = fake_PutState, DelState = fake_DelState,
      GetStateByRange = fake_GetStateByRange,
      GetTxTimestamp = (\<lambda>s. (Ok (fake_timestamp s), s)),
      GetCreator = (\<lambda>s. (Ok (fake_creator s), s)),
      GetArgs = fake_args,
      SetEvent = (\<lambda>name payload s. (Ok (), s\<lparr>fake_events := fake_events s @ [(name, payload)]\<rparr>))\<rparr>"

definition empty_ledger :: "i64 option \<Rightarrow> fake_ledger" where
  "empty_ledger tm =
     \<lparr>fakePublicKVStore = DAList.empty, fake_timestamp = tm, fake_creator = None, fake_args = [],
      fake_events = []\<rparr>"

definition fake_view :: "fake_ledger \<Rightarrow> string \<Rightarrow> slice option" where
  "fake_view s = DAList.lookup (fakePublicKVStore s)"

lemma MakeFakeStub_simps [simp]:
  "GetState MakeFakeStub = fake_GetState" "PutState MakeFakeStub = fake_PutState"
  "DelState MakeFakeStub = fake_DelState" "GetStateByRange MakeFakeStub = fake_GetStateByRange"
  "GetTxTimestamp MakeFakeStub = (\<lambda>s. (Ok (fake_timestamp s), s))"
  "GetCreator MakeFakeStub = (\<lambda>s. (Ok (fake_creator s), s))"
  "GetArgs MakeFakeStub = fake_args"
  "SetEvent MakeFakeStub =
     (\<lambda>name payload s. (Ok (), s\<lparr>fake_events := fake_events s @ [(name, payload)]\<rparr>))"
  by (simp_all add: MakeFakeStub_def)

lemma sort_key_fst_strict:
  assumes "distinct (map fst xs)"
  shows "sorted_wrt (<) (map fst (sort_key fst xs :: ('a::linorder \<times> 'b) list))"
proof -
  have "distinct (map fst (sort_key fst xs))" using assms by (simp add: distinct_map)
  then show ?thesis by (simp add: strict_sorted_iff)
qed

lemma fake_range:
  assumes "fake_GetStateByRange a b s = (Ok its, s')"
  shows "s' = s \<and> (\<exists>kvs. its = map Ok kvs \<and> sorted_wrt (<) (map fst kvs) \<and>
    set kvs = {(k, v). fake_view s k = Some v \<and> in_range a b k})"
proof -
  let ?xs = "DAList.impl_of (fakePublicKVStore s)"
  let ?kvs = "sort_key fst (filter (\<lambda>(key, v). in_range a b key) ?xs)"
  have "sorted_wrt (<) (map fst ?kvs)"
    by (rule sort_key_fst_strict) (simp add: distinct_map_filter)
  moreover have "set ?kvs = {(k, v). fake_view s k = Some v \<and> in_range a b k}"
    by (auto simp: fake_view_def DAList.lookup.rep_eq)
  ultimately show ?thesis using assms by (auto simp: fake_GetStateByRange_def Let_def)
qed

interpretation fake: ledger_stub MakeFakeStub fake_view fake_view "\<lambda>s. s"
proof
  fix a b :: string and s s' :: fake_ledger and its
  assume "GetStateByRange MakeFakeStub a b s = (Ok its, s')"
  then show "s' = s \<and> (\<exists>kvs. its = map Ok kvs \<and> sorted_wrt (<) (map fst kvs) \<and>
      set kvs = {(k, v). fake_view s k = Some v \<and> in_range a b k})"
    by (intro fake_range) simp
next
  fix k v u and s s' :: fake_ledger
  assume "PutState MakeFakeStub k v s = (Ok u, s')"
  then have "fake_view s' = (fake_view s)(k \<mapsto> v)" by (auto simp: fake_PutState_def fake_view_def lookup_update)
  then show "\<exists>w. fake_view s' = (fake_view s)(k \<mapsto> w)" ..
qed (auto simp: fake_GetState_def fake_PutState_def fake_DelState_def fake_view_def fun_eq_iff
  lookup_update)

end
