(* ===== verification/Compat_DB.thy ===== *)
theory Compat_DB
  imports Stub
begin

text \<open>
  The key-value database of the application on top of the ledger: \<open>chaincode/x/compat/db.go\<close>. Keys are
  stored in hexadecimal. The contract of a database that the layers above rely on is the locale
  \<open>kv_db\<close>; it is derived from the contract of the stub. Iteration is shown to return exactly the pairs of
  the range, in order, as long as no other entry of the ledger falls into it, and batches to apply their
  commands in order.
\<close>

section \<open>Single operations\<close>

definition errKeyEmpty :: error where
  "errKeyEmpty = ErrorNew ''key cannot be empty''"

definition errValueNil :: error where
  "errValueNil = ErrorNew ''value cannot be nil''"

text \<open>
  A \<open>DB\<close> is the stub it was made with. Of a key only the length and the bytes are read, so \<open>nil\<close> and
  empty keys need no distinction.
\<close>

definition DB_Get :: "'s stub \<Rightarrow> bytes \<Rightarrow> ('s, slice) call" where
  "DB_Get S key = (if length key = 0 then fail errKeyEmpty else GetState S (hex_encode key))"

definition DB_Has :: "'s stub \<Rightarrow> bytes \<Rightarrow> ('s, bool) call" where
  "DB_Has S key =
     (if length key = 0 then fail errKeyEmpty
      else then_call (DB_Get S key) (\<lambda>v. case v of None \<Rightarrow> give False | Some _ \<Rightarrow> give True))"

definition DB_Set :: "'s stub \<Rightarrow> bytes \<Rightarrow> slice \<Rightarrow> ('s, unit) call" where
  "DB_Set S key v =
     (if length key = 0 then fail errKeyEmpty
      else if v = None then fail errValueNil
      else PutState S (hex_encode key) v)"

definition DB_SetSync :: "'s stub \<Rightarrow> bytes \<Rightarrow> slice \<Rightarrow> ('s, unit) call" where
  "DB_SetSync S key v = DB_Set S key v"

definition DB_Delete :: "'s stub \<Rightarrow> bytes \<Rightarrow> ('s, unit) call" where
  "DB_Delete S key = (if length key = 0 then fail errKeyEmpty else DelState S (hex_encode key))"

definition DB_DeleteSync :: "'s stub \<Rightarrow> bytes \<Rightarrow> ('s, unit) call" where
  "DB_DeleteSync S key = DB_Delete S key"

definition DB_Close :: "('s, unit) call" where
  "DB_Close = give ()"

definition DB_Print :: "('s, unit) call" where
  "DB_Print = lift (Panic ''not implemented error'')"

definition DB_Stats :: "('s, (string \<times> string) list) call" where
  "DB_Stats = lift (Panic ''not implemented error'')"

section \<open>Iterators\<close>

text \<open>The query iterator of the stub is what its \<open>Next\<close> has still to return.\<close>

record Iterator =
  it_start :: slice
  it_end :: slice
  it_current :: "kv option"
  it_qi :: "kv outcome list"

definition Iterator_Next :: "Iterator \<Rightarrow> Iterator outcome" where
  "Iterator_Next iter =
     (case it_qi iter of
        [] \<Rightarrow> Ok (iter\<lparr>it_current := None\<rparr>)
      | r # rs \<Rightarrow> and_then (must r) (\<lambda>kv. Ok (iter\<lparr>it_current := Some kv, it_qi := rs\<rparr>)))"

definition NewIterator :: "slice \<Rightarrow> slice \<Rightarrow> kv outcome list \<Rightarrow> Iterator outcome" where
  "NewIterator start end' qi =
     Iterator_Next \<lparr>it_start = start, it_end = end', it_current = None, it_qi = qi\<rparr>"

definition Iterator_Domain :: "Iterator \<Rightarrow> (slice \<times> slice) outcome" where
  "Iterator_Domain iter = Panic ''not implemented error''"

definition Iterator_Valid :: "Iterator \<Rightarrow> bool" where
  "Iterator_Valid iter = (it_current iter \<noteq> None)"

definition current_kv :: "Iterator \<Rightarrow> kv outcome" where
  "current_kv iter = (case it_current iter of
     None \<Rightarrow> Panic ''invalid memory address or nil pointer dereference'' | Some kv \<Rightarrow> Ok kv)"

definition Iterator_Key :: "Iterator \<Rightarrow> bytes outcome" where
  "Iterator_Key iter = and_then (current_kv iter) (\<lambda>(k, v). must (hex_decode k))"

definition Iterator_Value :: "Iterator \<Rightarrow> slice outcome" where
  "Iterator_Value iter = and_then (current_kv iter) (\<lambda>(k, v). Ok v)"

definition Iterator_Error :: "Iterator \<Rightarrow> unit outcome" where
  "Iterator_Error iter = Ok ()"

definition DB_Iterator :: "'s stub \<Rightarrow> slice \<Rightarrow> slice \<Rightarrow> ('s, Iterator) call" where
  "DB_Iterator S start end' =
     (if start = Some [] \<or> end' = Some [] then fail errKeyEmpty
      else then_call (GetStateByRange S (hex_encode (slice_bytes start)) (hex_encode (slice_bytes end')))
        (\<lambda>iter. lift (NewIterator start end' iter)))"

text \<open>An \<open>iterItem\<close> is a key and a value.\<close>

type_synonym iterItem = "bytes \<times> slice"

text \<open>\<open>for ; itr.Valid(); itr.Next() { items = append(items, \<dots>) }\<close>\<close>

function collect_items :: "iterItem list \<Rightarrow> Iterator \<Rightarrow> iterItem list outcome" where
  "collect_items items itr =
     (if \<not> Iterator_Valid itr then Ok items
      else and_then (Iterator_Key itr) (\<lambda>k.
        and_then (Iterator_Value itr) (\<lambda>v.
          and_then (Iterator_Next itr) (\<lambda>itr'. collect_items (items @ [(k, v)]) itr'))))"
  by pat_completeness auto
termination
  by (relation "measure (\<lambda>(_, itr). length (it_qi itr) + (if it_current itr = None then 0 else 1))")
    (auto simp: Iterator_Valid_def Iterator_Next_def outcome_simps split: list.splits)

declare collect_items.simps [simp del]

text \<open>The swaps of \<open>reverseAnySlice\<close>; both indices are \<open>int\<close> variables.\<close>

function reverse_loop :: "'a list \<Rightarrow> int \<Rightarrow> int \<Rightarrow> 'a list" where
  "reverse_loop s i j =
     (if i < j then reverse_loop (s[nat i := s ! nat j, nat j := s ! nat i]) (i + 1) (j - 1) else s)"
  by pat_completeness auto
termination
  by (relation "measure (\<lambda>(_, i, j). nat (j - i))") auto

declare reverse_loop.simps [simp del]

definition reverseAnySlice :: "'a list \<Rightarrow> 'a list" where
  "reverseAnySlice s = reverse_loop s 0 (int (length s) - 1)"

record simpleIterator =
  si_items :: "iterItem list"
  si_current :: nat

definition NewSimpleIterator :: "iterItem list \<Rightarrow> simpleIterator" where
  "NewSimpleIterator items = \<lparr>si_items = items, si_current = 0\<rparr>"

definition simpleIterator_Domain :: "simpleIterator \<Rightarrow> (slice \<times> slice) outcome" where
  "simpleIterator_Domain iter = Panic ''not implemented error''"

definition simpleIterator_Valid :: "simpleIterator \<Rightarrow> bool" where
  "simpleIterator_Valid iter = (si_current iter < length (si_items iter))"

definition simpleIterator_Next :: "simpleIterator \<Rightarrow> simpleIterator outcome" where
  "simpleIterator_Next iter =
     (if \<not> simpleIterator_Valid iter then Panic ''iterator has ended''
      else Ok (iter\<lparr>si_current := si_current iter + 1\<rparr>))"

definition simpleIterator_Key :: "simpleIterator \<Rightarrow> bytes outcome" where
  "simpleIterator_Key iter = and_then (index (si_items iter) (si_current iter)) (\<lambda>(k, v). Ok k)"

definition simpleIterator_Value :: "simpleIterator \<Rightarrow> slice outcome" where
  "simpleIterator_Value iter = and_then (index (si_items iter) (si_current iter)) (\<lambda>(k, v). Ok v)"

definition ReverseIterator :: "Iterator \<Rightarrow> simpleIterator outcome" where
  "ReverseIterator itr =
     and_then (collect_items [] itr) (\<lambda>items. Ok (NewSimpleIterator (reverseAnySlice items)))"

definition DB_ReverseIterator :: "'s stub \<Rightarrow> slice \<Rightarrow> slice \<Rightarrow> ('s, simpleIterator) call" where
  "DB_ReverseIterator S start end' =
     then_call (DB_Iterator S start end') (\<lambda>iter. lift (ReverseIterator iter))"

section \<open>Batches\<close>

datatype command = setCommand bytes slice | deleteCommand bytes

fun command_Exec :: "'s stub \<Rightarrow> command \<Rightarrow> bool \<Rightarrow> ('s, unit) call" where
  "command_Exec S (setCommand key v) sync = (if sync then DB_SetSync S key v else DB_Set S key v)"
| "command_Exec S (deleteCommand key) sync = (if sync then DB_DeleteSync S key else DB_Delete S key)"

record BatchDB =
  commands :: "command list"
  closed :: bool

definition NewBatch :: BatchDB where
  "NewBatch = \<lparr>commands = [], closed = False\<rparr>"

definition errClosed :: error where
  "errClosed = ErrorNew ''batchDB is already closed''"

text \<open>The loop of \<open>Write\<close> and \<open>WriteSync\<close>, which differ in the flag they pass on.\<close>

definition write_commands :: "bool \<Rightarrow> 's stub \<Rightarrow> (BatchDB \<times> 's, unit) call" where
  "write_commands sync S = (\<lambda>(db, s).
     if closed db then (Err errClosed, (db, s))
     else case for_each (\<lambda>cmd. command_Exec S cmd sync) (commands db) s of
       (Ok u, t) \<Rightarrow> (Ok (), (db\<lparr>closed := True\<rparr>, t))
     | (r, t) \<Rightarrow> (r, (db, t)))"

definition BatchDB_Write :: "'s stub \<Rightarrow> (BatchDB \<times> 's, unit) call" where
  "BatchDB_Write S = write_commands False S"

definition BatchDB_WriteSync :: "'s stub \<Rightarrow> (BatchDB \<times> 's, unit) call" where
  "BatchDB_WriteSync S = write_commands True S"

definition BatchDB_Set :: "bytes \<Rightarrow> slice \<Rightarrow> (BatchDB, unit) call" where
  "BatchDB_Set key v db =
     (if closed db then (Err errClosed, db)
      else if length key = 0 then (Err errKeyEmpty, db)
      else if v = None then (Err errValueNil, db)
      else (Ok (), db\<lparr>commands := commands db @ [setCommand key v]\<rparr>))"

definition BatchDB_Delete :: "bytes \<Rightarrow> (BatchDB, unit) call" where
  "BatchDB_Delete key db =
     (if closed db then (Err errClosed, db)
      else if length key = 0 then (Err errKeyEmpty, db)
      else (Ok (), db\<lparr>commands := commands db @ [deleteCommand key]\<rparr>))"

definition BatchDB_Close :: "(BatchDB, unit) call" where
  "BatchDB_Close db = (Ok (), db\<lparr>closed := True\<rparr>)"


section \<open>Reversal\<close>

lemma reverse_loop_nth:
  "0 \<le> i \<Longrightarrow> j < int (length s) \<Longrightarrow>
   length (reverse_loop s i j) = length s \<and>
   (\<forall>k < length s. reverse_loop s i j ! k =
      (if i \<le> int k \<and> int k \<le> j then s ! nat (i + j - int k) else s ! k))"
proof (induction s i j rule: reverse_loop.induct)
  case (1 s i j)
  show ?case
  proof (cases "i < j")
    case False
    then show ?thesis by (auto simp: reverse_loop.simps [of s i j] intro: arg_cong [where f = "nth s"])
  next
    case True
    let ?s = "s[nat i := s ! nat j, nat j := s ! nat i]"
    have step: "reverse_loop s i j = reverse_loop ?s (i + 1) (j - 1)"
      using True by (subst reverse_loop.simps) simp
    have IH: "length (reverse_loop ?s (i + 1) (j - 1)) = length ?s"
        "\<And>k. k < length ?s \<Longrightarrow> reverse_loop ?s (i + 1) (j - 1) ! k =
           (if i + 1 \<le> int k \<and> int k \<le> j - 1 then ?s ! nat (i + 1 + (j - 1) - int k) else ?s ! k)"
      using "1.IH" [OF True] "1.prems" by simp_all
    have s': "?s ! l = (if int l = j then s ! nat i else if int l = i then s ! nat j else s ! l)"
      if "l < length s" for l
      using that "1.prems" True by (auto simp: nth_list_update)
    have "reverse_loop s i j ! k = (if i \<le> int k \<and> int k \<le> j then s ! nat (i + j - int k) else s ! k)"
      if k: "k < length s" for k
    proof -
      consider "int k = i" | "int k = j" | "i < int k" "int k < j" | "int k < i \<or> j < int k" by linarith
      then show ?thesis
      proof cases
        case 3
        then have "nat (i + j - int k) < length s" "int (nat (i + j - int k)) = i + j - int k"
          using "1.prems" by linarith+
        with 3 s' [of "nat (i + j - int k)"] IH(2) [of k] k show ?thesis by (simp add: step)
      qed (use True "1.prems" k in \<open>auto simp: step IH(2) s'\<close>)
    qed
    with IH(1) show ?thesis by (simp add: step)
  qed
qed

lemma reverseAnySlice_rev: "reverseAnySlice s = rev s"
proof (rule nth_equalityI)
  have *: "length (reverseAnySlice s) = length s"
    "\<And>k. k < length s \<Longrightarrow> reverseAnySlice s ! k = s ! nat (int (length s) - 1 - int k)"
    using reverse_loop_nth [of 0 "int (length s) - 1" s] by (simp_all add: reverseAnySlice_def)
  show "length (reverseAnySlice s) = length (rev s)" using *(1) by simp
  fix k
  assume "k < length (reverseAnySlice s)"
  with * show "reverseAnySlice s ! k = rev s ! k"
    by (auto simp: rev_nth intro!: arg_cong [where f = "nth s"])
qed

section \<open>Iteration\<close>

definition decode_item :: "kv \<Rightarrow> iterItem outcome" where
  "decode_item = (\<lambda>(k, v). and_then (must (hex_decode k)) (\<lambda>b. Ok (b, v)))"

fun decode_items :: "kv list \<Rightarrow> iterItem list outcome" where
  "decode_items [] = Ok []"
| "decode_items (kv # kvs) = and_then (decode_item kv) (\<lambda>x. and_then (decode_items kvs) (\<lambda>xs. Ok (x # xs)))"

lemma collect_items_done: "it_current itr = None \<Longrightarrow> collect_items items itr = Ok items"
  by (subst collect_items.simps) (simp add: Iterator_Valid_def)

lemma collect_items_current:
  "collect_items acc \<lparr>it_start = a, it_end = b, it_current = Some kv, it_qi = map Ok kvs\<rparr> =
     and_then (decode_items (kv # kvs)) (\<lambda>xs. Ok (acc @ xs))"
proof (induction kvs arbitrary: acc kv)
  case Nil
  show ?case
    by (subst collect_items.simps, cases kv, cases "must (hex_decode (fst kv))")
      (simp_all add: Iterator_Valid_def Iterator_Key_def Iterator_Value_def Iterator_Next_def current_kv_def
        decode_item_def collect_items_done)
next
  case (Cons kv' kvs)
  then show ?case
    by (subst collect_items.simps, cases kv, cases "must (hex_decode (fst kv))")
      (simp_all add: Iterator_Valid_def Iterator_Key_def Iterator_Value_def Iterator_Next_def current_kv_def
        decode_item_def and_then_assoc)
qed

lemma collect_items_eq:
  "and_then (NewIterator a b (map Ok kvs)) (collect_items []) = decode_items kvs"
proof (cases kvs)
  case Nil
  then show ?thesis
    by (simp add: NewIterator_def Iterator_Next_def collect_items_done)
next
  case (Cons kv kvs')
  have "and_then m Ok = m" for m :: "'x outcome" by (cases m) auto
  with Cons show ?thesis
    by (simp add: NewIterator_def Iterator_Next_def collect_items_current del: decode_items.simps)
qed

lemma decode_items_hex:
  "(\<And>k v. (k, v) \<in> set kvs \<Longrightarrow> \<exists>b. k = hex_encode b) \<Longrightarrow>
   \<exists>xs. decode_items kvs = Ok xs \<and> kvs = map (\<lambda>(b, v). (hex_encode b, v)) xs"
proof (induction kvs)
  case Nil
  show ?case by (intro exI [of _ "[]"]) simp
next
  case (Cons kv kvs)
  obtain b v where kv: "kv = (hex_encode b, v)" using Cons.prems by (cases kv) auto
  from Cons obtain xs where "decode_items kvs = Ok xs" "kvs = map (\<lambda>(b, v). (hex_encode b, v)) xs"
    by auto
  with kv show ?case by (intro exI [of _ "(b, v) # xs"]) (simp add: decode_item_def)
qed

lemma decode_items_foreign:
  "(k, v) \<in> set kvs \<Longrightarrow> hex_decode k = Err e \<Longrightarrow> panics (decode_items kvs)"
proof (induction kvs)
  case (Cons kv kvs)
  show ?case
  proof (cases "kv = (k, v)")
    case True
    with Cons.prems show ?thesis by (simp add: decode_item_def)
  next
    case False
    with Cons have p: "panics (decode_items kvs)" by simp
    show ?thesis
    proof (cases kv)
      case (Pair k' v')
      with p show ?thesis
        by (cases "must (hex_decode k')") (auto simp: decode_item_def panics_and_then must_def split: outcome.splits)
    qed
  qed
qed simp


section \<open>The contract of a database\<close>

text \<open>
  What the application relies on. As for the stub, \<open>view\<close> is what is read and \<open>final\<close> what the ledger
  will hold; both map the keys of the application.
\<close>

locale kv_db =
  fixes get :: "bytes \<Rightarrow> ('s, slice) call"
    and put :: "bytes \<Rightarrow> slice \<Rightarrow> ('s, unit) call"
    and del :: "bytes \<Rightarrow> ('s, unit) call"
    and view final :: "'s \<Rightarrow> bytes \<Rightarrow> slice option"
  assumes get_reads: "get k s = (r, s') \<Longrightarrow> s' = s \<and> (\<forall>v. r = Ok v \<longrightarrow> k \<noteq> [] \<and> v = slice_of (view s k))"
    and get_empty: "get [] s = (Err errKeyEmpty, s)"
    and put_writes: "put k v s = (Ok u, s') \<Longrightarrow> k \<noteq> [] \<and> v \<noteq> None \<and> final s' = (final s)(k \<mapsto> v)"
    and put_fails: "put k v s = (Err e, s') \<Longrightarrow> final s' = final s"
    and put_invalid: "k = [] \<Longrightarrow> put k v s = (Err errKeyEmpty, s)"
      "k \<noteq> [] \<Longrightarrow> put k None s = (Err errValueNil, s)"
    and del_writes: "del k s = (Ok u, s') \<Longrightarrow> k \<noteq> [] \<and> final s' = (final s)(k := None)"
    and del_fails: "del k s = (Err e, s') \<Longrightarrow> final s' = final s"

text \<open>What a command does to the contents.\<close>

fun apply_command :: "command \<Rightarrow> (bytes \<rightharpoonup> slice) \<Rightarrow> bytes \<rightharpoonup> slice" where
  "apply_command (setCommand key v) m = m(key \<mapsto> v)"
| "apply_command (deleteCommand key) m = m(key := None)"

fun run_command :: "(bytes \<Rightarrow> slice \<Rightarrow> ('s, unit) call) \<Rightarrow> (bytes \<Rightarrow> ('s, unit) call) \<Rightarrow> command \<Rightarrow> ('s, unit) call" where
  "run_command put del (setCommand key v) = put key v"
| "run_command put del (deleteCommand key) = del key"

context kv_db
begin

lemma run_command_ok: "run_command put del cmd s = (Ok u, s') \<Longrightarrow> final s' = apply_command cmd (final s)"
  by (cases cmd) (auto dest: put_writes del_writes)

lemma run_command_fails: "run_command put del cmd s = (Err e, s') \<Longrightarrow> final s' = final s"
  by (cases cmd) (auto dest: put_fails del_fails)

lemma run_commands_ok:
  "for_each (run_command put del) cmds s = (Ok u, s') \<Longrightarrow> final s' = fold apply_command cmds (final s)"
proof (induction cmds arbitrary: s)
  case (Cons cmd cmds)
  then obtain t where "run_command put del cmd s = (Ok (), t)" "for_each (run_command put del) cmds t = (Ok u, s')"
    by (auto simp: outcome_simps)
  with Cons.IH run_command_ok show ?case by fastforce
qed simp

lemma run_commands_fails:
  "for_each (run_command put del) cmds s = (Err e, s') \<Longrightarrow>
   \<exists>n < length cmds. final s' = fold apply_command (take n cmds) (final s)"
proof (induction cmds arbitrary: s)
  case (Cons cmd cmds)
  obtain r t where cmd: "run_command put del cmd s = (r, t)" by fastforce
  show ?case
  proof (cases r)
    case (Ok u)
    with cmd Cons.prems have "for_each (run_command put del) cmds t = (Err e, s')"
      by (simp add: then_call_def)
    with Cons.IH obtain n where "n < length cmds" "final s' = fold apply_command (take n cmds) (final t)"
      by blast
    with run_command_ok [OF cmd [unfolded Ok]] show ?thesis by (intro exI [of _ "Suc n"]) simp
  next
    case (Err e')
    with cmd Cons.prems have "run_command put del cmd s = (Err e', s')" by (simp add: then_call_def)
    then show ?thesis by (intro exI [of _ 0]) (simp add: run_command_fails)
  next
    case (Panic p)
    with cmd Cons.prems show ?thesis by (simp add: then_call_def)
  qed
qed simp

text \<open>Reading a key after it has been set and the transaction committed, and reading another key.\<close>

lemma get_after_put:
  assumes "put k v s = (Ok u, s')" "get k' t = (Ok w, t')" "view t = final s'"
  shows "w = (if k' = k then v else slice_of (final s k'))"
  using get_reads [OF assms(2)] put_writes [OF assms(1)] assms(3) by auto

end

definition db_view :: "(string \<rightharpoonup> slice) \<Rightarrow> bytes \<rightharpoonup> slice" where
  "db_view m key = m (hex_encode key)"

lemma db_view_update [simp]:
  "db_view (m(hex_encode key := v)) = (db_view m)(key := v)"
  by (auto simp: db_view_def)

sublocale ledger_stub \<subseteq> db: kv_db "DB_Get S" "DB_Set S" "DB_Delete S" "\<lambda>s. db_view (view s)" "\<lambda>s. db_view (final s)"
proof
  fix k s r s'
  assume "DB_Get S k s = (r, s')"
  then show "s' = s \<and> (\<forall>v. r = Ok v \<longrightarrow> k \<noteq> [] \<and> v = slice_of (db_view (view s) k))"
    using get_reads by (cases "k = []") (auto simp: DB_Get_def db_view_def)
next
  fix k v s u s'
  assume "DB_Set S k v s = (Ok u, s')"
  then show "k \<noteq> [] \<and> v \<noteq> None \<and> db_view (final s') = (db_view (final s))(k \<mapsto> v)"
    using put_writes by (cases "k = []"; cases v) (auto simp: DB_Set_def)
next
  fix k v s e s'
  assume "DB_Set S k v s = (Err e, s')"
  then show "db_view (final s') = db_view (final s)"
    using put_fails by (cases "k = []"; cases v) (auto simp: DB_Set_def)
next
  fix k s u s'
  assume "DB_Delete S k s = (Ok u, s')"
  then show "k \<noteq> [] \<and> db_view (final s') = (db_view (final s))(k := None)"
    using del_writes by (cases "k = []") (auto simp: DB_Delete_def)
next
  fix k s e s'
  assume "DB_Delete S k s = (Err e, s')"
  then show "db_view (final s') = db_view (final s)"
    using del_fails by (cases "k = []") (auto simp: DB_Delete_def)
qed (simp_all add: DB_Get_def DB_Set_def)

interpretation fake_db: kv_db "DB_Get MakeFakeStub" "DB_Set MakeFakeStub" "DB_Delete MakeFakeStub"
  "\<lambda>s. db_view (fake_view s)" "\<lambda>s. db_view (fake_view s)"
  by (rule fake.db.kv_db_axioms)


section \<open>Ranges\<close>

text \<open>The range of keys that an iterator is asked for; a missing bound is no bound.\<close>

definition within :: "slice \<Rightarrow> slice \<Rightarrow> bytes \<Rightarrow> bool" where
  "within start end' b \<longleftrightarrow>
     (case start of None \<Rightarrow> True | Some a \<Rightarrow> a \<le> b) \<and> (case end' of None \<Rightarrow> True | Some c \<Rightarrow> b < c)"

lemma in_range_hex:
  assumes "start \<noteq> Some []" "end' \<noteq> Some []"
  shows "in_range (hex_encode (slice_bytes start)) (hex_encode (slice_bytes end')) (hex_encode b) \<longleftrightarrow> within start end' b"
  using assms by (auto simp: in_range_def within_def hex_encode_le hex_encode_less split: option.splits)

text \<open>
  The other entries of the ledger, those of the sequence manager, of the commitments and of the
  packet events, begin with one of the characters \<open>h\<close>, \<open>e\<close> and \<open>/\<close>.
\<close>

definition ledger_keys :: "(string \<rightharpoonup> slice) \<Rightarrow> bool" where
  "ledger_keys m \<longleftrightarrow> (\<forall>k \<in> dom m. (\<exists>b. k = hex_encode b) \<or> (\<exists>r. k = CHR ''h'' # r \<or> k = CHR ''e'' # r \<or> k = CHR ''/'' # r))"

definition foreign_free :: "(string \<rightharpoonup> slice) \<Rightarrow> slice \<Rightarrow> slice \<Rightarrow> bool" where
  "foreign_free m start end' \<longleftrightarrow>
     (\<forall>k \<in> dom m. in_range (hex_encode (slice_bytes start)) (hex_encode (slice_bytes end')) k \<longrightarrow> (\<exists>b. k = hex_encode b))"

lemma hex_encode_s: "hex_encode (0x73 # a) = CHR ''7'' # CHR ''3'' # hex_encode a"
  by (simp add: hex_encode_def hex_byte_def hex_char_def char_of_eq_iff)

lemma ledger_keys_foreign_free:
  assumes "ledger_keys m"
  shows "foreign_free m (Some (0x73 # a)) (Some (0x73 # b))"
  unfolding foreign_free_def
proof (intro ballI impI)
  fix k
  assume k: "k \<in> dom m" and "in_range (hex_encode (slice_bytes (Some (0x73 # a)))) (hex_encode (slice_bytes (Some (0x73 # b)))) k"
  then have r: "CHR ''7'' # CHR ''3'' # hex_encode a \<le> k" "k < CHR ''7'' # CHR ''3'' # hex_encode b"
    by (simp_all add: in_range_def hex_encode_s del: hex_encode_simps)
  show "\<exists>b. k = hex_encode b"
  proof (rule ccontr)
    assume "\<nexists>b. k = hex_encode b"
    with assms k obtain r where "k = CHR ''h'' # r \<or> k = CHR ''e'' # r \<or> k = CHR ''/'' # r"
      by (auto simp: ledger_keys_def)
    with r show False by (auto simp: less_char_def)
  qed
qed

lemma map_hex_items:
  assumes "sorted_wrt (<) (map fst (map (\<lambda>(b, v). (hex_encode b, v)) xs))"
  shows "sorted_wrt (<) (map fst xs)"
  using assms by (simp add: sorted_wrt_map case_prod_unfold hex_encode_less)

context ledger_stub
begin

lemma iterator_items:
  assumes "DB_Iterator S start end' s = (Ok it, s')"
  obtains kvs where "s' = s" "start \<noteq> Some []" "end' \<noteq> Some []" "collect_items [] it = decode_items kvs"
    "sorted_wrt (<) (map fst kvs)"
    "set kvs = {(k, v). view s k = Some v \<and> in_range (hex_encode (slice_bytes start)) (hex_encode (slice_bytes end')) k}"
proof -
  from assms obtain its t where ne: "start \<noteq> Some []" "end' \<noteq> Some []"
    and q: "GetStateByRange S (hex_encode (slice_bytes start)) (hex_encode (slice_bytes end')) s = (Ok its, t)"
    and it: "NewIterator start end' its = Ok it" "s' = t"
    by (auto simp: DB_Iterator_def outcome_simps split: if_splits)
  from range_reads [OF q] obtain kvs where kvs: "t = s" "its = map Ok kvs" "sorted_wrt (<) (map fst kvs)"
      "set kvs = {(k, v). view s k = Some v \<and> in_range (hex_encode (slice_bytes start)) (hex_encode (slice_bytes end')) k}"
    by blast
  with it collect_items_eq [of start end' kvs] have "collect_items [] it = decode_items kvs" by simp
  with kvs it ne show ?thesis by (intro that) auto
qed

lemma iterator_exact:
  assumes "DB_Iterator S start end' s = (Ok it, s')" "foreign_free (view s) start end'"
  shows "\<exists>xs. s' = s \<and> collect_items [] it = Ok xs \<and> sorted_wrt (<) (map fst xs) \<and>
    set xs = {(b, v). db_view (view s) b = Some v \<and> within start end' b}"
proof -
  from assms(1) obtain kvs where kvs: "s' = s" "start \<noteq> Some []" "end' \<noteq> Some []"
      "collect_items [] it = decode_items kvs" "sorted_wrt (<) (map fst kvs)"
      "set kvs = {(k, v). view s k = Some v \<and> in_range (hex_encode (slice_bytes start)) (hex_encode (slice_bytes end')) k}"
    by (rule iterator_items)
  have "\<exists>b. k = hex_encode b" if "(k, v) \<in> set kvs" for k v
    using that assms(2) by (auto simp: kvs(6) foreign_free_def)
  then obtain xs where xs: "decode_items kvs = Ok xs" "kvs = map (\<lambda>(b, v). (hex_encode b, v)) xs"
    using decode_items_hex by blast
  have mem: "(b, v) \<in> set xs \<longleftrightarrow> (hex_encode b, v) \<in> set kvs" for b v
    by (force simp: xs(2) image_iff)
  have "set xs = {(b, v). db_view (view s) b = Some v \<and> within start end' b}"
    by (rule set_eqI) (auto simp: mem kvs(6) in_range_hex [OF kvs(2,3)] db_view_def)
  moreover have "sorted_wrt (<) (map fst xs)" using kvs(5) by (intro map_hex_items) (simp add: xs(2))
  ultimately show ?thesis using kvs(1,4) xs(1) by auto
qed

lemma iterator_foreign:
  assumes "DB_Iterator S start end' s = (Ok it, s')"
    and "view s k = Some v" "hex_decode k = Err e"
    and "in_range (hex_encode (slice_bytes start)) (hex_encode (slice_bytes end')) k"
  shows "panics (collect_items [] it)"
proof -
  from assms(1) obtain kvs where "collect_items [] it = decode_items kvs"
      "set kvs = {(k, v). view s k = Some v \<and> in_range (hex_encode (slice_bytes start)) (hex_encode (slice_bytes end')) k}"
    by (rule iterator_items)
  with assms decode_items_foreign show ?thesis by auto
qed

lemma db_of_stub: "kv_db (DB_Get S) (DB_Set S) (DB_Delete S) (\<lambda>s. db_view (view s)) (\<lambda>s. db_view (final s))"
  by (rule db.kv_db_axioms)

lemma command_Exec_run: "command_Exec S cmd sync = run_command (DB_Set S) (DB_Delete S) cmd"
  by (cases cmd) (simp_all add: DB_SetSync_def DB_DeleteSync_def)

lemma write_commands_effect:
  assumes "write_commands sync S (b, s) = (r, (b', s'))"
  shows "case r of
      Ok _ \<Rightarrow> \<not> closed b \<and> b' = b\<lparr>closed := True\<rparr>
        \<and> db_view (final s') = fold apply_command (commands b) (db_view (final s))
    | Err _ \<Rightarrow> b' = b \<and> (if closed b then s' = s
        else \<exists>n < length (commands b). db_view (final s') = fold apply_command (take n (commands b)) (db_view (final s)))
    | Panic _ \<Rightarrow> b' = b"
  using assms
  by (auto simp: write_commands_def command_Exec_run dest: db.run_commands_ok db.run_commands_fails
      split: if_splits prod.splits outcome.splits)

end

lemma simpleIterator_items:
  assumes "k \<le> length items"
  shows "fold_outcome (\<lambda>it _. simpleIterator_Next it) (NewSimpleIterator items) [0..<k] =
      Ok \<lparr>si_items = items, si_current = k\<rparr>"
  using assms
  by (induction k) (simp_all add: NewSimpleIterator_def fold_outcome_append simpleIterator_Next_def simpleIterator_Valid_def)


section \<open>Properties\<close>

text \<open>
  C19: Over every stub that meets its contract, the database implements a map from non-empty byte keys to
  values: a get returns what the map holds, a successful set or delete changes the map at its key only,
  a failed one changes nothing, and empty keys and \<open>nil\<close> values are refused. The hexadecimal encoding
  keeps different keys apart.
\<close>

theorem db_refines_map:
  assumes "ledger_stub S view final commit"
  shows "kv_db (DB_Get S) (DB_Set S) (DB_Delete S) (\<lambda>s. db_view (view s)) (\<lambda>s. db_view (final s))"
  by (rule ledger_stub.db_of_stub [OF assms])


theorem db_refines_map_witness:
  "kv_db (DB_Get MakeFakeStub) (DB_Set MakeFakeStub) (DB_Delete MakeFakeStub)
     (\<lambda>s. db_view (fake_view s)) (\<lambda>s. db_view (fake_view s))"
  by (rule db_refines_map [OF fake.ledger_stub_axioms])

text \<open>
  C20: An iterator over a range of keys of the application's stores, which begin with the byte \<open>s\<close>,
  yields exactly the pairs of the database in the half-open range, each once and in ascending order of the
  original keys, and never panics: the entries that the sequence manager, the commitments and the
  packet events keep on the same ledger are outside every such range.
\<close>

theorem store_iteration_exact:
  assumes "ledger_stub S view final commit" "ledger_keys (view s)"
    and "DB_Iterator S (Some (0x73 # a)) (Some (0x73 # b)) s = (Ok it, s')"
  shows "\<exists>xs. s' = s \<and> collect_items [] it = Ok xs \<and> sorted_wrt (<) (map fst xs) \<and>
    set xs = {(k, v). db_view (view s) k = Some v \<and> within (Some (0x73 # a)) (Some (0x73 # b)) k}"
  by (rule ledger_stub.iterator_exact [OF assms(1,3) ledger_keys_foreign_free [OF assms(2)]])

lemma fake_iterator_ok:
  "start \<noteq> Some [] \<Longrightarrow> end' \<noteq> Some [] \<Longrightarrow> \<exists>it. DB_Iterator MakeFakeStub start end' s = (Ok it, s)"
  by (auto simp: DB_Iterator_def then_call_def fake_GetStateByRange_def Let_def NewIterator_def Iterator_Next_def
      split: list.splits)

text \<open>A ledger with one entry of a store and the current sequence.\<close>

definition demo_db_ledger :: fake_ledger where
  "demo_db_ledger = (empty_ledger None)\<lparr>fakePublicKVStore :=
     DAList.update ''h/k:ibc/current'' (Some [1]) (DAList.update (hex_encode [0x73, 5]) (Some [9]) DAList.empty)\<rparr>"

lemma demo_db_view: "fake_view demo_db_ledger = [hex_encode [0x73, 5] \<mapsto> Some [9], ''h/k:ibc/current'' \<mapsto> Some [1]]"
  by (simp add: demo_db_ledger_def fake_view_def fun_eq_iff lookup_update empty_ledger_def lookup_empty)

lemma demo_db_keys: "ledger_keys (fake_view demo_db_ledger)"
  unfolding demo_db_view ledger_keys_def by (auto simp del: hex_encode_simps)

theorem store_iteration_exact_witness:
  "\<exists>it xs. DB_Iterator MakeFakeStub (Some [0x73]) (Some [0x73, 6]) demo_db_ledger = (Ok it, demo_db_ledger)
     \<and> collect_items [] it = Ok xs \<and> ([0x73, 5], Some [9]) \<in> set xs"
proof -
  obtain it where it: "DB_Iterator MakeFakeStub (Some [0x73]) (Some [0x73, 6]) demo_db_ledger = (Ok it, demo_db_ledger)"
    using fake_iterator_ok [of "Some [0x73]" "Some [0x73, 6]" demo_db_ledger] by blast
  from store_iteration_exact [OF fake.ledger_stub_axioms demo_db_keys it] obtain xs where
      "collect_items [] it = Ok xs"
      "set xs = {(k, v). db_view (fake_view demo_db_ledger) k = Some v \<and> within (Some [0x73]) (Some [0x73, 6]) k}"
    by auto
  moreover have "db_view (fake_view demo_db_ledger) [0x73, 5] = Some (Some [9])"
    by (simp add: demo_db_view db_view_def hex_encode_s del: hex_encode_simps)
  moreover have "within (Some [0x73]) (Some [0x73, 6]) [0x73, 5]" by (simp add: within_def)
  ultimately show ?thesis using it by blast
qed

text \<open>
  C40: Without such bounds the iteration panics: an iterator whose range has an entry of the ledger in it
  that is not a key of the database panics when the traversal reads its key.
\<close>

theorem iteration_panics_on_other_entries:
  assumes "ledger_stub S view final commit" "DB_Iterator S start end' s = (Ok it, s')"
    and "view s k = Some v" "hex_decode k = Err e"
    and "in_range (hex_encode (slice_bytes start)) (hex_encode (slice_bytes end')) k"
  shows "panics (collect_items [] it)"
  by (rule ledger_stub.iterator_foreign [OF assms])

lemma hex_decode_h: "hex_decode (CHR ''h'' # c # r) = Err (ErrorNew ''encoding/hex: invalid byte'')"
proof -
  have "from_hex_char CHR ''h'' = None" by (simp add: from_hex_char_def)
  then show ?thesis by simp
qed

theorem iteration_panics_on_other_entries_witness:
  "\<exists>it. DB_Iterator MakeFakeStub None None demo_db_ledger = (Ok it, demo_db_ledger) \<and> panics (collect_items [] it)"
proof -
  obtain it where it: "DB_Iterator MakeFakeStub None None demo_db_ledger = (Ok it, demo_db_ledger)"
    using fake_iterator_ok [of None None demo_db_ledger] by blast
  have k: "fake_view demo_db_ledger ''h/k:ibc/current'' = Some (Some [1])" by (simp add: demo_db_view)
  have r: "in_range (hex_encode (slice_bytes None)) (hex_encode (slice_bytes None)) ''h/k:ibc/current''"
    by (simp add: in_range_def)
  have "panics (collect_items [] it)"
    by (rule iteration_panics_on_other_entries [where view = fake_view and s = demo_db_ledger,
          OF fake.ledger_stub_axioms it k hex_decode_h r])
  with it show ?thesis by blast
qed

text \<open>
  The reverse iterator holds what the forward iterator yields, in the opposite order; the swapping
  loop over the slice is list reversal.
\<close>

theorem reverse_iteration:
  "DB_ReverseIterator S start end' s =
     then_call (DB_Iterator S start end') (\<lambda>it. lift (and_then (collect_items [] it)
       (\<lambda>xs. Ok \<lparr>si_items = rev xs, si_current = 0\<rparr>))) s"
  by (simp add: DB_ReverseIterator_def ReverseIterator_def reverseAnySlice_rev NewSimpleIterator_def)

text \<open>
  C35: Writing a batch that is open applies all its commands in order and closes it; if one of them fails,
  exactly the commands before some point have been applied and the batch stays open. Writing a closed
  batch is an error without effect.
\<close>

theorem batch_write_effect:
  assumes "ledger_stub S view final commit" "BatchDB_Write S (b, s) = (r, (b', s'))"
  shows "case r of
      Ok _ \<Rightarrow> \<not> closed b \<and> b' = b\<lparr>closed := True\<rparr>
        \<and> db_view (final s') = fold apply_command (commands b) (db_view (final s))
    | Err _ \<Rightarrow> b' = b \<and> (if closed b then s' = s
        else \<exists>n < length (commands b). db_view (final s') = fold apply_command (take n (commands b)) (db_view (final s)))
    | Panic _ \<Rightarrow> b' = b"
  by (rule ledger_stub.write_commands_effect [OF assms(1)]) (use assms(2) in \<open>simp add: BatchDB_Write_def\<close>)

theorem batch_write_effect_witness:
  "\<exists>s'. BatchDB_Write MakeFakeStub (\<lparr>commands = [setCommand [1] (Some [2]), deleteCommand [1]], closed = False\<rparr>, empty_ledger None)
       = (Ok (), (\<lparr>commands = [setCommand [1] (Some [2]), deleteCommand [1]], closed = True\<rparr>, s'))
     \<and> db_view (fake_view s') [1] = None"
proof -
  let ?b = "\<lparr>commands = [setCommand [1] (Some [2]), deleteCommand [1]], closed = False\<rparr>"
  obtain b' s' where w: "BatchDB_Write MakeFakeStub (?b, empty_ledger None) = (Ok (), (b', s'))"
    by (simp add: BatchDB_Write_def write_commands_def then_call_def DB_Set_def DB_Delete_def fake_PutState_def
        fake_DelState_def)
  from batch_write_effect [OF fake.ledger_stub_axioms w] w show ?thesis by auto
qed

end
