(* ===== verification/Multi_Store.thy ===== *)
theory Multi_Store
  imports Compat_DB
begin

text \<open>
  The multi-store of the application: \<open>chaincode/store/store.go\<close> and \<open>dbadapter.go\<close>. Stores are mounted
  under keys, loaded, and then live under prefixes of one database. The prefixed database and the
  adapter around it, the in-memory and transient stores and the cache multi-store belong to the Cosmos
  SDK and tm-db and are arguments.
\<close>

section \<open>Keys, stores and queries\<close>

text \<open>
  A \<open>types.StoreKey\<close> is a pointer: keys are compared by identity, which is a number here. The kind is its
  dynamic type.
\<close>

datatype key_kind = KVStoreKey | TransientStoreKey | MemoryStoreKey

record StoreKey =
  key_id :: nat
  key_Name :: string
  key_kind :: key_kind

datatype StoreType = StoreTypeMulti | StoreTypeDB | StoreTypeTransient | StoreTypeMemory | StoreTypeOther string

record 'db storeParams =
  sp_key :: StoreKey
  sp_db :: "'db option"
  sp_typ :: StoreType

text \<open>
  A loaded store: \<open>commitDBStoreAdapter\<close> over \<open>NewPrefixDB(db, prefix)\<close>, or a store without a database.
\<close>

datatype 'db kv_store = commitDBStoreAdapter 'db bytes | TransientStore | MemoryStore

record 'db Store =
  rs_db :: 'db
  storesParams :: "StoreKey \<rightharpoonup> 'db storeParams"
  stores :: "StoreKey \<rightharpoonup> 'db kv_store"
  keysByName :: "string \<rightharpoonup> StoreKey"
  traceWriter :: "nat option"
  traceContext :: "(string \<rightharpoonup> string) option"

text \<open>\<open>abci.RequestQuery\<close> and \<open>abci.ResponseQuery\<close>; the error of a response is the one it was made from.\<close>

record RequestQuery =
  req_Data :: bytes
  req_Path :: string
  req_Height :: i64
  req_Prove :: bool

record ResponseQuery =
  res_Key :: slice
  res_Value :: slice
  res_Height :: i64
  res_error :: "error option"

definition ResponseQuery_zero :: ResponseQuery where
  "ResponseQuery_zero = \<lparr>res_Key = None, res_Value = None, res_Height = 0, res_error = None\<rparr>"

definition QueryResult :: "error \<Rightarrow> ResponseQuery" where
  "QueryResult e = ResponseQuery_zero\<lparr>res_error := Some e\<rparr>"

definition ErrUnknownRequest :: error where
  "ErrUnknownRequest = ErrorRoot ''unknown request''"

text \<open>
  The library functions: \<open>Get\<close> of a \<open>dbadapter.Store\<close> over a prefixed database, what
  \<open>KVStorePrefixIterator\<close> yields on it, and the encoding of pairs.
\<close>

record ('db, 's) kv_lib =
  adapter_Get :: "'db \<Rightarrow> bytes \<Rightarrow> bytes \<Rightarrow> ('s, slice) call"
  adapter_prefix_items :: "'db \<Rightarrow> bytes \<Rightarrow> bytes \<Rightarrow> ('s, iterItem list) call"
  Pairs_Marshal :: "iterItem list \<Rightarrow> bytes outcome"

section \<open>The adapter\<close>

definition commithash :: bytes where
  "commithash = bytes_of_string ''FAKE_HASH''"

definition adapter_Commit :: "int \<times> bytes" where
  "adapter_Commit = (- 1, commithash)"

definition adapter_LastCommitID :: "int \<times> bytes" where
  "adapter_LastCommitID = (- 1, commithash)"

definition adapter_Query :: "('db, 's) kv_lib \<Rightarrow> 'db \<Rightarrow> bytes \<Rightarrow> RequestQuery \<Rightarrow> ('s, ResponseQuery) call" where
  "adapter_Query L db prefix req =
     (if length (req_Data req) = 0
      then give (QueryResult (ErrorWrap (ErrorRoot ''tx parse error'') ''query cannot be zero length''))
      else if req_Path req = ''/key'' then
        then_call (adapter_Get L db prefix (req_Data req)) (\<lambda>v.
          give (ResponseQuery_zero\<lparr>res_Key := Some (req_Data req), res_Value := v\<rparr>))
      else if req_Path req = ''/subspace'' then
        then_call (adapter_prefix_items L db prefix (req_Data req)) (\<lambda>pairs.
          then_call (lift (must (Pairs_Marshal L pairs))) (\<lambda>bz.
            give (ResponseQuery_zero\<lparr>res_Key := Some (req_Data req), res_Value := Some bz\<rparr>)))
      else give (QueryResult (ErrorWrap ErrUnknownRequest ''unexpected query path: %v'')))"

section \<open>Mounting and loading\<close>

definition NewStore :: "'db \<Rightarrow> 'db Store" where
  "NewStore db = \<lparr>rs_db = db, storesParams = Map.empty, stores = Map.empty, keysByName = Map.empty,
     traceWriter = None, traceContext = None\<rparr>"

definition GetStoreType :: "'db Store \<Rightarrow> StoreType" where
  "GetStoreType rs = StoreTypeMulti"

definition MountStoreWithDB :: "'db Store \<Rightarrow> StoreKey option \<Rightarrow> StoreType \<Rightarrow> 'db option \<Rightarrow> 'db Store outcome" where
  "MountStoreWithDB rs key typ db =
     (case key of
        None \<Rightarrow> Panic ''MountIAVLStore() key cannot be nil''
      | Some k \<Rightarrow>
          if storesParams rs k \<noteq> None then Panic ''store duplicate store key %v''
          else if keysByName rs (key_Name k) \<noteq> None then Panic ''store duplicate store key name %v''
          else Ok (rs\<lparr>storesParams := (storesParams rs)(k \<mapsto> \<lparr>sp_key = k, sp_db = db, sp_typ = typ\<rparr>),
                      keysByName := (keysByName rs)(key_Name k \<mapsto> k)\<rparr>))"

definition GetCommitKVStore :: "'db Store \<Rightarrow> StoreKey \<Rightarrow> 'db kv_store option" where
  "GetCommitKVStore rs key = stores rs key"

definition GetCommitStore :: "'db Store \<Rightarrow> StoreKey \<Rightarrow> 'db kv_store option" where
  "GetCommitStore rs key = GetCommitKVStore rs key"

definition loadStoreFromParams :: "'db Store \<Rightarrow> StoreKey \<Rightarrow> 'db storeParams \<Rightarrow> 'db kv_store outcome" where
  "loadStoreFromParams rs key params =
     (let (db, prefix) = (case sp_db params of
            Some db \<Rightarrow> (db, bytes_of_string ''s/_/'')
          | None \<Rightarrow> (rs_db rs, bytes_of_string (''s/k:'' @ key_Name (sp_key params) @ ''/'')))
      in case sp_typ params of
           StoreTypeMulti \<Rightarrow> Panic ''recursive MultiStores not yet supported''
         | StoreTypeDB \<Rightarrow> Ok (commitDBStoreAdapter db prefix)
         | StoreTypeTransient \<Rightarrow>
             if key_kind key \<noteq> TransientStoreKey then Err (ErrorNew ''invalid StoreKey for StoreTypeTransient: %s'')
             else Ok TransientStore
         | StoreTypeMemory \<Rightarrow>
             if key_kind key \<noteq> MemoryStoreKey then Err (ErrorNew ''unexpected key type for a MemoryStoreKey; got: %s'')
             else Ok MemoryStore
         | StoreTypeOther _ \<Rightarrow> Panic ''unrecognized store type %v'')"

text \<open>
  Go iterates over a map in an unspecified order, which is the list \<open>order\<close> of its keys here; the stores
  replace the old ones only when all could be loaded.
\<close>

definition LoadStores :: "StoreKey list \<Rightarrow> 'db Store \<Rightarrow> 'db Store outcome" where
  "LoadStores order rs =
     and_then (fold_outcome (\<lambda>newStores key.
         case storesParams rs key of
           None \<Rightarrow> Ok newStores
         | Some params \<Rightarrow> and_then (loadStoreFromParams rs key params) (\<lambda>st. Ok (newStores(key \<mapsto> st))))
       Map.empty order) (\<lambda>newStores. Ok (rs\<lparr>stores := newStores\<rparr>))"

section \<open>Tracing and access\<close>

definition SetTracer :: "nat option \<Rightarrow> 'db Store \<Rightarrow> 'db Store" where
  "SetTracer w rs = rs\<lparr>traceWriter := w\<rparr>"

definition SetTracingContext :: "(string \<rightharpoonup> string) option \<Rightarrow> 'db Store \<Rightarrow> 'db Store" where
  "SetTracingContext tc rs =
     (case traceContext rs of
        Some old \<Rightarrow> rs\<lparr>traceContext := Some (case tc of None \<Rightarrow> old | Some new \<Rightarrow> old ++ new)\<rparr>
      | None \<Rightarrow> rs\<lparr>traceContext := tc\<rparr>)"

definition TracingEnabled :: "'db Store \<Rightarrow> bool" where
  "TracingEnabled rs = (traceWriter rs \<noteq> None)"

text \<open>\<open>cachemulti.NewStore\<close> is the argument of the two functions that make a cache over the stores.\<close>

type_synonym ('db, 'ms) new_cache =
  "'db \<Rightarrow> (StoreKey \<rightharpoonup> 'db kv_store) \<Rightarrow> (string \<rightharpoonup> StoreKey) \<Rightarrow> nat option \<Rightarrow> (string \<rightharpoonup> string) option \<Rightarrow> 'ms"

definition CacheMultiStore :: "('db, 'ms) new_cache \<Rightarrow> 'db Store \<Rightarrow> 'ms" where
  "CacheMultiStore cachemulti_NewStore rs =
     cachemulti_NewStore (rs_db rs) (stores rs) (keysByName rs) (traceWriter rs) (traceContext rs)"

definition CacheWrap :: "('db, 'ms) new_cache \<Rightarrow> 'db Store \<Rightarrow> 'ms" where
  "CacheWrap cachemulti_NewStore rs = CacheMultiStore cachemulti_NewStore rs"

definition GetStore :: "'db Store \<Rightarrow> StoreKey \<Rightarrow> 'db kv_store outcome" where
  "GetStore rs key =
     (case GetCommitKVStore rs key of
        None \<Rightarrow> Panic ''store does not exist for key: %s''
      | Some st \<Rightarrow> Ok st)"

text \<open>A store, or a \<open>tracekv.Store\<close> around it.\<close>

datatype 'db traced_store = Untraced "'db kv_store" | Traced "'db kv_store" "nat option" "(string \<rightharpoonup> string) option"

definition GetKVStore :: "'db Store \<Rightarrow> StoreKey \<Rightarrow> 'db traced_store outcome" where
  "GetKVStore rs key =
     (case stores rs key of
        None \<Rightarrow> Panic ''interface conversion: interface is nil''
      | Some st \<Rightarrow> Ok (if TracingEnabled rs then Traced st (traceWriter rs) (traceContext rs) else Untraced st))"

definition getStoreByName :: "'db Store \<Rightarrow> string \<Rightarrow> 'db kv_store option" where
  "getStoreByName rs name =
     (case keysByName rs name of None \<Rightarrow> None | Some key \<Rightarrow> GetCommitKVStore rs key)"

section \<open>Queries\<close>

definition parsePath :: "string \<Rightarrow> (string \<times> string) outcome" where
  "parsePath path =
     (if take 1 path \<noteq> ''/'' then Err (ErrorWrap ErrUnknownRequest ''invalid path: %s'')
      else case split_once CHR ''/'' (drop 1 path) of
        (storeName, None) \<Rightarrow> Ok (storeName, '''')
      | (storeName, Some subpath) \<Rightarrow> Ok (storeName, ''/'' @ subpath))"

definition Store_Query :: "('db, 's) kv_lib \<Rightarrow> 'db Store \<Rightarrow> RequestQuery \<Rightarrow> ('s, ResponseQuery) call" where
  "Store_Query L rs req =
     (case parsePath (req_Path req) of
        Err e \<Rightarrow> give (QueryResult e)
      | Panic p \<Rightarrow> lift (Panic p)
      | Ok (storeName, subpath) \<Rightarrow>
          (case getStoreByName rs storeName of
             None \<Rightarrow> give (QueryResult (ErrorWrap ErrUnknownRequest ''no such store: %s''))
           | Some (commitDBStoreAdapter db prefix) \<Rightarrow> adapter_Query L db prefix (req\<lparr>req_Path := subpath\<rparr>)
           | Some _ \<Rightarrow> give (QueryResult (ErrorWrap ErrUnknownRequest ''store %s (type %T) doesn't support queries''))))"


section \<open>Lemmas\<close>

text \<open>The parameters of a mounted key are its own, and a name leads back to its key.\<close>

definition well_mounted :: "'db Store \<Rightarrow> bool" where
  "well_mounted rs \<longleftrightarrow>
     (\<forall>k params. storesParams rs k = Some params \<longrightarrow> sp_key params = k \<and> keysByName rs (key_Name k) = Some k)
     \<and> (\<forall>name k. keysByName rs name = Some k \<longrightarrow> key_Name k = name \<and> storesParams rs k \<noteq> None)"

lemma well_mounted_new: "well_mounted (NewStore db)"
  by (simp add: well_mounted_def NewStore_def)

lemma MountStoreWithDB_well_mounted:
  assumes "MountStoreWithDB rs key typ db = Ok rs'" "well_mounted rs"
  shows "well_mounted rs'"
proof -
  from assms(1) obtain k where key: "key = Some k" by (cases key) (simp_all add: MountStoreWithDB_def)
  with assms(1) have k: "storesParams rs k = None" "keysByName rs (key_Name k) = None"
    and rs': "rs' = rs\<lparr>storesParams := (storesParams rs)(k \<mapsto> \<lparr>sp_key = k, sp_db = db, sp_typ = typ\<rparr>),
                      keysByName := (keysByName rs)(key_Name k \<mapsto> k)\<rparr>"
    by (simp_all add: MountStoreWithDB_def split: if_splits)
  from assms(2) have inv: "\<And>k params. storesParams rs k = Some params \<Longrightarrow> sp_key params = k \<and> keysByName rs (key_Name k) = Some k"
      "\<And>name k. keysByName rs name = Some k \<Longrightarrow> key_Name k = name \<and> storesParams rs k \<noteq> None"
    by (simp_all add: well_mounted_def)
  have new: "key_Name k' \<noteq> key_Name k" if "storesParams rs k' = Some params" for k' params
    using inv(1) [OF that] k(2) by auto
  show ?thesis
    unfolding well_mounted_def rs'
  proof (intro conjI allI impI)
    fix k' params
    assume "storesParams (rs\<lparr>storesParams := (storesParams rs)(k \<mapsto> \<lparr>sp_key = k, sp_db = db, sp_typ = typ\<rparr>),
        keysByName := (keysByName rs)(key_Name k \<mapsto> k)\<rparr>) k' = Some params"
    then show "sp_key params = k'" "keysByName (rs\<lparr>storesParams := (storesParams rs)(k \<mapsto> \<lparr>sp_key = k, sp_db = db, sp_typ = typ\<rparr>),
        keysByName := (keysByName rs)(key_Name k \<mapsto> k)\<rparr>) (key_Name k') = Some k'"
      using inv(1) [of k' params] new [of k' params] by (auto split: if_splits)
  next
    fix name k'
    assume "keysByName (rs\<lparr>storesParams := (storesParams rs)(k \<mapsto> \<lparr>sp_key = k, sp_db = db, sp_typ = typ\<rparr>),
        keysByName := (keysByName rs)(key_Name k \<mapsto> k)\<rparr>) name = Some k'"
    then show "key_Name k' = name" "storesParams (rs\<lparr>storesParams := (storesParams rs)(k \<mapsto> \<lparr>sp_key = k, sp_db = db, sp_typ = typ\<rparr>),
        keysByName := (keysByName rs)(key_Name k \<mapsto> k)\<rparr>) k' \<noteq> None"
      using inv(2) [of name k'] by (auto split: if_splits)
  qed
qed

text \<open>What \<open>LoadStores\<close> makes of the parameters, for every order of iteration.\<close>

definition load_step :: "('k \<Rightarrow> 'v outcome option) \<Rightarrow> ('k \<rightharpoonup> 'v) \<Rightarrow> 'k \<Rightarrow> ('k \<rightharpoonup> 'v) outcome" where
  "load_step g m key = (case g key of None \<Rightarrow> Ok m | Some r \<Rightarrow> and_then r (\<lambda>st. Ok (m(key \<mapsto> st))))"

lemma load_loop_other:
  "fold_outcome (load_step g) m0 order = Ok m \<Longrightarrow> key \<notin> set order \<or> g key = None \<Longrightarrow> m key = m0 key"
proof (induction order arbitrary: m0)
  case (Cons k order)
  then obtain m1 where m1: "load_step g m0 k = Ok m1" "fold_outcome (load_step g) m1 order = Ok m"
    by (auto simp: outcome_simps)
  have "m1 key = m0 key"
    using m1(1) Cons.prems(2) by (auto simp: load_step_def outcome_simps split: option.splits)
  with Cons.IH [OF m1(2)] Cons.prems(2) show ?case by auto
qed simp

lemma load_loop_loaded:
  "fold_outcome (load_step g) m0 order = Ok m \<Longrightarrow> key \<in> set order \<Longrightarrow> g key = Some r \<Longrightarrow>
   \<exists>st. r = Ok st \<and> m key = Some st"
proof (induction order arbitrary: m0)
  case (Cons k order)
  then obtain m1 where m1: "load_step g m0 k = Ok m1" "fold_outcome (load_step g) m1 order = Ok m"
    by (auto simp: outcome_simps)
  show ?case
  proof (cases "key \<in> set order")
    case True
    with Cons.IH [OF m1(2)] Cons.prems(3) show ?thesis by blast
  next
    case False
    with Cons.prems have "key = k" by simp
    with m1(1) Cons.prems(3) have "\<exists>st. r = Ok st \<and> m1 key = Some st"
      by (auto simp: load_step_def outcome_simps)
    with load_loop_other [OF m1(2), of key] False show ?thesis by simp
  qed
qed simp

lemma LoadStores_stores:
  assumes "LoadStores order rs = Ok rs'" "set order = dom (storesParams rs)"
  shows "stores rs' key = (case storesParams rs key of
      None \<Rightarrow> None | Some params \<Rightarrow> (case loadStoreFromParams rs key params of Ok st \<Rightarrow> Some st | _ \<Rightarrow> None))"
    and "storesParams rs' = storesParams rs" "keysByName rs' = keysByName rs" "rs_db rs' = rs_db rs"
    and "storesParams rs key = Some params \<Longrightarrow> \<exists>st. loadStoreFromParams rs key params = Ok st"
proof -
  let ?g = "\<lambda>key. map_option (loadStoreFromParams rs key) (storesParams rs key)"
  have step: "load_step ?g = (\<lambda>newStores key. case storesParams rs key of
      None \<Rightarrow> Ok newStores
    | Some params \<Rightarrow> and_then (loadStoreFromParams rs key params) (\<lambda>st. Ok (newStores(key \<mapsto> st))))"
    by (auto simp: load_step_def fun_eq_iff split: option.splits)
  from assms(1) obtain m where m: "fold_outcome (load_step ?g) Map.empty order = Ok m" and rs': "rs' = rs\<lparr>stores := m\<rparr>"
    by (auto simp: LoadStores_def step outcome_simps)
  show "stores rs' key = (case storesParams rs key of
      None \<Rightarrow> None | Some params \<Rightarrow> (case loadStoreFromParams rs key params of Ok st \<Rightarrow> Some st | _ \<Rightarrow> None))"
  proof (cases "storesParams rs key")
    case None
    with load_loop_other [OF m, of key] rs' show ?thesis by simp
  next
    case (Some params)
    then have "key \<in> set order" using assms(2) by auto
    from load_loop_loaded [OF m this] Some rs' show ?thesis by auto
  qed
  show "\<exists>st. loadStoreFromParams rs key params = Ok st" if p: "storesParams rs key = Some params"
  proof -
    from p have "key \<in> set order" using assms(2) by auto
    from load_loop_loaded [OF m this] p show ?thesis by auto
  qed
  from rs' show "storesParams rs' = storesParams rs" "keysByName rs' = keysByName rs" "rs_db rs' = rs_db rs" by simp_all
qed

definition store_prefix :: "string \<Rightarrow> bytes" where
  "store_prefix name = bytes_of_string (''s/k:'' @ name @ ''/'')"

lemma store_prefix_disjoint:
  assumes "CHR ''/'' \<notin> set n" "CHR ''/'' \<notin> set n'" "store_prefix n @ a = store_prefix n' @ b"
  shows "n = n' \<and> a = b"
proof -
  let ?c = "byte_of_char CHR ''/''"
  have inj: "byte_of_char x = byte_of_char y \<longleftrightarrow> x = y" for x y by (metis char_of_byte_of_char)
  from assms(3) have "bytes_of_string n @ ?c # a = bytes_of_string n' @ ?c # b"
    by (simp add: store_prefix_def bytes_of_string_def)
  moreover have "?c \<notin> set (bytes_of_string n)" "?c \<notin> set (bytes_of_string n')"
    using assms(1,2) by (auto simp: bytes_of_string_def inj)
  ultimately have "bytes_of_string n = bytes_of_string n' \<and> a = b" by (rule append_sep_inject)
  then show ?thesis by simp
qed

lemma store_prefix_s: "\<exists>r. store_prefix n = 0x73 # r"
  by (simp add: store_prefix_def bytes_of_string_def byte_of_char_def)

lemma load_default:
  "sp_db params = None \<Longrightarrow> loadStoreFromParams rs key params = Ok (commitDBStoreAdapter db p) \<Longrightarrow>
   db = rs_db rs \<and> p = store_prefix (key_Name (sp_key params)) \<and> sp_typ params = StoreTypeDB"
  by (auto simp: loadStoreFromParams_def store_prefix_def Let_def split: StoreType.splits if_splits)

lemma parsePath_sub: "CHR ''/'' \<notin> set name \<Longrightarrow> parsePath (''/'' @ name @ ''/'' @ sub) = Ok (name, ''/'' @ sub)"
  by (simp add: parsePath_def split_once_append)

lemma parsePath_name: "CHR ''/'' \<notin> set name \<Longrightarrow> parsePath (''/'' @ name) = Ok (name, '''')"
  by (simp add: parsePath_def split_once_no_sep)


text \<open>Mounting a list of stores on the default database, as an application does.\<close>

definition mount_all :: "'db \<Rightarrow> (StoreKey \<times> StoreType) list \<Rightarrow> 'db Store outcome" where
  "mount_all db mounts =
     fold_outcome (\<lambda>rs (k, typ). MountStoreWithDB rs (Some k) typ None) (NewStore db) mounts"

definition default_mounted :: "'db \<Rightarrow> 'db Store \<Rightarrow> bool" where
  "default_mounted db rs \<longleftrightarrow> well_mounted rs \<and> rs_db rs = db
     \<and> (\<forall>k params. storesParams rs k = Some params \<longrightarrow> sp_db params = None)"

lemma default_mounted_step:
  assumes "MountStoreWithDB rs (Some k) typ None = Ok rs'" "default_mounted db rs"
  shows "default_mounted db rs'"
  using assms MountStoreWithDB_well_mounted [OF assms(1)]
  by (auto simp: default_mounted_def MountStoreWithDB_def split: if_splits)

lemma mount_loop:
  "fold_outcome (\<lambda>rs (k, typ). MountStoreWithDB rs (Some k) typ None) rs0 mounts = Ok rs \<Longrightarrow>
   default_mounted db rs0 \<Longrightarrow> default_mounted db rs"
proof (induction mounts arbitrary: rs0)
  case (Cons m mounts)
  obtain k ty where m: "m = (k, ty)" by fastforce
  with Cons.prems obtain rs1 where rs1: "MountStoreWithDB rs0 (Some k) ty None = Ok rs1"
      "fold_outcome (\<lambda>rs (k, typ). MountStoreWithDB rs (Some k) typ None) rs1 mounts = Ok rs"
    by (auto simp: and_then_Ok)
  show ?case by (rule Cons.IH [OF rs1(2) default_mounted_step [OF rs1(1) Cons.prems(2)]])
qed simp

lemma mount_all_mounted: "mount_all db mounts = Ok rs \<Longrightarrow> default_mounted db rs"
  using mount_loop [of "NewStore db" mounts rs db] well_mounted_new [of db]
  by (simp add: mount_all_def default_mounted_def NewStore_def)

lemma loaded_store:
  assumes "mount_all db mounts = Ok rs" "LoadStores order rs = Ok rs'" "set order = dom (storesParams rs)"
    and "stores rs' k = Some (commitDBStoreAdapter d p)"
  shows "d = db \<and> p = store_prefix (key_Name k) \<and> keysByName rs' (key_Name k) = Some k"
proof -
  have dm: "default_mounted db rs" by (rule mount_all_mounted [OF assms(1)])
  from assms(4) LoadStores_stores(1) [OF assms(2,3), of k] obtain params where
      params: "storesParams rs k = Some params" "loadStoreFromParams rs k params = Ok (commitDBStoreAdapter d p)"
    by (auto split: option.splits outcome.splits)
  with dm have "sp_db params = None" "sp_key params = k" "keysByName rs (key_Name k) = Some k" "rs_db rs = db"
    by (auto simp: default_mounted_def well_mounted_def)
  with load_default [OF _ params(2)] LoadStores_stores(3) [OF assms(2,3)] show ?thesis by simp
qed

text \<open>
  What the adapter of the Cosmos SDK does with a prefixed database of tm-db over a database \<open>db\<close> whose \<open>Get\<close> is
  \<open>get\<close>: a key that is not empty is read with the prefix in front, and an error is a panic. The empty
  key is an error of tm-db itself, and nothing is said about it.
\<close>

definition prefix_adapter :: "('db, 's) kv_lib \<Rightarrow> 'db \<Rightarrow> (bytes \<Rightarrow> ('s, slice) call) \<Rightarrow> bool" where
  "prefix_adapter L db get \<longleftrightarrow>
     (\<forall>p x s. x \<noteq> [] \<longrightarrow> adapter_Get L db p x s = (case get (p @ x) s of (r, t) \<Rightarrow> (must r, t)))"

section \<open>Properties\<close>

text \<open>
  C21: Stores do not overlap. If stores are mounted on the default database and loaded, in whatever order
  the map is iterated, then the database stores of two different keys live in that database under
  prefixes such that no key of the one is a key of the other, provided the names have no \<open>/\<close> in them.
\<close>

theorem loaded_stores_disjoint:
  assumes "mount_all db mounts = Ok rs" "LoadStores order rs = Ok rs'" "set order = dom (storesParams rs)"
    and "stores rs' k = Some (commitDBStoreAdapter d p)" "stores rs' k' = Some (commitDBStoreAdapter d' p')"
    and "k \<noteq> k'" "CHR ''/'' \<notin> set (key_Name k)" "CHR ''/'' \<notin> set (key_Name k')"
  shows "d = db \<and> d' = db \<and> p @ x \<noteq> p' @ y"
proof -
  from loaded_store [OF assms(1-4)] loaded_store [OF assms(1-3,5)] have
      l: "d = db" "d' = db" "p = store_prefix (key_Name k)" "p' = store_prefix (key_Name k')"
      "keysByName rs' (key_Name k) = Some k" "keysByName rs' (key_Name k') = Some k'"
    by auto
  with assms(6) have "key_Name k \<noteq> key_Name k'" by auto
  with store_prefix_disjoint [OF assms(7,8), of x y] l show ?thesis by auto
qed

definition demo_key :: "nat \<Rightarrow> string \<Rightarrow> StoreKey" where
  "demo_key n name = \<lparr>key_id = n, key_Name = name, key_kind = KVStoreKey\<rparr>"

definition demo_mounted :: "unit Store" where
  "demo_mounted = (NewStore ())\<lparr>
     storesParams := [demo_key 0 ''ibc'' \<mapsto> \<lparr>sp_key = demo_key 0 ''ibc'', sp_db = None, sp_typ = StoreTypeDB\<rparr>,
                      demo_key 1 ''bank'' \<mapsto> \<lparr>sp_key = demo_key 1 ''bank'', sp_db = None, sp_typ = StoreTypeDB\<rparr>],
     keysByName := [''ibc'' \<mapsto> demo_key 0 ''ibc'', ''bank'' \<mapsto> demo_key 1 ''bank'']\<rparr>"

lemma demo_mount:
  "mount_all () [(demo_key 0 ''ibc'', StoreTypeDB), (demo_key 1 ''bank'', StoreTypeDB)] = Ok demo_mounted"
  by (simp add: mount_all_def MountStoreWithDB_def NewStore_def demo_mounted_def demo_key_def)

definition demo_loaded :: "unit Store" where
  "demo_loaded = demo_mounted\<lparr>stores :=
     [demo_key 0 ''ibc'' \<mapsto> commitDBStoreAdapter () (store_prefix ''ibc''),
      demo_key 1 ''bank'' \<mapsto> commitDBStoreAdapter () (store_prefix ''bank'')]\<rparr>"

lemma demo_load:
  "LoadStores [demo_key 0 ''ibc'', demo_key 1 ''bank''] demo_mounted = Ok demo_loaded"
  by (simp add: LoadStores_def loadStoreFromParams_def demo_loaded_def store_prefix_def demo_mounted_def
      demo_key_def NewStore_def)

lemma demo_order: "set [demo_key 0 ''ibc'', demo_key 1 ''bank''] = dom (storesParams demo_mounted)"
  by (auto simp: demo_mounted_def split: if_splits)

theorem loaded_stores_disjoint_witness:
  "store_prefix ''ibc'' @ [1] \<noteq> store_prefix ''bank'' @ [1]"
proof -
  have s: "stores demo_loaded (demo_key 0 ''ibc'') = Some (commitDBStoreAdapter () (store_prefix ''ibc''))"
      "stores demo_loaded (demo_key 1 ''bank'') = Some (commitDBStoreAdapter () (store_prefix ''bank''))"
    by (simp_all add: demo_loaded_def demo_key_def)
  have n: "demo_key 0 ''ibc'' \<noteq> demo_key 1 ''bank''" "CHR ''/'' \<notin> set (key_Name (demo_key 0 ''ibc''))"
      "CHR ''/'' \<notin> set (key_Name (demo_key 1 ''bank''))"
    by (simp_all add: demo_key_def)
  from loaded_stores_disjoint [OF demo_mount demo_load demo_order s n, of "[1]" "[1]"] show ?thesis by blast
qed

text \<open>
  C22: A value that is set in a store is what a query of that store returns. Stores are mounted on a
  default database, which is the one over the stub \<open>S\<close>, and loaded. After a successful set at a key under the
  prefix of a loaded store, and after the transaction is committed, the query of path \<open>/name/key\<close> for
  that key, which is not empty, either panics, because the ledger cannot be read, or returns the value
  without an error; it changes nothing.
\<close>

theorem query_after_set:
  assumes "ledger_stub S view final commit" "prefix_adapter L db (DB_Get S)"
    and "mount_all db mounts = Ok rs" "LoadStores order rs = Ok rs'" "set order = dom (storesParams rs)"
    and "stores rs' k = Some (commitDBStoreAdapter d p)" "CHR ''/'' \<notin> set (key_Name k)" "x \<noteq> []"
    and "DB_Set S (p @ x) (Some v) s = (Ok u, s')"
    and "req_Path req = ''/'' @ key_Name k @ ''/key''" "req_Data req = x"
    and "Store_Query L rs' req (commit s') = (r, t)"
  shows "t = commit s' \<and> (case r of
      Ok res \<Rightarrow> res_Value res = Some v \<and> res_Key res = Some x \<and> res_error res = None
    | Err e \<Rightarrow> False
    | Panic msg \<Rightarrow> (\<forall>w. fst (DB_Get S (p @ x) (commit s')) \<noteq> Ok w))"
proof -
  have kv: "kv_db (DB_Get S) (DB_Set S) (DB_Delete S) (\<lambda>s. db_view (view s)) (\<lambda>s. db_view (final s))"
    by (rule ledger_stub.db_of_stub [OF assms(1)])
  have parse: "parsePath (req_Path req) = Ok (key_Name k, ''/key'')"
    using parsePath_sub [OF assms(7), of "''key''"] by (simp add: assms(10))
  have name: "getStoreByName rs' (key_Name k) = Some (commitDBStoreAdapter d p)" and d: "d = db"
    using loaded_store [OF assms(3-6)] assms(6) by (simp_all add: getStoreByName_def GetCommitKVStore_def)
  obtain g t' where g: "DB_Get S (p @ x) (commit s') = (g, t')" by fastforce
  have t': "t' = commit s'" using kv_db.get_reads [OF kv g] by simp
  have eq: "Store_Query L rs' req (commit s') =
      then_call (\<lambda>_. (must g, t')) (\<lambda>w. give (ResponseQuery_zero\<lparr>res_Key := Some x, res_Value := w\<rparr>)) (commit s')"
    using assms(2,8,11) g by (simp add: Store_Query_def parse name adapter_Query_def prefix_adapter_def then_call_def d)
  have view: "db_view (view (commit s')) = db_view (final s')"
    using ledger_stub.commit_view [OF assms(1)] by simp
  show ?thesis
  proof (cases g)
    case (Ok w)
    from kv_db.get_after_put [OF kv assms(9) g [unfolded Ok] view] have "w = Some v" by simp
    with assms(12) Ok t' show ?thesis unfolding eq by (auto simp: then_call_def ResponseQuery_zero_def)
  qed (use assms(12) t' g in \<open>auto simp: eq then_call_def\<close>)
qed

definition demo_kv_lib :: "(unit, fake_ledger) kv_lib" where
  "demo_kv_lib = \<lparr>adapter_Get = (\<lambda>_ p x s. if x = [] then (Panic ''key cannot be empty'', s)
       else case DB_Get MakeFakeStub (p @ x) s of (r, t) \<Rightarrow> (must r, t)),
     adapter_prefix_items = (\<lambda>_ _ _. give []), Pairs_Marshal = (\<lambda>_. Ok [])\<rparr>"

theorem query_after_set_witness:
  "\<exists>s' res. DB_Set MakeFakeStub (store_prefix ''ibc'' @ [1]) (Some [7]) (empty_ledger None) = (Ok (), s')
     \<and> Store_Query demo_kv_lib demo_loaded
         \<lparr>req_Data = [1], req_Path = ''/ibc/key'', req_Height = 0, req_Prove = False\<rparr> s' = (Ok res, s')
     \<and> res_Value res = Some [7]"
proof -
  let ?req = "\<lparr>req_Data = [1], req_Path = ''/ibc/key'', req_Height = 0, req_Prove = False\<rparr>"
  have a: "prefix_adapter demo_kv_lib () (DB_Get MakeFakeStub)" by (simp add: prefix_adapter_def demo_kv_lib_def)
  have st: "stores demo_loaded (demo_key 0 ''ibc'') = Some (commitDBStoreAdapter () (store_prefix ''ibc''))"
    by (simp add: demo_loaded_def demo_key_def)
  obtain s' where set: "DB_Set MakeFakeStub (store_prefix ''ibc'' @ [1]) (Some [7]) (empty_ledger None) = (Ok (), s')"
    by (simp add: DB_Set_def fake_PutState_def)
  obtain res t where q: "Store_Query demo_kv_lib demo_loaded ?req s' = (Ok res, t)"
    by (simp add: Store_Query_def parsePath_def getStoreByName_def GetCommitKVStore_def demo_loaded_def demo_mounted_def
        demo_key_def adapter_Query_def then_call_def demo_kv_lib_def DB_Get_def fake_GetState_def)
  have "CHR ''/'' \<notin> set (key_Name (demo_key 0 ''ibc''))" "req_Path ?req = ''/'' @ key_Name (demo_key 0 ''ibc'') @ ''/key''"
    by (simp_all add: demo_key_def)
  from query_after_set [where view = fake_view and s = "empty_ledger None" and x = "[1]",
      OF fake.ledger_stub_axioms a demo_mount demo_load demo_order st this(1) _ set this(2) _ q]
  have "res_Value res = Some [7]" "t = s'" by simp_all
  with set q show ?thesis by blast
qed

end
