(* ===== verification/Base_App.thy ===== *)
theory Base_App
  imports Multi_Store
begin

text \<open>
  The application of the chaincode: \<open>chaincode/app\<close>. A transaction is decoded, checked by the ante
  handler and executed message by message on cached copies of the stores; the caches are written back
  only when everything has succeeded. The cache multi-store, the routers and the messages belong to the
  Cosmos SDK and are the record \<open>sdk_lib\<close>.
\<close>

section \<open>Types of the Cosmos SDK\<close>

text \<open>\<open>abci.Event\<close> and \<open>sdk.Event\<close>, which have the same content.\<close>

record Event =
  ev_Type :: string
  ev_Attributes :: "(bytes \<times> bytes) list"

record Result =
  result_Data :: slice
  result_Log :: string
  result_Events :: "Event list"

record block_header =
  blk_ChainID :: string
  blk_Height :: i64
  blk_Time :: i64

definition block_header_zero :: block_header where
  "block_header_zero = \<lparr>blk_ChainID = '''', blk_Height = 0, blk_Time = 0\<rparr>"

text \<open>
  \<open>sdk.Context\<close> without its multi-store, which is passed separately: the header, the flags, the events of
  its event manager and the stub that \<open>setupContext\<close> puts in.
\<close>

record 's sdk_context =
  ctx_header :: block_header
  ctx_checkTx :: bool
  ctx_recheckTx :: bool
  ctx_events :: "Event list"
  ctx_stub :: "'s stub option"

definition NewContext :: "block_header \<Rightarrow> bool \<Rightarrow> 's sdk_context" where
  "NewContext header isCheckTx =
     \<lparr>ctx_header = header, ctx_checkTx = isCheckTx, ctx_recheckTx = False, ctx_events = [], ctx_stub = None\<rparr>"

text \<open>
  A handler works on a cached multi-store \<open>'m\<close> over the ledger \<open>'s\<close>; what it leaves in the cache is part
  of its result.
\<close>

type_synonym ('m, 's, 'a) cached = "'m \<Rightarrow> ('s, 'a \<times> 'm) call"

type_synonym ('m, 's, 'msg) handler = "'s sdk_context \<Rightarrow> 'msg \<Rightarrow> ('m, 's, Result) cached"

text \<open>An ante handler returns a context, which can be the zero context (\<open>None\<close>), and an error or none.\<close>

type_synonym ('m, 's, 'tx) ante = "'s sdk_context \<Rightarrow> 'tx \<Rightarrow> bool \<Rightarrow> ('m, 's, 's sdk_context option \<times> error option) cached"

type_synonym ('m, 's) querier = "'s sdk_context \<Rightarrow> string list \<Rightarrow> RequestQuery \<Rightarrow> ('m, 's, slice) cached"

datatype grpc_code = NotFound | InvalidArgument | FailedPrecondition | Unauthenticated | OtherCode

text \<open>
  The libraries: the cache multi-store, messages and transactions, encodings, and the gRPC codec with
  decoded requests \<open>'i\<close> and results \<open>'r\<close>.
\<close>

record ('db, 'm, 's, 'tx, 'msg, 'i, 'r) sdk_lib =
  cachemulti_NewStore :: "('db, 'm) new_cache"
  cache_of :: "'m \<Rightarrow> 'm"
  write_cache :: "'m \<Rightarrow> 'm \<Rightarrow> 'm"
  write_base :: "'m \<Rightarrow> ('s, unit) call"
  cache_TracingEnabled :: "'m \<Rightarrow> bool"
  cache_SetTracingContext :: "string \<Rightarrow> 'm \<Rightarrow> 'm"
  tx_hash :: "bytes \<Rightarrow> string"
  Tx_GetMsgs :: "'tx \<Rightarrow> 'msg list"
  Msg_ValidateBasic :: "'msg \<Rightarrow> unit outcome"
  Msg_GetSigners :: "'msg \<Rightarrow> bytes list"
  MsgTypeURL :: "'msg \<Rightarrow> string"
  LegacyMsg :: "'msg \<Rightarrow> (string \<times> string) option"
  Marshal_TxMsgData :: "(string \<times> slice) list \<Rightarrow> bytes outcome"
  MessageLogs_String :: "(u32 \<times> string \<times> Event list) list \<Rightarrow> string"
  grpcstatus_FromError :: "error \<Rightarrow> grpc_code option"
  protoCodec_Unmarshal :: "bytes \<Rightarrow> 'i outcome"
  UnpackInterfaces :: "'i \<Rightarrow> 'i outcome"
  protoCodec_Marshal :: "'r \<Rightarrow> bytes outcome"

section \<open>The gRPC query router\<close>

text \<open>A method of a service: its handler, already applied to the server object, gets the decoded request.\<close>

type_synonym ('m, 's, 'i, 'r) grpc_method = "'s sdk_context \<Rightarrow> 'i outcome \<Rightarrow> ('m, 's, 'r) cached"

record ('m, 's, 'i, 'r) ServiceDesc =
  ServiceName :: string
  Methods :: "(string \<times> ('m, 's, 'i, 'r) grpc_method) list"

record ('m, 's, 'i, 'r) GRPCQueryRouter =
  routes :: "string \<rightharpoonup> ('m, 's, 'i, 'r) grpc_method"
  interfaceRegistry :: bool
  serviceData :: "('m, 's, 'i, 'r) ServiceDesc list"

definition NewGRPCQueryRouter :: "('m, 's, 'i, 'r) GRPCQueryRouter" where
  "NewGRPCQueryRouter = \<lparr>routes = Map.empty, interfaceRegistry = False, serviceData = []\<rparr>"

text \<open>The closure that \<open>RegisterService\<close> stores, without the cache of return types.\<close>

definition grpc_handler ::
    "('db, 'm, 's, 'tx, 'msg, 'i, 'r) sdk_lib \<Rightarrow> bool \<Rightarrow> ('m, 's, 'i, 'r) grpc_method
       \<Rightarrow> 's sdk_context \<Rightarrow> RequestQuery \<Rightarrow> ('m, 's, ResponseQuery) cached" where
  "grpc_handler A registry methodHandler ctx req m =
     then_call (methodHandler ctx
         (and_then (protoCodec_Unmarshal A (req_Data req)) (\<lambda>i. if registry then UnpackInterfaces A i else Ok i)) m)
       (\<lambda>(res, m'). then_call (lift (protoCodec_Marshal A res)) (\<lambda>resBytes.
         give (ResponseQuery_zero\<lparr>res_Height := req_Height req, res_Value := Some resBytes\<rparr>, m')))"

definition GRPCQueryRouter_Route ::
    "('m, 's, 'i, 'r) GRPCQueryRouter \<Rightarrow> string \<Rightarrow> ('m, 's, 'i, 'r) grpc_method option" where
  "GRPCQueryRouter_Route qrt path = routes qrt path"

definition RegisterService ::
    "('m, 's, 'i, 'r) GRPCQueryRouter \<Rightarrow> ('m, 's, 'i, 'r) ServiceDesc \<Rightarrow> ('m, 's, 'i, 'r) GRPCQueryRouter outcome" where
  "RegisterService qrt sd =
     and_then (fold_outcome (\<lambda>rts (name, methodHandler).
         let fqName = ''/'' @ ServiceName sd @ ''/'' @ name
         in if rts fqName \<noteq> None then Panic ''gRPC query service has already been registered''
            else Ok (rts(fqName \<mapsto> methodHandler)))
       (routes qrt) (Methods sd)) (\<lambda>rts.
       Ok (qrt\<lparr>routes := rts, serviceData := serviceData qrt @ [sd]\<rparr>))"

text \<open>The reflection service of the SDK is an argument.\<close>

definition SetInterfaceRegistry ::
    "('m, 's, 'i, 'r) ServiceDesc \<Rightarrow> ('m, 's, 'i, 'r) GRPCQueryRouter \<Rightarrow> ('m, 's, 'i, 'r) GRPCQueryRouter outcome" where
  "SetInterfaceRegistry reflection_service qrt =
     RegisterService (qrt\<lparr>interfaceRegistry := True\<rparr>) reflection_service"

section \<open>The application\<close>

text \<open>A block is its height and its timestamp.\<close>

record ('db, 'm, 's, 'tx, 'msg, 'i, 'r) BaseApp =
  app_name :: string
  app_cms :: "'db Store"
  app_router :: "string \<Rightarrow> ('m, 's, 'msg) handler option"
  app_queryRouter :: "string \<Rightarrow> ('m, 's) querier option"
  app_grpcQueryRouter :: "('m, 's, 'i, 'r) GRPCQueryRouter"
  app_msgServiceRouter :: "'msg \<Rightarrow> ('m, 's, 'msg) handler option"
  app_txDecoder :: "bytes \<Rightarrow> 'tx outcome"
  app_anteHandler :: "('m, 's, 'tx) ante option"
  app_initChainer :: "('s sdk_context \<Rightarrow> bytes \<Rightarrow> ('m, 's, unit) cached) option"
  app_blockProvider :: "('s, i64 \<times> i64) call option"
  app_paramStore :: "nat option"
  app_sealed :: bool

text \<open>The routers that the SDK makes are arguments.\<close>

definition NewBaseApp ::
    "(string \<Rightarrow> ('m, 's, 'msg) handler option) \<Rightarrow> (string \<Rightarrow> ('m, 's) querier option)
       \<Rightarrow> ('msg \<Rightarrow> ('m, 's, 'msg) handler option) \<Rightarrow> string \<Rightarrow> 'db \<Rightarrow> (bytes \<Rightarrow> 'tx outcome)
       \<Rightarrow> ('db, 'm, 's, 'tx, 'msg, 'i, 'r) BaseApp" where
  "NewBaseApp newRouter newQueryRouter newMsgServiceRouter name db txDecoder =
     \<lparr>app_name = name, app_cms = NewStore db, app_router = newRouter, app_queryRouter = newQueryRouter,
      app_grpcQueryRouter = NewGRPCQueryRouter, app_msgServiceRouter = newMsgServiceRouter,
      app_txDecoder = txDecoder, app_anteHandler = None, app_initChainer = None, app_blockProvider = None,
      app_paramStore = None, app_sealed = False\<rparr>"

definition Router ::
    "('db, 'm, 's, 'tx, 'msg, 'i, 'r) BaseApp \<Rightarrow> (string \<Rightarrow> ('m, 's, 'msg) handler option) outcome" where
  "Router app = (if app_sealed app then Panic ''Router() on sealed BaseApp'' else Ok (app_router app))"

definition Seal :: "('db, 'm, 's, 'tx, 'msg, 'i, 'r) BaseApp \<Rightarrow> ('db, 'm, 's, 'tx, 'msg, 'i, 'r) BaseApp" where
  "Seal app = app\<lparr>app_sealed := True\<rparr>"

definition IsSealed :: "('db, 'm, 's, 'tx, 'msg, 'i, 'r) BaseApp \<Rightarrow> bool" where
  "IsSealed app = app_sealed app"

definition init_app ::
    "('db, 'm, 's, 'tx, 'msg, 'i, 'r) BaseApp \<Rightarrow> ('db, 'm, 's, 'tx, 'msg, 'i, 'r) BaseApp outcome" where
  "init_app app =
     (if app_sealed app then Panic ''cannot call initFromMainStore: BaseApp already sealed'' else Ok (Seal app))"

definition SetAnteHandler ::
    "('m, 's, 'tx) ante option \<Rightarrow> ('db, 'm, 's, 'tx, 'msg, 'i, 'r) BaseApp
       \<Rightarrow> ('db, 'm, 's, 'tx, 'msg, 'i, 'r) BaseApp outcome" where
  "SetAnteHandler ah app =
     (if app_sealed app then Panic ''SetAnteHandler() on sealed BaseApp'' else Ok (app\<lparr>app_anteHandler := ah\<rparr>))"

definition SetRouter ::
    "(string \<Rightarrow> ('m, 's, 'msg) handler option) \<Rightarrow> ('db, 'm, 's, 'tx, 'msg, 'i, 'r) BaseApp
       \<Rightarrow> ('db, 'm, 's, 'tx, 'msg, 'i, 'r) BaseApp outcome" where
  "SetRouter router app =
     (if app_sealed app then Panic ''SetRouter() on sealed BaseApp'' else Ok (app\<lparr>app_router := router\<rparr>))"

definition SetParamStore ::
    "nat option \<Rightarrow> ('db, 'm, 's, 'tx, 'msg, 'i, 'r) BaseApp \<Rightarrow> ('db, 'm, 's, 'tx, 'msg, 'i, 'r) BaseApp outcome" where
  "SetParamStore ps app =
     (if app_sealed app then Panic ''SetParamStore() on sealed BaseApp'' else Ok (app\<lparr>app_paramStore := ps\<rparr>))"

definition SetInitChainer ::
    "('s sdk_context \<Rightarrow> bytes \<Rightarrow> ('m, 's, unit) cached) option \<Rightarrow> ('db, 'm, 's, 'tx, 'msg, 'i, 'r) BaseApp
       \<Rightarrow> ('db, 'm, 's, 'tx, 'msg, 'i, 'r) BaseApp" where
  "SetInitChainer initChainer app = app\<lparr>app_initChainer := initChainer\<rparr>"

definition SetBlockProvider ::
    "('s, i64 \<times> i64) call option \<Rightarrow> ('db, 'm, 's, 'tx, 'msg, 'i, 'r) BaseApp
       \<Rightarrow> ('db, 'm, 's, 'tx, 'msg, 'i, 'r) BaseApp" where
  "SetBlockProvider blockProvider app = app\<lparr>app_blockProvider := blockProvider\<rparr>"

section \<open>Mounting stores\<close>

definition App_MountStoreWithDB ::
    "StoreKey option \<Rightarrow> StoreType \<Rightarrow> 'db option \<Rightarrow> ('db, 'm, 's, 'tx, 'msg, 'i, 'r) BaseApp
       \<Rightarrow> ('db, 'm, 's, 'tx, 'msg, 'i, 'r) BaseApp outcome" where
  "App_MountStoreWithDB key ty db app =
     and_then (MountStoreWithDB (app_cms app) key ty db) (\<lambda>cms. Ok (app\<lparr>app_cms := cms\<rparr>))"

definition MountStore ::
    "StoreKey option \<Rightarrow> StoreType \<Rightarrow> ('db, 'm, 's, 'tx, 'msg, 'i, 'r) BaseApp
       \<Rightarrow> ('db, 'm, 's, 'tx, 'msg, 'i, 'r) BaseApp outcome" where
  "MountStore key ty app = App_MountStoreWithDB key ty None app"

text \<open>The three loops over a map of keys; the list is an order of iteration of its values.\<close>

definition MountKVStores ::
    "StoreKey list \<Rightarrow> ('db, 'm, 's, 'tx, 'msg, 'i, 'r) BaseApp \<Rightarrow> ('db, 'm, 's, 'tx, 'msg, 'i, 'r) BaseApp outcome" where
  "MountKVStores keys app = fold_outcome (\<lambda>app key. MountStore (Some key) StoreTypeDB app) app keys"

definition MountTransientStores ::
    "StoreKey list \<Rightarrow> ('db, 'm, 's, 'tx, 'msg, 'i, 'r) BaseApp \<Rightarrow> ('db, 'm, 's, 'tx, 'msg, 'i, 'r) BaseApp outcome" where
  "MountTransientStores keys app = fold_outcome (\<lambda>app key. MountStore (Some key) StoreTypeTransient app) app keys"

definition MountMemoryStores ::
    "StoreKey list \<Rightarrow> ('db, 'm, 's, 'tx, 'msg, 'i, 'r) BaseApp \<Rightarrow> ('db, 'm, 's, 'tx, 'msg, 'i, 'r) BaseApp outcome" where
  "MountMemoryStores keys app = fold_outcome (\<lambda>app key. MountStore (Some key) StoreTypeMemory app) app keys"

definition LoadLatestVersion ::
    "StoreKey list \<Rightarrow> ('db, 'm, 's, 'tx, 'msg, 'i, 'r) BaseApp \<Rightarrow> ('db, 'm, 's, 'tx, 'msg, 'i, 'r) BaseApp outcome" where
  "LoadLatestVersion order app =
     and_then (LoadStores order (app_cms app)) (\<lambda>cms. Ok (app\<lparr>app_cms := cms\<rparr>))"


section \<open>Contexts and caches\<close>

definition ContextWithStub :: "'s sdk_context \<Rightarrow> 's stub \<Rightarrow> 's sdk_context" where
  "ContextWithStub ctx stub = ctx\<lparr>ctx_stub := Some stub\<rparr>"

definition StubFromContext :: "'s sdk_context \<Rightarrow> 's stub outcome" where
  "StubFromContext ctx =
     (case ctx_stub ctx of None \<Rightarrow> Panic ''interface conversion: interface is nil'' | Some stub \<Rightarrow> Ok stub)"

definition setupContext :: "'s sdk_context \<Rightarrow> 's stub \<Rightarrow> 's sdk_context" where
  "setupContext ctx stub = ContextWithStub ctx stub"

definition new_cache_store ::
    "('db, 'm, 's, 'tx, 'msg, 'i, 'r) sdk_lib \<Rightarrow> ('db, 'm, 's, 'tx, 'msg, 'i, 'r) BaseApp \<Rightarrow> 'm" where
  "new_cache_store A app = CacheMultiStore (cachemulti_NewStore A) (app_cms app)"

text \<open>The multi-store of the context, and the store whose \<open>Write\<close> is the returned writer.\<close>

definition MakeCacheContext ::
    "('db, 'm, 's, 'tx, 'msg, 'i, 'r) sdk_lib \<Rightarrow> ('db, 'm, 's, 'tx, 'msg, 'i, 'r) BaseApp \<Rightarrow> block_header
       \<Rightarrow> 's sdk_context \<times> 'm" where
  "MakeCacheContext A app header = (NewContext header False, new_cache_store A app)"

definition cacheTxContext :: "('db, 'm, 's, 'tx, 'msg, 'i, 'r) sdk_lib \<Rightarrow> 'm \<Rightarrow> bytes \<Rightarrow> 'm" where
  "cacheTxContext A ms txBytes =
     (let msCache = cache_of A ms
      in if cache_TracingEnabled A msCache then cache_SetTracingContext A (tx_hash A txBytes) msCache else msCache)"

definition getBlockHeader :: "('db, 'm, 's, 'tx, 'msg, 'i, 'r) BaseApp \<Rightarrow> ('s, block_header) call" where
  "getBlockHeader app =
     (case app_blockProvider app of
        None \<Rightarrow> lift (Panic ''invalid memory address or nil pointer dereference'')
      | Some blockProvider \<Rightarrow> then_call blockProvider (\<lambda>(height, timestamp).
          give \<lparr>blk_ChainID = app_name app, blk_Height = height + 1, blk_Time = timestamp\<rparr>))"

section \<open>Transactions\<close>

definition InitChain ::
    "('db, 'm, 's, 'tx, 'msg, 'i, 'r) sdk_lib \<Rightarrow> ('db, 'm, 's, 'tx, 'msg, 'i, 'r) BaseApp \<Rightarrow> bytes \<Rightarrow> ('s, unit) call" where
  "InitChain A app appStateBytes =
     (case app_initChainer app of
        None \<Rightarrow> give ()
      | Some initChainer \<Rightarrow>
          let ms = new_cache_store A app
          in then_call (initChainer (NewContext block_header_zero False) appStateBytes ms) (\<lambda>(_, ms'). write_base A ms'))"

definition validateBasicTxMsgs :: "('db, 'm, 's, 'tx, 'msg, 'i, 'r) sdk_lib \<Rightarrow> 'msg list \<Rightarrow> unit outcome" where
  "validateBasicTxMsgs A msgs =
     (if length msgs = 0
      then Err (ErrorWrap (ErrorRoot ''invalid request'') ''must contain at least one message'')
      else fold_outcome (\<lambda>_ msg. Msg_ValidateBasic A msg) () msgs)"

text \<open>\<open>if err != nil { return nil, wrap(err) }\<close> around a stateful call.\<close>

definition map_err_call :: "(error \<Rightarrow> error) \<Rightarrow> ('s, 'a) call \<Rightarrow> ('s, 'a) call" where
  "map_err_call w c s = (case c s of (r, t) \<Rightarrow> (map_err w r, t))"

text \<open>The handler of a message and the name of its event.\<close>

definition route_message ::
    "('db, 'm, 's, 'tx, 'msg, 'i, 'r) sdk_lib \<Rightarrow> ('db, 'm, 's, 'tx, 'msg, 'i, 'r) BaseApp \<Rightarrow> 'msg
       \<Rightarrow> (('m, 's, 'msg) handler \<times> string) outcome" where
  "route_message A app msg =
     (case app_msgServiceRouter app msg of
        Some handler \<Rightarrow> Ok (handler, MsgTypeURL A msg)
      | None \<Rightarrow>
          (case LegacyMsg A msg of
             Some (msgRoute, eventMsgName) \<Rightarrow>
               (case app_router app msgRoute of
                  None \<Rightarrow> Err (ErrorWrap ErrUnknownRequest ''unrecognized message route: %s; message index: %d'')
                | Some handler \<Rightarrow> Ok (handler, eventMsgName))
           | None \<Rightarrow> Err (ErrorWrap ErrUnknownRequest ''can't route message %+v'')))"

definition message_event :: "string \<Rightarrow> Event" where
  "message_event name = \<lparr>ev_Type = ''message'', ev_Attributes = [(bytes_of_string ''action'', bytes_of_string name)]\<rparr>"

text \<open>What the loop over the messages has collected: logs, events and data.\<close>

type_synonym collected = "(u32 \<times> string \<times> Event list) list \<times> Event list \<times> (string \<times> slice) list"

fun run_messages ::
    "('db, 'm, 's, 'tx, 'msg, 'i, 'r) sdk_lib \<Rightarrow> ('db, 'm, 's, 'tx, 'msg, 'i, 'r) BaseApp \<Rightarrow> 's sdk_context
       \<Rightarrow> nat \<Rightarrow> 'msg list \<Rightarrow> collected \<Rightarrow> ('m, 's, collected) cached" where
  "run_messages A app ctx i [] acc m = give (acc, m)"
| "run_messages A app ctx i (msg # msgs) (msgLogs, events, msgData) m =
     then_call (lift (route_message A app msg)) (\<lambda>(handler, eventMsgName).
       then_call (map_err_call (\<lambda>e. ErrorWrap e ''failed to execute message; message index: %d'') (handler ctx msg m))
         (\<lambda>(msgResult, m').
           let msgEvents = message_event eventMsgName # result_Events msgResult
           in run_messages A app ctx (i + 1) msgs
                (msgLogs @ [(word_of_nat i, result_Log msgResult, msgEvents)], events @ msgEvents,
                 msgData @ [(MsgTypeURL A msg, result_Data msgResult)]) m'))"

definition runMsgs ::
    "('db, 'm, 's, 'tx, 'msg, 'i, 'r) sdk_lib \<Rightarrow> ('db, 'm, 's, 'tx, 'msg, 'i, 'r) BaseApp \<Rightarrow> 's sdk_context
       \<Rightarrow> 'msg list \<Rightarrow> ('m, 's, Result) cached" where
  "runMsgs A app ctx msgs m =
     then_call (run_messages A app ctx 0 msgs ([], [], []) m) (\<lambda>((msgLogs, events, msgData), m').
       then_call (lift (map_err (\<lambda>e. ErrorWrap e ''failed to marshal tx data'') (Marshal_TxMsgData A msgData))) (\<lambda>data.
         give (\<lparr>result_Data = Some data, result_Log = trim_space (MessageLogs_String A msgLogs),
                result_Events = events\<rparr>, m')))"

text \<open>The ante handler runs on a cache of its own, which is written to \<open>ms\<close> when it succeeds.\<close>

definition run_ante ::
    "('db, 'm, 's, 'tx, 'msg, 'i, 'r) sdk_lib \<Rightarrow> ('db, 'm, 's, 'tx, 'msg, 'i, 'r) BaseApp \<Rightarrow> 's sdk_context
       \<Rightarrow> 'tx \<Rightarrow> bytes \<Rightarrow> ('m, 's, 's sdk_context \<times> Event list) cached" where
  "run_ante A app ctx tx txBytes ms =
     (case app_anteHandler app of
        None \<Rightarrow> give ((ctx, []), ms)
      | Some anteHandler \<Rightarrow>
          then_call (anteHandler (ctx\<lparr>ctx_events := []\<rparr>) tx False (cacheTxContext A ms txBytes)) (\<lambda>((newCtx, err), msCache).
            let ctx' = (case newCtx of None \<Rightarrow> ctx | Some c \<Rightarrow> c);
                events = ctx_events ctx'
            in case err of
                 Some e \<Rightarrow> fail e
               | None \<Rightarrow> give ((ctx', events), write_cache A msCache ms)))"

definition RunTx ::
    "('db, 'm, 's, 'tx, 'msg, 'i, 'r) sdk_lib \<Rightarrow> ('db, 'm, 's, 'tx, 'msg, 'i, 'r) BaseApp \<Rightarrow> 's stub \<Rightarrow> bytes
       \<Rightarrow> ('s, Result) call" where
  "RunTx A app stub txBytes =
     then_call (lift (app_txDecoder app txBytes)) (\<lambda>tx.
       then_call (getBlockHeader app) (\<lambda>header.
         let ms = new_cache_store A app;
             ctx = setupContext (NewContext header False) stub;
             msgs = Tx_GetMsgs A tx
         in then_call (lift (validateBasicTxMsgs A msgs)) (\<lambda>_.
              then_call (run_ante A app ctx tx txBytes ms) (\<lambda>((ctx', events), ms').
                then_call (runMsgs A app ctx' msgs (cacheTxContext A ms' txBytes)) (\<lambda>(result, msCache).
                  let result' = (if 0 < length events then result\<lparr>result_Events := events @ result_Events result\<rparr>
                                 else result)
                  in then_call (write_base A (write_cache A msCache ms')) (\<lambda>_. give result'))))))"

section \<open>Queries\<close>

definition splitPath :: "string \<Rightarrow> string list" where
  "splitPath requestPath =
     (let path = split_on CHR ''/'' requestPath
      in if 0 < length path \<and> path ! 0 = '''' then drop 1 path else path)"

definition gRPCErrorToSDKError :: "('db, 'm, 's, 'tx, 'msg, 'i, 'r) sdk_lib \<Rightarrow> error \<Rightarrow> error" where
  "gRPCErrorToSDKError A err =
     (case grpcstatus_FromError A err of
        None \<Rightarrow> ErrorWrap (ErrorRoot ''invalid request'') (error_string err)
      | Some NotFound \<Rightarrow> ErrorWrap (ErrorRoot ''key not found'') (error_string err)
      | Some InvalidArgument \<Rightarrow> ErrorWrap (ErrorRoot ''invalid request'') (error_string err)
      | Some FailedPrecondition \<Rightarrow> ErrorWrap (ErrorRoot ''invalid request'') (error_string err)
      | Some Unauthenticated \<Rightarrow> ErrorWrap (ErrorRoot ''unauthorized'') (error_string err)
      | Some OtherCode \<Rightarrow> ErrorWrap ErrUnknownRequest (error_string err))"

definition createQueryContext ::
    "('db, 'm, 's, 'tx, 'msg, 'i, 'r) sdk_lib \<Rightarrow> ('db, 'm, 's, 'tx, 'msg, 'i, 'r) BaseApp \<Rightarrow> 's sdk_context \<times> 'm" where
  "createQueryContext A app = (NewContext block_header_zero True, new_cache_store A app)"

text \<open>A query that runs on a cache, which is dropped; an error becomes an error response with the height.\<close>

definition query_response ::
    "(error \<Rightarrow> error) \<Rightarrow> RequestQuery \<Rightarrow> ('a \<Rightarrow> ResponseQuery) \<Rightarrow> ('s, 'a \<times> 'm) call \<Rightarrow> ('s, ResponseQuery) call" where
  "query_response w req f c s =
     (case c s of
        (Ok (a, _), t) \<Rightarrow> (Ok (f a), t)
      | (Err e, t) \<Rightarrow> (Ok ((QueryResult (w e))\<lparr>res_Height := req_Height req\<rparr>), t)
      | (Panic p, t) \<Rightarrow> (Panic p, t))"

definition handleQueryGRPC ::
    "('db, 'm, 's, 'tx, 'msg, 'i, 'r) sdk_lib \<Rightarrow> ('db, 'm, 's, 'tx, 'msg, 'i, 'r) BaseApp
       \<Rightarrow> ('m, 's, 'i, 'r) grpc_method \<Rightarrow> RequestQuery \<Rightarrow> ('s, ResponseQuery) call" where
  "handleQueryGRPC A app methodHandler req =
     (let (ctx, cacheMS) = createQueryContext A app
      in query_response (gRPCErrorToSDKError A) req (\<lambda>res. res)
           (grpc_handler A (interfaceRegistry (app_grpcQueryRouter app)) methodHandler ctx req cacheMS))"

definition handleQueryStore ::
    "('db, 's) kv_lib \<Rightarrow> ('db, 'm, 's, 'tx, 'msg, 'i, 'r) BaseApp \<Rightarrow> string list \<Rightarrow> RequestQuery \<Rightarrow> ('s, ResponseQuery) call" where
  "handleQueryStore L app path req =
     Store_Query L (app_cms app) (req\<lparr>req_Path := ''/'' @ join_with CHR ''/'' (drop 1 path)\<rparr>)"

definition handleQueryCustom ::
    "('db, 'm, 's, 'tx, 'msg, 'i, 'r) sdk_lib \<Rightarrow> ('db, 'm, 's, 'tx, 'msg, 'i, 'r) BaseApp \<Rightarrow> string list \<Rightarrow> RequestQuery
       \<Rightarrow> ('s, ResponseQuery) call" where
  "handleQueryCustom A app path req =
     (if length path < 2 \<or> path ! 1 = ''''
      then give (QueryResult (ErrorWrap ErrUnknownRequest ''no route for custom query specified''))
      else case app_queryRouter app (path ! 1) of
        None \<Rightarrow> give (QueryResult (ErrorWrap ErrUnknownRequest ''no custom querier found for route %s''))
      | Some querier \<Rightarrow>
          (let (ctx, cacheMS) = createQueryContext A app
           in query_response (\<lambda>e. e) req
                (\<lambda>resBytes. ResponseQuery_zero\<lparr>res_Height := req_Height req, res_Value := resBytes\<rparr>)
                (querier ctx (drop 2 path) req cacheMS)))"

definition App_Query ::
    "('db, 'm, 's, 'tx, 'msg, 'i, 'r) sdk_lib \<Rightarrow> ('db, 's) kv_lib \<Rightarrow> ('db, 'm, 's, 'tx, 'msg, 'i, 'r) BaseApp
       \<Rightarrow> RequestQuery \<Rightarrow> ('s, ResponseQuery) call" where
  "App_Query A L app req =
     (case GRPCQueryRouter_Route (app_grpcQueryRouter app) (req_Path req) of
        Some methodHandler \<Rightarrow> handleQueryGRPC A app methodHandler req
      | None \<Rightarrow>
          (let path = splitPath (req_Path req)
           in if length path = 0
              then give (QueryResult (ErrorWrap ErrUnknownRequest ''no query path provided''))
              else if path ! 0 = ''store'' then handleQueryStore L app path req
              else if path ! 0 = ''custom'' then handleQueryCustom A app path req
              else give (QueryResult (ErrorWrap ErrUnknownRequest ''unknown query path''))))"


section \<open>Lemmas\<close>

text \<open>Calls that leave the ledger as it is.\<close>

definition reads_only :: "('s, 'a) call \<Rightarrow> bool" where
  "reads_only c \<longleftrightarrow> (\<forall>s. snd (c s) = s)"

lemma reads_onlyD: "reads_only c \<Longrightarrow> c s = (r, t) \<Longrightarrow> t = s"
  by (metis reads_only_def snd_conv)

lemma reads_onlyI: "(\<And>s r t. c s = (r, t) \<Longrightarrow> t = s) \<Longrightarrow> reads_only c"
  by (metis reads_only_def surjective_pairing)

lemma reads_only_basic [simp, intro]: "reads_only (give a)" "reads_only (fail e)" "reads_only (lift r)" "reads_only (Pair r)"
  by (simp_all add: reads_only_def)

lemma reads_only_then [intro]:
  assumes "reads_only c" "\<And>a. reads_only (f a)"
  shows "reads_only (then_call c f)"
  unfolding reads_only_def
proof
  fix s
  obtain r t where c: "c s = (r, t)" by fastforce
  then have "t = s" by (rule reads_onlyD [OF assms(1)])
  with c assms(2) show "snd (then_call c f s) = s"
    by (cases r) (simp_all add: then_call_def reads_only_def)
qed

lemma reads_only_case_prod [intro]: "(\<And>a b. reads_only (f a b)) \<Longrightarrow> reads_only (case p of (a, b) \<Rightarrow> f a b)"
  by (cases p) simp

lemma reads_only_case_prod_app: "(\<And>a b. reads_only (f a b c)) \<Longrightarrow> reads_only ((case p of (a, b) \<Rightarrow> f a b) c)"
  by (cases p) simp

lemma reads_only_map_err [intro]: "reads_only c \<Longrightarrow> reads_only (map_err_call w c)"
  by (rule reads_onlyI) (auto simp: map_err_call_def dest: reads_onlyD split: prod.splits)

lemma reads_only_query_response [intro]: "reads_only c \<Longrightarrow> reads_only (query_response w req f c)"
  by (rule reads_onlyI)
    (auto simp: query_response_def dest: reads_onlyD split: prod.splits outcome.splits)

text \<open>An application whose handlers reach the ledger only through the caches they are given, or read it.\<close>

definition cached_app :: "('db, 'm, 's, 'tx, 'msg, 'i, 'r) BaseApp \<Rightarrow> bool" where
  "cached_app app \<longleftrightarrow>
     (\<forall>p. app_blockProvider app = Some p \<longrightarrow> reads_only p)
     \<and> (\<forall>ah. app_anteHandler app = Some ah \<longrightarrow> (\<forall>ctx tx sim m. reads_only (ah ctx tx sim m)))
     \<and> (\<forall>msg h. app_msgServiceRouter app msg = Some h \<longrightarrow> (\<forall>ctx msg m. reads_only (h ctx msg m)))
     \<and> (\<forall>route h. app_router app route = Some h \<longrightarrow> (\<forall>ctx msg m. reads_only (h ctx msg m)))"

lemma route_message_reads:
  assumes "cached_app app" "route_message A app msg = Ok (h, name)"
  shows "reads_only (h ctx msg' m)"
  using assms by (auto simp: route_message_def cached_app_def split: option.splits)

lemma then_lift_reads:
  assumes "\<And>a. r = Ok a \<Longrightarrow> reads_only (f a)"
  shows "reads_only (then_call (lift r) f)"
  using assms by (cases r) (auto simp: reads_only_def then_call_def)

lemma run_messages_reads:
  assumes "cached_app app"
  shows "reads_only (run_messages A app ctx i msgs acc m)"
proof (induction msgs arbitrary: i acc m)
  case Nil
  show ?case by simp
next
  case (Cons msg msgs)
  obtain l e d where acc: "acc = (l, e, d)" by (cases acc)
  have eq: "run_messages A app ctx i (msg # msgs) acc m =
      then_call (lift (route_message A app msg)) (\<lambda>(handler, eventMsgName).
       then_call (map_err_call (\<lambda>e. ErrorWrap e ''failed to execute message; message index: %d'') (handler ctx msg m))
         (\<lambda>(msgResult, m').
           let msgEvents = message_event eventMsgName # result_Events msgResult
           in run_messages A app ctx (i + 1) msgs
                (l @ [(word_of_nat i, result_Log msgResult, msgEvents)], e @ msgEvents,
                 d @ [(MsgTypeURL A msg, result_Data msgResult)]) m'))"
    unfolding acc by (rule ext) simp
  show ?case
    unfolding eq
  proof (rule then_lift_reads)
    fix hn
    assume "route_message A app msg = Ok hn"
    moreover obtain h name where "hn = (h, name)" by fastforce
    ultimately have "reads_only (h ctx msg m)" and "hn = (h, name)" using route_message_reads [OF assms] by auto
    then show "reads_only (case hn of (handler, eventMsgName) \<Rightarrow>
       then_call (map_err_call (\<lambda>e. ErrorWrap e ''failed to execute message; message index: %d'') (handler ctx msg m))
         (\<lambda>(msgResult, m').
           let msgEvents = message_event eventMsgName # result_Events msgResult
           in run_messages A app ctx (i + 1) msgs
                (l @ [(word_of_nat i, result_Log msgResult, msgEvents)], e @ msgEvents,
                 d @ [(MsgTypeURL A msg, result_Data msgResult)]) m'))"
      by (simp only: case_prod_conv Let_def) (intro reads_only_then reads_only_map_err reads_only_case_prod Cons.IH)
  qed
qed

lemma runMsgs_reads: "cached_app app \<Longrightarrow> reads_only (runMsgs A app ctx msgs m)"
  unfolding runMsgs_def
  by (intro reads_only_then reads_only_case_prod reads_only_case_prod_app reads_only_basic run_messages_reads)

lemma run_ante_reads:
  assumes "cached_app app"
  shows "reads_only (run_ante A app ctx tx txBytes m)"
proof (cases "app_anteHandler app")
  case None
  then show ?thesis by (simp add: run_ante_def)
next
  case (Some ah)
  with assms have "reads_only (ah c tx sim m')" for c sim m' by (simp add: cached_app_def)
  with Some show ?thesis
    by (simp only: run_ante_def option.case Let_def)
      (intro reads_only_then reads_only_case_prod, auto split: option.splits)
qed

lemma getBlockHeader_reads:
  assumes "cached_app app"
  shows "reads_only (getBlockHeader app)"
proof (cases "app_blockProvider app")
  case None
  then show ?thesis by (simp add: getBlockHeader_def)
next
  case (Some p)
  with assms have "reads_only p" by (simp add: cached_app_def)
  with Some show ?thesis
    by (simp only: getBlockHeader_def option.case) (intro reads_only_then reads_only_case_prod reads_only_basic)
qed


text \<open>
  What it means that messages have been executed, one after the other on one cache: each by the handler of
  its type, or else by the handler of its route, with a name for its event and with a result.
\<close>

inductive executed ::
    "('db, 'm, 's, 'tx, 'msg, 'i, 'r) sdk_lib \<Rightarrow> ('db, 'm, 's, 'tx, 'msg, 'i, 'r) BaseApp \<Rightarrow> 's sdk_context
       \<Rightarrow> 'msg list \<Rightarrow> (string \<times> Result) list \<Rightarrow> 'm \<times> 's \<Rightarrow> 'm \<times> 's \<Rightarrow> bool"
  for A app ctx where
  no_message: "executed A app ctx [] [] ms ms"
| by_service: "app_msgServiceRouter app msg = Some handler \<Longrightarrow> handler ctx msg m s = (Ok (r, m1), s1) \<Longrightarrow>
     executed A app ctx msgs rs (m1, s1) ms \<Longrightarrow> executed A app ctx (msg # msgs) ((MsgTypeURL A msg, r) # rs) (m, s) ms"
| by_route: "app_msgServiceRouter app msg = None \<Longrightarrow> LegacyMsg A msg = Some (route, name) \<Longrightarrow> app_router app route = Some handler \<Longrightarrow>
     handler ctx msg m s = (Ok (r, m1), s1) \<Longrightarrow>
     executed A app ctx msgs rs (m1, s1) ms \<Longrightarrow> executed A app ctx (msg # msgs) ((name, r) # rs) (m, s) ms"

inductive_cases executed_NilE: "executed A app ctx [] rs ms ms'"
inductive_cases executed_ConsE: "executed A app ctx (msg # msgs) rs ms ms'"

lemma executed_length: "executed A app ctx msgs rs ms ms' \<Longrightarrow> length rs = length msgs"
  by (induction rule: executed.induct) simp_all

text \<open>The events and the data of the executed messages, in order.\<close>

definition message_events :: "(string \<times> Result) list \<Rightarrow> Event list" where
  "message_events rs = concat (map (\<lambda>(name, r). message_event name # result_Events r) rs)"

definition message_data :: "('db, 'm, 's, 'tx, 'msg, 'i, 'r) sdk_lib \<Rightarrow> 'msg list \<Rightarrow> (string \<times> Result) list \<Rightarrow> (string \<times> slice) list" where
  "message_data A msgs rs = map2 (\<lambda>msg (name, r). (MsgTypeURL A msg, result_Data r)) msgs rs"

lemma map_err_call_Ok: "map_err_call w c s = (Ok a, t) \<longleftrightarrow> c s = (Ok a, t)"
  by (cases "c s") (auto simp: map_err_call_def map_err_Ok)

lemma executed_one:
  assumes "route_message A app msg = Ok (handler, name)" "handler ctx msg m s = (Ok (r, m1), s1)" "executed A app ctx msgs rs (m1, s1) ms"
  shows "executed A app ctx (msg # msgs) ((name, r) # rs) (m, s) ms"
  using assms by (auto simp: route_message_def split: option.splits intro: by_service by_route)

lemma run_messages_ok:
  assumes "run_messages A app ctx i msgs (l, e, d) m s = (Ok ((l', e', d'), m'), s')"
  shows "\<exists>rs. executed A app ctx msgs rs (m, s) (m', s') \<and> e' = e @ message_events rs \<and> d' = d @ message_data A msgs rs"
  using assms
proof (induction msgs arbitrary: i l e d m s)
  case Nil
  then show ?case by (auto intro: no_message simp: message_events_def message_data_def)
next
  case (Cons msg msgs)
  from Cons.prems obtain h name m1 s1 and r :: Result where h: "route_message A app msg = Ok (h, name)" "h ctx msg m s = (Ok (r, m1), s1)"
    and run: "run_messages A app ctx (i + 1) msgs
        (l @ [(word_of_nat i, result_Log r, message_event name # result_Events r)], e @ message_event name # result_Events r,
         d @ [(MsgTypeURL A msg, result_Data r)]) m1 s1 = (Ok ((l', e', d'), m'), s')"
    by (auto simp: then_call_Ok lift_def map_err_call_Ok Let_def)
  from Cons.IH [OF run] obtain rs where rs: "executed A app ctx msgs rs (m1, s1) (m', s')"
      "e' = (e @ message_event name # result_Events r) @ message_events rs"
      "d' = (d @ [(MsgTypeURL A msg, result_Data r)]) @ message_data A msgs rs"
    by blast
  with executed_one [OF h rs(1)] show ?case
    by (intro exI [of _ "(name, r) # rs"]) (simp add: message_events_def message_data_def)
qed

text \<open>A transaction up to the write to the ledger.\<close>

definition deliver ::
    "('db, 'm, 's, 'tx, 'msg, 'i, 'r) sdk_lib \<Rightarrow> ('db, 'm, 's, 'tx, 'msg, 'i, 'r) BaseApp \<Rightarrow> 's stub \<Rightarrow> bytes
       \<Rightarrow> ('s, Result \<times> 'm) call" where
  "deliver A app stub txBytes =
     then_call (lift (app_txDecoder app txBytes)) (\<lambda>tx.
       then_call (getBlockHeader app) (\<lambda>header.
         then_call (lift (validateBasicTxMsgs A (Tx_GetMsgs A tx))) (\<lambda>_.
           then_call (run_ante A app (setupContext (NewContext header False) stub) tx txBytes (new_cache_store A app))
             (\<lambda>((ctx', events), ms').
               then_call (runMsgs A app ctx' (Tx_GetMsgs A tx) (cacheTxContext A ms' txBytes)) (\<lambda>(result, msCache).
                 give (if 0 < length events then result\<lparr>result_Events := events @ result_Events result\<rparr> else result,
                       write_cache A msCache ms'))))))"

lemma deliver_reads: "cached_app app \<Longrightarrow> reads_only (deliver A app stub txBytes)"
  unfolding deliver_def
  by (intro reads_only_then reads_only_case_prod reads_only_case_prod_app reads_only_basic run_ante_reads runMsgs_reads
      getBlockHeader_reads)

lemma then_call_assoc: "then_call (then_call c f) g = then_call c (\<lambda>a. then_call (f a) g)"
  by (rule ext) (auto simp: then_call_def split: prod.splits outcome.splits)

lemma then_call_give: "then_call (give a) f = f a"
  by (rule ext) (simp add: then_call_def)

lemma RunTx_deliver:
  "RunTx A app stub txBytes =
     then_call (deliver A app stub txBytes) (\<lambda>(result, ms). then_call (write_base A ms) (\<lambda>_. give result))"
  unfolding RunTx_def deliver_def Let_def case_prod_unfold
  by (simp only: then_call_assoc then_call_give fst_conv snd_conv)


lemma RunTx_atomic:
  assumes "cached_app app" "RunTx A app stub txBytes s = (r, s')"
  shows "(r = Err e \<longrightarrow> s' = s \<or> (\<exists>ms. write_base A ms s = (Err e, s')))
    \<and> (\<forall>result. r = Ok result \<longrightarrow>
         (\<exists>ms. deliver A app stub txBytes s = (Ok (result, ms), s) \<and> write_base A ms s = (Ok (), s')))"
proof -
  obtain rd t where d: "deliver A app stub txBytes s = (rd, t)" by fastforce
  then have t: "t = s" by (rule reads_onlyD [OF deliver_reads [OF assms(1)]])
  show ?thesis
  proof (cases rd)
    case (Ok rm)
    obtain result ms where rm: "rm = (result, ms)" by fastforce
    obtain w s1 where w: "write_base A ms s = (w, s1)" by fastforce
    with assms(2) d t Ok rm have "then_call (write_base A ms) (\<lambda>_. give result) s = (r, s')"
      by (simp add: RunTx_deliver then_call_step(1) [of "deliver A app stub txBytes" s "(result, ms)" s])
    with w have "case w of Ok _ \<Rightarrow> r = Ok result \<and> s1 = s' | Err e' \<Rightarrow> r = Err e' \<and> s1 = s' | Panic p \<Rightarrow> r = Panic p"
      by (auto simp: then_call_def split: outcome.splits)
    with d t Ok rm w show ?thesis by (auto split: outcome.splits)
  next
    case (Err e')
    with assms(2) d t show ?thesis by (auto simp: RunTx_deliver then_call_def)
  next
    case (Panic p)
    with assms(2) d t show ?thesis by (auto simp: RunTx_deliver then_call_def)
  qed
qed

lemma validateBasicTxMsgs_ok: "validateBasicTxMsgs A msgs = Ok u \<Longrightarrow> msgs \<noteq> []"
  by (auto simp: validateBasicTxMsgs_def)

lemma runMsgs_ok:
  assumes "runMsgs A app ctx msgs m s = (Ok (result, m'), s')"
  shows "\<exists>rs. executed A app ctx msgs rs (m, s) (m', s') \<and> result_Events result = message_events rs
    \<and> (\<exists>data. Marshal_TxMsgData A (message_data A msgs rs) = Ok data \<and> result_Data result = Some data)"
proof -
  from assms obtain l e d data s1 where run: "run_messages A app ctx 0 msgs ([], [], []) m s = (Ok ((l, e, d), m'), s')"
    and data: "Marshal_TxMsgData A d = Ok data"
    and result: "result = \<lparr>result_Data = Some data, result_Log = trim_space (MessageLogs_String A l), result_Events = e\<rparr>"
    unfolding runMsgs_def by (auto simp: outcome_simps split: prod.splits)
  from run_messages_ok [OF run] data result show ?thesis by auto
qed

text \<open>
  What it means that the ante handler has passed a transaction on, with a context, events and a cache. Its
  context is the given one when it returns none; without a handler there are no events.
\<close>

definition passed_ante ::
    "('db, 'm, 's, 'tx, 'msg, 'i, 'r) sdk_lib \<Rightarrow> ('db, 'm, 's, 'tx, 'msg, 'i, 'r) BaseApp \<Rightarrow> 's sdk_context \<Rightarrow> 'tx \<Rightarrow> bytes \<Rightarrow> 'm \<times> 's
       \<Rightarrow> 's sdk_context \<Rightarrow> Event list \<Rightarrow> 'm \<times> 's \<Rightarrow> bool" where
  "passed_ante A app ctx tx txBytes ms ctx' events ms' \<longleftrightarrow>
     (case app_anteHandler app of
        None \<Rightarrow> ctx' = ctx \<and> events = [] \<and> ms' = ms
      | Some anteHandler \<Rightarrow> \<exists>newCtx msCache.
          anteHandler (ctx\<lparr>ctx_events := []\<rparr>) tx False (cacheTxContext A (fst ms) txBytes) (snd ms) = (Ok ((newCtx, None), msCache), snd ms')
          \<and> ctx' = (case newCtx of None \<Rightarrow> ctx | Some c \<Rightarrow> c) \<and> events = ctx_events ctx' \<and> fst ms' = write_cache A msCache (fst ms))"

lemma run_ante_ok:
  assumes "run_ante A app ctx tx txBytes m s = (Ok ((ctx', events), m'), s')"
  shows "passed_ante A app ctx tx txBytes (m, s) ctx' events (m', s')"
proof (cases "app_anteHandler app")
  case None
  with assms show ?thesis by (simp add: run_ante_def passed_ante_def)
next
  case (Some ah)
  with assms obtain newCtx err msCache t where
    ah: "ah (ctx\<lparr>ctx_events := []\<rparr>) tx False (cacheTxContext A m txBytes) s = (Ok ((newCtx, err), msCache), t)"
    and rest: "(case err of Some e \<Rightarrow> fail e | None \<Rightarrow> give ((case newCtx of None \<Rightarrow> ctx | Some c \<Rightarrow> c,
      ctx_events (case newCtx of None \<Rightarrow> ctx | Some c \<Rightarrow> c)), write_cache A msCache m)) t = (Ok ((ctx', events), m'), s')"
    unfolding run_ante_def Some option.case then_call_Ok Let_def by auto
  show ?thesis
  proof (cases err)
    case None
    with rest have "ctx' = (case newCtx of None \<Rightarrow> ctx | Some c \<Rightarrow> c)" "events = ctx_events ctx'" "m' = write_cache A msCache m" "t = s'"
      unfolding None option.case give_def by auto
    with Some ah None show ?thesis unfolding passed_ante_def by auto
  next
    case (Some e)
    with rest show ?thesis by (simp add: fail_def)
  qed
qed

lemma passed_ante_reads:
  assumes "cached_app app" "passed_ante A app ctx tx txBytes (m, s) ctx' events (m', s')"
  shows "s' = s"
proof (cases "app_anteHandler app")
  case None
  with assms(2) show ?thesis by (simp add: passed_ante_def)
next
  case (Some ah)
  with assms(1) have "reads_only (ah c tx sim m0)" for c sim m0 by (simp add: cached_app_def)
  with assms(2) Some show ?thesis by (auto simp: passed_ante_def dest: reads_onlyD)
qed

lemma deliver_ok:
  assumes "deliver A app stub txBytes s = (Ok (result, ms), s')"
  shows "\<exists>tx header ctx events m1 s0 s1 rs m2. app_txDecoder app txBytes = Ok tx \<and> Tx_GetMsgs A tx \<noteq> []
    \<and> getBlockHeader app s = (Ok header, s0)
    \<and> passed_ante A app (setupContext (NewContext header False) stub) tx txBytes (new_cache_store A app, s0) ctx events (m1, s1)
    \<and> executed A app ctx (Tx_GetMsgs A tx) rs (cacheTxContext A m1 txBytes, s1) (m2, s') \<and> ms = write_cache A m2 m1
    \<and> result_Events result = events @ message_events rs
    \<and> (\<exists>data. Marshal_TxMsgData A (message_data A (Tx_GetMsgs A tx) rs) = Ok data \<and> result_Data result = Some data)"
proof -
  from assms obtain tx header s0 ctx events m1 s1 result' m2 where tx: "app_txDecoder app txBytes = Ok tx"
    and hd: "getBlockHeader app s = (Ok header, s0)" and v: "validateBasicTxMsgs A (Tx_GetMsgs A tx) = Ok ()"
    and ante: "run_ante A app (setupContext (NewContext header False) stub) tx txBytes (new_cache_store A app) s0 = (Ok ((ctx, events), m1), s1)"
    and run: "runMsgs A app ctx (Tx_GetMsgs A tx) (cacheTxContext A m1 txBytes) s1 = (Ok (result', m2), s')"
    and res: "result = (if 0 < length events then result'\<lparr>result_Events := events @ result_Events result'\<rparr> else result')"
    and ms: "ms = write_cache A m2 m1"
    unfolding deliver_def by (clarsimp simp: then_call_Ok simp del: length_greater_0_conv)
  from runMsgs_ok [OF run] obtain rs where rs: "executed A app ctx (Tx_GetMsgs A tx) rs (cacheTxContext A m1 txBytes, s1) (m2, s')"
    "result_Events result' = message_events rs"
    "\<exists>data. Marshal_TxMsgData A (message_data A (Tx_GetMsgs A tx) rs) = Ok data \<and> result_Data result' = Some data" by blast
  have "result_Events result = events @ message_events rs" "result_Data result = result_Data result'" using res rs(2) by auto
  with tx validateBasicTxMsgs_ok [OF v] hd run_ante_ok [OF ante] rs(1,3) ms show ?thesis by metis
qed

lemma join_drop_store:
  "splitPath (''/store/'' @ rest) = ''store'' # split_on CHR ''/'' rest"
proof -
  have "split_on CHR ''/'' (''/store/'' @ rest) = [] # split_on CHR ''/'' (''store'' @ CHR ''/'' # rest)" by simp
  also have "split_on CHR ''/'' (''store'' @ CHR ''/'' # rest) = ''store'' # split_on CHR ''/'' rest"
    by (rule split_on_append) simp
  finally show ?thesis by (simp add: splitPath_def)
qed

text \<open>Registration of a service.\<close>

lemma register_loop:
  assumes "fold_outcome (\<lambda>rts (name, h). let fqName = pre @ name
     in if rts fqName \<noteq> None then Panic p else Ok (rts(fqName \<mapsto> h))) rts0 ms = Ok rts"
  shows "rts = rts0 ++ map_of (map (\<lambda>(name, h). (pre @ name, h)) ms)
    \<and> distinct (map fst ms) \<and> (\<forall>name \<in> fst ` set ms. rts0 (pre @ name) = None)"
  using assms
proof (induction ms arbitrary: rts0)
  case (Cons x ms)
  obtain name h where x: "x = (name, h)" by fastforce
  let ?r = "rts0(pre @ name \<mapsto> h)"
  from Cons.prems x have new: "rts0 (pre @ name) = None"
    and run: "fold_outcome (\<lambda>rts (name, h). let fqName = pre @ name
     in if rts fqName \<noteq> None then Panic p else Ok (rts(fqName \<mapsto> h))) ?r ms = Ok rts"
    by (auto simp: Let_def split: if_splits)
  have IH: "rts = ?r ++ map_of (map (\<lambda>(name, h). (pre @ name, h)) ms)"
      "distinct (map fst ms)" "\<forall>n \<in> fst ` set ms. ?r (pre @ n) = None"
    using Cons.IH [OF run] by (auto simp del: fun_upd_apply)
  then have "name \<notin> fst ` set ms" by auto
  then have "map_of (map (\<lambda>(name, h). (pre @ name, h)) ms) (pre @ name) = None"
    by (force simp: map_of_eq_None_iff)
  with IH new x show ?case
    by (auto simp: fun_eq_iff map_add_def split: option.splits if_splits)
qed simp

lemma RegisterService_ok:
  assumes "RegisterService qrt sd = Ok qrt'"
  shows "routes qrt' = routes qrt ++ map_of (map (\<lambda>(name, h). (''/'' @ ServiceName sd @ ''/'' @ name, h)) (Methods sd))
    \<and> distinct (map fst (Methods sd))
    \<and> (\<forall>name \<in> fst ` set (Methods sd). routes qrt (''/'' @ ServiceName sd @ ''/'' @ name) = None)
    \<and> serviceData qrt' = serviceData qrt @ [sd]"
proof -
  from assms obtain rts where "fold_outcome (\<lambda>rts (name, h). let fqName = (''/'' @ ServiceName sd @ ''/'') @ name
     in if rts fqName \<noteq> None then Panic ''gRPC query service has already been registered'' else Ok (rts(fqName \<mapsto> h)))
     (routes qrt) (Methods sd) = Ok rts" and q: "qrt' = qrt\<lparr>routes := rts, serviceData := serviceData qrt @ [sd]\<rparr>"
    by (auto simp: RegisterService_def and_then_Ok)
  from register_loop [OF this(1)] q show ?thesis by simp
qed

section \<open>Properties\<close>

text \<open>
  C4: Transactions are atomic. If the handlers reach the ledger only through the caches they are given,
  a transaction that returns an error, at whatever step, leaves the ledger exactly as it was, including
  the effects of the ante handler and of messages that had succeeded before; one that succeeds writes
  the cache with all effects to the ledger in one step at the end. (Writing back has no error
  result.)
\<close>

theorem run_tx_atomic:
  assumes "cached_app app" "\<And>ms s e. fst (write_base A ms s) \<noteq> Err e"
    and "RunTx A app stub txBytes s = (r, s')"
  shows "case r of
      Err _ \<Rightarrow> s' = s
    | Ok result \<Rightarrow> \<exists>ms. deliver A app stub txBytes s = (Ok (result, ms), s) \<and> write_base A ms s = (Ok (), s')
    | Panic _ \<Rightarrow> True"
proof (cases r)
  case (Err e)
  with RunTx_atomic [OF assms(1,3), of e] assms(2) show ?thesis by (auto; metis fst_conv)
next
  case (Ok result)
  with RunTx_atomic [OF assms(1,3)] show ?thesis by simp
qed simp

text \<open>Messages are numbers, of which 0 fails and others are stored; a cache is a list of writes.\<close>

definition demo_sdk :: "(unit, iterItem list, fake_ledger, nat list, nat, unit, unit) sdk_lib" where
  "demo_sdk = \<lparr>cachemulti_NewStore = (\<lambda>_ _ _ _ _. []), cache_of = (\<lambda>m. m), write_cache = (\<lambda>c _. c),
     write_base = (\<lambda>m s. (Ok (), snd (for_each (\<lambda>(k, v). DB_Set MakeFakeStub k v) m s))),
     cache_TracingEnabled = (\<lambda>_. False), cache_SetTracingContext = (\<lambda>_ m. m), tx_hash = (\<lambda>_. ''''),
     Tx_GetMsgs = (\<lambda>tx. tx), Msg_ValidateBasic = (\<lambda>_. Ok ()), Msg_GetSigners = (\<lambda>_. []), MsgTypeURL = (\<lambda>_. ''/m''),
     LegacyMsg = (\<lambda>_. None), Marshal_TxMsgData = (\<lambda>_. Ok []), MessageLogs_String = (\<lambda>_. ''''),
     grpcstatus_FromError = (\<lambda>_. None), protoCodec_Unmarshal = (\<lambda>_. Ok ()), UnpackInterfaces = Ok,
     protoCodec_Marshal = (\<lambda>_. Ok [])\<rparr>"

definition demo_handler :: "(iterItem list, fake_ledger, nat) handler" where
  "demo_handler ctx msg m =
     (if msg = 0 then fail (ErrorNew ''message failed'')
      else give (\<lparr>result_Data = None, result_Log = '''', result_Events = []\<rparr>, m @ [([0x73], Some [word_of_nat msg])]))"

definition demo_app :: "(unit, iterItem list, fake_ledger, nat list, nat, unit, unit) BaseApp" where
  "demo_app = SetBlockProvider (Some (give (1, 1000)))
     (NewBaseApp (\<lambda>_. None) (\<lambda>_. None) (\<lambda>_. Some demo_handler) ''demo'' () (\<lambda>b. Ok (map unat b)))"

lemma demo_app_cached: "cached_app demo_app"
  by (auto simp: cached_app_def demo_app_def SetBlockProvider_def NewBaseApp_def demo_handler_def)

lemma demo_write: "fst (write_base demo_sdk ms s) \<noteq> Err e"
  by (simp add: demo_sdk_def)

lemmas demo_eval = RunTx_def demo_app_def demo_sdk_def demo_handler_def SetBlockProvider_def NewBaseApp_def
  getBlockHeader_def validateBasicTxMsgs_def run_ante_def runMsgs_def route_message_def map_err_call_def then_call_def
  new_cache_store_def CacheMultiStore_def cacheTxContext_def Let_def

theorem run_tx_atomic_witness:
  "\<exists>e. RunTx demo_sdk demo_app MakeFakeStub [5, 0] demo_db_ledger = (Err e, demo_db_ledger)"
proof -
  obtain e s' where run: "RunTx demo_sdk demo_app MakeFakeStub [5, 0] demo_db_ledger = (Err e, s')"
    by (simp add: demo_eval)
  from run_tx_atomic [OF demo_app_cached demo_write run] run show ?thesis by simp
qed

text \<open>
  C28: A transaction that succeeds has at least one message, has executed every one of them, and reports
  exactly what happened. The ante handler, if there is one, has passed the transaction on; then each
  message was given to the handler of its type or of its route, in order, on the cache that the one
  before left. The events of the result are those of the context of the ante handler, then for each
  message the action event with its name followed by the events that its handler returned; the data of
  the result is the encoding of the data that the handlers returned; and the ledger has what was written
  back from the cache after the last message.
\<close>

theorem tx_result_events:
  assumes "cached_app app" "RunTx A app stub txBytes s = (Ok result, s')"
  shows "\<exists>tx header ctx events m1 rs m2. app_txDecoder app txBytes = Ok tx \<and> Tx_GetMsgs A tx \<noteq> []
    \<and> getBlockHeader app s = (Ok header, s)
    \<and> passed_ante A app (setupContext (NewContext header False) stub) tx txBytes (new_cache_store A app, s) ctx events (m1, s)
    \<and> executed A app ctx (Tx_GetMsgs A tx) rs (cacheTxContext A m1 txBytes, s) (m2, s)
    \<and> result_Events result = events @ message_events rs
    \<and> (\<exists>data. Marshal_TxMsgData A (message_data A (Tx_GetMsgs A tx) rs) = Ok data \<and> result_Data result = Some data)
    \<and> write_base A (write_cache A m2 m1) s = (Ok (), s')"
proof -
  from RunTx_atomic [OF assms, of undefined] obtain ms where
      d: "deliver A app stub txBytes s = (Ok (result, ms), s)" and w: "write_base A ms s = (Ok (), s')"
    by auto
  from deliver_ok [OF d] obtain tx header ctx events m1 s0 s1 rs m2 where
    *: "app_txDecoder app txBytes = Ok tx" "Tx_GetMsgs A tx \<noteq> []" "getBlockHeader app s = (Ok header, s0)"
      "passed_ante A app (setupContext (NewContext header False) stub) tx txBytes (new_cache_store A app, s0) ctx events (m1, s1)"
      "executed A app ctx (Tx_GetMsgs A tx) rs (cacheTxContext A m1 txBytes, s1) (m2, s)" "ms = write_cache A m2 m1"
      "result_Events result = events @ message_events rs"
      "\<exists>data. Marshal_TxMsgData A (message_data A (Tx_GetMsgs A tx) rs) = Ok data \<and> result_Data result = Some data"
    by blast
  have "s0 = s" by (rule reads_onlyD [OF getBlockHeader_reads [OF assms(1)] *(3)])
  moreover have "s1 = s0" by (rule passed_ante_reads [OF assms(1) *(4)])
  ultimately show ?thesis using * w by blast
qed

text \<open>An application whose ante handler and whose message handler report an event.\<close>

definition told :: "nat \<Rightarrow> Event" where
  "told n = \<lparr>ev_Type = ''told'', ev_Attributes = [([word_of_nat n], [])]\<rparr>"

definition telling_app :: "(unit, iterItem list, fake_ledger, nat list, nat, unit, unit) BaseApp" where
  "telling_app = demo_app\<lparr>app_msgServiceRouter := (\<lambda>_. Some (\<lambda>ctx msg m.
       give (\<lparr>result_Data = None, result_Log = '''', result_Events = [told msg]\<rparr>, m))),
     app_anteHandler := Some (\<lambda>ctx tx sim m. give ((Some (ctx\<lparr>ctx_events := [told 0]\<rparr>), None), m))\<rparr>"

lemma telling_app_cached: "cached_app telling_app"
  by (auto simp: cached_app_def telling_app_def demo_app_def SetBlockProvider_def NewBaseApp_def)

lemma telling_executed:
  assumes "executed demo_sdk telling_app ctx msgs rs ms ms'"
  shows "message_events rs = concat (map (\<lambda>msg. [message_event ''/m'', told msg]) msgs)"
  using assms by (induction rule: executed.induct) (auto simp: message_events_def telling_app_def demo_sdk_def)

theorem tx_result_events_witness:
  "\<exists>result s'. RunTx demo_sdk telling_app MakeFakeStub [5, 6] demo_db_ledger = (Ok result, s')
     \<and> result_Events result = [told 0, message_event ''/m'', told 5, message_event ''/m'', told 6]"
proof -
  obtain result s' where run: "RunTx demo_sdk telling_app MakeFakeStub [5, 6] demo_db_ledger = (Ok result, s')"
    by (simp add: telling_app_def demo_eval)
  from tx_result_events [OF telling_app_cached run] obtain tx header ctx events m1 rs m2 where
      tx: "app_txDecoder telling_app [5, 6] = Ok tx"
    and ante: "passed_ante demo_sdk telling_app (setupContext (NewContext header False) MakeFakeStub) tx [5, 6]
        (new_cache_store demo_sdk telling_app, demo_db_ledger) ctx events (m1, demo_db_ledger)"
    and ex: "executed demo_sdk telling_app ctx (Tx_GetMsgs demo_sdk tx) rs (cacheTxContext demo_sdk m1 [5, 6], demo_db_ledger) (m2, demo_db_ledger)"
    and ev: "result_Events result = events @ message_events rs"
    by blast
  have "Tx_GetMsgs demo_sdk tx = [5, 6]"
    using tx by (simp add: telling_app_def demo_app_def SetBlockProvider_def NewBaseApp_def demo_sdk_def)
  with telling_executed [OF ex] have "message_events rs = [message_event ''/m'', told 5, message_event ''/m'', told 6]" by simp
  moreover have "events = [told 0]" using ante by (auto simp: passed_ante_def telling_app_def)
  ultimately show ?thesis using run ev by auto
qed

text \<open>
  A store query through the application reaches the multi-store unchanged: unless a gRPC route
  has that very path, the path \<open>/store/rest\<close> is answered by the multi-store's own query of \<open>/rest\<close>,
  whatever separators \<open>rest\<close> contains.
\<close>

theorem store_query_path:
  assumes "routes (app_grpcQueryRouter app) (''/store/'' @ rest) = None"
  shows "App_Query A L app (req\<lparr>req_Path := ''/store/'' @ rest\<rparr>) =
    Store_Query L (app_cms app) (req\<lparr>req_Path := ''/'' @ rest\<rparr>)"
proof -
  have "splitPath (req_Path (req\<lparr>req_Path := ''/store/'' @ rest\<rparr>)) = ''store'' # split_on CHR ''/'' rest"
    using join_drop_store by simp
  moreover have "GRPCQueryRouter_Route (app_grpcQueryRouter app) (req_Path (req\<lparr>req_Path := ''/store/'' @ rest\<rparr>)) = None"
    using assms by (simp add: GRPCQueryRouter_Route_def)
  ultimately show ?thesis
    by (simp only: App_Query_def option.case Let_def) (simp add: handleQueryStore_def)
qed

theorem store_query_path_witness:
  "App_Query demo_sdk demo_kv_lib demo_app \<lparr>req_Data = [1], req_Path = ''/store/ibc/key'', req_Height = 0, req_Prove = False\<rparr> =
   Store_Query demo_kv_lib (app_cms demo_app) \<lparr>req_Data = [1], req_Path = ''/ibc/key'', req_Height = 0, req_Prove = False\<rparr>"
  using store_query_path [of demo_app "''ibc/key''" demo_sdk demo_kv_lib
      "\<lparr>req_Data = [1], req_Path = '''', req_Height = 0, req_Prove = False\<rparr>"]
  by (simp add: demo_app_def SetBlockProvider_def NewBaseApp_def NewGRPCQueryRouter_def)

end
