(* ===== verification/Ante.thy ===== *)
theory Ante
  imports Base_App
begin

text \<open>
  Authentication of transactions: \<open>chaincode/x/auth\<close>. The signer of a transaction has to be the creator of
  the Fabric transaction that carries it, whose address is a truncated hash of its identity. The hash and
  the text form of an address are arguments.
\<close>

definition MakeCreatorAddressWithBytes :: "(bytes \<Rightarrow> bytes) \<Rightarrow> bytes \<Rightarrow> bytes outcome" where
  "MakeCreatorAddressWithBytes sha256 creator = Ok (take 20 (sha256 creator))"

text \<open>The encoding of an \<open>msp.SerializedIdentity\<close> is an argument.\<close>

definition MakeCreatorAddressWithSerializedIdentity ::
    "(bytes \<Rightarrow> bytes) \<Rightarrow> ('sid \<Rightarrow> bytes outcome) \<Rightarrow> 'sid \<Rightarrow> bytes outcome" where
  "MakeCreatorAddressWithSerializedIdentity sha256 marshal sid =
     and_then (marshal sid) (MakeCreatorAddressWithBytes sha256)"

text \<open>The two nested loops of \<open>getSigners\<close>, with the table of addresses seen.\<close>

fun collect_signers :: "(bytes \<Rightarrow> string) \<Rightarrow> bytes list \<Rightarrow> (string \<Rightarrow> bool) \<Rightarrow> bytes list \<Rightarrow> bytes list \<times> (string \<Rightarrow> bool)" where
  "collect_signers addr_String signers seen [] = (signers, seen)"
| "collect_signers addr_String signers seen (addr # addrs) =
     (if \<not> seen (addr_String addr)
      then collect_signers addr_String (signers @ [addr]) (seen(addr_String addr := True)) addrs
      else collect_signers addr_String signers seen addrs)"

definition getSigners :: "(bytes \<Rightarrow> string) \<Rightarrow> ('msg \<Rightarrow> bytes list) \<Rightarrow> 'msg list \<Rightarrow> bytes list" where
  "getSigners addr_String get_signers msgs =
     fst (fold (\<lambda>msg (signers, seen). collect_signers addr_String signers seen (get_signers msg))
       msgs ([], \<lambda>_. False))"

text \<open>
  A failed check returns the context it was given together with the error, as Go does; \<open>next\<close> is the
  rest of the chain of ante handlers.
\<close>

definition AnteHandle ::
    "('db, 'm, 's, 'tx, 'msg, 'i, 'r) sdk_lib \<Rightarrow> (bytes \<Rightarrow> bytes) \<Rightarrow> (bytes \<Rightarrow> string) \<Rightarrow> ('m, 's, 'tx) ante
       \<Rightarrow> ('m, 's, 'tx) ante" where
  "AnteHandle A sha256 addr_String next ctx tx simulate m =
     (if ctx_recheckTx ctx then next ctx tx simulate m
      else then_call (lift (StubFromContext ctx)) (\<lambda>stub s.
        case GetCreator stub s of
          (Panic p, t) \<Rightarrow> (Panic p, t)
        | (Err e, t) \<Rightarrow> (Ok ((Some ctx, Some e), m), t)
        | (Ok creator, t) \<Rightarrow>
            (case MakeCreatorAddressWithBytes sha256 (slice_bytes creator) of
               Panic p \<Rightarrow> (Panic p, t)
             | Err e \<Rightarrow> (Ok ((Some ctx, Some e), m), t)
             | Ok addr \<Rightarrow>
                 (let signers = getSigners addr_String (Msg_GetSigners A) (Tx_GetMsgs A tx)
                  in if length signers \<noteq> 1
                     then (Ok ((Some ctx, Some (ErrorNew ''the number of signers must be 1'')), m), t)
                     else if signers ! 0 \<noteq> addr
                     then (Ok ((Some ctx, Some (ErrorNew ''got unexpected signer: expected=%X actual=%X'')), m), t)
                     else next ctx tx simulate m t))))"

section \<open>Lemmas\<close>

lemma collect_signers_spec:
  assumes "inj addr_String" "\<And>x. seen (addr_String x) \<longleftrightarrow> x \<in> set signers"
    and "collect_signers addr_String signers seen addrs = (signers', seen')"
  shows "set signers' = set signers \<union> set addrs \<and> (distinct signers \<longrightarrow> distinct signers')
    \<and> (\<forall>x. seen' (addr_String x) \<longleftrightarrow> x \<in> set signers')"
  using assms(2,3)
proof (induction addrs arbitrary: signers seen)
  case (Cons addr addrs)
  show ?case
  proof (cases "seen (addr_String addr)")
    case True
    with Cons.prems(1) [of addr] have "addr \<in> set signers" by simp
    moreover have "collect_signers addr_String signers seen addrs = (signers', seen')"
      using Cons.prems(2) True by simp
    ultimately show ?thesis using Cons.IH [OF Cons.prems(1)] by (simp add: insert_absorb)
  next
    case False
    with Cons.prems(1) [of addr] have new: "addr \<notin> set signers" by simp
    have "(seen(addr_String addr := True)) (addr_String x) \<longleftrightarrow> x \<in> set (signers @ [addr])" for x
      using Cons.prems(1) [of x] injD [OF assms(1), of x addr] by auto
    moreover have "collect_signers addr_String (signers @ [addr]) (seen(addr_String addr := True)) addrs = (signers', seen')"
      using Cons.prems(2) False by simp
    ultimately have "set signers' = set (signers @ [addr]) \<union> set addrs \<and> (distinct (signers @ [addr]) \<longrightarrow> distinct signers')
        \<and> (\<forall>x. seen' (addr_String x) \<longleftrightarrow> x \<in> set signers')"
      by (rule Cons.IH)
    with new show ?thesis by simp
  qed
qed simp

lemma getSigners_loop:
  assumes "inj addr_String" "\<And>x. seen (addr_String x) \<longleftrightarrow> x \<in> set signers" "distinct signers"
    and "fold (\<lambda>msg (signers, seen). collect_signers addr_String signers seen (get_signers msg)) msgs (signers, seen) = (signers', seen')"
  shows "set signers' = set signers \<union> (\<Union>msg \<in> set msgs. set (get_signers msg)) \<and> distinct signers'"
  using assms(2-4)
proof (induction msgs arbitrary: signers seen)
  case (Cons msg msgs)
  obtain signers1 seen1 where c: "collect_signers addr_String signers seen (get_signers msg) = (signers1, seen1)"
    by fastforce
  from collect_signers_spec [OF assms(1) Cons.prems(1) c] Cons.prems(2) have
      "set signers1 = set signers \<union> set (get_signers msg)" "distinct signers1"
      "\<And>x. seen1 (addr_String x) \<longleftrightarrow> x \<in> set signers1"
    by auto
  with Cons.IH [of seen1 signers1] Cons.prems(3) c show ?case by (auto simp: Un_assoc)
qed simp

lemma getSigners_spec:
  assumes "inj addr_String"
  shows "set (getSigners addr_String get_signers msgs) = (\<Union>msg \<in> set msgs. set (get_signers msg))
    \<and> distinct (getSigners addr_String get_signers msgs)"
proof -
  obtain signers seen where f: "fold (\<lambda>msg (signers, seen). collect_signers addr_String signers seen (get_signers msg))
      msgs ([], \<lambda>_. False) = (signers, seen)"
    by fastforce
  from getSigners_loop [OF assms _ _ f] f show ?thesis by (simp add: getSigners_def)
qed

lemma single_signer:
  assumes "distinct xs"
  shows "length xs = Suc 0 \<and> xs ! 0 = a \<longleftrightarrow> set xs = {a}"
proof
  assume "set xs = {a}"
  moreover from this assms have "length xs = 1" using distinct_card [of xs] by simp
  ultimately show "length xs = Suc 0 \<and> xs ! 0 = a" by (cases xs) auto
next
  assume "length xs = Suc 0 \<and> xs ! 0 = a"
  then show "set xs = {a}" by (cases xs) auto
qed

section \<open>Properties\<close>

text \<open>
  C27: A transaction passes the identity check exactly when its messages have the creator's address as
  their only signer. In that case the rest of the ante handlers decides; otherwise the transaction
  fails with an error and the store is left alone. The number of messages and how often each of them
  names the signer do not matter.
\<close>

theorem ante_accepts_creator_only:
  assumes "inj addr_String" "\<not> ctx_recheckTx ctx" "ctx_stub ctx = Some S" "GetCreator S s = (Ok creator, t)"
  shows "if (\<Union>msg \<in> set (Tx_GetMsgs A tx). set (Msg_GetSigners A msg)) = {take 20 (sha256 (slice_bytes creator))}
    then AnteHandle A sha256 addr_String next ctx tx simulate m s = next ctx tx simulate m t
    else \<exists>e. AnteHandle A sha256 addr_String next ctx tx simulate m s = (Ok ((Some ctx, Some e), m), t)"
proof -
  let ?signers = "getSigners addr_String (Msg_GetSigners A) (Tx_GetMsgs A tx)"
  let ?addr = "take 20 (sha256 (slice_bytes creator))"
  have iff: "(length ?signers = 1 \<and> ?signers ! 0 = ?addr) \<longleftrightarrow>
      (\<Union>msg \<in> set (Tx_GetMsgs A tx). set (Msg_GetSigners A msg)) = {?addr}"
    using getSigners_spec [OF assms(1), of "Msg_GetSigners A" "Tx_GetMsgs A tx"] single_signer [of ?signers ?addr] by simp
  have "AnteHandle A sha256 addr_String next ctx tx simulate m s =
      (if length ?signers \<noteq> 1 then (Ok ((Some ctx, Some (ErrorNew ''the number of signers must be 1'')), m), t)
       else if ?signers ! 0 \<noteq> ?addr
       then (Ok ((Some ctx, Some (ErrorNew ''got unexpected signer: expected=%X actual=%X'')), m), t)
       else next ctx tx simulate m t)"
    using assms(2-4) by (simp add: AnteHandle_def StubFromContext_def then_call_def MakeCreatorAddressWithBytes_def)
  with iff show ?thesis by (auto split: if_splits)
qed

definition accept_all :: "('m, 's, 'tx) ante" where
  "accept_all ctx tx simulate m = give ((Some ctx, None), m)"

theorem ante_accepts_creator_only_witness:
  "AnteHandle (demo_sdk\<lparr>Msg_GetSigners := \<lambda>n. [replicate 20 1]\<rparr>) (\<lambda>_. replicate 32 1) string_of_bytes accept_all
     (ContextWithStub (NewContext block_header_zero False) MakeFakeStub) [3, 4] False [] (empty_ledger None) =
   (Ok ((Some (ContextWithStub (NewContext block_header_zero False) MakeFakeStub), None), []), empty_ledger None)"
proof -
  let ?ctx = "ContextWithStub (NewContext block_header_zero False) MakeFakeStub"
  let ?A = "demo_sdk\<lparr>Msg_GetSigners := \<lambda>n. [replicate 20 1]\<rparr>"
  have i: "inj string_of_bytes" by (metis bytes_of_string_of_bytes injI)
  have c: "\<not> ctx_recheckTx ?ctx" "ctx_stub ?ctx = Some MakeFakeStub"
    by (simp_all add: ContextWithStub_def NewContext_def)
  have g: "GetCreator MakeFakeStub (empty_ledger None) = (Ok None, empty_ledger None)" by (simp add: empty_ledger_def)
  from ante_accepts_creator_only [OF i c g, of ?A "[3, 4]" "\<lambda>_. replicate 32 1" accept_all False "[]"]
  show ?thesis by (simp add: demo_sdk_def accept_all_def)
qed

end
