(* ===== verification/Varint.thy ===== *)
theory Varint
  imports Go_Text
begin

unbundle bit_operations_syntax

text \<open>
  The variable-length integers of the protobuf wire format, as the generated code of
  \<open>chaincode/commitment/types.pb.go\<close> and \<open>light-clients/fabric/types/fabric.pb.go\<close> sizes, writes and
  reads them. The functions that write go backwards through a buffer; \<open>varint\<close> is the reference
  encoding they are shown to produce and the decoding loop to read back.
\<close>

section \<open>Variable-length integers\<close>

text \<open>\<open>math/bits.Len64\<close>\<close>

fun nat_len :: "nat \<Rightarrow> nat" where
  "nat_len n = (if n = 0 then 0 else Suc (nat_len (n div 2)))"

declare nat_len.simps [simp del]

definition len64 :: "u64 \<Rightarrow> nat" where
  "len64 x = nat_len (unat x)"

definition sov :: "u64 \<Rightarrow> nat" where
  "sov x = (len64 (x OR 1) + 6) div 7"

text \<open>A byte of a buffer; an index out of range panics.\<close>

definition store :: "bytes \<Rightarrow> int \<Rightarrow> byte \<Rightarrow> bytes outcome" where
  "store d i b =
     (if 0 \<le> i \<and> i < int (length d) then Ok (d[nat i := b]) else Panic ''index out of range'')"

lemma unat_drop_bit_7: "unat (drop_bit 7 v :: u64) = unat v div 128"
  by (simp add: drop_bit_eq_div unat_div)

lemma drop_bit_7_less: "128 \<le> v \<Longrightarrow> unat (drop_bit 7 v :: u64) < unat v"
  by (simp add: unat_drop_bit_7 word_le_nat_alt)

text \<open>The loop of \<open>encodeVarintTypes\<close> and \<open>encodeVarintFabric\<close>.\<close>

function varint_loop :: "bytes \<Rightarrow> int \<Rightarrow> u64 \<Rightarrow> bytes outcome" where
  "varint_loop d off v =
     (if 128 \<le> v
      then and_then (store d off (ucast (v AND 0x7F OR 0x80)))
             (\<lambda>d'. varint_loop d' (off + 1) (drop_bit 7 v))
      else store d off (ucast v))"
  by pat_completeness auto
termination
  by (relation "measure (\<lambda>(d, off, v). unat v)") (simp_all add: drop_bit_7_less)

declare varint_loop.simps [simp del]

definition encode_varint :: "bytes \<Rightarrow> int \<Rightarrow> u64 \<Rightarrow> (bytes \<times> int) outcome" where
  "encode_varint d offset v =
     (let base = offset - int (sov v)
      in and_then (varint_loop d base v) (\<lambda>d'. Ok (d', base)))"

text \<open>The reference encoding: the bytes that the loop writes, in order.\<close>

function varint :: "u64 \<Rightarrow> bytes" where
  "varint v = (if 128 \<le> v then ucast (v AND 0x7F OR 0x80) # varint (drop_bit 7 v) else [ucast v])"
  by pat_completeness auto
termination
  by (relation "measure unat") (simp_all add: drop_bit_7_less)

declare varint.simps [simp del]

text \<open>
  The decoding loop that the generated code repeats for every tag, length and integer field. The
  accumulator has the width of the field it is for.
\<close>

function decode_varint_loop ::
    "bytes \<Rightarrow> nat \<Rightarrow> nat \<Rightarrow> 'w::len word \<Rightarrow> ('w word \<times> nat) outcome" where
  "decode_varint_loop d i shift acc =
     (if 64 \<le> shift then Err (ErrorNew ''proto: integer overflow'')
      else if length d \<le> i then Err (ErrorRoot ''unexpected EOF'')
      else and_then (index d i) (\<lambda>b.
        let acc' = acc OR push_bit shift (ucast (b AND 0x7F))
        in if b < 0x80 then Ok (acc', Suc i)
           else decode_varint_loop d (Suc i) (shift + 7) acc'))"
  by pat_completeness auto
termination
  by (relation "measure (\<lambda>(d, i, shift, acc). 64 - shift)") auto

declare decode_varint_loop.simps [simp del]

definition decode_varint :: "bytes \<Rightarrow> nat \<Rightarrow> ('w::len word \<times> nat) outcome" where
  "decode_varint d i = decode_varint_loop d i 0 0"

subsection \<open>The size function counts the bytes written\<close>

lemma varint_not_Nil [simp]: "varint v \<noteq> []"
  by (subst varint.simps) simp

lemma nat_len_div: "0 < n div 2 ^ k \<Longrightarrow> nat_len n = nat_len (n div 2 ^ k) + k"
proof (induction k)
  case 0
  then show ?case by simp
next
  case (Suc k)
  have "n div 2 ^ Suc k = n div 2 ^ k div 2"
    by (metis div_mult2_eq power_Suc2)
  moreover from this Suc.prems have "0 < n div 2 ^ k" by (auto intro: ccontr)
  ultimately show ?case
    using Suc.IH by (simp add: nat_len.simps [of "n div 2 ^ k"])
qed

lemma nat_len_le: "nat_len n \<le> k \<longleftrightarrow> n < 2 ^ k"
proof (induction k arbitrary: n)
  case 0
  show ?case by (simp add: nat_len.simps [of n])
next
  case (Suc k)
  show ?case by (subst nat_len.simps) (auto simp: Suc.IH less_mult_imp_div_less)
qed

lemma or_one_half: "(n OR 1) div 2 = n div (2 :: nat)"
proof -
  have "n OR 1 = n + of_bool (even n)" by (rule or_one_eq)
  then show ?thesis by (cases "even n") (simp_all del: One_nat_def)
qed

lemma nat_len_or_one: "0 < n \<Longrightarrow> nat_len (n OR 1) = nat_len n"
proof -
  assume "0 < n"
  then have "nat_len n = Suc (nat_len (n div 2))" by (subst nat_len.simps) simp
  moreover have "n OR 1 \<noteq> 0" unfolding or_one_eq using \<open>0 < n\<close> by simp
  then have "nat_len (n OR 1) = Suc (nat_len ((n OR 1) div 2))"
    by (subst nat_len.simps) (simp del: One_nat_def)
  ultimately show ?thesis by (simp only: or_one_half)
qed

lemma length_varint: "length (varint v) = sov v"
proof (induction v rule: varint.induct)
  case (1 v)
  show ?case
  proof (cases "128 \<le> v")
    case True
    have d: "drop_bit 7 (v OR 1) = drop_bit 7 v"
      by (rule bit_word_eqI) (auto simp: bit_simps)
    have p: "0 < unat (drop_bit 7 v)"
      using True by (simp add: unat_drop_bit_7 word_le_nat_alt div_greater_zero_iff)
    let ?w = "drop_bit 7 v"
    have "unat (v OR 1) div 2 ^ 7 = unat ?w"
      using unat_drop_bit_7 [of "v OR 1"] by (simp only: d) simp
    then have "nat_len (unat (v OR 1)) = nat_len (unat ?w) + 7"
      using nat_len_div [of "unat (v OR 1)" 7] p by simp
    moreover have "nat_len (unat (?w OR 1)) = nat_len (unat ?w)"
      using p nat_len_or_one by (simp add: unsigned_or_eq)
    ultimately have "sov v = Suc (sov ?w)"
      by (simp add: sov_def len64_def)
    with 1 True show ?thesis by (subst varint.simps) simp
  next
    case False
    have u: "unat (v OR 1) = unat v + of_bool (even (unat v))"
      unfolding unsigned_or_eq unsigned_1 by (rule or_one_eq)
    have "unat v < 128" using False by (simp add: word_le_nat_alt)
    then have "unat v + of_bool (even (unat v)) < 2 ^ 7" by (cases "unat v = 127") auto
    with u have "nat_len (unat (v OR 1)) \<le> 7" by (simp add: nat_len_le)
    moreover have "nat_len (unat (v OR 1)) \<noteq> 0"
      using u nat_len_le [of "unat (v OR 1)" 0] by (auto intro: ccontr)
    ultimately have "sov v = 1" by (simp add: sov_def len64_def)
    with False show ?thesis by (subst varint.simps) simp
  qed
qed

subsection \<open>Decoding an encoded integer\<close>

lemma decode_varint_loop_step:
  assumes "drop i d = b # rest" and "shift < 64"
  shows "decode_varint_loop d i shift acc =
    (if b < 0x80 then Ok (acc OR push_bit shift (ucast (b AND 0x7F)), Suc i)
     else decode_varint_loop d (Suc i) (shift + 7) (acc OR push_bit shift (ucast (b AND 0x7F))))"
  using drop_Cons_nth [OF assms(1)] assms(2)
  by (subst decode_varint_loop.simps) (simp add: index_def Let_def)

lemma byte_less_128: "(b :: byte) < 0x80 \<longleftrightarrow> \<not> bit b 7"
proof -
  have "bit b 7 \<longleftrightarrow> odd (unat b div 128)"
    using bit_unsigned_iff [of b 7, where ?'a=nat] by (simp add: bit_iff_odd)
  moreover have "unat b div 128 < 2" using unat_byte_less [of b] by (simp add: less_mult_imp_div_less)
  ultimately have "bit b 7 \<longleftrightarrow> unat b div 128 = 1" by (metis One_nat_def less_2_cases odd_one even_zero)
  then show ?thesis
    using \<open>unat b div 128 < 2\<close> by (auto simp: word_less_nat_alt div_eq_0_iff less_2_cases_iff)
qed

lemma small_bits: "\<not> (128 :: u64) \<le> v \<Longrightarrow> 7 \<le> n \<Longrightarrow> \<not> bit v n"
proof -
  assume a: "\<not> (128 :: u64) \<le> v" and n: "7 \<le> n"
  have "unat v < 2 ^ 7" using a by (simp add: word_le_nat_alt)
  then have "take_bit 7 (unat v) = unat v" by (simp add: take_bit_nat_eq_self_iff)
  then show ?thesis using n
    using bit_unsigned_iff [of v n, where ?'a=nat] bit_take_bit_iff [of 7 "unat v" n] by simp
qed

lemma mask_7: "(0x7F :: 'a::len word) = mask 7"
  by (simp add: mask_numeral)

lemma low_bits_byte: "(ucast (v AND 0x7F OR 0x80 :: u64) :: byte) AND 0x7F = ucast (v AND 0x7F)"
proof (rule bit_word_eqI)
  fix n
  assume "n < LENGTH(8)"
  then have "n < 8" by simp
  then consider "n = 0" | "n = 1" | "n = 2" | "n = 3" | "n = 4" | "n = 5" | "n = 6" | "n = 7"
    by linarith
  then show "bit ((ucast (v AND 0x7F OR 0x80 :: u64) :: byte) AND 0x7F) n
      = bit (ucast (v AND 0x7F) :: byte) n"
    by cases (simp_all add: bit_simps)
qed

lemma push_bit_split:
  "push_bit s (ucast (ucast (v AND 0x7F :: u64) :: byte)) OR push_bit (s + 7) (ucast (drop_bit 7 v))
     = (push_bit s (ucast v) :: 'w::len word)"
proof (rule bit_word_eqI)
  fix n assume n: "n < LENGTH('w)"
  show "bit (push_bit s (ucast (ucast (v AND 0x7F :: u64) :: byte)) OR push_bit (s + 7) (ucast (drop_bit 7 v)) :: 'w word) n
     = bit (push_bit s (ucast v) :: 'w::len word) n"
  proof (cases "s + 7 \<le> n")
    case True
    then have "7 + (n - (s + 7)) = n - s" by simp
    with True n show ?thesis unfolding mask_7 by (auto simp: bit_simps intro!: arg_cong [where f = "bit v"])
  next
    case False
    then have "s \<le> n \<Longrightarrow> n - s < 7" by linarith
    with False n show ?thesis unfolding mask_7 by (auto simp: bit_simps)
  qed
qed

lemma continuation_byte: "\<not> (ucast (v AND 0x7F OR 0x80 :: u64) :: byte) < 0x80"
  unfolding byte_less_128 by (simp add: bit_simps)

lemma last_byte:
  assumes "\<not> (128 :: u64) \<le> v"
  shows "(ucast v :: byte) < 0x80" "ucast ((ucast v :: byte) AND 0x7F) = (ucast v :: 'w::len word)"
proof -
  note hi = small_bits [OF assms]
  have "\<not> bit v 7" by (rule hi) simp
  then show "(ucast v :: byte) < 0x80" unfolding byte_less_128 by (simp only: bit_unsigned_iff) simp
  show "ucast ((ucast v :: byte) AND 0x7F) = (ucast v :: 'w::len word)"
  proof (rule bit_word_eqI)
    fix n assume n: "n < LENGTH('w)"
    show "bit (ucast ((ucast v :: byte) AND 0x7F) :: 'w word) n = bit (ucast v :: 'w word) n"
    proof (cases "n < 7")
      case True
      then show ?thesis using n unfolding mask_7 by (simp add: bit_simps)
    next
      case False
      then have "\<not> bit v n" using hi by simp
      then show ?thesis using n by (simp add: bit_simps)
    qed
  qed
qed

lemma decode_varint_loop_varint:
  assumes "drop i d = varint v @ rest" and "shift < 64" and "unat v < 2 ^ (64 - shift)"
  shows "decode_varint_loop d i shift acc
    = Ok ((acc :: 'w::len word) OR push_bit shift (ucast v), i + length (varint v))"
  using assms
proof (induction v arbitrary: i shift acc rule: varint.induct)
  case (1 v)
  show ?case
  proof (cases "128 \<le> v")
    case True
    let ?b = "ucast (v AND 0x7F OR 0x80) :: byte"
    let ?acc = "acc OR push_bit shift (ucast (?b AND 0x7F)) :: 'w word"
    have e: "varint v = ?b # varint (drop_bit 7 v)"
      using True by (subst varint.simps) simp
    then have d: "drop i d = ?b # varint (drop_bit 7 v) @ rest"
      using "1.prems"(1) by (simp only: append_Cons)
    then have d': "drop (Suc i) d = varint (drop_bit 7 v) @ rest" by (rule drop_Suc_eq)
    have nb: "\<not> ?b < 0x80" by (rule continuation_byte)
    have "(2 :: nat) ^ 7 \<le> unat v" using True by (simp add: word_le_nat_alt)
    then have "(2 :: nat) ^ 7 < 2 ^ (64 - shift)" using "1.prems"(3) by linarith
    then have "7 < 64 - shift" by (rule power_less_imp_less_exp [rotated]) simp
    then have s7: "shift + 7 < 64" and "64 - shift = (64 - (shift + 7)) + 7" by simp_all
    then have "unat v < 2 ^ (64 - (shift + 7)) * 2 ^ 7"
      using "1.prems"(3) by (simp only: power_add)
    then have "unat (drop_bit 7 v) < 2 ^ (64 - (shift + 7))"
      by (simp only: unat_drop_bit_7 less_mult_imp_div_less) simp
    then have "decode_varint_loop d (Suc i) (shift + 7) ?acc
        = Ok (?acc OR push_bit (shift + 7) (ucast (drop_bit 7 v)), Suc i + length (varint (drop_bit 7 v)))"
      by (rule "1.IH" [OF True d' s7])
    moreover have "?acc OR push_bit (shift + 7) (ucast (drop_bit 7 v)) = acc OR push_bit shift (ucast v)"
      by (simp only: low_bits_byte or.assoc push_bit_split)
    ultimately show ?thesis
      using decode_varint_loop_step [OF d "1.prems"(2), of acc] nb by (simp only: e if_False) simp
  next
    case False
    then have e: "varint v = [ucast v]" by (subst varint.simps) simp
    then have "drop i d = ucast v # rest" using "1.prems"(1) by simp
    then show ?thesis
      using decode_varint_loop_step [OF _ "1.prems"(2), of i d "ucast v" rest acc]
        last_byte(1) [OF False] last_byte(2) [OF False, where ?'w = 'w] by (simp only: e if_True) simp
  qed
qed

lemma nat_len_bound: "n < 2 ^ k \<Longrightarrow> nat_len n \<le> k"
proof (induction n arbitrary: k rule: nat_len.induct)
  case (1 n)
  show ?case
  proof (cases "n = 0")
    case True
    then show ?thesis by (simp add: nat_len.simps)
  next
    case False
    with "1.prems" obtain j where "k = Suc j" by (cases k) auto
    with False "1.IH" [of j] "1.prems" show ?thesis by (simp add: nat_len.simps [of n])
  qed
qed

lemma sov_bound: "sov v \<le> 10"
proof -
  have "len64 (v OR 1) \<le> 64"
    unfolding len64_def using unsigned_less [of "v OR 1", where ?'a = nat] by (intro nat_len_bound) simp
  then show ?thesis by (simp add: sov_def)
qed

lemma decode_varint_varint:
  assumes "drop i d = varint v @ rest"
  shows "decode_varint d i = Ok (ucast v :: 'w::len word, i + length (varint v))"
proof -
  have "unat v < 2 ^ (64 - 0)" using unsigned_less [of v, where ?'a = nat] by simp
  from decode_varint_loop_varint [OF assms _ this, of 0]
  show ?thesis by (simp add: decode_varint_def)
qed

lemma decode_varint_loop_bounds:
  "decode_varint_loop d i shift acc = Ok (v, j) \<Longrightarrow> i < j \<and> j \<le> length d"
proof (induction d i shift acc rule: decode_varint_loop.induct)
  case (1 d i shift acc)
  show ?case
  proof (cases "64 \<le> shift \<or> length d \<le> i")
    case True
    with "1.prems" show ?thesis
      by (subst (asm) decode_varint_loop.simps) (auto split: if_splits)
  next
    case False
    then have i: "index d i = Ok (d ! i)" "i < length d" by (auto simp: index_def)
    show ?thesis
    proof (cases "d ! i < 0x80")
      case True
      with "1.prems" i False show ?thesis
        by (subst (asm) decode_varint_loop.simps) (simp add: Let_def)
    next
      case nl: False
      with "1.prems" i False
      have "decode_varint_loop d (Suc i) (shift + 7)
              (acc OR push_bit shift (ucast (d ! i AND 0x7F))) = Ok (v, j)"
        by (subst (asm) decode_varint_loop.simps) (simp add: Let_def)
      from "1.IH" [OF _ _ i(1) refl nl this] False show ?thesis by auto
    qed
  qed
qed

lemma decode_varint_bounds: "decode_varint d i = Ok (v, j) \<Longrightarrow> i < j \<and> j \<le> length d"
  unfolding decode_varint_def by (rule decode_varint_loop_bounds)

lemma decode_varint_loop_not_panics: "\<not> panics (decode_varint_loop d i shift acc)"
proof (induction d i shift acc rule: decode_varint_loop.induct)
  case (1 d i shift acc)
  show ?case
  proof (cases "64 \<le> shift \<or> length d \<le> i")
    case True
    then show ?thesis by (subst decode_varint_loop.simps) auto
  next
    case False
    then have i: "index d i = Ok (d ! i)" by (auto simp: index_def)
    from False "1.IH" [OF _ _ i refl] show ?thesis
      by (subst decode_varint_loop.simps) (simp add: Let_def i)
  qed
qed

lemma decode_varint_not_panics [simp]: "\<not> panics (decode_varint d i)"
  by (simp add: decode_varint_def decode_varint_loop_not_panics)

end
