(* ===== verification/Wire.thy ===== *)
theory Wire
  imports Varint
begin

unbundle bit_operations_syntax

text \<open>
  The protobuf wire format as the generated code of \<open>chaincode/commitment/types.pb.go\<close> and
  \<open>light-clients/fabric/types/fabric.pb.go\<close> reads and writes it: the buffers that
  \<open>MarshalToSizedBuffer\<close> fills from the end, the loop over fields of \<open>Unmarshal\<close>, and the skipping of
  unknown fields. The two generated files repeat the same code for every message; the functions
  here are that code once, with what differs between messages as arguments.
\<close>

named_theorems wire_simps \<open>marshalling steps as block writes\<close>

section \<open>Buffers filled from the end\<close>

text \<open>
  A cursor is the buffer \<open>dAtA\<close> and the index \<open>i\<close> down to which it has been written.
\<close>

type_synonym cursor = "bytes \<times> int"

text \<open>\<open>i--; dAtA[i] = b\<close>\<close>

definition put_byte :: "byte \<Rightarrow> cursor \<Rightarrow> cursor outcome" where
  "put_byte b = (\<lambda>(d, i). and_then (store d (i - 1) b) (\<lambda>d'. Ok (d', i - 1)))"

text \<open>\<open>i = encodeVarint(dAtA, i, v)\<close>\<close>

definition put_varint :: "u64 \<Rightarrow> cursor \<Rightarrow> cursor outcome" where
  "put_varint v = (\<lambda>(d, i). encode_varint d i v)"

text \<open>\<open>i -= len(bs); copy(dAtA[i:], bs)\<close>\<close>

definition put_bytes :: "bytes \<Rightarrow> cursor \<Rightarrow> cursor outcome" where
  "put_bytes bs = (\<lambda>(d, i).
     let j = i - int (length bs)
     in if 0 \<le> j \<and> j \<le> int (length d)
        then Ok (take (nat j) d @ take (length d - nat j) bs @ drop (nat j + length bs) d, j)
        else Panic ''slice bounds out of range'')"

text \<open>An integer field: nothing when the value is zero.\<close>

definition put_varint_field :: "byte \<Rightarrow> u64 \<Rightarrow> cursor \<Rightarrow> cursor outcome" where
  "put_varint_field tag v c = (if v \<noteq> 0 then and_then (put_varint v c) (put_byte tag) else Ok c)"

text \<open>One length-prefixed element, as the loop over a repeated field writes it.\<close>

definition put_element :: "byte \<Rightarrow> bytes \<Rightarrow> cursor \<Rightarrow> cursor outcome" where
  "put_element tag bs c =
     and_then (put_bytes bs c) (\<lambda>c. and_then (put_varint (word_of_nat (length bs)) c) (put_byte tag))"

text \<open>A string or bytes field: nothing when it is empty.\<close>

definition put_bytes_field :: "byte \<Rightarrow> bytes \<Rightarrow> cursor \<Rightarrow> cursor outcome" where
  "put_bytes_field tag bs c = (if 0 < length bs then put_element tag bs c else Ok c)"

text \<open>
  An embedded message: its \<open>MarshalToSizedBuffer\<close> is called on \<open>dAtA[:i]\<close> and returns the number of
  bytes it has written at the end of that slice.
\<close>

definition put_message_field ::
    "byte \<Rightarrow> (bytes \<Rightarrow> (bytes \<times> nat) outcome) \<Rightarrow> cursor \<Rightarrow> cursor outcome" where
  "put_message_field tag to_sized = (\<lambda>(d, i).
     if 0 \<le> i \<and> i \<le> int (length d)
     then and_then (to_sized (take (nat i) d)) (\<lambda>(d', n).
            and_then (put_varint (word_of_nat n) (d' @ drop (nat i) d, i - int n)) (put_byte tag))
     else Panic ''slice bounds out of range'')"

text \<open>A repeated field is written from its last element to its first.\<close>

fun put_repeated :: "('a \<Rightarrow> cursor \<Rightarrow> cursor outcome) \<Rightarrow> 'a list \<Rightarrow> cursor \<Rightarrow> cursor outcome" where
  "put_repeated put [] c = Ok c"
| "put_repeated put (x # xs) c = and_then (put_repeated put xs c) (put x)"

text \<open>A field that is a pointer: nothing when it is \<open>nil\<close>.\<close>

fun put_optional :: "('a \<Rightarrow> cursor \<Rightarrow> cursor outcome) \<Rightarrow> 'a option \<Rightarrow> cursor \<Rightarrow> cursor outcome" where
  "put_optional put None c = Ok c"
| "put_optional put (Some x) c = put x c"

text \<open>A boolean field: the byte 1 when it is true, nothing otherwise.\<close>

definition put_bool_field :: "byte \<Rightarrow> bool \<Rightarrow> cursor \<Rightarrow> cursor outcome" where
  "put_bool_field tag b c = (if b then and_then (put_byte 1 c) (put_byte tag) else Ok c)"

text \<open>The fields of a message are written in turn, the last one first.\<close>

fun put_all :: "(cursor \<Rightarrow> cursor outcome) list \<Rightarrow> cursor \<Rightarrow> cursor outcome" where
  "put_all [] c = Ok c"
| "put_all (p # ps) c = and_then (p c) (put_all ps)"

text \<open>\<open>return len(dAtA) - i, nil\<close>, with the buffer the caller sees.\<close>

definition sized_buffer :: "(cursor \<Rightarrow> cursor outcome) \<Rightarrow> bytes \<Rightarrow> (bytes \<times> nat) outcome" where
  "sized_buffer body d =
     and_then (body (d, int (length d))) (\<lambda>(d', i). Ok (d', nat (int (length d') - i)))"

text \<open>The method \<open>Marshal\<close> of every message.\<close>

definition marshal_with ::
    "('m \<Rightarrow> nat) \<Rightarrow> ('m \<Rightarrow> bytes \<Rightarrow> (bytes \<times> nat) outcome) \<Rightarrow> 'm \<Rightarrow> bytes outcome" where
  "marshal_with msg_size to_sized m =
     and_then (to_sized m (replicate (msg_size m) 0)) (\<lambda>(d, n). Ok (take n d))"

subsection \<open>Every write is a block write\<close>

definition fits :: "nat \<Rightarrow> cursor \<Rightarrow> bool" where
  "fits n = (\<lambda>(d, i). int n \<le> i \<and> i \<le> int (length d))"

definition emit :: "bytes \<Rightarrow> cursor \<Rightarrow> cursor" where
  "emit xs = (\<lambda>(d, i).
     (take (nat i - length xs) d @ xs @ drop (nat i) d, i - int (length xs)))"

lemma fits_start [simp]: "fits n (d, int (length d)) \<longleftrightarrow> n \<le> length d"
  by (simp add: fits_def)

lemma fits_mono: "fits n c \<Longrightarrow> m \<le> n \<Longrightarrow> fits m c"
  by (auto simp: fits_def)

lemma emit_at:
  "emit xs (d, int j + int (length xs)) = (take j d @ xs @ drop (j + length xs) d, int j)"
proof -
  have "nat (int j + int (length xs)) = j + length xs" by (simp add: nat_add_distrib)
  then show ?thesis by (simp add: emit_def)
qed

lemma fits_at: "fits n (d, int j) \<longleftrightarrow> n \<le> j \<and> j \<le> length d"
  by (simp add: fits_def)

lemma fitsE:
  assumes "fits n c"
  obtains d j where "c = (d, int j + int n)" "j + n \<le> length d"
proof (cases c)
  case (Pair d k)
  with assms have "int n \<le> k" "k \<le> int (length d)" by (simp_all add: fits_def)
  then have "c = (d, int (nat (k - int n)) + int n)" "nat (k - int n) + n \<le> length d"
    using Pair by auto
  then show ?thesis by (rule that)
qed

lemma emit_Nil [simp]: "fits 0 c \<Longrightarrow> emit [] c = c"
  using emit_at [of "[]"] by (elim fitsE) simp

lemma fits_emit:
  assumes "fits (n + length xs) c"
  shows "fits n (emit xs c)"
proof -
  from assms obtain d j where c: "c = (d, int j + int (n + length xs))" "j + (n + length xs) \<le> length d"
    by (rule fitsE)
  then show ?thesis using emit_at [of xs d "j + n"] by (simp add: fits_def add.assoc)
qed

lemma emit_emit:
  assumes "fits (length xs + length ys) c"
  shows "emit xs (emit ys c) = emit (xs @ ys) c"
proof -
  from assms obtain d j where c: "c = (d, int j + int (length xs + length ys))"
      "j + (length xs + length ys) \<le> length d"
    by (rule fitsE)
  let ?d = "take (j + length xs) d @ ys @ drop (j + length xs + length ys) d"
  from c have "emit xs (emit ys c) = emit xs (?d, int j + int (length xs))"
    using emit_at [of ys d "j + length xs"] by (simp add: add.assoc)
  also have "\<dots> = emit (xs @ ys) c"
    using c(2) emit_at [of "xs @ ys" d j]
    by (simp add: emit_at c(1) add.assoc)
  finally show ?thesis .
qed

lemma put_byte_emit:
  assumes "fits 1 c"
  shows "put_byte b c = Ok (emit [b] c)"
proof -
  from assms obtain d j where "c = (d, int j + int 1)" "j + 1 \<le> length d" by (rule fitsE)
  then show ?thesis
    using emit_at [of "[b]" d j]
    by (simp add: put_byte_def store_def upd_conv_take_nth_drop)
qed

lemma varint_loop_block:
  "off + length (varint v) \<le> length d \<Longrightarrow>
   varint_loop d (int off) v = Ok (take off d @ varint v @ drop (off + length (varint v)) d)"
proof (induction v arbitrary: d off rule: varint.induct)
  case (1 v)
  show ?case
  proof (cases "128 \<le> v")
    case False
    with "1.prems" show ?thesis
      by (simp add: varint.simps [of v] varint_loop.simps [of d "int off" v] store_def
          upd_conv_take_nth_drop)
  next
    case True
    let ?b = "ucast (v AND 0x7F OR 0x80) :: byte" and ?w = "drop_bit 7 v"
    have v: "varint v = ?b # varint ?w" using True by (subst varint.simps) simp
    from v "1.prems" have off: "Suc off + length (varint ?w) \<le> length (d[off := ?b])" "off < length d"
      by auto
    have "varint_loop d (int off) v = varint_loop (d[off := ?b]) (int (Suc off)) ?w"
      using True off(2) by (subst varint_loop.simps) (simp add: store_def add.commute)
    also note "1.IH" [OF True off(1)]
    finally show ?thesis
      using off by (simp add: v upd_conv_take_nth_drop add.commute)
  qed
qed

lemma put_varint_emit:
  assumes "fits (length (varint v)) c"
  shows "put_varint v c = Ok (emit (varint v) c)"
proof -
  from assms obtain d j where "c = (d, int j + int (length (varint v)))" "j + length (varint v) \<le> length d"
    by (rule fitsE)
  then show ?thesis
    using varint_loop_block [of j v d]
    by (simp add: put_varint_def encode_varint_def emit_at Let_def length_varint [symmetric])
qed

lemma put_bytes_emit:
  assumes "fits (length bs) c"
  shows "put_bytes bs c = Ok (emit bs c)"
proof -
  from assms obtain d j where "c = (d, int j + int (length bs))" "j + length bs \<le> length d"
    by (rule fitsE)
  then show ?thesis by (simp add: put_bytes_def emit_at Let_def)
qed

subsection \<open>Reference encodings of the fields\<close>

definition enc_varint :: "byte \<Rightarrow> u64 \<Rightarrow> bytes" where
  "enc_varint tag v = (if v = 0 then [] else tag # varint v)"

definition enc_element :: "byte \<Rightarrow> bytes \<Rightarrow> bytes" where
  "enc_element tag bs = tag # varint (word_of_nat (length bs)) @ bs"

definition enc_bytes :: "byte \<Rightarrow> bytes \<Rightarrow> bytes" where
  "enc_bytes tag bs = (if bs = [] then [] else enc_element tag bs)"

text \<open>\<open>1 + l + sov(uint64(l))\<close>\<close>

definition element_size :: "nat \<Rightarrow> nat" where
  "element_size l = 1 + l + sov (word_of_nat l)"

definition enc_bool :: "byte \<Rightarrow> bool \<Rightarrow> bytes" where
  "enc_bool tag b = (if b then [tag, 1] else [])"

definition enc_repeated :: "('a \<Rightarrow> bytes) \<Rightarrow> 'a list \<Rightarrow> bytes" where
  "enc_repeated e xs = concat (map e xs)"

definition enc_optional :: "('a \<Rightarrow> bytes) \<Rightarrow> 'a option \<Rightarrow> bytes" where
  "enc_optional e x = (case x of None \<Rightarrow> [] | Some y \<Rightarrow> e y)"

text \<open>What the fields of the several kinds add to the result of \<open>Size\<close>.\<close>

definition bytes_size :: "nat \<Rightarrow> nat" where
  "bytes_size l = (if 0 < l then element_size l else 0)"

definition varint_size :: "u64 \<Rightarrow> nat" where
  "varint_size v = (if v \<noteq> 0 then 1 + sov v else 0)"

definition optional_size :: "('a \<Rightarrow> nat) \<Rightarrow> 'a option \<Rightarrow> nat" where
  "optional_size f x = (case x of None \<Rightarrow> 0 | Some y \<Rightarrow> element_size (f y))"

definition repeated_size :: "('a \<Rightarrow> nat) \<Rightarrow> 'a list \<Rightarrow> nat" where
  "repeated_size f xs = sum_list (map (\<lambda>x. element_size (f x)) xs)"

lemma length_enc_element: "length (enc_element tag bs) = element_size (length bs)"
  by (simp add: enc_element_def element_size_def length_varint)

lemma length_enc_bytes: "length (enc_bytes tag bs) = bytes_size (length bs)"
  by (simp add: enc_bytes_def length_enc_element bytes_size_def)

lemma length_enc_varint: "length (enc_varint tag v) = varint_size v"
  by (simp add: enc_varint_def length_varint varint_size_def)

lemma length_enc_bool: "length (enc_bool tag b) = (if b then 2 else 0)"
  by (simp add: enc_bool_def)

lemma length_enc_optional:
  "(\<And>x. length (e x) = f x) \<Longrightarrow>
   length (enc_optional (\<lambda>x. enc_element tag (e x)) o') = optional_size f o'"
  by (simp add: enc_optional_def optional_size_def length_enc_element split: option.splits)

lemma length_enc_repeated:
  "(\<And>x. length (e x) = f x) \<Longrightarrow>
   length (enc_repeated (\<lambda>x. enc_element tag (e x)) xs) = repeated_size f xs"
  by (simp add: enc_repeated_def repeated_size_def length_concat comp_def length_enc_element)

lemmas length_enc = length_enc_element length_enc_bytes length_enc_varint length_enc_bool
  length_enc_optional length_enc_repeated

subsection \<open>What a marshalling step writes\<close>

text \<open>
  \<open>puts p xs\<close>: where there is room for it, the step \<open>p\<close> writes the block \<open>xs\<close> in front of what is
  already there and nothing else. \<open>writes f xs\<close>: the method \<open>f\<close> writes \<open>xs\<close> at the end of the buffer
  it is given and returns its length.
\<close>

definition puts :: "(cursor \<Rightarrow> cursor outcome) \<Rightarrow> bytes \<Rightarrow> bool" where
  "puts p xs \<longleftrightarrow> (\<forall>c. fits (length xs) c \<longrightarrow> p c = Ok (emit xs c))"

definition writes :: "(bytes \<Rightarrow> (bytes \<times> nat) outcome) \<Rightarrow> bytes \<Rightarrow> bool" where
  "writes f xs \<longleftrightarrow>
     (\<forall>d. length xs \<le> length d \<longrightarrow> f d = Ok (take (length d - length xs) d @ xs, length xs))"

lemma putsD: "puts p xs \<Longrightarrow> fits (length xs) c \<Longrightarrow> p c = Ok (emit xs c)"
  by (simp only: puts_def)

lemma puts_seq:
  assumes p: "puts p xs" and q: "puts q ys"
  shows "puts (\<lambda>c. and_then (p c) q) (ys @ xs)"
  unfolding puts_def
proof (intro allI impI)
  fix c assume fit: "fits (length (ys @ xs)) c"
  then have "fits (length xs) c" "fits (length ys) (emit xs c)"
    by (auto intro: fits_mono fits_emit)
  with p q have "and_then (p c) q = Ok (emit ys (emit xs c))" by (simp add: putsD)
  then show "and_then (p c) q = Ok (emit (ys @ xs) c)" using fit by (simp add: emit_emit)
qed

lemma puts_byte: "puts (put_byte b) [b]"
  by (simp add: puts_def put_byte_emit)

lemma puts_varint: "puts (put_varint v) (varint v)"
  by (simp add: puts_def put_varint_emit)

lemma puts_bytes: "puts (put_bytes bs) bs"
  by (simp add: puts_def put_bytes_emit)

lemma puts_varint_field: "puts (put_varint_field tag v) (enc_varint tag v)"
  using puts_seq [OF puts_varint [of v] puts_byte [of tag]]
  by (auto simp: puts_def put_varint_field_def enc_varint_def)

lemma puts_element: "puts (put_element tag bs) (enc_element tag bs)"
  using puts_seq [OF puts_bytes [of bs] puts_seq [OF puts_varint puts_byte [of tag]]]
  by (auto simp: puts_def put_element_def enc_element_def)

lemma puts_bytes_field: "puts (put_bytes_field tag bs) (enc_bytes tag bs)"
  using puts_element [of tag bs]
  by (auto simp: puts_def put_bytes_field_def enc_bytes_def)

lemma puts_message_field:
  assumes "writes f xs"
  shows "puts (put_message_field tag f) (enc_element tag xs)"
  unfolding puts_def
proof (intro allI impI)
  fix c assume fit: "fits (length (enc_element tag xs)) c"
  then have room: "fits (length xs) c" by (rule fits_mono) (simp add: enc_element_def)
  then obtain d j where c: "c = (d, int j + int (length xs))" "j + length xs \<le> length d"
    by (rule fitsE)
  have nat_j: "nat (int j + int (length xs)) = j + length xs" by (simp add: nat_add_distrib)
  have "put_message_field tag f c =
      and_then (put_varint (word_of_nat (length xs)) (emit xs c)) (put_byte tag)"
    using assms c nat_j by (simp add: put_message_field_def writes_def emit_at)
  also have "\<dots> = put_element tag xs c"
    using room by (simp add: put_element_def put_bytes_emit)
  finally show "put_message_field tag f c = Ok (emit (enc_element tag xs) c)"
    using fit putsD [OF puts_element] by simp
qed

lemma puts_repeated:
  "(\<And>x. x \<in> set xs \<Longrightarrow> puts (put x) (e x)) \<Longrightarrow> puts (put_repeated put xs) (enc_repeated e xs)"
proof (induction xs)
  case Nil
  then show ?case by (simp add: puts_def enc_repeated_def)
next
  case (Cons x xs)
  then have "puts (put_repeated put xs) (enc_repeated e xs)" "puts (put x) (e x)" by auto
  from puts_seq [OF this] show ?case by (simp add: puts_def enc_repeated_def)
qed

lemma puts_optional:
  "(\<And>x. puts (put x) (e x)) \<Longrightarrow> puts (put_optional put o') (enc_optional e o')"
  by (cases o') (simp_all add: puts_def enc_optional_def)

lemma puts_bool_field: "puts (put_bool_field tag b) (enc_bool tag b)"
  using puts_seq [OF puts_byte [of 1] puts_byte [of tag]]
  by (auto simp: puts_def put_bool_field_def enc_bool_def)

lemma puts_all: "list_all2 puts ps xss \<Longrightarrow> puts (put_all ps) (concat (rev xss))"
proof (induction rule: list_all2_induct)
  case Nil
  then show ?case by (simp add: puts_def)
next
  case (Cons p ps xs xss)
  from puts_seq [OF Cons(1,3)] show ?case by (simp add: puts_def)
qed

lemma writes_sized_buffer:
  assumes "puts p xs"
  shows "writes (sized_buffer p) xs"
  unfolding writes_def
proof (intro allI impI)
  fix d :: bytes assume len: "length xs \<le> length d"
  then have "fits (length xs) (d, int (length d))" by simp
  with assms have "p (d, int (length d)) = Ok (emit xs (d, int (length d)))"
    by (simp add: puts_def)
  with len show "sized_buffer p d = Ok (take (length d - length xs) d @ xs, length xs)"
    by (simp add: sized_buffer_def emit_def)
qed

lemma writes_fields:
  assumes "\<And>m. enc m = concat (xss m)" "list_all2 puts ps (rev (xss m))"
  shows "writes (sized_buffer (put_all ps)) (enc m)"
  using writes_sized_buffer [OF puts_all [OF assms(2)]] assms(1) by simp

lemma enc_mapped:
  "(\<And>x. e (f x) = e x) \<Longrightarrow> enc_optional (\<lambda>x. enc_element tag (e x)) (map_option f o') =
     enc_optional (\<lambda>x. enc_element tag (e x)) o'"
  "(\<And>x. e (f x) = e x) \<Longrightarrow> enc_repeated (\<lambda>x. enc_element tag (e x)) (map f xs) =
     enc_repeated (\<lambda>x. enc_element tag (e x)) xs"
  by (simp_all add: enc_optional_def enc_repeated_def comp_def split: option.splits)

lemma marshal_with_writes:
  assumes "writes (to_sized m) xs" "msg_size m = length xs"
  shows "marshal_with msg_size to_sized m = Ok xs"
  using assms by (simp add: marshal_with_def writes_def)

lemmas puts_intros = puts_varint_field puts_bytes_field puts_element puts_message_field puts_repeated
  puts_optional puts_bool_field

end
