(* ===== verification/Wire_Read.thy ===== *)
theory Wire_Read
  imports Wire
begin

unbundle bit_operations_syntax

text \<open>
  The reading half of the generated protobuf code: \<open>skipTypes\<close>/\<open>skipFabric\<close>, the readers of the
  fields, and the loop of \<open>Unmarshal\<close>. A message is described by the readers of its fields. The
  contract of a message (its size function is exact, \<open>MarshalToSizedBuffer\<close> writes the reference
  encoding, \<open>Unmarshal\<close> reads it back and never panics) is the locale \<open>wire_message\<close>, which every
  message of the two generated files instantiates.
\<close>

section \<open>Skipping unknown fields\<close>

definition ErrInvalidLength :: error where
  "ErrInvalidLength = ErrorNew ''proto: negative length found during unmarshaling''"

definition ErrUnexpectedEOF :: error where
  "ErrUnexpectedEOF = ErrorRoot ''unexpected EOF''"

definition ErrUnexpectedEndOfGroup :: error where
  "ErrUnexpectedEndOfGroup = ErrorNew ''proto: unexpected end of group''"

text \<open>
  What follows the tag in one turn of the loop of \<open>skip\<close>, by wire type: the next index and the next
  depth. Sums of indices are sums of \<open>int\<close>s and wrap around.
\<close>

definition skip_body :: "bytes \<Rightarrow> nat \<Rightarrow> nat \<Rightarrow> nat \<Rightarrow> (int \<times> nat) outcome" where
  "skip_body d wireType j depth =
     (if wireType = 0 then and_then (decode_varint d j) (\<lambda>(v :: u64, k). Ok (int k, depth))
      else if wireType = 1 then Ok (wrap_int (int j + 8), depth)
      else if wireType = 2 then
        and_then (decode_varint d j) (\<lambda>(v :: i64, k).
          if sint v < 0 then Err ErrInvalidLength else Ok (wrap_int (int k + sint v), depth))
      else if wireType = 3 then Ok (int j, Suc depth)
      else if wireType = 4 then
        (if depth = 0 then Err ErrUnexpectedEndOfGroup else Ok (int j, depth - 1))
      else if wireType = 5 then Ok (wrap_int (int j + 4), depth)
      else Err (ErrorNew ''proto: illegal wireType %d''))"

text \<open>
  The loop. The last test is not in the source: it makes the recursion well-founded for every list,
  and \<open>skip_loop_not_panics\<close> shows that it never fires on a slice, whose length is below \<open>2^63\<close>.
\<close>

function skip_loop :: "bytes \<Rightarrow> nat \<Rightarrow> nat \<Rightarrow> int outcome" where
  "skip_loop d i depth =
     (if length d \<le> i then Err ErrUnexpectedEOF
      else and_then (decode_varint d i) (\<lambda>(wire :: u64, j).
        and_then (skip_body d (unat (wire AND 7)) j depth) (\<lambda>(k, depth').
          if k < 0 then Err ErrInvalidLength
          else if depth' = 0 then Ok k
          else if nat k \<le> i then Panic ''no progress''
          else skip_loop d (nat k) depth')))"
  by pat_completeness auto
termination
  by (relation "measure (\<lambda>(d, i, depth). length d - i)") auto

declare skip_loop.simps [simp del]

definition skip :: "bytes \<Rightarrow> int outcome" where
  "skip d = skip_loop d 0 0"

section \<open>Readers of fields\<close>

text \<open>
  A reader gets the buffer, the index behind the tag, the wire type and the message so far, and
  returns the updated message and the index behind the field.
\<close>

type_synonym 'm reader = "bytes \<Rightarrow> nat \<Rightarrow> nat \<Rightarrow> 'm \<Rightarrow> ('m \<times> nat) outcome"

definition ErrWrongWireType :: "string \<Rightarrow> error" where
  "ErrWrongWireType name = ErrorNew (''proto: wrong wireType = %d for field '' @ name)"

definition varint_reader :: "string \<Rightarrow> ('w::len word \<Rightarrow> 'm \<Rightarrow> 'm) \<Rightarrow> 'm reader" where
  "varint_reader name upd d j wireType m =
     (if wireType \<noteq> 0 then Err (ErrWrongWireType name)
      else and_then (decode_varint d j) (\<lambda>(v, k). Ok (upd v m, k)))"

text \<open>\<open>d[j:k]\<close>\<close>

definition slice_range :: "bytes \<Rightarrow> nat \<Rightarrow> nat \<Rightarrow> bytes outcome" where
  "slice_range d j k =
     (if j \<le> k \<and> k \<le> length d then Ok (take (k - j) (drop j d))
      else Panic ''slice bounds out of range'')"

definition bytes_reader :: "string \<Rightarrow> (bytes \<Rightarrow> 'm \<Rightarrow> 'm outcome) \<Rightarrow> 'm reader" where
  "bytes_reader name upd d j wireType m =
     (if wireType \<noteq> 2 then Err (ErrWrongWireType name)
      else and_then (decode_varint d j) (\<lambda>(v :: u64, k).
        let len = sint v; postIndex = wrap_int (int k + len)
        in if len < 0 then Err ErrInvalidLength
           else if postIndex < 0 then Err ErrInvalidLength
           else if int (length d) < postIndex then Err ErrUnexpectedEOF
           else and_then (slice_range d k (nat postIndex)) (\<lambda>bs.
             and_then (upd bs m) (\<lambda>m'. Ok (m', nat postIndex)))))"

text \<open>
  The uses of it: a string, a \<open>[]byte\<close> (which is never \<open>nil\<close> once the field has been read), an embedded
  message, a message behind a pointer (allocated when it is \<open>nil\<close>), and the element of a repeated
  field. An embedded message is decoded on top of what the field holds.
\<close>

definition string_reader :: "string \<Rightarrow> (string \<Rightarrow> 'm \<Rightarrow> 'm) \<Rightarrow> 'm reader" where
  "string_reader name set_field = bytes_reader name (\<lambda>bs m. Ok (set_field (string_of_bytes bs) m))"

definition slice_reader :: "string \<Rightarrow> (slice \<Rightarrow> 'm \<Rightarrow> 'm) \<Rightarrow> 'm reader" where
  "slice_reader name set_field = bytes_reader name (\<lambda>bs m. Ok (set_field (Some bs) m))"

definition message_reader ::
    "string \<Rightarrow> (bytes \<Rightarrow> 'f \<Rightarrow> 'f outcome) \<Rightarrow> ('m \<Rightarrow> 'f) \<Rightarrow> ('f \<Rightarrow> 'm \<Rightarrow> 'm) \<Rightarrow> 'm reader" where
  "message_reader name unmarshal field set_field =
     bytes_reader name (\<lambda>bs m. and_then (unmarshal bs (field m)) (\<lambda>f. Ok (set_field f m)))"

definition pointer_reader ::
    "string \<Rightarrow> (bytes \<Rightarrow> 'f \<Rightarrow> 'f outcome) \<Rightarrow> 'f \<Rightarrow> ('m \<Rightarrow> 'f option) \<Rightarrow> ('f option \<Rightarrow> 'm \<Rightarrow> 'm)
       \<Rightarrow> 'm reader" where
  "pointer_reader name unmarshal zero field set_field =
     bytes_reader name (\<lambda>bs m.
       and_then (unmarshal bs (case field m of None \<Rightarrow> zero | Some f \<Rightarrow> f))
         (\<lambda>f. Ok (set_field (Some f) m)))"

definition element_reader ::
    "string \<Rightarrow> (bytes \<Rightarrow> 'f outcome) \<Rightarrow> ('m \<Rightarrow> 'f list) \<Rightarrow> ('f list \<Rightarrow> 'm \<Rightarrow> 'm) \<Rightarrow> 'm reader" where
  "element_reader name unmarshal field set_field =
     bytes_reader name (\<lambda>bs m. and_then (unmarshal bs) (\<lambda>f. Ok (set_field (field m @ [f]) m)))"

text \<open>The \<open>default\<close> case: an unknown field is skipped from its tag on.\<close>

definition skip_reader :: "bytes \<Rightarrow> nat \<Rightarrow> 'm \<Rightarrow> ('m \<times> nat) outcome" where
  "skip_reader d preIndex m =
     and_then (skip (drop preIndex d)) (\<lambda>skippy.
       let next = wrap_int (int preIndex + skippy)
       in if skippy < 0 \<or> next < 0 then Err ErrInvalidLength
          else if int (length d) < next then Err ErrUnexpectedEOF
          else Ok (m, nat next))"

section \<open>The loop of Unmarshal\<close>

function unmarshal_loop ::
    "string \<Rightarrow> (nat \<rightharpoonup> 'm reader) \<Rightarrow> bytes \<Rightarrow> nat \<Rightarrow> 'm \<Rightarrow> 'm outcome" where
  "unmarshal_loop name fields d i m =
     (if length d \<le> i then (if length d < i then Err ErrUnexpectedEOF else Ok m)
      else and_then (decode_varint d i) (\<lambda>(wire :: u64, j).
        let fieldNum = sint (ucast (drop_bit 3 wire) :: 32 word); wireType = unat (wire AND 7)
        in if wireType = 4
           then Err (ErrorNew (''proto: '' @ name @ '': wiretype end group for non-group''))
           else if fieldNum \<le> 0
           then Err (ErrorNew (''proto: '' @ name @ '': illegal tag %d (wire type %d)''))
           else and_then
             (case fields (nat fieldNum) of
                Some reader \<Rightarrow> reader d j wireType m
              | None \<Rightarrow> skip_reader d i m)
             (\<lambda>(m', k). if k \<le> i then Panic ''no progress''
                        else unmarshal_loop name fields d k m')))"
  by pat_completeness auto
termination
  by (relation "measure (\<lambda>(name, fields, d, i, m). length d - i)") auto

declare unmarshal_loop.simps [simp del]

definition unmarshal_with ::
    "string \<Rightarrow> (nat \<rightharpoonup> 'm reader) \<Rightarrow> bytes \<Rightarrow> 'm \<Rightarrow> 'm outcome" where
  "unmarshal_with name fields d m = unmarshal_loop name fields d 0 m"

section \<open>No input makes a reader panic\<close>

lemma wrap_int_period: "wrap_int (x - 2 ^ 64) = wrap_int x"
proof -
  have "(word_of_int (2 ^ 64) :: i64) = 0" by simp
  then have "(word_of_int (x - 2 ^ 64) :: i64) = word_of_int x"
    by (simp only: of_int_diff diff_zero)
  then show ?thesis by (simp only: wrap_int_def)
qed

lemma wrap_int_sum:
  assumes "0 \<le> a" "a < 2 ^ 63" "0 \<le> b" "b < 2 ^ 63"
  shows "wrap_int (a + b) = (if a + b < 2 ^ 63 then a + b else a + b - 2 ^ 64)"
proof (cases "a + b < 2 ^ 63")
  case True
  with assms show ?thesis by (simp add: wrap_int_id)
next
  case False
  with assms have "wrap_int (a + b - 2 ^ 64) = a + b - 2 ^ 64" by (intro wrap_int_id) auto
  with False show ?thesis by (simp only: wrap_int_period if_False)
qed

lemma wrap_int_sum_nonneg:
  assumes "0 \<le> a" "a < 2 ^ 63" "0 \<le> b" "b < 2 ^ 63" "0 \<le> wrap_int (a + b)"
  shows "wrap_int (a + b) = a + b"
  using assms by (simp add: wrap_int_sum split: if_splits)

lemma sint_less_2p63: "sint (v :: 64 word) < 2 ^ 63"
  using sint_lt [of v] by simp

lemma skip_body_progress:
  assumes "skip_body d w j depth = Ok (k, depth')" "0 \<le> k" "j \<le> length d" "length d < 2 ^ 63"
  shows "int j \<le> k"
proof -
  have j: "int j < 2 ^ 63" using assms(3,4) by simp
  have sum: "int j \<le> k" if "k = wrap_int (int a + b)" "j \<le> a" "a \<le> length d" "0 \<le> b" "b < 2 ^ 63" for a b
    using wrap_int_sum_nonneg [of "int a" b] that assms(2,4) by simp
  show ?thesis
    using assms(1) sum [of j 8] sum [of j 4] sum sint_less_2p63 assms(3) decode_varint_bounds [of d j]
    by (fastforce simp: skip_body_def outcome_simps not_less split: if_splits)
qed

lemma skip_body_not_panics: "\<not> panics (skip_body d w j depth)"
  by (auto simp: skip_body_def panics_and_then)

lemma skip_loop_not_panics: "length d < 2 ^ 63 \<Longrightarrow> \<not> panics (skip_loop d i depth)"
proof (induction d i depth rule: skip_loop.induct)
  case (1 d i depth)
  show ?case
  proof (cases "length d \<le> i")
    case True
    then show ?thesis by (simp add: skip_loop.simps)
  next
    case False
    have "\<not> panics (if k < 0 then Err ErrInvalidLength else if depth' = 0 then Ok k
        else if nat k \<le> i then Panic ''no progress'' else skip_loop d (nat k) depth')"
      if wire: "decode_varint d i = Ok (wire :: u64, j)"
        and body: "skip_body d (unat (wire AND 7)) j depth = Ok (k, depth')" for wire j k depth'
    proof -
      from wire have "i < j" "j \<le> length d" by (auto dest: decode_varint_bounds)
      with skip_body_progress [OF body] "1.prems" have "0 \<le> k \<Longrightarrow> \<not> nat k \<le> i" by auto
      with "1.IH" [OF False wire refl body refl] "1.prems" show ?thesis by auto
    qed
    with False show ?thesis
      by (subst skip_loop.simps)
        (auto simp: panics_and_then skip_body_not_panics split: prod.splits)
  qed
qed

lemma skip_body_bound:
  assumes "skip_body d w j depth = Ok (k, depth')" "j \<le> length d" "length d < 2 ^ 63"
  shows "k < 2 ^ 63"
  using assms sint_less_2p63 decode_varint_bounds [of d j]
  by (fastforce simp: skip_body_def outcome_simps wrap_int_def split: if_splits)

lemma skip_loop_bounds:
  "skip_loop d i depth = Ok k \<Longrightarrow> length d < 2 ^ 63 \<Longrightarrow> int i < k \<and> k < 2 ^ 63"
proof (induction d i depth rule: skip_loop.induct)
  case (1 d i depth)
  from "1.prems"(1) obtain wire :: u64 and j n depth' where
      loop: "\<not> length d \<le> i" "decode_varint d i = Ok (wire, j)"
        "skip_body d (unat (wire AND 7)) j depth = Ok (n, depth')"
        "\<not> n < 0" "depth' = 0 \<and> k = n \<or> \<not> depth' = 0 \<and> \<not> nat n \<le> i \<and> skip_loop d (nat n) depth' = Ok k"
    by (subst (asm) skip_loop.simps) (auto simp: outcome_simps split: if_splits)
  from loop(2) have j: "i < j" "j \<le> length d" by (auto dest: decode_varint_bounds)
  with loop(3,4) "1.prems"(2) have "int j \<le> n" "n < 2 ^ 63"
    by (auto intro: skip_body_progress dest: skip_body_bound)
  with j loop(5) "1.IH" [OF loop(1,2) refl loop(3) refl loop(4)] "1.prems"(2) show ?case
    by auto
qed

lemma skip_reader_not_panics: "length d < 2 ^ 63 \<Longrightarrow> \<not> panics (skip_reader d i m)"
  by (auto simp: skip_reader_def panics_and_then skip_def Let_def skip_loop_not_panics)

lemma skip_reader_progress:
  assumes "skip_reader d i m = Ok (m', k)" "i \<le> length d" "length d < 2 ^ 63"
  shows "i < k"
proof -
  from assms(1) obtain n where n: "skip_loop (drop i d) 0 0 = Ok n" "0 \<le> wrap_int (int i + n)"
      "k = nat (wrap_int (int i + n))"
    by (auto simp: skip_reader_def skip_def outcome_simps Let_def split: if_splits)
  from skip_loop_bounds [OF n(1)] assms(3) have "0 < n" "n < 2 ^ 63" by auto
  with n assms(2,3) wrap_int_sum_nonneg [of "int i" n] show ?thesis by simp
qed

definition reader_ok :: "'m reader \<Rightarrow> bool" where
  "reader_ok r \<longleftrightarrow> (\<forall>d j w m. length d < 2 ^ 63 \<longrightarrow> j \<le> length d \<longrightarrow>
     \<not> panics (r d j w m) \<and> (\<forall>m' k. r d j w m = Ok (m', k) \<longrightarrow> j \<le> k))"

lemma varint_reader_ok: "reader_ok (varint_reader name upd)"
  using decode_varint_bounds
  by (fastforce simp: reader_ok_def varint_reader_def panics_and_then outcome_simps split: if_splits)

lemma bytes_reader_post:
  assumes "decode_varint d j = Ok (v :: u64, k)" "\<not> sint v < 0" "\<not> wrap_int (int k + sint v) < 0"
    "length d < 2 ^ 63"
  shows "k \<le> nat (wrap_int (int k + sint v))" "j \<le> k"
  using assms wrap_int_sum_nonneg [of "int k" "sint v"] sint_less_2p63 [of v]
    decode_varint_bounds [of d j v k]
  by auto

lemma bytes_reader_ok:
  assumes "\<And>bs m. length bs < 2 ^ 63 \<Longrightarrow> \<not> panics (upd bs m)"
  shows "reader_ok (bytes_reader name upd)"
  unfolding reader_ok_def
proof (intro allI impI conjI)
  fix d :: bytes and j w m
  assume len: "length d < 2 ^ 63" "j \<le> length d"
  show "\<not> panics (bytes_reader name upd d j w m)"
    using bytes_reader_post [OF _ _ _ len(1)] len assms
    by (auto simp: bytes_reader_def panics_and_then slice_range_def Let_def outcome_simps split: if_splits)
  fix m' k
  assume "bytes_reader name upd d j w m = Ok (m', k)"
  then show "j \<le> k"
    using bytes_reader_post [OF _ _ _ len(1)]
    by (fastforce simp: bytes_reader_def slice_range_def Let_def outcome_simps split: if_splits)
qed

definition unmarshal_safe :: "(bytes \<Rightarrow> 'f \<Rightarrow> 'f outcome) \<Rightarrow> bool" where
  "unmarshal_safe unmarshal \<longleftrightarrow> (\<forall>bs f. length bs < 2 ^ 63 \<longrightarrow> \<not> panics (unmarshal bs f))"

lemma string_reader_ok: "reader_ok (string_reader name set_field)"
  unfolding string_reader_def by (rule bytes_reader_ok) simp

lemma slice_reader_ok: "reader_ok (slice_reader name set_field)"
  unfolding slice_reader_def by (rule bytes_reader_ok) simp

lemma message_reader_ok:
  "unmarshal_safe unmarshal \<Longrightarrow> reader_ok (message_reader name unmarshal field set_field)"
  unfolding message_reader_def
  by (rule bytes_reader_ok) (simp add: unmarshal_safe_def panics_and_then)

lemma pointer_reader_ok:
  "unmarshal_safe unmarshal \<Longrightarrow> reader_ok (pointer_reader name unmarshal zero field set_field)"
  unfolding pointer_reader_def
  by (rule bytes_reader_ok) (simp add: unmarshal_safe_def panics_and_then)

lemma element_reader_ok:
  "unmarshal_safe unmarshal \<Longrightarrow> reader_ok (element_reader name (\<lambda>bs. unmarshal bs zero) field set_field)"
  unfolding element_reader_def
  by (rule bytes_reader_ok) (simp add: unmarshal_safe_def panics_and_then)

lemma plain_element_reader_ok: "reader_ok (element_reader name Ok field set_field)"
  unfolding element_reader_def by (rule bytes_reader_ok) simp

lemmas readers_ok = varint_reader_ok string_reader_ok slice_reader_ok message_reader_ok
  pointer_reader_ok element_reader_ok plain_element_reader_ok

lemma unmarshal_loop_not_panics:
  assumes readers: "\<And>f r. fields f = Some r \<Longrightarrow> reader_ok r" and len: "length d < 2 ^ 63"
  shows "\<not> panics (unmarshal_loop name fields d i m)"
  using readers len
proof (induction name fields d i m rule: unmarshal_loop.induct)
  case (1 name fields d i m)
  show ?case
  proof (cases "length d \<le> i")
    case True
    then show ?thesis by (simp add: unmarshal_loop.simps)
  next
    case False
    let ?read = "\<lambda>(wire :: u64) j.
      case fields (nat (sint (ucast (drop_bit 3 wire) :: 32 word))) of
        Some reader \<Rightarrow> reader d j (unat (wire AND 7)) m | None \<Rightarrow> skip_reader d i m"
    have read: "\<not> panics (?read wire j) \<and> (\<forall>m' k. ?read wire j = Ok (m', k) \<longrightarrow> i < k)"
      if "decode_varint d i = Ok (wire, j)" for wire j
    proof -
      from that have "i < j" "j \<le> length d" by (auto dest: decode_varint_bounds)
      with "1.prems" False show ?thesis
        by (auto simp: reader_ok_def skip_reader_not_panics split: option.splits
            dest: skip_reader_progress)
          (meson less_le_trans)
    qed
    have cont: "\<not> panics (if k \<le> i then Panic ''no progress'' else unmarshal_loop name fields d k m')"
      if "decode_varint d i = Ok (wire, j)" "unat (wire AND 7) \<noteq> 4"
        "\<not> sint (ucast (drop_bit 3 wire) :: 32 word) \<le> 0" "?read wire j = Ok (m', k)" for wire j m' k
      using that read [of wire j] "1.IH" [OF False that(1) refl refl refl that(2,3) that(4) refl] "1.prems"
      by auto
    show ?thesis
      by (subst unmarshal_loop.simps)
        (use False read cont in \<open>auto simp: panics_and_then Let_def\<close>)
  qed
qed

section \<open>Reading back what was written\<close>

text \<open>
  \<open>decodes name fields xss m r\<close>: from any index at which the rest of the buffer is the
  concatenation of the encoded fields \<open>xss\<close>, the loop returns \<open>r\<close>. There is one rule for every kind
  of field.
\<close>

definition decodes :: "string \<Rightarrow> (nat \<rightharpoonup> 'm reader) \<Rightarrow> bytes list \<Rightarrow> 'm \<Rightarrow> 'm outcome \<Rightarrow> bool" where
  "decodes name fields xss m r \<longleftrightarrow>
     (\<forall>d i. i \<le> length d \<longrightarrow> drop i d = concat xss \<longrightarrow> length d < 2 ^ 63 \<longrightarrow>
        unmarshal_loop name fields d i m = r)"

text \<open>The tag byte of field \<open>f\<close> with wire type \<open>w\<close>.\<close>

definition tag_is :: "byte \<Rightarrow> nat \<Rightarrow> nat \<Rightarrow> bool" where
  "tag_is tag f w \<longleftrightarrow> tag < 0x80 \<and> 0 < f \<and> w \<noteq> 4
     \<and> sint (ucast (drop_bit 3 (ucast tag :: u64)) :: 32 word) = int f
     \<and> unat (ucast tag AND 7 :: u64) = w"

lemma tags [simp]:
  "tag_is 0x08 1 0" "tag_is 0x10 2 0" "tag_is 0x18 3 0" "tag_is 0x20 4 0" "tag_is 0x28 5 0"
  "tag_is 0x0A 1 2" "tag_is 0x12 2 2" "tag_is 0x1A 3 2" "tag_is 0x22 4 2" "tag_is 0x2A 5 2"
  by (simp_all add: tag_is_def)

lemma varint_small: "tag < 0x80 \<Longrightarrow> varint (ucast tag) = [tag :: byte]"
proof -
  assume small: "tag < 0x80"
  then have "unat (ucast tag :: u64) < 128" 
    by (simp add: word_less_nat_alt unsigned_ucast_eq take_bit_nat_eq_self)
  then have "\<not> 128 \<le> (ucast tag :: u64)" by (simp add: word_le_nat_alt)
  moreover have "ucast (ucast tag :: u64) = tag"
    by (rule bit_word_eqI) (simp add: bit_ucast_iff)
  ultimately show ?thesis by (simp add: varint.simps)
qed

lemma decode_varint_tag:
  assumes "tag_is tag f w" "drop i d = tag # rest"
  shows "decode_varint d i = Ok (ucast tag :: u64, Suc i)"
  using decode_varint_varint [of i d "ucast tag" rest, where ?'w = 64] assms
  by (simp add: varint_small tag_is_def)

lemma unmarshal_loop_field:
  assumes "tag_is tag f w" "drop i d = tag # rest" "i \<le> length d" "fields f = Some r"
    "r d (Suc i) w m = Ok (m', k)" "i < k"
  shows "unmarshal_loop name fields d i m = unmarshal_loop name fields d k m'"
proof -
  from assms(2,3) have "\<not> length d \<le> i" by auto
  with assms(1,4,5,6) decode_varint_tag [OF assms(1,2)] show ?thesis
    by (subst unmarshal_loop.simps) (simp add: tag_is_def Let_def)
qed

lemma decodes_Nil: "m = m' \<Longrightarrow> decodes name fields [] m (Ok m')"
  by (auto simp: decodes_def unmarshal_loop.simps)

lemma decodes_absent: "decodes name fields yss m r \<Longrightarrow> decodes name fields ([] # yss) m r"
  by (simp add: decodes_def)

lemma decodes_concat:
  "decodes name fields (xss @ yss) m r \<Longrightarrow> decodes name fields (concat xss # yss) m r"
  by (simp add: decodes_def)

lemma decodesD:
  "decodes name fields xss m r \<Longrightarrow> drop i d = concat xss \<Longrightarrow> i \<le> length d \<Longrightarrow> length d < 2 ^ 63 \<Longrightarrow>
   unmarshal_loop name fields d i m = r"
  by (simp add: decodes_def)

lemma drop_after:
  assumes "drop i d = xs @ ys" "i \<le> length d"
  shows "drop (i + length xs) d = ys" "i + length xs \<le> length d"
proof -
  have "drop (i + length xs) d = drop (length xs) (drop i d)" by (simp add: add.commute)
  then show "drop (i + length xs) d = ys" by (simp add: assms)
  have "length (drop i d) = length xs + length ys" by (simp add: assms)
  then show "i + length xs \<le> length d" using assms(2) by simp
qed

lemma decodes_varint:
  assumes tag: "tag_is tag f 0" "fields f = Some (varint_reader n upd)"
    and zero: "upd 0 m = m" and rest: "decodes name fields yss (upd (ucast v :: 'w::len word) m) r"
  shows "decodes name fields (enc_varint tag v # yss) m r"
  unfolding decodes_def
proof (intro allI impI)
  fix d :: bytes and i
  assume i: "i \<le> length d" and d': "drop i d = concat (enc_varint tag v # yss)" and len: "length d < 2 ^ 63"
  let ?ys = "concat yss"
  from d' have d: "drop i d = enc_varint tag v @ ?ys" by simp
  show "unmarshal_loop name fields d i m = r"
  proof (cases "v = 0")
    case True
    with rest zero i d len show ?thesis by (simp add: decodes_def enc_varint_def)
  next
    case False
    then have e: "enc_varint tag v = tag # varint v" by (simp add: enc_varint_def)
    have "drop (Suc i) d = varint v @ ?ys" using drop_after(1) [of i d "[tag]"] d e i by simp
    note v = decode_varint_varint [OF this, where ?'w = 'w]
    have "unmarshal_loop name fields d i m =
        unmarshal_loop name fields d (i + length (enc_varint tag v)) (upd (ucast v) m)"
    proof (rule unmarshal_loop_field [OF tag(1)])
      show "drop i d = tag # varint v @ ?ys" using d e by simp
      show "varint_reader n upd d (Suc i) 0 m = Ok (upd (ucast v) m, i + length (enc_varint tag v))"
        using v e by (simp add: varint_reader_def)
    qed (use i tag(2) e in simp_all)
    with rest False drop_after [OF d i] len show ?thesis by (simp add: decodes_def)
  qed
qed

lemma decodes_element:
  assumes tag: "tag_is tag f 2" "fields f = Some (bytes_reader n upd)"
    and upd: "length bs < 2 ^ 63 \<Longrightarrow> upd bs m = Ok m'" and rest: "decodes name fields yss m' r"
  shows "decodes name fields (enc_element tag bs # yss) m r"
  unfolding decodes_def
proof (intro allI impI)
  fix d :: bytes and i
  assume i: "i \<le> length d" and d': "drop i d = concat (enc_element tag bs # yss)" and len: "length d < 2 ^ 63"
  let ?ys = "concat yss"
  from d' have d: "drop i d = enc_element tag bs @ ?ys" by simp
  define l where "l = (word_of_nat (length bs) :: u64)"
  define k where "k = Suc i + length (varint l)"
  have "drop (Suc i) d = varint l @ bs @ ?ys"
    using drop_after(1) [of i d "[tag]"] d i by (simp add: enc_element_def l_def)
  note l = decode_varint_varint [OF this, where ?'w = 64, folded k_def]
  have k: "drop k d = bs @ ?ys" "k \<le> length d"
    using drop_after [of i d "tag # varint l" "bs @ ?ys"] d i
    by (simp_all add: enc_element_def l_def k_def)
  from drop_after [OF k] have post: "drop (k + length bs) d = ?ys" "k + length bs \<le> length d" .
  then have bs: "length bs < 2 ^ 63" using len by simp
  then have sl: "sint l = int (length bs)"
    using wrap_int_id [of "int (length bs)"] by (simp add: wrap_int_def l_def)
  have w: "wrap_int (int k + int (length bs)) = int k + int (length bs)"
    using post len by (intro wrap_int_id) auto
  have n: "nat (int k + int (length bs)) = k + length bs" by (simp add: nat_add_distrib)
  have "bytes_reader n upd d (Suc i) 2 m = Ok (m', k + length bs)"
    using l post upd bs k by (simp add: bytes_reader_def sl Let_def slice_range_def w n)
  then have "unmarshal_loop name fields d i m = unmarshal_loop name fields d (k + length bs) m'"
  proof (rule unmarshal_loop_field [OF tag(1), rotated 3])
    show "drop i d = tag # varint l @ bs @ ?ys" using d by (simp add: enc_element_def l_def)
  qed (use i tag(2) in \<open>simp_all add: k_def\<close>)
  also have "\<dots> = r"
    by (rule decodesD [OF rest post len])
  finally show "unmarshal_loop name fields d i m = r" .
qed

lemma decodes_bool:
  assumes "tag_is tag f 0" "fields f = Some (varint_reader n upd)"
    and "upd 0 m = m" "decodes name fields yss (upd (if b then 1 else 0 :: i64) m) r"
  shows "decodes name fields (enc_bool tag b # yss) m r"
proof -
  have "\<not> 128 \<le> (1 :: u64)" by (simp add: word_le_nat_alt)
  then have "varint 1 = [1]" by (simp add: varint.simps)
  then have "enc_bool tag b = enc_varint tag (if b then 1 else 0)"
    by (simp add: enc_bool_def enc_varint_def)
  with assms show ?thesis
    by (cases b) (auto intro: decodes_varint [of tag f fields n upd])
qed

text \<open>What a \<open>[]byte\<close> field holds after it has been written and read: an empty slice comes back \<open>nil\<close>.\<close>

definition norm_slice :: "slice \<Rightarrow> slice" where
  "norm_slice s = (if slice_bytes s = [] then None else s)"

lemma slice_bytes_norm [simp]: "slice_bytes (norm_slice s) = slice_bytes s"
  by (simp add: norm_slice_def)

lemma norm_slice_idem [simp]: "norm_slice (norm_slice s) = norm_slice s"
  by (simp add: norm_slice_def)

lemma norm_slice_eq_iff: "norm_slice s = norm_slice t \<longleftrightarrow> slice_bytes s = slice_bytes t"
  by (auto simp: norm_slice_def slice_bytes_def split: option.splits)

lemma decodes_string:
  assumes "tag_is tag f 2" "fields f = Some (string_reader n upd)"
    and "upd [] m = m" "decodes name fields yss (upd s m) r"
  shows "decodes name fields (enc_bytes tag (bytes_of_string s) # yss) m r"
proof (cases "s = []")
  case True
  with assms(3,4) show ?thesis by (simp add: enc_bytes_def decodes_absent bytes_of_string_def)
next
  case False
  with assms show ?thesis
    by (auto simp: enc_bytes_def string_reader_def intro: decodes_element)
qed

lemma decodes_slice:
  assumes "tag_is tag f 2" "fields f = Some (slice_reader n upd)"
    and "upd None m = m" "decodes name fields yss (upd (norm_slice s) m) r"
  shows "decodes name fields (enc_bytes tag (slice_bytes s) # yss) m r"
proof (cases "slice_bytes s = []")
  case True
  with assms(3,4) show ?thesis by (simp add: enc_bytes_def decodes_absent norm_slice_def)
next
  case False
  then have "Some (slice_bytes s) = s" by (cases s) auto
  with False assms show ?thesis
    by (auto simp: enc_bytes_def slice_reader_def norm_slice_def intro: decodes_element)
qed

lemma decodes_message:
  assumes "tag_is tag f 2" "fields f = Some (message_reader n unmarshal field set_field)"
    and "length bs < 2 ^ 63 \<Longrightarrow> unmarshal bs (field m) = Ok v"
    and "decodes name fields yss (set_field v m) r"
  shows "decodes name fields (enc_element tag bs # yss) m r"
  by (rule decodes_element [of tag f fields, OF assms(1) assms(2) [unfolded message_reader_def] _ assms(4)])
    (simp add: assms(3))

lemma decodes_pointer:
  assumes "tag_is tag f 2" "fields f = Some (pointer_reader n unmarshal zero field set_field)"
    and "\<And>x. length (e x) < 2 ^ 63 \<Longrightarrow> unmarshal (e x) zero = Ok (norm x)" "field m = None"
    and "set_field None m = m" "decodes name fields yss (set_field (map_option norm v) m) r"
  shows "decodes name fields (enc_optional (\<lambda>x. enc_element tag (e x)) v # yss) m r"
proof (cases v)
  case None
  with assms(5,6) show ?thesis by (simp add: enc_optional_def decodes_absent)
next
  case (Some x)
  then have "decodes name fields yss (set_field (Some (norm x)) m) r" using assms(6) by simp
  then have "decodes name fields (enc_element tag (e x) # yss) m r"
    by (rule decodes_element [of tag f fields, OF assms(1) assms(2) [unfolded pointer_reader_def], rotated])
      (simp add: assms(3,4))
  with Some show ?thesis by (simp add: enc_optional_def)
qed

lemma decodes_repeated:
  assumes "tag_is tag f 2" "fields f = Some (element_reader n unmarshal field set_field)"
    and "\<And>x. length (e x) < 2 ^ 63 \<Longrightarrow> unmarshal (e x) = Ok (norm x)"
    and "\<And>v m. field (set_field v m) = v" "\<And>v w m. set_field v (set_field w m) = set_field v m"
    and "set_field (field m) m = m"
    and "decodes name fields yss (set_field (field m @ map norm xs) m) r"
  shows "decodes name fields (enc_repeated (\<lambda>x. enc_element tag (e x)) xs # yss) m r"
  using assms(6,7)
proof (induction xs arbitrary: m)
  case Nil
  then show ?case by (simp add: enc_repeated_def decodes_absent)
next
  case (Cons x xs)
  let ?m = "set_field (field m @ [norm x]) m"
  have "decodes name fields (enc_repeated (\<lambda>x. enc_element tag (e x)) xs # yss) ?m r"
    by (rule Cons.IH) (use Cons.prems assms(4,5) in simp_all)
  then have "decodes name fields
      (enc_element tag (e x) # enc_repeated (\<lambda>x. enc_element tag (e x)) xs # yss) m r"
    by (rule decodes_element [of tag f fields, OF assms(1) assms(2) [unfolded element_reader_def], rotated])
      (simp add: assms(3))
  then show ?case by (simp add: enc_repeated_def decodes_def)
qed

lemma decodes_elements:
  assumes "tag_is tag f 2" "fields f = Some (element_reader n Ok field set_field)"
    and "\<And>v m. field (set_field v m) = v" "\<And>v w m. set_field v (set_field w m) = set_field v m"
    and "set_field (field m) m = m" "decodes name fields yss (set_field (field m @ xs) m) r"
  shows "decodes name fields (enc_repeated (enc_element tag) xs # yss) m r"
  using decodes_repeated [of tag f fields n Ok field set_field "\<lambda>x. x" "\<lambda>x. x" m name yss xs r] assms
  by simp

lemma unmarshal_with_decodes:
  "decodes name fields xss m r \<Longrightarrow> length (concat xss) < 2 ^ 63 \<Longrightarrow>
   unmarshal_with name fields (concat xss) m = r"
  by (simp add: decodes_def unmarshal_with_def)

lemma unmarshal_with_safe:
  "(\<And>f r. fields f = Some r \<Longrightarrow> reader_ok r) \<Longrightarrow> unmarshal_safe (unmarshal_with name fields)"
  by (simp add: unmarshal_safe_def unmarshal_with_def unmarshal_loop_not_panics)

lemma ucast_simps:
  "ucast (v :: u64) = v" "ucast (ucast (w :: u32) :: u64) = w" "ucast (scast (w :: u32) :: u64) = w"
proof -
  show "ucast (v :: u64) = v" by simp
  show "ucast (ucast (w :: u32) :: u64) = w" by (rule bit_word_eqI) (simp add: bit_ucast_iff)
  show "ucast (scast (w :: u32) :: u64) = w"
    by (rule bit_word_eqI) (simp add: bit_ucast_iff bit_signed_iff)
qed

text \<open>The method \<open>MarshalTo\<close> of every message, on a slice whose capacity is its length.\<close>

definition marshal_to_with ::
    "('m \<Rightarrow> nat) \<Rightarrow> ('m \<Rightarrow> bytes \<Rightarrow> (bytes \<times> nat) outcome) \<Rightarrow> 'm \<Rightarrow> bytes \<Rightarrow> (bytes \<times> nat) outcome" where
  "marshal_to_with msg_size to_sized m d =
     (if msg_size m \<le> length d
      then and_then (to_sized m (take (msg_size m) d)) (\<lambda>(d', n). Ok (d' @ drop (msg_size m) d, n))
      else Panic ''slice bounds out of range'')"

section \<open>The contract of a message\<close>

text \<open>
  A message type with its methods \<open>Size\<close>, \<open>MarshalToSizedBuffer\<close>, \<open>Marshal\<close> and \<open>Unmarshal\<close>, its zero
  value, the reference encoding and the normal form that a value takes when it is written and read.
\<close>

locale wire_message =
  fixes msg_size :: "'m \<Rightarrow> nat"
    and to_sized :: "'m \<Rightarrow> bytes \<Rightarrow> (bytes \<times> nat) outcome"
    and marshal :: "'m \<Rightarrow> bytes outcome"
    and marshal_to :: "'m \<Rightarrow> bytes \<Rightarrow> (bytes \<times> nat) outcome"
    and unmarshal :: "bytes \<Rightarrow> 'm \<Rightarrow> 'm outcome"
    and zero :: 'm
    and enc :: "'m \<Rightarrow> bytes"
    and norm :: "'m \<Rightarrow> 'm"
  assumes size_enc: "length (enc m) = msg_size m"
    and to_sized_writes: "writes (to_sized m) (enc m)"
    and marshal_eq: "marshal m = marshal_with msg_size to_sized m"
    and marshal_to_eq: "marshal_to m d = marshal_to_with msg_size to_sized m d"
    and reads_back: "length (enc m) < 2 ^ 63 \<Longrightarrow> unmarshal (enc m) zero = Ok (norm m)"
    and safe: "unmarshal_safe unmarshal"
    and enc_norm: "enc (norm m) = enc m"
begin

lemma marshal_enc: "marshal m = Ok (enc m)"
  by (simp add: marshal_eq marshal_with_writes [OF to_sized_writes] size_enc)

lemma marshal_size: "\<exists>d. marshal m = Ok d \<and> length d = msg_size m"
  by (simp add: marshal_enc size_enc)

lemma marshal_to_prefix:
  "msg_size m \<le> length d \<Longrightarrow> marshal_to m d = Ok (enc m @ drop (msg_size m) d, msg_size m)"
  using to_sized_writes [of m]
  by (simp add: marshal_to_eq marshal_to_with_def writes_def size_enc)

lemma round_trip: "msg_size m < 2 ^ 63 \<Longrightarrow> and_then (marshal m) (\<lambda>d. unmarshal d zero) = Ok (norm m)"
  by (simp add: marshal_enc reads_back size_enc)

lemma enc_inject:
  assumes "msg_size m < 2 ^ 63"
  shows "enc m = enc m' \<longleftrightarrow> norm m = norm m'"
proof
  assume "enc m = enc m'"
  moreover from this have "msg_size m' < 2 ^ 63" using assms by (metis size_enc)
  ultimately show "norm m = norm m'"
    using reads_back [of m] reads_back [of m'] assms by (simp add: size_enc)
next
  assume "norm m = norm m'"
  then show "enc m = enc m'" by (metis enc_norm)
qed

lemma marshal_inject: "msg_size m < 2 ^ 63 \<Longrightarrow> marshal m = marshal m' \<longleftrightarrow> norm m = norm m'"
  by (simp add: marshal_enc enc_inject)

lemma unmarshal_not_panics: "length d < 2 ^ 63 \<Longrightarrow> \<not> panics (unmarshal d m)"
  using safe by (simp add: unmarshal_safe_def)

end

end
