(* ===== verification/Commitment_Codec.thy ===== *)
theory Commitment_Codec
  imports Wire_Read
begin

text \<open>
  The messages of \<open>chaincode/commitment/types.pb.go\<close>: the sequence (the height and time of the
  chain) and the commitment entry that an endorsement returns. Every message is a record with its
  methods \<open>Size\<close>, \<open>MarshalToSizedBuffer\<close>, \<open>Marshal\<close>, \<open>MarshalTo\<close> and \<open>Unmarshal\<close>, and an
  interpretation of the contract \<open>wire_message\<close>.
\<close>

section \<open>Messages of the commitment package\<close>

subsection \<open>\<open>Sequence\<close>\<close>

record Sequence =
  seq_Value :: u64
  seq_Timestamp :: i64

definition Sequence_zero :: Sequence where
  "Sequence_zero = \<lparr>seq_Value = 0, seq_Timestamp = 0\<rparr>"

definition Sequence_Size :: "Sequence \<Rightarrow> nat" where
  "Sequence_Size m =
     varint_size (seq_Value m)
     + varint_size (seq_Timestamp m)"

definition Sequence_MarshalToSizedBuffer :: "Sequence \<Rightarrow> bytes \<Rightarrow> (bytes \<times> nat) outcome" where
  "Sequence_MarshalToSizedBuffer m = sized_buffer (put_all
     [put_varint_field 0x10 (seq_Timestamp m),
      put_varint_field 0x08 (seq_Value m)])"

definition Sequence_Marshal :: "Sequence \<Rightarrow> bytes outcome" where
  "Sequence_Marshal = marshal_with Sequence_Size Sequence_MarshalToSizedBuffer"

definition Sequence_MarshalTo :: "Sequence \<Rightarrow> bytes \<Rightarrow> (bytes \<times> nat) outcome" where
  "Sequence_MarshalTo = marshal_to_with Sequence_Size Sequence_MarshalToSizedBuffer"

definition Sequence_fields :: "nat \<rightharpoonup> Sequence reader" where
  "Sequence_fields =
     [1 \<mapsto> varint_reader ''Value'' (\<lambda>v m. m\<lparr>seq_Value := v\<rparr>),
      2 \<mapsto> varint_reader ''Timestamp'' (\<lambda>v m. m\<lparr>seq_Timestamp := v\<rparr>)]"

definition Sequence_Unmarshal :: "bytes \<Rightarrow> Sequence \<Rightarrow> Sequence outcome" where
  "Sequence_Unmarshal = unmarshal_with ''Sequence'' Sequence_fields"

text \<open>The reference encoding, and the normal form that a value takes on the wire.\<close>

definition Sequence_enc :: "Sequence \<Rightarrow> bytes" where
  "Sequence_enc m = concat
     [enc_varint 0x08 (seq_Value m),
      enc_varint 0x10 (seq_Timestamp m)]"

definition Sequence_norm :: "Sequence \<Rightarrow> Sequence" where
  "Sequence_norm m = m"

lemma Sequence_norm_id [simp]: "Sequence_norm = (\<lambda>m. m)"
  by (simp add: fun_eq_iff Sequence_norm_def)

lemma Sequence_readers:
  "Sequence_fields 1 = Some (varint_reader ''Value'' (\<lambda>v m. m\<lparr>seq_Value := v\<rparr>))"
  "Sequence_fields 2 = Some (varint_reader ''Timestamp'' (\<lambda>v m. m\<lparr>seq_Timestamp := v\<rparr>))"
  by (simp_all add: Sequence_fields_def)

lemma Sequence_decodes:
  "decodes ''Sequence'' Sequence_fields
     [enc_varint 0x08 (seq_Value m),
      enc_varint 0x10 (seq_Timestamp m)]
     Sequence_zero (Ok (Sequence_norm m))"
  apply (rule decodes_varint [where fields = Sequence_fields, OF tags(1) Sequence_readers(1)])
   apply (simp add: Sequence_zero_def)
  apply (rule decodes_varint [where fields = Sequence_fields, OF tags(2) Sequence_readers(2)])
   apply (simp add: Sequence_zero_def)
  by (rule decodes_Nil) (simp add: Sequence_zero_def Sequence_norm_def ucast_simps option.map_ident)

interpretation Sequence_wire: wire_message Sequence_Size Sequence_MarshalToSizedBuffer Sequence_Marshal
  Sequence_MarshalTo Sequence_Unmarshal Sequence_zero Sequence_enc Sequence_norm
proof
  fix m :: Sequence and d :: bytes
  show "length (Sequence_enc m) = Sequence_Size m"
    by (simp add: Sequence_enc_def Sequence_Size_def length_enc )
  show "writes (Sequence_MarshalToSizedBuffer m) (Sequence_enc m)"
    unfolding Sequence_MarshalToSizedBuffer_def
    by (rule writes_fields [OF Sequence_enc_def])
      (simp add: puts_intros )
  show "Sequence_Marshal m = marshal_with Sequence_Size Sequence_MarshalToSizedBuffer m"
    by (simp add: Sequence_Marshal_def)
  show "Sequence_MarshalTo m d = marshal_to_with Sequence_Size Sequence_MarshalToSizedBuffer m d"
    by (simp add: Sequence_MarshalTo_def)
  show "Sequence_Unmarshal (Sequence_enc m) Sequence_zero = Ok (Sequence_norm m)" if "length (Sequence_enc m) < 2 ^ 63"
    using that unmarshal_with_decodes [OF Sequence_decodes] by (simp add: Sequence_enc_def Sequence_Unmarshal_def)
  show "unmarshal_safe Sequence_Unmarshal"
    unfolding Sequence_Unmarshal_def by (rule unmarshal_with_safe)
      (auto simp: Sequence_fields_def readers_ok  split: if_splits)
  show "Sequence_enc (Sequence_norm m) = Sequence_enc m"
    by (simp add: Sequence_enc_def Sequence_norm_def enc_mapped )
qed

subsection \<open>\<open>CommitmentEntry\<close>\<close>

record CommitmentEntry =
  ce_Key :: string
  ce_Value :: string

definition CommitmentEntry_zero :: CommitmentEntry where
  "CommitmentEntry_zero = \<lparr>ce_Key = '''', ce_Value = ''''\<rparr>"

definition CommitmentEntry_Size :: "CommitmentEntry \<Rightarrow> nat" where
  "CommitmentEntry_Size m =
     bytes_size (length (ce_Key m))
     + bytes_size (length (ce_Value m))"

definition CommitmentEntry_MarshalToSizedBuffer :: "CommitmentEntry \<Rightarrow> bytes \<Rightarrow> (bytes \<times> nat) outcome" where
  "CommitmentEntry_MarshalToSizedBuffer m = sized_buffer (put_all
     [put_bytes_field 0x12 (bytes_of_string (ce_Value m)),
      put_bytes_field 0x0A (bytes_of_string (ce_Key m))])"

definition CommitmentEntry_Marshal :: "CommitmentEntry \<Rightarrow> bytes outcome" where
  "CommitmentEntry_Marshal = marshal_with CommitmentEntry_Size CommitmentEntry_MarshalToSizedBuffer"

definition CommitmentEntry_MarshalTo :: "CommitmentEntry \<Rightarrow> bytes \<Rightarrow> (bytes \<times> nat) outcome" where
  "CommitmentEntry_MarshalTo = marshal_to_with CommitmentEntry_Size CommitmentEntry_MarshalToSizedBuffer"

definition CommitmentEntry_fields :: "nat \<rightharpoonup> CommitmentEntry reader" where
  "CommitmentEntry_fields =
     [1 \<mapsto> string_reader ''Key'' (\<lambda>v m. m\<lparr>ce_Key := v\<rparr>),
      2 \<mapsto> string_reader ''Value'' (\<lambda>v m. m\<lparr>ce_Value := v\<rparr>)]"

definition CommitmentEntry_Unmarshal :: "bytes \<Rightarrow> CommitmentEntry \<Rightarrow> CommitmentEntry outcome" where
  "CommitmentEntry_Unmarshal = unmarshal_with ''CommitmentEntry'' CommitmentEntry_fields"

text \<open>The reference encoding, and the normal form that a value takes on the wire.\<close>

definition CommitmentEntry_enc :: "CommitmentEntry \<Rightarrow> bytes" where
  "CommitmentEntry_enc m = concat
     [enc_bytes 0x0A (bytes_of_string (ce_Key m)),
      enc_bytes 0x12 (bytes_of_string (ce_Value m))]"

definition CommitmentEntry_norm :: "CommitmentEntry \<Rightarrow> CommitmentEntry" where
  "CommitmentEntry_norm m = m"

lemma CommitmentEntry_norm_id [simp]: "CommitmentEntry_norm = (\<lambda>m. m)"
  by (simp add: fun_eq_iff CommitmentEntry_norm_def)

lemma CommitmentEntry_readers:
  "CommitmentEntry_fields 1 = Some (string_reader ''Key'' (\<lambda>v m. m\<lparr>ce_Key := v\<rparr>))"
  "CommitmentEntry_fields 2 = Some (string_reader ''Value'' (\<lambda>v m. m\<lparr>ce_Value := v\<rparr>))"
  by (simp_all add: CommitmentEntry_fields_def)

lemma CommitmentEntry_decodes:
  "decodes ''CommitmentEntry'' CommitmentEntry_fields
     [enc_bytes 0x0A (bytes_of_string (ce_Key m)),
      enc_bytes 0x12 (bytes_of_string (ce_Value m))]
     CommitmentEntry_zero (Ok (CommitmentEntry_norm m))"
  apply (rule decodes_string [where fields = CommitmentEntry_fields, OF tags(6) CommitmentEntry_readers(1)])
   apply (simp add: CommitmentEntry_zero_def)
  apply (rule decodes_string [where fields = CommitmentEntry_fields, OF tags(7) CommitmentEntry_readers(2)])
   apply (simp add: CommitmentEntry_zero_def)
  by (rule decodes_Nil) (simp add: CommitmentEntry_zero_def CommitmentEntry_norm_def ucast_simps option.map_ident)

interpretation CommitmentEntry_wire: wire_message CommitmentEntry_Size CommitmentEntry_MarshalToSizedBuffer CommitmentEntry_Marshal
  CommitmentEntry_MarshalTo CommitmentEntry_Unmarshal CommitmentEntry_zero CommitmentEntry_enc CommitmentEntry_norm
proof
  fix m :: CommitmentEntry and d :: bytes
  show "length (CommitmentEntry_enc m) = CommitmentEntry_Size m"
    by (simp add: CommitmentEntry_enc_def CommitmentEntry_Size_def length_enc )
  show "writes (CommitmentEntry_MarshalToSizedBuffer m) (CommitmentEntry_enc m)"
    unfolding CommitmentEntry_MarshalToSizedBuffer_def
    by (rule writes_fields [OF CommitmentEntry_enc_def])
      (simp add: puts_intros )
  show "CommitmentEntry_Marshal m = marshal_with CommitmentEntry_Size CommitmentEntry_MarshalToSizedBuffer m"
    by (simp add: CommitmentEntry_Marshal_def)
  show "CommitmentEntry_MarshalTo m d = marshal_to_with CommitmentEntry_Size CommitmentEntry_MarshalToSizedBuffer m d"
    by (simp add: CommitmentEntry_MarshalTo_def)
  show "CommitmentEntry_Unmarshal (CommitmentEntry_enc m) CommitmentEntry_zero = Ok (CommitmentEntry_norm m)" if "length (CommitmentEntry_enc m) < 2 ^ 63"
    using that unmarshal_with_decodes [OF CommitmentEntry_decodes] by (simp add: CommitmentEntry_enc_def CommitmentEntry_Unmarshal_def)
  show "unmarshal_safe CommitmentEntry_Unmarshal"
    unfolding CommitmentEntry_Unmarshal_def by (rule unmarshal_with_safe)
      (auto simp: CommitmentEntry_fields_def readers_ok  split: if_splits)
  show "CommitmentEntry_enc (CommitmentEntry_norm m) = CommitmentEntry_enc m"
    by (simp add: CommitmentEntry_enc_def CommitmentEntry_norm_def enc_mapped )
qed

end
