(* ===== verification/Commitment.thy ===== *)
theory Commitment
  imports Commitment_Codec
begin

unbundle bit_operations_syntax

text \<open>
  The package \<open>chaincode/commitment\<close> without the sequence manager: the configuration
  (\<open>config.go\<close>), the keys of the ledger (\<open>key.go\<close>) and the commitment entries (\<open>commitment.go\<close>)
  that an endorser writes and a counterparty verifies. The path functions of ibc-go are arguments;
  where a property needs their format it is the hypothesis \<open>ics24_paths\<close>, the paths of the ICS-24
  standard. The main result is that two different commitments never share a key.
\<close>

section \<open>Library functions the package calls\<close>

text \<open>\<open>clienttypes.Height\<close> of ibc-go.\<close>

record Height =
  RevisionNumber :: u64
  RevisionHeight :: u64

definition NewHeight :: "u64 \<Rightarrow> u64 \<Rightarrow> Height" where
  "NewHeight n h = \<lparr>RevisionNumber = n, RevisionHeight = h\<rparr>"

text \<open>The path functions of \<open>24-host\<close> and the byte order functions of the Cosmos SDK.\<close>

record ibc_lib =
  ConsensusStatePath :: "Height \<Rightarrow> string"
  ConnectionPath :: "string \<Rightarrow> string"
  ChannelPath :: "string \<Rightarrow> string \<Rightarrow> string"
  PacketCommitmentPath :: "string \<Rightarrow> string \<Rightarrow> u64 \<Rightarrow> string"
  PacketAcknowledgementPath :: "string \<Rightarrow> string \<Rightarrow> u64 \<Rightarrow> string"
  PacketReceiptPath :: "string \<Rightarrow> string \<Rightarrow> u64 \<Rightarrow> string"
  NextSequenceRecvPath :: "string \<Rightarrow> string \<Rightarrow> string"
  Uint64ToBigEndian :: "u64 \<Rightarrow> bytes"
  BigEndianToUint64 :: "bytes \<Rightarrow> u64"

section \<open>Configuration\<close>

text \<open>Durations are \<open>int64\<close> nanoseconds.\<close>

record CommitmentConfig =
  MinTimeInterval :: i64
  MaxTimestampDiff :: i64

definition time_Second :: i64 where
  "time_Second = 1000000000"

definition DefaultConfig :: CommitmentConfig where
  "DefaultConfig = \<lparr>MinTimeInterval = 5 * time_Second, MaxTimestampDiff = 30 * time_Second\<rparr>"

section \<open>Keys\<close>

text \<open>A prefix is given by the result of its method \<open>Bytes\<close>.\<close>

definition MakeCurrentSequenceKey :: "bytes \<Rightarrow> string" where
  "MakeCurrentSequenceKey prefix = ''h/k:'' @ string_of_bytes prefix @ ''/current''"

definition MakeSequenceKey :: "bytes \<Rightarrow> u64 \<Rightarrow> string" where
  "MakeSequenceKey prefix seq = ''h/k:'' @ string_of_bytes prefix @ ''/seq/'' @ format_u64 seq"

definition MakeEntryKey :: "bytes \<Rightarrow> string \<Rightarrow> string" where
  "MakeEntryKey prefix key = ''e/k:'' @ string_of_bytes prefix @ ''/'' @ key"

section \<open>Entries\<close>

record Entry =
  entry_Key :: string
  entry_Value :: slice

definition ToCommitment :: "Entry \<Rightarrow> CommitmentEntry" where
  "ToCommitment e = \<lparr>ce_Key = entry_Key e, ce_Value = b64_encode (slice_bytes (entry_Value e))\<rparr>"

definition EntryFromCommitment :: "CommitmentEntry \<Rightarrow> Entry outcome" where
  "EntryFromCommitment ce =
     and_then (b64_decode (ce_Value ce)) (\<lambda>v. Ok \<lparr>entry_Key = ce_Key ce, entry_Value = Some v\<rparr>)"

definition MakeClientStateCommitmentEntryKey :: "bytes \<Rightarrow> string \<Rightarrow> string" where
  "MakeClientStateCommitmentEntryKey prefix clientID =
     ''h/k:'' @ string_of_bytes prefix @ ''/clients/'' @ clientID @ ''/clientState''"

definition MakeClientStateCommitmentEntry :: "bytes \<Rightarrow> string \<Rightarrow> slice \<Rightarrow> Entry outcome" where
  "MakeClientStateCommitmentEntry prefix clientID clientStateBytes =
     Ok \<lparr>entry_Key = MakeClientStateCommitmentEntryKey prefix clientID,
         entry_Value = clientStateBytes\<rparr>"

definition MakeConsensusStateCommitmentEntryKey ::
    "ibc_lib \<Rightarrow> bytes \<Rightarrow> string \<Rightarrow> Height \<Rightarrow> string" where
  "MakeConsensusStateCommitmentEntryKey L prefix clientID height =
     ''h/k:'' @ string_of_bytes prefix @ ''/clients/'' @ clientID @ ''/'' @ ConsensusStatePath L height
     @ ''/commitment''"

definition MakeConsensusStateCommitmentEntry ::
    "ibc_lib \<Rightarrow> bytes \<Rightarrow> string \<Rightarrow> Height \<Rightarrow> slice \<Rightarrow> Entry outcome" where
  "MakeConsensusStateCommitmentEntry L prefix clientID height consensusStateBytes =
     Ok \<lparr>entry_Key = MakeConsensusStateCommitmentEntryKey L prefix clientID height,
         entry_Value = consensusStateBytes\<rparr>"

definition MakeSequenceCommitmentEntryKey :: "u64 \<Rightarrow> string" where
  "MakeSequenceCommitmentEntryKey seq = ''h/_/seq/'' @ format_u64 seq @ ''/commitment''"

text \<open>
  \<open>sequence.Bytes()\<close>: \<open>proto.Marshal\<close> of a generated message is its \<open>Marshal\<close>; an error panics.
\<close>

definition Sequence_Bytes :: "Sequence \<Rightarrow> bytes outcome" where
  "Sequence_Bytes sequence =
     (case Sequence_Marshal sequence of Ok bz \<Rightarrow> Ok bz | Err e \<Rightarrow> Panic (error_string e) | Panic p \<Rightarrow> Panic p)"

definition MakeSequenceCommitmentEntry :: "Sequence \<Rightarrow> Entry outcome" where
  "MakeSequenceCommitmentEntry sequence =
     and_then (Sequence_Bytes sequence) (\<lambda>bz.
       Ok \<lparr>entry_Key = MakeSequenceCommitmentEntryKey (seq_Value sequence), entry_Value = Some bz\<rparr>)"

definition MakeConnectionStateCommitmentEntryKey :: "ibc_lib \<Rightarrow> bytes \<Rightarrow> string \<Rightarrow> string" where
  "MakeConnectionStateCommitmentEntryKey L prefix connectionID =
     ''h/k:'' @ string_of_bytes prefix @ ''/'' @ ConnectionPath L connectionID @ ''/commitment''"

definition MakeConnectionStateCommitmentEntry ::
    "ibc_lib \<Rightarrow> bytes \<Rightarrow> string \<Rightarrow> slice \<Rightarrow> Entry outcome" where
  "MakeConnectionStateCommitmentEntry L prefix connectionID connectionBytes =
     Ok \<lparr>entry_Key = MakeConnectionStateCommitmentEntryKey L prefix connectionID,
         entry_Value = connectionBytes\<rparr>"

definition MakeChannelStateCommitmentEntryKey ::
    "ibc_lib \<Rightarrow> bytes \<Rightarrow> string \<Rightarrow> string \<Rightarrow> string" where
  "MakeChannelStateCommitmentEntryKey L prefix portID channelID =
     ''h/k:'' @ string_of_bytes prefix @ ''/'' @ ChannelPath L portID channelID @ ''/commitment''"

definition MakeChannelStateCommitmentEntry ::
    "ibc_lib \<Rightarrow> bytes \<Rightarrow> string \<Rightarrow> string \<Rightarrow> slice \<Rightarrow> Entry outcome" where
  "MakeChannelStateCommitmentEntry L prefix portID channelID channelBytes =
     Ok \<lparr>entry_Key = MakeChannelStateCommitmentEntryKey L prefix portID channelID,
         entry_Value = channelBytes\<rparr>"

definition MakePacketCommitmentEntryKey ::
    "ibc_lib \<Rightarrow> bytes \<Rightarrow> string \<Rightarrow> string \<Rightarrow> u64 \<Rightarrow> string" where
  "MakePacketCommitmentEntryKey L prefix portID channelID sequence =
     MakeEntryKey prefix (PacketCommitmentPath L portID channelID sequence)"

definition MakePacketCommitmentEntry ::
    "ibc_lib \<Rightarrow> bytes \<Rightarrow> string \<Rightarrow> string \<Rightarrow> u64 \<Rightarrow> slice \<Rightarrow> Entry outcome" where
  "MakePacketCommitmentEntry L prefix portID channelID sequence packetCommitmentBytes =
     Ok \<lparr>entry_Key = MakePacketCommitmentEntryKey L prefix portID channelID sequence,
         entry_Value = packetCommitmentBytes\<rparr>"

definition MakePacketAcknowledgementEntryKey ::
    "ibc_lib \<Rightarrow> bytes \<Rightarrow> string \<Rightarrow> string \<Rightarrow> u64 \<Rightarrow> string" where
  "MakePacketAcknowledgementEntryKey L prefix portID channelID sequence =
     MakeEntryKey prefix (PacketAcknowledgementPath L portID channelID sequence)"

definition MakePacketAcknowledgementEntry ::
    "ibc_lib \<Rightarrow> bytes \<Rightarrow> string \<Rightarrow> string \<Rightarrow> u64 \<Rightarrow> slice \<Rightarrow> Entry outcome" where
  "MakePacketAcknowledgementEntry L prefix portID channelID sequence ackBytes =
     Ok \<lparr>entry_Key = MakePacketAcknowledgementEntryKey L prefix portID channelID sequence,
         entry_Value = ackBytes\<rparr>"

definition MakePacketReceiptAbsenceEntryKey ::
    "ibc_lib \<Rightarrow> bytes \<Rightarrow> string \<Rightarrow> string \<Rightarrow> u64 \<Rightarrow> string" where
  "MakePacketReceiptAbsenceEntryKey L prefix portID channelID sequence =
     MakeEntryKey prefix (PacketReceiptPath L portID channelID sequence)"

definition MakePacketReceiptAbsenceEntry ::
    "ibc_lib \<Rightarrow> bytes \<Rightarrow> string \<Rightarrow> string \<Rightarrow> u64 \<Rightarrow> Entry outcome" where
  "MakePacketReceiptAbsenceEntry L prefix portID channelID sequence =
     Ok \<lparr>entry_Key = MakePacketReceiptAbsenceEntryKey L prefix portID channelID sequence,
         entry_Value = Some [0]\<rparr>"

definition MakeNextSequenceRecvEntryKey :: "ibc_lib \<Rightarrow> bytes \<Rightarrow> string \<Rightarrow> string \<Rightarrow> string" where
  "MakeNextSequenceRecvEntryKey L prefix portID channelID =
     MakeEntryKey prefix (NextSequenceRecvPath L portID channelID)"

definition MakeNextSequenceRecvEntry ::
    "ibc_lib \<Rightarrow> bytes \<Rightarrow> string \<Rightarrow> string \<Rightarrow> u64 \<Rightarrow> Entry outcome" where
  "MakeNextSequenceRecvEntry L prefix portID channelID seq =
     Ok \<lparr>entry_Key = MakeNextSequenceRecvEntryKey L prefix portID channelID,
         entry_Value = Some (Uint64ToBigEndian L seq)\<rparr>"

lemma Sequence_Bytes_enc [simp]: "Sequence_Bytes sequence = Ok (Sequence_enc sequence)"
  by (simp add: Sequence_Bytes_def Sequence_wire.marshal_enc)

section \<open>The standard paths\<close>

text \<open>
  The paths of ICS-24 as ibc-go documents them; the string of a height is \<open>revision-height\<close>.
\<close>

definition height_string :: "Height \<Rightarrow> string" where
  "height_string h = format_u64 (RevisionNumber h) @ ''-'' @ format_u64 (RevisionHeight h)"

definition channel_path :: "string \<Rightarrow> string \<Rightarrow> string" where
  "channel_path portID channelID = ''ports/'' @ portID @ ''/channels/'' @ channelID"

definition ics24_paths :: "ibc_lib \<Rightarrow> bool" where
  "ics24_paths L \<longleftrightarrow>
     (\<forall>h. ConsensusStatePath L h = ''consensusStates/'' @ height_string h)
     \<and> (\<forall>c. ConnectionPath L c = ''connections/'' @ c)
     \<and> (\<forall>p c. ChannelPath L p c = ''channelEnds/'' @ channel_path p c)
     \<and> (\<forall>p c n. PacketCommitmentPath L p c n =
           ''commitments/'' @ channel_path p c @ ''/sequences/'' @ format_u64 n)
     \<and> (\<forall>p c n. PacketAcknowledgementPath L p c n =
           ''acks/'' @ channel_path p c @ ''/sequences/'' @ format_u64 n)
     \<and> (\<forall>p c n. PacketReceiptPath L p c n =
           ''receipts/'' @ channel_path p c @ ''/sequences/'' @ format_u64 n)
     \<and> (\<forall>p c. NextSequenceRecvPath L p c = ''nextSequenceRecv/'' @ channel_path p c)"

text \<open>Functions that satisfy it.\<close>

definition standard_lib :: ibc_lib where
  "standard_lib =
     \<lparr>ConsensusStatePath = (\<lambda>h. ''consensusStates/'' @ height_string h),
      ConnectionPath = (\<lambda>c. ''connections/'' @ c),
      ChannelPath = (\<lambda>p c. ''channelEnds/'' @ channel_path p c),
      PacketCommitmentPath = (\<lambda>p c n. ''commitments/'' @ channel_path p c @ ''/sequences/'' @ format_u64 n),
      PacketAcknowledgementPath = (\<lambda>p c n. ''acks/'' @ channel_path p c @ ''/sequences/'' @ format_u64 n),
      PacketReceiptPath = (\<lambda>p c n. ''receipts/'' @ channel_path p c @ ''/sequences/'' @ format_u64 n),
      NextSequenceRecvPath = (\<lambda>p c. ''nextSequenceRecv/'' @ channel_path p c),
      Uint64ToBigEndian = (\<lambda>n. rev (map (\<lambda>i. ucast (drop_bit (8 * i) n)) [0..<8])),
      BigEndianToUint64 = (\<lambda>b. foldl (\<lambda>n x. push_bit 8 n OR ucast x) 0 b)\<rparr>"

lemma standard_lib_paths: "ics24_paths standard_lib"
  by (simp add: ics24_paths_def standard_lib_def)

section \<open>Different commitments have different keys\<close>

text \<open>
  What an entry of the ledger is about. The first two are the entries of the sequence manager; the
  others are the commitments.
\<close>

datatype subject =
    CurrentSequence
  | SequenceAt u64
  | ClientStateOf string
  | ConsensusStateOf string Height
  | SequenceCommitment u64
  | ConnectionOf string
  | ChannelOf string string
  | PacketOf string string u64
  | AcknowledgementOf string string u64
  | ReceiptAbsenceOf string string u64
  | NextSequenceRecvOf string string

fun subject_key :: "ibc_lib \<Rightarrow> bytes \<Rightarrow> subject \<Rightarrow> string" where
  "subject_key L prefix CurrentSequence = MakeCurrentSequenceKey prefix"
| "subject_key L prefix (SequenceAt n) = MakeSequenceKey prefix n"
| "subject_key L prefix (ClientStateOf i) = MakeClientStateCommitmentEntryKey prefix i"
| "subject_key L prefix (ConsensusStateOf i h) = MakeConsensusStateCommitmentEntryKey L prefix i h"
| "subject_key L prefix (SequenceCommitment n) = MakeSequenceCommitmentEntryKey n"
| "subject_key L prefix (ConnectionOf i) = MakeConnectionStateCommitmentEntryKey L prefix i"
| "subject_key L prefix (ChannelOf p c) = MakeChannelStateCommitmentEntryKey L prefix p c"
| "subject_key L prefix (PacketOf p c n) = MakePacketCommitmentEntryKey L prefix p c n"
| "subject_key L prefix (AcknowledgementOf p c n) = MakePacketAcknowledgementEntryKey L prefix p c n"
| "subject_key L prefix (ReceiptAbsenceOf p c n) = MakePacketReceiptAbsenceEntryKey L prefix p c n"
| "subject_key L prefix (NextSequenceRecvOf p c) = MakeNextSequenceRecvEntryKey L prefix p c"

text \<open>An identifier of ICS-24 has no separator in it.\<close>

definition plain :: "string \<Rightarrow> bool" where
  "plain i \<longleftrightarrow> CHR ''/'' \<notin> set i"

fun plain_subject :: "subject \<Rightarrow> bool" where
  "plain_subject (ClientStateOf i) = plain i"
| "plain_subject (ConsensusStateOf i h) = plain i"
| "plain_subject (ConnectionOf i) = plain i"
| "plain_subject (ChannelOf p c) = (plain p \<and> plain c)"
| "plain_subject (PacketOf p c n) = (plain p \<and> plain c)"
| "plain_subject (AcknowledgementOf p c n) = (plain p \<and> plain c)"
| "plain_subject (ReceiptAbsenceOf p c n) = (plain p \<and> plain c)"
| "plain_subject (NextSequenceRecvOf p c) = (plain p \<and> plain c)"
| "plain_subject _ = True"

text \<open>
  A key is one of three heads, followed by segments that have no separator in them. The segments
  determine the subject.
\<close>

fun key_head :: "bytes \<Rightarrow> subject \<Rightarrow> string" where
  "key_head prefix (SequenceCommitment n) = ''h/_/''"
| "key_head prefix (PacketOf p c n) = ''e/k:'' @ string_of_bytes prefix @ ''/''"
| "key_head prefix (AcknowledgementOf p c n) = ''e/k:'' @ string_of_bytes prefix @ ''/''"
| "key_head prefix (ReceiptAbsenceOf p c n) = ''e/k:'' @ string_of_bytes prefix @ ''/''"
| "key_head prefix (NextSequenceRecvOf p c) = ''e/k:'' @ string_of_bytes prefix @ ''/''"
| "key_head prefix _ = ''h/k:'' @ string_of_bytes prefix @ ''/''"

fun key_segments :: "subject \<Rightarrow> string list" where
  "key_segments CurrentSequence = [''current'']"
| "key_segments (SequenceAt n) = [''seq'', format_u64 n]"
| "key_segments (ClientStateOf i) = [''clients'', i, ''clientState'']"
| "key_segments (ConsensusStateOf i h) =
     [''clients'', i, ''consensusStates'', height_string h, ''commitment'']"
| "key_segments (SequenceCommitment n) = [''seq'', format_u64 n, ''commitment'']"
| "key_segments (ConnectionOf i) = [''connections'', i, ''commitment'']"
| "key_segments (ChannelOf p c) = [''channelEnds'', ''ports'', p, ''channels'', c, ''commitment'']"
| "key_segments (PacketOf p c n) =
     [''commitments'', ''ports'', p, ''channels'', c, ''sequences'', format_u64 n]"
| "key_segments (AcknowledgementOf p c n) =
     [''acks'', ''ports'', p, ''channels'', c, ''sequences'', format_u64 n]"
| "key_segments (ReceiptAbsenceOf p c n) =
     [''receipts'', ''ports'', p, ''channels'', c, ''sequences'', format_u64 n]"
| "key_segments (NextSequenceRecvOf p c) = [''nextSequenceRecv'', ''ports'', p, ''channels'', c]"

lemmas make_key_defs = MakeCurrentSequenceKey_def MakeSequenceKey_def MakeEntryKey_def
  MakeClientStateCommitmentEntryKey_def MakeConsensusStateCommitmentEntryKey_def
  MakeSequenceCommitmentEntryKey_def MakeConnectionStateCommitmentEntryKey_def
  MakeChannelStateCommitmentEntryKey_def MakePacketCommitmentEntryKey_def
  MakePacketAcknowledgementEntryKey_def MakePacketReceiptAbsenceEntryKey_def
  MakeNextSequenceRecvEntryKey_def

lemma subject_key_segments:
  "ics24_paths L \<Longrightarrow> subject_key L prefix x = key_head prefix x @ join_with CHR ''/'' (key_segments x)"
  by (cases x) (simp_all add: make_key_defs ics24_paths_def channel_path_def)

lemma height_string_plain [simp]: "CHR ''/'' \<notin> set (height_string h)"
  by (simp add: height_string_def)

lemma height_string_inject [simp]: "height_string h = height_string h' \<longleftrightarrow> h = h'"
proof
  assume "height_string h = height_string h'"
  then have "format_u64 (RevisionNumber h) @ CHR ''-'' # format_u64 (RevisionHeight h) =
      format_u64 (RevisionNumber h') @ CHR ''-'' # format_u64 (RevisionHeight h')"
    by (simp add: height_string_def)
  then show "h = h'" by (auto dest!: append_sep_inject intro: Height.equality)
qed simp

lemma key_segments_plain: "plain_subject x \<Longrightarrow> w \<in> set (key_segments x) \<Longrightarrow> CHR ''/'' \<notin> set w"
  by (cases x) (auto simp: plain_def)

lemma key_segments_inject:
  "key_segments x = key_segments y \<Longrightarrow> key_head prefix x = key_head prefix y \<Longrightarrow> x = y"
  by (cases x; cases y) auto

lemma key_heads:
  "key_head prefix x @ r = key_head prefix y @ r' \<Longrightarrow> key_head prefix x = key_head prefix y \<and> r = r'"
  by (cases x; cases y) auto

lemma key_segments_not_Nil [simp]: "key_segments x \<noteq> []"
  by (cases x) auto

lemma subject_key_injective:
  assumes "ics24_paths L" "plain_subject x" "plain_subject y"
  shows "subject_key L prefix x = subject_key L prefix y \<longleftrightarrow> x = y"
proof
  assume "subject_key L prefix x = subject_key L prefix y"
  then have "key_head prefix x = key_head prefix y"
      "join_with CHR ''/'' (key_segments x) = join_with CHR ''/'' (key_segments y)"
    using key_heads by (simp_all add: subject_key_segments [OF assms(1)])
  moreover from this have "key_segments x = key_segments y"
    using assms(2,3) by (intro join_with_inject [of "CHR ''/''"]) (auto dest: key_segments_plain)
  ultimately show "x = y" by (intro key_segments_inject)
qed simp

lemma subject_key_has_sep: "CHR ''/'' \<in> set (subject_key L prefix x)"
  by (cases x) (simp_all add: make_key_defs)

section \<open>Properties\<close>

text \<open>
  C18: Under the standard paths, the entries of the sequence manager and the commitments of clients,
  consensus states, sequences, connections, channels, packets, acknowledgements, receipt absences and
  next receive sequences are all stored under different keys: a key determines what it is about, as
  long as identifiers have no separator in them.
\<close>

theorem commitment_keys_injective:
  assumes "ics24_paths L" "plain_subject x" "plain_subject y"
  shows "subject_key L prefix x = subject_key L prefix y \<longleftrightarrow> x = y"
  by (rule subject_key_injective [OF assms])

theorem commitment_keys_injective_witness:
  "MakePacketCommitmentEntryKey standard_lib (bytes_of_string ''ibc'') ''transfer'' ''channel-0'' 1 \<noteq>
   MakePacketAcknowledgementEntryKey standard_lib (bytes_of_string ''ibc'') ''transfer'' ''channel-0'' 1"
  using commitment_keys_injective [OF standard_lib_paths, of "PacketOf ''transfer'' ''channel-0'' 1"
      "AcknowledgementOf ''transfer'' ''channel-0'' 1" "bytes_of_string ''ibc''"]
  by (simp add: plain_def)

text \<open>
  C36: The textual form in which an endorsement returns an entry can be read back: \<open>EntryFromCommitment\<close>
  gives the entry of \<open>ToCommitment\<close> again, with a \<open>nil\<close> value read as an empty one.
\<close>

theorem entry_round_trip:
  "EntryFromCommitment (ToCommitment e) = Ok (e\<lparr>entry_Value := Some (slice_bytes (entry_Value e))\<rparr>)"
  by (simp add: EntryFromCommitment_def ToCommitment_def)

end
