(* ===== verification/Sequence_Manager.thy ===== *)
theory Sequence_Manager
  imports Commitment Stub
begin

text \<open>
  The sequence manager of \<open>chaincode/commitment/sequence.go\<close>, which keeps the height and the time of
  the chain on the ledger. The lemmas about single operations are proved against the contract of
  the stub; the history of the ledger is the step relation \<open>sequence_chain\<close>, whose invariant says
  that after \<open>k\<close> updates the entries \<open>1, \<dots>, k\<close> are all there, with timestamps at least the
  configured interval apart.
\<close>

section \<open>Operations\<close>

definition NewSequence :: "u64 \<Rightarrow> i64 \<Rightarrow> Sequence" where
  "NewSequence v tm = \<lparr>seq_Value = v, seq_Timestamp = tm\<rparr>"

text \<open>The clock is read in the state in which it is called; it is given in seconds (\<open>Unix\<close>).\<close>

record 's SequenceManager =
  sm_config :: CommitmentConfig
  sm_prefix :: bytes
  sm_clock :: "'s \<Rightarrow> i64"

definition NewSequenceManager :: "CommitmentConfig \<Rightarrow> bytes \<Rightarrow> ('s \<Rightarrow> i64) \<Rightarrow> 's SequenceManager" where
  "NewSequenceManager config prefix tmtime_Now =
     \<lparr>sm_config = config, sm_prefix = prefix, sm_clock = tmtime_Now\<rparr>"

text \<open>The second argument is the constant \<open>StoreKey\<close> of \<open>24-host\<close>.\<close>

definition NewDefaultSequenceManager :: "string \<Rightarrow> ('s \<Rightarrow> i64) \<Rightarrow> 's SequenceManager" where
  "NewDefaultSequenceManager host_StoreKey =
     NewSequenceManager DefaultConfig (bytes_of_string host_StoreKey)"

definition SetClock :: "('s \<Rightarrow> i64) \<Rightarrow> 's SequenceManager \<Rightarrow> 's SequenceManager" where
  "SetClock clock m = m\<lparr>sm_clock := clock\<rparr>"

text \<open>\<open>GetSeconds\<close> of a timestamp; zero for \<open>nil\<close>.\<close>

definition GetSeconds :: "i64 option \<Rightarrow> i64" where
  "GetSeconds tm = (case tm of None \<Rightarrow> 0 | Some sec \<Rightarrow> sec)"

text \<open>\<open>int64(d / time.Second)\<close>\<close>

definition duration_seconds :: "i64 \<Rightarrow> i64" where
  "duration_seconds d = i64_quot d time_Second"

definition ValidateTimestamp ::
    "'s SequenceManager \<Rightarrow> i64 \<Rightarrow> i64 \<Rightarrow> i64 option \<Rightarrow> unit outcome" where
  "ValidateTimestamp m now prevSec next =
     (if sint (now + duration_seconds (MaxTimestampDiff (sm_config m))) < sint (GetSeconds next)
      then Err (ErrorNew ''the next timestamp indicates future time'')
      else if sint (GetSeconds next) < sint (now - duration_seconds (MaxTimestampDiff (sm_config m)))
      then Err (ErrorNew ''the next timestamp indicates past time'')
      else if 0 < sint prevSec \<and>
        sint (GetSeconds next) < sint (prevSec + duration_seconds (MinTimeInterval (sm_config m)))
      then Err (ErrorNew ''the next timestamp is less than the minimum time for advancing the sequence'')
      else Ok ())"

definition getCurrentSequence :: "'s SequenceManager \<Rightarrow> 's stub \<Rightarrow> ('s, Sequence) call" where
  "getCurrentSequence m S =
     then_call (GetState S (MakeCurrentSequenceKey (sm_prefix m))) (\<lambda>bz.
       case bz of
         None \<Rightarrow> fail (ErrorNew ''key not found'')
       | Some b \<Rightarrow> lift (Sequence_Unmarshal b Sequence_zero))"

definition getSequence :: "'s SequenceManager \<Rightarrow> 's stub \<Rightarrow> u64 \<Rightarrow> ('s, Sequence) call" where
  "getSequence m S v =
     then_call (GetState S (MakeSequenceKey (sm_prefix m) v)) (\<lambda>bz.
       case bz of
         None \<Rightarrow> fail (ErrorNew ''key not found'')
       | Some b \<Rightarrow> lift (Sequence_Unmarshal b Sequence_zero))"

definition updateSequence :: "'s SequenceManager \<Rightarrow> 's stub \<Rightarrow> Sequence \<Rightarrow> ('s, unit) call" where
  "updateSequence m S nextSeq =
     then_call (lift (Sequence_Bytes nextSeq)) (\<lambda>bz.
       then_call (PutState S (MakeCurrentSequenceKey (sm_prefix m)) (Some bz)) (\<lambda>_.
         then_call (lift (Sequence_Bytes nextSeq)) (\<lambda>bz'.
           PutState S (MakeSequenceKey (sm_prefix m) (seq_Value nextSeq)) (Some bz'))))"

definition InitSequence :: "'s SequenceManager \<Rightarrow> 's stub \<Rightarrow> ('s, Sequence) call" where
  "InitSequence m S =
     then_call (GetTxTimestamp S) (\<lambda>tm.
       then_call (reads (\<lambda>s. ValidateTimestamp m (sm_clock m s) 0 tm)) (\<lambda>_.
         let sq = NewSequence 1 (GetSeconds tm)
         in then_call (updateSequence m S sq) (\<lambda>_. give sq)))"

definition GetCurrentSequence :: "'s SequenceManager \<Rightarrow> 's stub \<Rightarrow> ('s, Sequence) call" where
  "GetCurrentSequence m S = getCurrentSequence m S"

definition GetSequence :: "'s SequenceManager \<Rightarrow> 's stub \<Rightarrow> u64 \<Rightarrow> ('s, Sequence) call" where
  "GetSequence m S sq = getSequence m S sq"

text \<open>The stub of a context is the one it was made with.\<close>

definition GetSequenceFromHeight :: "'s SequenceManager \<Rightarrow> 's stub \<Rightarrow> Height \<Rightarrow> ('s, Sequence) call" where
  "GetSequenceFromHeight m S height = GetSequence m S (RevisionHeight height)"

definition UpdateSequence :: "'s SequenceManager \<Rightarrow> 's stub \<Rightarrow> ('s, Sequence) call" where
  "UpdateSequence m S =
     then_call (getCurrentSequence m S) (\<lambda>current.
       then_call (GetTxTimestamp S) (\<lambda>tm.
         then_call (reads (\<lambda>s. ValidateTimestamp m (sm_clock m s) (seq_Timestamp current) tm)) (\<lambda>_.
           let sq = NewSequence (seq_Value current + 1) (GetSeconds tm)
           in then_call (updateSequence m S sq) (\<lambda>_. give sq))))"

section \<open>The timestamp check\<close>

text \<open>
  A clock and a configuration for which the sums do not overflow: the time is after 1970 and far
  below \<open>2^63\<close> seconds, and the durations are not negative.
\<close>

definition sane :: "'s SequenceManager \<Rightarrow> bool" where
  "sane m \<longleftrightarrow> (\<forall>s. 0 \<le> sint (sm_clock m s) \<and> sint (sm_clock m s) < 2 ^ 62)
     \<and> 0 \<le> sint (MaxTimestampDiff (sm_config m)) \<and> 0 \<le> sint (MinTimeInterval (sm_config m))"

definition max_diff :: "'s SequenceManager \<Rightarrow> int" where
  "max_diff m = sint (MaxTimestampDiff (sm_config m)) div 1000000000"

definition min_interval :: "'s SequenceManager \<Rightarrow> int" where
  "min_interval m = sint (MinTimeInterval (sm_config m)) div 1000000000"

lemma sint_add_id:
  "- (2 ^ 63) \<le> sint a + sint b \<Longrightarrow> sint a + sint b < 2 ^ 63 \<Longrightarrow> sint (a + b :: i64) = sint a + sint b"
  using wrap_int_id [of "sint a + sint b"] by (simp add: wrap_int_def)

lemma sint_diff_id:
  "- (2 ^ 63) \<le> sint a - sint b \<Longrightarrow> sint a - sint b < 2 ^ 63 \<Longrightarrow> sint (a - b :: i64) = sint a - sint b"
  using wrap_int_id [of "sint a - sint b"] by (simp add: wrap_int_def)

lemma duration_seconds_id:
  assumes "0 \<le> sint d"
  shows "sint (duration_seconds d) = sint d div 1000000000"
proof -
  have "sint d < 2 ^ 63" using sint_lt [of d] by simp
  then have "sint d div 1000000000 < 2 ^ 63" using assms by simp
  moreover have "duration_seconds d = word_of_int (sint d div 1000000000)"
    using assms by (cases "sint d = 0") (simp_all add: duration_seconds_def i64_quot_def time_Second_def)
  ultimately show ?thesis
    using wrap_int_id [of "sint d div 1000000000"] assms by (simp add: wrap_int_def pos_imp_zdiv_nonneg_iff)
qed

lemma duration_seconds_bounds:
  assumes "0 \<le> sint d"
  shows "0 \<le> sint (duration_seconds d)" "sint (duration_seconds d) < 2 ^ 61"
proof -
  have "sint d < 2 ^ 63" using sint_lt [of d] by simp
  then show "sint (duration_seconds d) < 2 ^ 61" "0 \<le> sint (duration_seconds d)"
    using assms by (simp_all add: duration_seconds_id pos_imp_zdiv_nonneg_iff)
qed

lemma ValidateTimestamp_iff:
  assumes "sane m" "now = sm_clock m s" "sint prevSec < 2 ^ 62 + 2 ^ 61"
  shows "ValidateTimestamp m now prevSec tm = Ok () \<longleftrightarrow>
    \<bar>sint (GetSeconds tm) - sint now\<bar> \<le> max_diff m \<and>
    (0 < sint prevSec \<longrightarrow> sint prevSec + min_interval m \<le> sint (GetSeconds tm))"
proof -
  let ?D = "MaxTimestampDiff (sm_config m)" and ?I = "MinTimeInterval (sm_config m)"
  have now: "0 \<le> sint now" "sint now < 2 ^ 62" and pos: "0 \<le> sint ?D" "0 \<le> sint ?I"
    using assms(1,2) by (auto simp: sane_def)
  note bounds = duration_seconds_bounds [OF pos(1)] duration_seconds_bounds [OF pos(2)]
  have "sint (now + duration_seconds ?D) = sint now + max_diff m"
      "sint (now - duration_seconds ?D) = sint now - max_diff m"
    using now bounds(1,2) sint_add_id [of now "duration_seconds ?D"]
      sint_diff_id [of now "duration_seconds ?D"]
    by (simp_all add: max_diff_def duration_seconds_id pos)
  moreover have "0 < sint prevSec \<Longrightarrow>
      sint (prevSec + duration_seconds ?I) = sint prevSec + min_interval m"
    using bounds(3,4) sint_add_id [of prevSec "duration_seconds ?I"] assms(3)
    by (simp add: min_interval_def duration_seconds_id pos)
  ultimately show ?thesis by (auto simp: ValidateTimestamp_def)
qed

lemma ValidateTimestamp_unit: "ValidateTimestamp m now prevSec tm = Ok u \<longleftrightarrow> ValidateTimestamp m now prevSec tm = Ok ()"
  by simp

lemma ValidateTimestamp_bound:
  assumes "sane m" "ValidateTimestamp m (sm_clock m s) prevSec tm = Ok u"
  shows "sint (GetSeconds tm) < 2 ^ 62 + 2 ^ 61"
proof -
  let ?D = "MaxTimestampDiff (sm_config m)"
  have now: "0 \<le> sint (sm_clock m s)" "sint (sm_clock m s) < 2 ^ 62" and pos: "0 \<le> sint ?D"
    using assms(1) by (auto simp: sane_def)
  note bounds = duration_seconds_bounds [OF pos]
  then have "sint (sm_clock m s + duration_seconds ?D) = sint (sm_clock m s) + sint (duration_seconds ?D)"
    using now by (intro sint_add_id) auto
  then show ?thesis using assms(2) now bounds by (auto simp: ValidateTimestamp_def split: if_splits)
qed

section \<open>Operations against the contract of the stub\<close>

lemma decode_sequence: "Sequence_Unmarshal (Sequence_enc q) Sequence_zero = Ok q"
proof -
  have size: "varint_size v \<le> 11" for v using sov_bound [of v] by (simp add: varint_size_def)
  have "Sequence_Size q \<le> 22"
    using size [of "seq_Value q"] size [of "seq_Timestamp q"] by (simp add: Sequence_Size_def)
  then have "length (Sequence_enc q) < 2 ^ 63" by (simp add: Sequence_wire.size_enc)
  from Sequence_wire.reads_back [OF this] show ?thesis by simp
qed

text \<open>The two entries that a successful \<open>InitSequence\<close> or \<open>UpdateSequence\<close> leaves behind.\<close>

definition with_sequence ::
    "bytes \<Rightarrow> Sequence \<Rightarrow> (string \<Rightarrow> slice option) \<Rightarrow> string \<Rightarrow> slice option" where
  "with_sequence prefix q l = l(MakeCurrentSequenceKey prefix \<mapsto> Some (Sequence_enc q),
     MakeSequenceKey prefix (seq_Value q) \<mapsto> Some (Sequence_enc q))"

context ledger_stub
begin

lemma updateSequence_writes:
  assumes "updateSequence m S q s = (Ok u, s')"
  shows "final s' = with_sequence (sm_prefix m) q (final s)"
  using assms
  by (auto simp: updateSequence_def outcome_simps with_sequence_def dest!: put_writes)

lemma InitSequence_ok:
  assumes "InitSequence m S s = (Ok q, s')"
  obtains tm where "GetTxTimestamp S s = (Ok tm, s)" "q = NewSequence 1 (GetSeconds tm)"
    "ValidateTimestamp m (sm_clock m s) 0 tm = Ok ()"
    "final s' = with_sequence (sm_prefix m) q (final s)"
proof -
  from assms obtain tm s1 where tm: "GetTxTimestamp S s = (Ok tm, s1)"
      "ValidateTimestamp m (sm_clock m s1) 0 tm = Ok ()"
      "q = NewSequence 1 (GetSeconds tm)" "updateSequence m S q s1 = (Ok (), s')"
    by (auto simp: InitSequence_def outcome_simps Let_def)
  from timestamp_reads [OF tm(1)] have "s1 = s" .
  with tm updateSequence_writes [OF tm(4)] show ?thesis by (intro that) auto
qed

lemma getCurrentSequence_ok:
  assumes "getCurrentSequence m S s = (Ok q, s')"
  obtains b where "s' = s" "view s (MakeCurrentSequenceKey (sm_prefix m)) = Some (Some b)"
    "Sequence_Unmarshal b Sequence_zero = Ok q"
  using assms
  by (auto simp: getCurrentSequence_def outcome_simps slice_of_def split: option.splits dest!: get_reads)

lemma UpdateSequence_ok:
  assumes "UpdateSequence m S s = (Ok q, s')"
  obtains b cur tm where "view s (MakeCurrentSequenceKey (sm_prefix m)) = Some (Some b)"
    "Sequence_Unmarshal b Sequence_zero = Ok cur" "GetTxTimestamp S s = (Ok tm, s)"
    "q = NewSequence (seq_Value cur + 1) (GetSeconds tm)"
    "ValidateTimestamp m (sm_clock m s) (seq_Timestamp cur) tm = Ok ()"
    "final s' = with_sequence (sm_prefix m) q (final s)"
proof -
  from assms obtain cur s0 tm s1 where cur: "getCurrentSequence m S s = (Ok cur, s0)"
      "GetTxTimestamp S s0 = (Ok tm, s1)"
      "ValidateTimestamp m (sm_clock m s1) (seq_Timestamp cur) tm = Ok ()"
      "q = NewSequence (seq_Value cur + 1) (GetSeconds tm)" "updateSequence m S q s1 = (Ok (), s')"
    by (auto simp: UpdateSequence_def outcome_simps Let_def)
  from cur(1) obtain b where b: "s0 = s" "view s (MakeCurrentSequenceKey (sm_prefix m)) = Some (Some b)"
      "Sequence_Unmarshal b Sequence_zero = Ok cur"
    by (rule getCurrentSequence_ok)
  from timestamp_reads [OF cur(2)] b have "s1 = s" by simp
  with cur b updateSequence_writes [OF cur(5)] show ?thesis by (intro that) auto
qed

end

section \<open>The history of the ledger\<close>

text \<open>
  The states of the ledger between transactions, with the number of sequences made so far. A
  transaction that fails is not committed. Between two updates other transactions may write, but
  not to the keys of the manager; a state in which a transaction starts has no pending writes.
\<close>

definition same_sequences ::
    "bytes \<Rightarrow> (string \<Rightarrow> slice option) \<Rightarrow> (string \<Rightarrow> slice option) \<Rightarrow> bool" where
  "same_sequences prefix l l' \<longleftrightarrow>
     l (MakeCurrentSequenceKey prefix) = l' (MakeCurrentSequenceKey prefix)
     \<and> (\<forall>n. l (MakeSequenceKey prefix n) = l' (MakeSequenceKey prefix n))"

inductive sequence_chain ::
    "'s SequenceManager \<Rightarrow> 's stub \<Rightarrow> ('s \<Rightarrow> string \<Rightarrow> slice option) \<Rightarrow>
      ('s \<Rightarrow> string \<Rightarrow> slice option) \<Rightarrow> ('s \<Rightarrow> 's) \<Rightarrow> nat \<Rightarrow> 's \<Rightarrow> bool"
  for m S view final commit where
  chain_init: "InitSequence m S s = (Ok q, s') \<Longrightarrow> sequence_chain m S view final commit 1 (commit s')"
| chain_update: "sequence_chain m S view final commit k s \<Longrightarrow> UpdateSequence m S s = (Ok q, s') \<Longrightarrow>
     sequence_chain m S view final commit (Suc k) (commit s')"
| chain_other: "sequence_chain m S view final commit k s \<Longrightarrow>
     same_sequences (sm_prefix m) (view s) (view s') \<Longrightarrow> final s' = view s' \<Longrightarrow>
     sequence_chain m S view final commit k s'"

inductive_cases sequence_chainE: "sequence_chain m S view final commit k s"

text \<open>The timestamps \<open>ts\<close> of the sequences \<open>1, \<dots>, length ts\<close> on the ledger.\<close>

definition holds_sequences ::
    "'s SequenceManager \<Rightarrow> i64 list \<Rightarrow> (string \<Rightarrow> slice option) \<Rightarrow> bool" where
  "holds_sequences m ts l \<longleftrightarrow> ts \<noteq> []
     \<and> l (MakeCurrentSequenceKey (sm_prefix m)) =
         Some (Some (Sequence_enc (NewSequence (word_of_nat (length ts)) (last ts))))
     \<and> (\<forall>i < length ts. l (MakeSequenceKey (sm_prefix m) (word_of_nat (Suc i))) =
         Some (Some (Sequence_enc (NewSequence (word_of_nat (Suc i)) (ts ! i)))))"

definition spaced :: "'s SequenceManager \<Rightarrow> i64 list \<Rightarrow> bool" where
  "spaced m ts \<longleftrightarrow> (\<forall>t \<in> set ts. sint t < 2 ^ 62 + 2 ^ 61)
     \<and> (\<forall>i. Suc i < length ts \<longrightarrow> 0 < sint (ts ! i) \<longrightarrow> sint (ts ! i) + min_interval m \<le> sint (ts ! Suc i))"

lemma sequence_keys_distinct [simp]:
  "MakeCurrentSequenceKey p \<noteq> MakeSequenceKey p n" "MakeSequenceKey p n \<noteq> MakeCurrentSequenceKey p"
  "MakeSequenceKey p n = MakeSequenceKey p n' \<longleftrightarrow> n = n'"
  by (auto simp: MakeCurrentSequenceKey_def MakeSequenceKey_def)

lemma holds_sequences_cong:
  "same_sequences (sm_prefix m) l l' \<Longrightarrow> holds_sequences m ts l \<longleftrightarrow> holds_sequences m ts l'"
  by (simp add: holds_sequences_def same_sequences_def)

lemma holds_sequences_first:
  "holds_sequences m [t] (with_sequence (sm_prefix m) (NewSequence 1 t) l)"
  by (simp add: holds_sequences_def with_sequence_def NewSequence_def)

lemma word_of_nat_neq:
  assumes "i < 2 ^ 64" "j < 2 ^ 64" "i \<noteq> j"
  shows "(word_of_nat i :: u64) \<noteq> word_of_nat j"
proof
  assume "(word_of_nat i :: u64) = word_of_nat j"
  then have "unat (word_of_nat i :: u64) = unat (word_of_nat j :: u64)" by simp
  with assms show False by (simp add: unsigned_of_nat take_bit_nat_eq_self)
qed

lemma holds_sequences_snoc:
  assumes "holds_sequences m ts l" "Suc (length ts) < 2 ^ 64"
    and "q = NewSequence (word_of_nat (Suc (length ts))) t"
  shows "holds_sequences m (ts @ [t]) (with_sequence (sm_prefix m) q l)"
proof -
  have "(word_of_nat (Suc i) :: u64) \<noteq> word_of_nat (Suc (length ts))" if "i < length ts" for i
    using that assms(2) by (intro word_of_nat_neq) auto
  then show ?thesis
    using assms(1,3)
    by (auto simp: holds_sequences_def with_sequence_def NewSequence_def nth_append less_Suc_eq
        simp del: of_nat_Suc)
qed

lemma spaced_snoc:
  assumes "spaced m ts" "ts \<noteq> []" "sint t < 2 ^ 62 + 2 ^ 61"
    and "0 < sint (last ts) \<longrightarrow> sint (last ts) + min_interval m \<le> sint t"
  shows "spaced m (ts @ [t])"
proof -
  have "sint ((ts @ [t]) ! i) + min_interval m \<le> sint ((ts @ [t]) ! Suc i)"
    if "Suc i < length (ts @ [t])" "0 < sint ((ts @ [t]) ! i)" for i
  proof (cases "Suc i < length ts")
    case True
    with assms(1) that show ?thesis by (auto simp: spaced_def nth_append)
  next
    case False
    with that assms(2) have "i = length ts - 1" "i < length ts" by auto
    with assms(2,4) that show ?thesis by (auto simp: nth_append last_conv_nth)
  qed
  with assms(1,3) show ?thesis by (auto simp: spaced_def)
qed

context ledger_stub
begin

lemma sequence_chain_holds:
  assumes "sequence_chain m S view final commit k s" "sane m"
  shows "k < 2 ^ 64 \<Longrightarrow> \<exists>ts. length ts = k \<and> holds_sequences m ts (view s) \<and> spaced m ts \<and> final s = view s"
  using assms(1)
proof induction
  case (chain_init s q s')
  then obtain tm where "ValidateTimestamp m (sm_clock m s) 0 tm = Ok ()"
      "final s' = with_sequence (sm_prefix m) (NewSequence 1 (GetSeconds tm)) (final s)"
    by (metis InitSequence_ok)
  with ValidateTimestamp_bound [OF assms(2)] show ?case
    by (intro exI [of _ "[GetSeconds tm]"])
      (auto simp: commit_view commit_final holds_sequences_first spaced_def)
next
  case (chain_update k s q s')
  then obtain ts where ts: "length ts = k" "holds_sequences m ts (view s)" "spaced m ts" "final s = view s" by auto
  from chain_update(2) obtain b cur tm where q:
      "view s (MakeCurrentSequenceKey (sm_prefix m)) = Some (Some b)"
      "Sequence_Unmarshal b Sequence_zero = Ok cur"
      "q = NewSequence (seq_Value cur + 1) (GetSeconds tm)"
      "ValidateTimestamp m (sm_clock m s) (seq_Timestamp cur) tm = Ok ()"
      "final s' = with_sequence (sm_prefix m) q (final s)"
    by (rule UpdateSequence_ok)
  from q(1) ts(2) have "b = Sequence_enc (NewSequence (word_of_nat k) (last ts))"
    by (simp add: holds_sequences_def ts(1))
  with q(2) have cur: "cur = NewSequence (word_of_nat k) (last ts)" by (simp add: decode_sequence)
  from ts(2) have ne: "ts \<noteq> []" by (simp add: holds_sequences_def)
  then have last: "last ts \<in> set ts" by simp
  have "holds_sequences m (ts @ [GetSeconds tm]) (view (commit s'))"
    using q(3,5) ts cur chain_update(4)
    by (simp add: commit_view) (rule holds_sequences_snoc, simp_all add: NewSequence_def add.commute)
  moreover have "spaced m (ts @ [GetSeconds tm])"
  proof (rule spaced_snoc [OF ts(3) ne])
    show "sint (GetSeconds tm) < 2 ^ 62 + 2 ^ 61" by (rule ValidateTimestamp_bound [OF assms(2) q(4)])
    show "0 < sint (last ts) \<longrightarrow> sint (last ts) + min_interval m \<le> sint (GetSeconds tm)"
      using q(4) ts(3) last
      by (subst (asm) ValidateTimestamp_iff [OF assms(2) refl]) (auto simp: cur NewSequence_def spaced_def)
  qed
  ultimately show ?case
    using ts(1) by (intro exI [of _ "ts @ [GetSeconds tm]"]) (simp add: commit_view commit_final)
next
  case (chain_other k s s')
  then show ?case by (auto simp: holds_sequences_cong)
qed

end

section \<open>Properties\<close>

text \<open>
  C2: However the ledger got to a state, if \<open>k\<close> sequences have been made since the chaincode was
  initialised (and \<open>k\<close> has not exhausted the 64-bit counter), then the current sequence is \<open>k\<close>, every
  sequence \<open>1, \<dots>, k\<close> can still be read, and consecutive timestamps are at least \<open>MinTimeInterval\<close>
  apart. This holds over every stub that satisfies the contract, with other transactions in
  between, for a clock and durations that do not overflow.
\<close>

theorem sequence_history:
  assumes "ledger_stub S view final commit" "sequence_chain m S view final commit k s" "sane m" "k < 2 ^ 64"
  shows "\<exists>ts. length ts = k \<and> holds_sequences m ts (view s) \<and> spaced m ts"
  using ledger_stub.sequence_chain_holds [OF assms(1,2,3,4)] by blast

text \<open>A manager with the default configuration and a clock at 1000 seconds, over the in-memory stub.\<close>

definition demo_manager :: "fake_ledger SequenceManager" where
  "demo_manager = NewDefaultSequenceManager ''ibc'' (\<lambda>_. 1000)"

lemma sane_demo: "sane demo_manager"
  by (simp add: sane_def demo_manager_def NewDefaultSequenceManager_def NewSequenceManager_def
      DefaultConfig_def time_Second_def)

lemma demo_first:
  "\<exists>s'. InitSequence demo_manager MakeFakeStub (empty_ledger (Some 1000)) = (Ok (NewSequence 1 1000), s')"
  by (simp add: InitSequence_def then_call_def empty_ledger_def updateSequence_def ValidateTimestamp_def
      fake_PutState_def GetSeconds_def duration_seconds_def i64_quot_def time_Second_def demo_manager_def
      NewDefaultSequenceManager_def NewSequenceManager_def DefaultConfig_def Let_def)

theorem sequence_history_witness:
  "\<exists>s ts. length ts = 1 \<and> holds_sequences demo_manager ts (fake_view s) \<and> spaced demo_manager ts"
proof -
  from demo_first obtain s' where
    "InitSequence demo_manager MakeFakeStub (empty_ledger (Some 1000)) = (Ok (NewSequence 1 1000), s')"
    by blast
  then have "sequence_chain demo_manager MakeFakeStub fake_view fake_view (\<lambda>s. s) 1 s'"
    using chain_init by fastforce
  from sequence_history [OF fake.ledger_stub_axioms this sane_demo] show ?thesis by auto
qed

text \<open>
  C26: The timestamp check accepts a transaction time exactly when it is within \<open>MaxTimestampDiff\<close> of
  the endorser's clock, on both sides, and at least \<open>MinTimeInterval\<close> after the previous sequence if
  there is one; the quotients and sums of 64-bit integers do not get in the way for a sane clock.
\<close>

theorem timestamp_window:
  assumes "sane m" "sint prevSec < 2 ^ 62 + 2 ^ 61"
  shows "ValidateTimestamp m (sm_clock m s) prevSec tm = Ok () \<longleftrightarrow>
    \<bar>sint (GetSeconds tm) - sint (sm_clock m s)\<bar> \<le> max_diff m \<and>
    (0 < sint prevSec \<longrightarrow> sint prevSec + min_interval m \<le> sint (GetSeconds tm))"
  by (rule ValidateTimestamp_iff [OF assms(1) refl assms(2)])

theorem timestamp_window_witness:
  "ValidateTimestamp demo_manager (sm_clock demo_manager (empty_ledger None)) 990 (Some 1004) = Ok ()"
  using timestamp_window [OF sane_demo, of 990 "empty_ledger None" "Some 1004"]
  by (simp add: demo_manager_def NewDefaultSequenceManager_def NewSequenceManager_def DefaultConfig_def
      time_Second_def GetSeconds_def max_diff_def min_interval_def)

text \<open>
  C25: A successful \<open>UpdateSequence\<close> makes the sequence whose value is one more than that of the current
  one and whose time is that of the transaction, and writes it under exactly two keys: the one for
  the current sequence and the one for its value.
\<close>

theorem update_sequence_effect:
  assumes "ledger_stub S view final commit" "UpdateSequence m S s = (Ok q, s')"
  shows "\<exists>b cur tm. view s (MakeCurrentSequenceKey (sm_prefix m)) = Some (Some b)
    \<and> Sequence_Unmarshal b Sequence_zero = Ok cur \<and> GetTxTimestamp S s = (Ok tm, s)
    \<and> q = NewSequence (seq_Value cur + 1) (GetSeconds tm)
    \<and> final s' = (final s)(MakeCurrentSequenceKey (sm_prefix m) \<mapsto> Some (Sequence_enc q),
        MakeSequenceKey (sm_prefix m) (seq_Value cur + 1) \<mapsto> Some (Sequence_enc q))"
proof -
  obtain b cur tm where *: "view s (MakeCurrentSequenceKey (sm_prefix m)) = Some (Some b)"
    "Sequence_Unmarshal b Sequence_zero = Ok cur" "GetTxTimestamp S s = (Ok tm, s)"
    "q = NewSequence (seq_Value cur + 1) (GetSeconds tm)"
    "final s' = with_sequence (sm_prefix m) q (final s)"
    by (rule ledger_stub.UpdateSequence_ok [OF assms])
  have "seq_Value q = seq_Value cur + 1" by (simp add: *(4) NewSequence_def)
  with * show ?thesis by (intro exI [of _ b] exI [of _ cur] exI [of _ tm]) (simp add: with_sequence_def)
qed

definition demo_ledger :: fake_ledger where
  "demo_ledger = (empty_ledger (Some 1010))\<lparr>fakePublicKVStore := DAList.update
     (MakeCurrentSequenceKey (bytes_of_string ''ibc'')) (Some (Sequence_enc (NewSequence 1 1000))) DAList.empty\<rparr>"

lemma demo_update:
  "\<exists>s'. UpdateSequence demo_manager MakeFakeStub demo_ledger = (Ok (NewSequence 2 1010), s')"
proof -
  have "getCurrentSequence demo_manager MakeFakeStub demo_ledger = (Ok (NewSequence 1 1000), demo_ledger)"
    by (simp add: getCurrentSequence_def demo_manager_def NewDefaultSequenceManager_def
        NewSequenceManager_def then_call_def fake_GetState_def demo_ledger_def decode_sequence)
  then show ?thesis
    by (simp add: UpdateSequence_def then_call_def updateSequence_def ValidateTimestamp_def
        fake_PutState_def GetSeconds_def duration_seconds_def i64_quot_def time_Second_def demo_manager_def
        NewDefaultSequenceManager_def NewSequenceManager_def DefaultConfig_def NewSequence_def
        demo_ledger_def empty_ledger_def Let_def)
qed

theorem update_sequence_effect_witness:
  "\<exists>s'. fake_view s' (MakeSequenceKey (bytes_of_string ''ibc'') 2) =
     Some (Some (Sequence_enc (NewSequence 2 1010)))"
proof -
  from demo_update obtain s' where
    u: "UpdateSequence demo_manager MakeFakeStub demo_ledger = (Ok (NewSequence 2 1010), s')"
    by blast
  have p: "sm_prefix demo_manager = bytes_of_string ''ibc''"
    by (simp add: demo_manager_def NewDefaultSequenceManager_def NewSequenceManager_def)
  from update_sequence_effect [OF fake.ledger_stub_axioms u] show ?thesis
    by (auto simp: p NewSequence_def intro!: exI [of _ s'])
qed


section \<open>Progress\<close>

text \<open>A stub whose calls do not fail.\<close>

definition reliable :: "'s stub \<Rightarrow> bool" where
  "reliable S \<longleftrightarrow> (\<forall>k s. \<exists>v t. GetState S k s = (Ok v, t)) \<and> (\<forall>k v s. \<exists>t. PutState S k v s = (Ok (), t))"

context ledger_stub
begin

lemma current_sequence_read:
  assumes "reliable S" "holds_sequences m ts (view s)"
  shows "getCurrentSequence m S s = (Ok (NewSequence (word_of_nat (length ts)) (last ts)), s)"
proof -
  let ?k = "MakeCurrentSequenceKey (sm_prefix m)"
  from assms(1) obtain v t where g: "GetState S ?k s = (Ok v, t)" unfolding reliable_def by blast
  from get_reads [OF g] assms(2) have "t = s" "v = Some (Sequence_enc (NewSequence (word_of_nat (length ts)) (last ts)))"
    by (auto simp: holds_sequences_def)
  with g show ?thesis by (simp add: getCurrentSequence_def then_call_def decode_sequence)
qed

lemma updateSequence_succeeds:
  assumes "reliable S"
  shows "\<exists>s'. updateSequence m S q s = (Ok (), s')"
proof -
  from assms obtain t where "PutState S (MakeCurrentSequenceKey (sm_prefix m)) (Some (Sequence_enc q)) s = (Ok (), t)"
    unfolding reliable_def by blast
  moreover from assms obtain s' where "PutState S (MakeSequenceKey (sm_prefix m) (seq_Value q)) (Some (Sequence_enc q)) t = (Ok (), s')"
    unfolding reliable_def by blast
  ultimately show ?thesis by (simp add: updateSequence_def then_call_def)
qed

end

text \<open>
  C24: The sequence can always be advanced. After any history in which \<open>k\<close> sequences have been made, over a
  stub whose calls do not fail, the current sequence is \<open>k\<close>, and a transaction whose time is within
  \<open>MaxTimestampDiff\<close> of the clock and at least \<open>MinTimeInterval\<close> after that sequence makes the sequence
  \<open>k + 1\<close> with its own time: no history blocks the chain.
\<close>

theorem sequence_progress:
  assumes "ledger_stub S view final commit" "sequence_chain m S view final commit k s" "sane m" "k < 2 ^ 64" "reliable S"
    and "GetTxTimestamp S s = (Ok tm, t)" "\<bar>sint (GetSeconds tm) - sint (sm_clock m s)\<bar> \<le> max_diff m"
  shows "\<exists>cur. GetCurrentSequence m S s = (Ok cur, s) \<and> seq_Value cur = word_of_nat k \<and>
    ((0 < sint (seq_Timestamp cur) \<longrightarrow> sint (seq_Timestamp cur) + min_interval m \<le> sint (GetSeconds tm)) \<longrightarrow>
      (\<exists>s'. UpdateSequence m S s = (Ok (NewSequence (word_of_nat (Suc k)) (GetSeconds tm)), s')))"
proof -
  from ledger_stub.sequence_chain_holds [OF assms(1,2,3,4)] obtain ts where
      ts: "length ts = k" "holds_sequences m ts (view s)" "spaced m ts" by blast
  let ?cur = "NewSequence (word_of_nat k) (last ts)"
  have cur: "getCurrentSequence m S s = (Ok ?cur, s)"
    using ledger_stub.current_sequence_read [OF assms(1,5) ts(2)] ts(1) by simp
  have t: "t = s" by (rule ledger_stub.timestamp_reads [OF assms(1,6)])
  have "last ts \<in> set ts" using ts(2) by (simp add: holds_sequences_def)
  with ts(3) have b: "sint (last ts) < 2 ^ 62 + 2 ^ 61" by (simp add: spaced_def)
  have "\<exists>s'. UpdateSequence m S s = (Ok (NewSequence (word_of_nat (Suc k)) (GetSeconds tm)), s')"
    if "0 < sint (last ts) \<longrightarrow> sint (last ts) + min_interval m \<le> sint (GetSeconds tm)"
  proof -
    have "ValidateTimestamp m (sm_clock m s) (last ts) tm = Ok ()"
      using ValidateTimestamp_iff [OF assms(3) refl b] assms(7) that by simp
    moreover obtain s' where "updateSequence m S (NewSequence (word_of_nat (Suc k)) (GetSeconds tm)) s = (Ok (), s')"
      using ledger_stub.updateSequence_succeeds [OF assms(1,5)] by blast
    ultimately show ?thesis
      using cur assms(6) t by (simp add: UpdateSequence_def then_call_def Let_def NewSequence_def add.commute)
  qed
  with cur show ?thesis
    by (intro exI [of _ ?cur]) (simp add: GetCurrentSequence_def NewSequence_def)
qed

lemma demo_chain: "sequence_chain demo_manager MakeFakeStub fake_view fake_view (\<lambda>s. s) 1 s
    \<Longrightarrow> sequence_chain demo_manager MakeFakeStub fake_view fake_view (\<lambda>s. s) 1 (s\<lparr>fake_timestamp := tm\<rparr>)"
  by (erule chain_other) (simp_all add: same_sequences_def fake_view_def)

theorem sequence_progress_witness:
  "\<exists>s cur. GetCurrentSequence demo_manager MakeFakeStub s = (Ok cur, s) \<and> seq_Value cur = 1"
proof -
  from demo_first obtain s' where
    "InitSequence demo_manager MakeFakeStub (empty_ledger (Some 1000)) = (Ok (NewSequence 1 1000), s')"
    by blast
  then have "sequence_chain demo_manager MakeFakeStub fake_view fake_view (\<lambda>s. s) 1 s'"
    using chain_init by fastforce
  then have c: "sequence_chain demo_manager MakeFakeStub fake_view fake_view (\<lambda>s. s) 1 (s'\<lparr>fake_timestamp := Some 1005\<rparr>)"
    by (rule demo_chain)
  have r: "reliable MakeFakeStub" by (simp add: reliable_def fake_GetState_def fake_PutState_def)
  let ?s = "s'\<lparr>fake_timestamp := Some 1005\<rparr>"
  have tm: "GetTxTimestamp MakeFakeStub ?s = (Ok (Some 1005), ?s)"
      "\<bar>sint (GetSeconds (Some 1005)) - sint (sm_clock demo_manager ?s)\<bar> \<le> max_diff demo_manager"
    by (simp_all add: GetSeconds_def demo_manager_def NewDefaultSequenceManager_def NewSequenceManager_def DefaultConfig_def
        max_diff_def time_Second_def)
  have k: "(1::nat) < 2 ^ 64" by simp
  from sequence_progress [where view = fake_view, OF fake.ledger_stub_axioms c sane_demo k r tm] show ?thesis by auto
qed

end
