(* ===== verification/App_Runner.thy ===== *)
theory App_Runner
  imports Base_App Sequence_Manager
begin

text \<open>
  The runner of \<open>chaincode/app.go\<close>: every call of the chaincode makes a fresh application over the ledger
  and runs one function of it. The block that the application sees comes from the sequence manager.
  The application is the interface \<open>Application\<close> of \<open>chaincode/app/baseapp.go\<close>, a record of its methods,
  which \<open>base_application\<close> makes from the model of \<open>BaseApp\<close>.
\<close>

section \<open>Applications\<close>

text \<open>
  The getters of the IBC keeper that the chaincode calls. They belong to ibc-go and read the stores of a
  context; a value that is not there is \<open>None\<close>.
\<close>

record ('m, 's, 'cl, 'co, 'conn, 'chan) ibc_keeper =
  GetClientState :: "'s sdk_context \<Rightarrow> string \<Rightarrow> ('m, 's, 'cl option) cached"
  GetClientConsensusState :: "'s sdk_context \<Rightarrow> string \<Rightarrow> Height \<Rightarrow> ('m, 's, 'co option) cached"
  GetConnection :: "'s sdk_context \<Rightarrow> string \<Rightarrow> ('m, 's, 'conn option) cached"
  GetChannel :: "'s sdk_context \<Rightarrow> string \<Rightarrow> string \<Rightarrow> ('m, 's, 'chan option) cached"
  GetPacketCommitment :: "'s sdk_context \<Rightarrow> string \<Rightarrow> string \<Rightarrow> u64 \<Rightarrow> ('m, 's, slice) cached"
  GetPacketAcknowledgement :: "'s sdk_context \<Rightarrow> string \<Rightarrow> string \<Rightarrow> u64 \<Rightarrow> ('m, 's, slice option) cached"
  GetPacketReceipt :: "'s sdk_context \<Rightarrow> string \<Rightarrow> string \<Rightarrow> u64 \<Rightarrow> ('m, 's, string option) cached"
  GetNextSequenceRecv :: "'s sdk_context \<Rightarrow> string \<Rightarrow> string \<Rightarrow> ('m, 's, u64 option) cached"

text \<open>
  The methods of an application. A cached context is the context, its store, and the writer for what
  the store holds when it is called.
\<close>

record ('m, 's, 'cl, 'co, 'conn, 'chan) Application =
  app_InitChain :: "bytes \<Rightarrow> ('s, unit) call"
  app_RunTx :: "'s stub \<Rightarrow> bytes \<Rightarrow> ('s, Result) call"
  app_Query :: "RequestQuery \<Rightarrow> ('s, ResponseQuery) call"
  app_MakeCacheContext :: "block_header \<Rightarrow> ('s sdk_context \<times> 'm) \<times> ('m \<Rightarrow> ('s, unit) call)"
  app_GetIBCKeeper :: "('m, 's, 'cl, 'co, 'conn, 'chan) ibc_keeper"

definition base_application ::
    "('db, 'm, 's, 'tx, 'msg, 'i, 'r) sdk_lib \<Rightarrow> ('db, 's) kv_lib \<Rightarrow> ('m, 's, 'cl, 'co, 'conn, 'chan) ibc_keeper
       \<Rightarrow> ('db, 'm, 's, 'tx, 'msg, 'i, 'r) BaseApp \<Rightarrow> ('m, 's, 'cl, 'co, 'conn, 'chan) Application" where
  "base_application A L keeper app =
     \<lparr>app_InitChain = InitChain A app, app_RunTx = RunTx A app, app_Query = App_Query A L app,
      app_MakeCacheContext = (\<lambda>header. (MakeCacheContext A app header, write_base A)), app_GetIBCKeeper = keeper\<rparr>"

section \<open>The runner\<close>

text \<open>
  A provider makes an application from the name, the database, the sequence manager, the block provider
  and the provider of the ante handler; it may read the ledger. The logger and the writer for traces,
  which is never set, are left out.
\<close>

type_synonym 's block_provider = "('s, i64 \<times> i64) call"

type_synonym ('db, 'ah, 's, 'app) AppProvider =
  "string \<Rightarrow> 'db \<Rightarrow> 's SequenceManager \<Rightarrow> 's block_provider \<Rightarrow> 'ah \<Rightarrow> ('s, 'app) call"

record ('db, 'ah, 's, 'app) AppRunner =
  appName :: string
  appProvider :: "('db, 'ah, 's, 'app) AppProvider"
  anteHandlerProvider :: 'ah
  dbProvider :: "'s stub \<Rightarrow> 'db"
  seqMgr :: "'s SequenceManager"

definition NewAppRunner ::
    "string \<Rightarrow> ('db, 'ah, 's, 'app) AppProvider \<Rightarrow> 'ah \<Rightarrow> ('s stub \<Rightarrow> 'db) \<Rightarrow> 's SequenceManager
       \<Rightarrow> ('db, 'ah, 's, 'app) AppRunner" where
  "NewAppRunner name provider ante dbp mgr =
     \<lparr>appName = name, appProvider = provider, anteHandlerProvider = ante, dbProvider = dbp, seqMgr = mgr\<rparr>"

text \<open>A \<open>block\<close>: \<open>int64(seq.Value)\<close> keeps the bits.\<close>

definition block :: "Sequence \<Rightarrow> i64 \<times> i64" where
  "block sq = (seq_Value sq, seq_Timestamp sq)"

text \<open>\<open>if err != nil { panic(err) }\<close> around a stateful call.\<close>

definition must_call :: "('s, 'a) call \<Rightarrow> ('s, 'a) call" where
  "must_call c s = (case c s of (r, t) \<Rightarrow> (must r, t))"

definition GetBlockProvider :: "('db, 'ah, 's, 'app) AppRunner \<Rightarrow> 's stub \<Rightarrow> 's block_provider" where
  "GetBlockProvider r S = then_call (must_call (GetCurrentSequence (seqMgr r) S)) (\<lambda>sq. give (block sq))"

text \<open>A \<open>DB\<close> is the stub it was made with.\<close>

definition DefaultDBProvider :: "'s stub \<Rightarrow> 's stub" where
  "DefaultDBProvider stub = stub"

definition RunFunc ::
    "('db, 'ah, 's, 'app) AppRunner \<Rightarrow> 's stub \<Rightarrow> ('app \<Rightarrow> ('s, 'a) call) \<Rightarrow> ('s, 'a) call" where
  "RunFunc r S f =
     then_call (appProvider r (appName r) (dbProvider r S) (seqMgr r) (GetBlockProvider r S) (anteHandlerProvider r)) f"

definition Runner_Init ::
    "('db, 'ah, 's, ('m, 's, 'cl, 'co, 'conn, 'chan) Application) AppRunner \<Rightarrow> 's stub \<Rightarrow> bytes \<Rightarrow> ('s, unit) call" where
  "Runner_Init r S appStateBytes = RunFunc r S (\<lambda>app. app_InitChain app appStateBytes)"

text \<open>The messages of \<open>chaincode/app/types.pb.go\<close>.\<close>

record ResponseTx =
  rtx_Data :: string
  rtx_Events :: string
  rtx_Log :: string

record chaincode_RequestQuery =
  crq_Data :: string
  crq_Path :: string

record chaincode_ResponseQuery =
  crs_Key :: string
  crs_Value :: string

definition EncodeToString :: "bytes \<Rightarrow> string" where
  "EncodeToString bz = b64_encode bz"

definition DecodeString :: "string \<Rightarrow> bytes outcome" where
  "DecodeString s = b64_decode s"

definition makeResponseTx :: "(Event list \<Rightarrow> bytes outcome) \<Rightarrow> Result \<Rightarrow> ResponseTx outcome" where
  "makeResponseTx json_Marshal res =
     and_then (must (json_Marshal (result_Events res))) (\<lambda>bz.
       Ok \<lparr>rtx_Data = string_of_bytes (slice_bytes (result_Data res)), rtx_Events = string_of_bytes bz,
           rtx_Log = result_Log res\<rparr>)"

definition Runner_RunTx ::
    "(Event list \<Rightarrow> bytes outcome) \<Rightarrow> ('db, 'ah, 's, ('m, 's, 'cl, 'co, 'conn, 'chan) Application) AppRunner \<Rightarrow> 's stub \<Rightarrow> bytes
       \<Rightarrow> ('s, ResponseTx \<times> Event list) call" where
  "Runner_RunTx json_Marshal r S txBytes =
     RunFunc r S (\<lambda>app.
       then_call (app_RunTx app S txBytes) (\<lambda>res.
         then_call (lift (makeResponseTx json_Marshal res)) (\<lambda>rtx. give (rtx, result_Events res))))"

definition Runner_Query ::
    "('db, 'ah, 's, ('m, 's, 'cl, 'co, 'conn, 'chan) Application) AppRunner \<Rightarrow> 's stub \<Rightarrow> chaincode_RequestQuery
       \<Rightarrow> ('s, chaincode_ResponseQuery) call" where
  "Runner_Query r S req =
     RunFunc r S (\<lambda>a.
       then_call (lift (DecodeString (crq_Data req))) (\<lambda>data.
         then_call (app_Query a \<lparr>req_Data = data, req_Path = crq_Path req, req_Height = 0, req_Prove = False\<rparr>) (\<lambda>res.
           case res_error res of
             Some e \<Rightarrow> fail (ErrorNew ''failed to query '%v': %v'')
           | None \<Rightarrow> give \<lparr>crs_Key = string_of_bytes (slice_bytes (res_Key res)),
                            crs_Value = EncodeToString (slice_bytes (res_Value res))\<rparr>)))"

section \<open>Lemmas\<close>

lemma must_call_Ok [outcome_simps]: "must_call c s = (Ok a, t) \<longleftrightarrow> c s = (Ok a, t)"
  by (auto simp: must_call_def outcome_simps split: prod.splits)

text \<open>A provider that only reads the ledger when it makes an application.\<close>

definition reading_provider :: "('db, 'ah, 's, 'app) AppRunner \<Rightarrow> bool" where
  "reading_provider r \<longleftrightarrow> (\<forall>db bp. reads_only (appProvider r (appName r) db (seqMgr r) bp (anteHandlerProvider r)))"

lemma RunFunc_Ok:
  assumes "reading_provider r" "RunFunc r S f s = (Ok a, s')"
  obtains app where "appProvider r (appName r) (dbProvider r S) (seqMgr r) (GetBlockProvider r S) (anteHandlerProvider r) s = (Ok app, s)"
    "f app s = (Ok a, s')"
proof -
  from assms(2) obtain app t where
      *: "appProvider r (appName r) (dbProvider r S) (seqMgr r) (GetBlockProvider r S) (anteHandlerProvider r) s = (Ok app, t)"
      "f app t = (Ok a, s')"
    by (auto simp: RunFunc_def outcome_simps)
  with assms(1) have "t = s" unfolding reading_provider_def by (metis reads_onlyD)
  with * show ?thesis by (intro that) auto
qed

end
