(* ===== verification/Packet_Events.thy ===== *)
theory Packet_Events
  imports Base_App Commitment
begin

text \<open>
  Event handlers of the chaincode: \<open>chaincode/event_handler.go\<close> and \<open>packet_event_handler.go\<close>. Packets
  and acknowledgements are read back from the events that ibc-go emits and stored on the ledger, where
  a relayer queries them. The names of events and attributes and the encoding of packets belong to
  ibc-go and are the record \<open>packet_lib\<close>.
\<close>

section \<open>Packets\<close>

text \<open>\<open>channeltypes.Packet\<close>\<close>

record Packet =
  pkt_Sequence :: u64
  pkt_SourcePort :: string
  pkt_SourceChannel :: string
  pkt_DestinationPort :: string
  pkt_DestinationChannel :: string
  pkt_Data :: slice
  pkt_TimeoutHeight :: Height
  pkt_TimeoutTimestamp :: u64

definition Packet_zero :: Packet where
  "Packet_zero = \<lparr>pkt_Sequence = 0, pkt_SourcePort = '''', pkt_SourceChannel = '''', pkt_DestinationPort = '''',
     pkt_DestinationChannel = '''', pkt_Data = None, pkt_TimeoutHeight = NewHeight 0 0, pkt_TimeoutTimestamp = 0\<rparr>"

record packet_lib =
  EventTypeSendPacket :: string
  EventTypeWriteAck :: string
  AttributeKeyData :: string
  AttributeKeyDataHex :: string
  AttributeKeyTimeoutHeight :: string
  AttributeKeyTimeoutTimestamp :: string
  AttributeKeySequence :: string
  AttributeKeySrcPort :: string
  AttributeKeySrcChannel :: string
  AttributeKeyDstPort :: string
  AttributeKeyDstChannel :: string
  AttributeKeyAck :: string
  Packet_ValidateBasic :: "Packet \<Rightarrow> unit outcome"
  Packet_Marshal :: "Packet \<Rightarrow> bytes outcome"
  Packet_Unmarshal :: "bytes \<Rightarrow> Packet outcome"
  json_Marshal_Packet :: "Packet \<Rightarrow> bytes outcome"

record packetAcknowledgement =
  ack_srcPortID :: string
  ack_srcChannelID :: string
  ack_dstPortID :: string
  ack_dstChannelID :: string
  ack_sequence :: u64
  ack_data :: slice

definition packetAcknowledgement_zero :: packetAcknowledgement where
  "packetAcknowledgement_zero = \<lparr>ack_srcPortID = '''', ack_srcChannelID = '''', ack_dstPortID = '''',
     ack_dstChannelID = '''', ack_sequence = 0, ack_data = None\<rparr>"

section \<open>Reading events\<close>

definition packetEventKeyPrefix :: string where
  "packetEventKeyPrefix = ''/packets''"

definition packetAcknowledgementEventKeyPrefix :: string where
  "packetAcknowledgementEventKeyPrefix = ''/acks''"

definition makePacketKey :: "string \<Rightarrow> string \<Rightarrow> string \<Rightarrow> u64 \<Rightarrow> string" where
  "makePacketKey keyPrefix portID channelID sequence =
     keyPrefix @ ''/'' @ portID @ ''/'' @ channelID @ ''/'' @ format_u64 sequence"

definition makePacketAcknowledgementKey :: "string \<Rightarrow> string \<Rightarrow> string \<Rightarrow> u64 \<Rightarrow> string" where
  "makePacketAcknowledgementKey keyPrefix portID channelID sequence =
     keyPrefix @ ''/'' @ portID @ ''/'' @ channelID @ ''/'' @ format_u64 sequence"

definition assertIndex :: "nat \<Rightarrow> nat \<Rightarrow> unit outcome" where
  "assertIndex actual expected = (if actual = expected then Ok () else Err (ErrorNew ''%v != %v''))"

definition strToUint64 :: "string \<Rightarrow> u64 outcome" where
  "strToUint64 s = must (parse_uint s)"

text \<open>One attribute of a packet event, at its index: the new packet, or the error of the index check.\<close>

definition packet_attribute :: "packet_lib \<Rightarrow> nat \<Rightarrow> bytes \<times> bytes \<Rightarrow> Packet \<Rightarrow> Packet outcome" where
  "packet_attribute K i attr packet =
     (let key = string_of_bytes (fst attr); v = string_of_bytes (snd attr);
          at = (\<lambda>n p. and_then (assertIndex i n) (\<lambda>_. Ok p))
      in if key = AttributeKeyData K then at 0 (Packet_zero\<lparr>pkt_Data := Some (snd attr)\<rparr>)
         else if key = AttributeKeyDataHex K then
           and_then (must (hex_decode v)) (\<lambda>bz. at 1 (packet\<lparr>pkt_Data := Some bz\<rparr>))
         else if key = AttributeKeyTimeoutHeight K then
           (let parts = split_on CHR ''-'' v
            in and_then (and_then (index parts 0) strToUint64) (\<lambda>n.
                 and_then (and_then (index parts 1) strToUint64) (\<lambda>h.
                   at 2 (packet\<lparr>pkt_TimeoutHeight := NewHeight n h\<rparr>))))
         else if key = AttributeKeyTimeoutTimestamp K then
           and_then (strToUint64 v) (\<lambda>n. at 3 (packet\<lparr>pkt_TimeoutTimestamp := n\<rparr>))
         else if key = AttributeKeySequence K then
           and_then (strToUint64 v) (\<lambda>n. at 4 (packet\<lparr>pkt_Sequence := n\<rparr>))
         else if key = AttributeKeySrcPort K then at 5 (packet\<lparr>pkt_SourcePort := v\<rparr>)
         else if key = AttributeKeySrcChannel K then at 6 (packet\<lparr>pkt_SourceChannel := v\<rparr>)
         else if key = AttributeKeyDstPort K then at 7 (packet\<lparr>pkt_DestinationPort := v\<rparr>)
         else if key = AttributeKeyDstChannel K then at 8 (packet\<lparr>pkt_DestinationChannel := v\<rparr>)
         else Ok packet)"

text \<open>\<open>for i, attr := range ev.Attributes\<close>\<close>

definition over_attributes :: "(nat \<Rightarrow> bytes \<times> bytes \<Rightarrow> 'a \<Rightarrow> 'a outcome) \<Rightarrow> 'a \<Rightarrow> Event \<Rightarrow> 'a outcome" where
  "over_attributes f a ev = fold_outcome (\<lambda>a (i, attr). f i attr a) a (List.enumerate 0 (ev_Attributes ev))"

definition getPacketsFromEvents :: "packet_lib \<Rightarrow> Event list \<Rightarrow> Packet list outcome" where
  "getPacketsFromEvents K events =
     fold_outcome (\<lambda>packets ev.
       if ev_Type ev \<noteq> EventTypeSendPacket K then Ok packets
       else and_then (over_attributes (packet_attribute K) Packet_zero ev) (\<lambda>packet.
         and_then (Packet_ValidateBasic K packet) (\<lambda>_. Ok (packets @ [packet])))) [] events"

definition ack_attribute :: "packet_lib \<Rightarrow> nat \<Rightarrow> bytes \<times> bytes \<Rightarrow> packetAcknowledgement \<Rightarrow> packetAcknowledgement outcome" where
  "ack_attribute K i attr ack =
     (let key = string_of_bytes (fst attr); v = string_of_bytes (snd attr);
          at = (\<lambda>n p. and_then (assertIndex i n) (\<lambda>_. Ok p))
      in if key = AttributeKeySequence K then and_then (strToUint64 v) (\<lambda>n. at 4 (ack\<lparr>ack_sequence := n\<rparr>))
         else if key = AttributeKeySrcPort K then at 5 (ack\<lparr>ack_srcPortID := v\<rparr>)
         else if key = AttributeKeySrcChannel K then at 6 (ack\<lparr>ack_srcChannelID := v\<rparr>)
         else if key = AttributeKeyDstPort K then at 7 (ack\<lparr>ack_dstPortID := v\<rparr>)
         else if key = AttributeKeyDstChannel K then at 8 (ack\<lparr>ack_dstChannelID := v\<rparr>)
         else if key = AttributeKeyAck K then at 9 (ack\<lparr>ack_data := Some (snd attr)\<rparr>)
         else Ok ack)"

definition getPacketAcknowledgementsFromEvents :: "packet_lib \<Rightarrow> Event list \<Rightarrow> packetAcknowledgement list outcome" where
  "getPacketAcknowledgementsFromEvents K events =
     fold_outcome (\<lambda>acks ev.
       if ev_Type ev \<noteq> EventTypeWriteAck K then Ok acks
       else and_then (over_attributes (ack_attribute K) packetAcknowledgement_zero ev) (\<lambda>ack. Ok (acks @ [ack]))) [] events"

section \<open>Handlers\<close>

type_synonym 's event_handler = "'s stub \<Rightarrow> Event list \<Rightarrow> ('s, bool) call"

definition HandlePacketEvent :: "packet_lib \<Rightarrow> 's event_handler" where
  "HandlePacketEvent K S events =
     then_call (lift (getPacketsFromEvents K events)) (\<lambda>packets.
       then_call (for_each (\<lambda>p.
           then_call (lift (Packet_Marshal K p)) (\<lambda>bz.
             PutState S (makePacketKey packetEventKeyPrefix (pkt_SourcePort p) (pkt_SourceChannel p) (pkt_Sequence p))
               (Some bz))) packets) (\<lambda>_. give True))"

definition HandlePacketAcknowledgementEvent :: "packet_lib \<Rightarrow> 's event_handler" where
  "HandlePacketAcknowledgementEvent K S events =
     then_call (lift (getPacketAcknowledgementsFromEvents K events)) (\<lambda>acks.
       then_call (for_each (\<lambda>a.
           PutState S (makePacketAcknowledgementKey packetAcknowledgementEventKeyPrefix
             (ack_dstPortID a) (ack_dstChannelID a) (ack_sequence a)) (ack_data a)) acks) (\<lambda>_. give True))"

text \<open>A \<open>MultiEventHandler\<close> is the list of its handlers.\<close>

fun MultiEventHandler_Handle :: "'s event_handler list \<Rightarrow> 's stub \<Rightarrow> Event list \<Rightarrow> ('s, unit) call" where
  "MultiEventHandler_Handle [] S events = give ()"
| "MultiEventHandler_Handle (h # hs) S events =
     then_call (h S events) (\<lambda>cont. if \<not> cont then give () else MultiEventHandler_Handle hs S events)"

definition DefaultMultiEventHandler :: "packet_lib \<Rightarrow> 's event_handler list" where
  "DefaultMultiEventHandler K = [HandlePacketEvent K, HandlePacketAcknowledgementEvent K]"

section \<open>Queries\<close>

definition QueryPacket :: "packet_lib \<Rightarrow> 's stub \<Rightarrow> string \<Rightarrow> string \<Rightarrow> u64 \<Rightarrow> ('s, string) call" where
  "QueryPacket K S portID channelID sequence =
     then_call (GetState S (makePacketKey packetEventKeyPrefix portID channelID sequence)) (\<lambda>bz.
       case bz of
         None \<Rightarrow> fail (ErrorNew ''key not found: %v'')
       | Some b \<Rightarrow> then_call (lift (Packet_Unmarshal K b)) (\<lambda>p.
           then_call (lift (json_Marshal_Packet K p)) (\<lambda>js. give (string_of_bytes js))))"

definition QueryPacketAcknowledgement :: "'s stub \<Rightarrow> string \<Rightarrow> string \<Rightarrow> u64 \<Rightarrow> ('s, string) call" where
  "QueryPacketAcknowledgement S portID channelID sequence =
     then_call (GetState S (makePacketAcknowledgementKey packetAcknowledgementEventKeyPrefix portID channelID sequence)) (\<lambda>bz.
       case bz of
         None \<Rightarrow> fail (ErrorNew ''key not found: %v'')
       | Some b \<Rightarrow> give (b64_encode b))"


section \<open>The events of ibc-go\<close>

text \<open>
  The attributes that ibc-go documents for a sent packet, in this order; it appends others whose
  keys are different. The names of the attributes are different from each other.
\<close>

definition known_keys :: "packet_lib \<Rightarrow> string list" where
  "known_keys K = [AttributeKeyData K, AttributeKeyDataHex K, AttributeKeyTimeoutHeight K, AttributeKeyTimeoutTimestamp K,
     AttributeKeySequence K, AttributeKeySrcPort K, AttributeKeySrcChannel K, AttributeKeyDstPort K,
     AttributeKeyDstChannel K, AttributeKeyAck K]"

definition attribute :: "string \<Rightarrow> string \<Rightarrow> bytes \<times> bytes" where
  "attribute k v = (bytes_of_string k, bytes_of_string v)"

definition packet_attributes :: "packet_lib \<Rightarrow> Packet \<Rightarrow> (bytes \<times> bytes) list" where
  "packet_attributes K p =
     [(bytes_of_string (AttributeKeyData K), slice_bytes (pkt_Data p)),
      attribute (AttributeKeyDataHex K) (hex_encode (slice_bytes (pkt_Data p))),
      attribute (AttributeKeyTimeoutHeight K) (height_string (pkt_TimeoutHeight p)),
      attribute (AttributeKeyTimeoutTimestamp K) (format_u64 (pkt_TimeoutTimestamp p)),
      attribute (AttributeKeySequence K) (format_u64 (pkt_Sequence p)),
      attribute (AttributeKeySrcPort K) (pkt_SourcePort p),
      attribute (AttributeKeySrcChannel K) (pkt_SourceChannel p),
      attribute (AttributeKeyDstPort K) (pkt_DestinationPort p),
      attribute (AttributeKeyDstChannel K) (pkt_DestinationChannel p)]"

definition other_attributes :: "packet_lib \<Rightarrow> (bytes \<times> bytes) list \<Rightarrow> bool" where
  "other_attributes K extra \<longleftrightarrow> (\<forall>attr \<in> set extra. string_of_bytes (fst attr) \<notin> set (known_keys K))"

definition send_packet_event :: "packet_lib \<Rightarrow> Packet \<Rightarrow> (bytes \<times> bytes) list \<Rightarrow> Event" where
  "send_packet_event K p extra = \<lparr>ev_Type = EventTypeSendPacket K, ev_Attributes = packet_attributes K p @ extra\<rparr>"

lemma height_parts: "split_on CHR ''-'' (height_string h) = [format_u64 (RevisionNumber h), format_u64 (RevisionHeight h)]"
  unfolding height_string_def using split_on_append [of "CHR ''-''" "format_u64 (RevisionNumber h)"]
  by (simp add: split_on_no_sep)

lemma other_attributes_skip:
  assumes "other_attributes K extra"
  shows "fold_outcome (\<lambda>a (i, attr). packet_attribute K i attr a) packet (List.enumerate n extra) = Ok packet"
  using assms
proof (induction extra arbitrary: n)
  case (Cons attr extra)
  then have "packet_attribute K n attr packet = Ok packet"
    by (simp add: other_attributes_def packet_attribute_def known_keys_def Let_def)
  with Cons show ?case by (simp add: other_attributes_def)
qed simp

lemma NewHeight_parts [simp]: "NewHeight (RevisionNumber h) (RevisionHeight h) = h"
  by (simp add: NewHeight_def)

text \<open>Each attribute is read back at its index.\<close>

lemma packet_attribute_steps:
  assumes "distinct (known_keys K)"
  shows "packet_attribute K 0 (bytes_of_string (AttributeKeyData K), d) q = Ok (Packet_zero\<lparr>pkt_Data := Some d\<rparr>)"
    "packet_attribute K 1 (attribute (AttributeKeyDataHex K) (hex_encode d)) q = Ok (q\<lparr>pkt_Data := Some d\<rparr>)"
    "packet_attribute K 2 (attribute (AttributeKeyTimeoutHeight K) (height_string h)) q = Ok (q\<lparr>pkt_TimeoutHeight := h\<rparr>)"
    "packet_attribute K 3 (attribute (AttributeKeyTimeoutTimestamp K) (format_u64 n)) q = Ok (q\<lparr>pkt_TimeoutTimestamp := n\<rparr>)"
    "packet_attribute K 4 (attribute (AttributeKeySequence K) (format_u64 n)) q = Ok (q\<lparr>pkt_Sequence := n\<rparr>)"
    "packet_attribute K 5 (attribute (AttributeKeySrcPort K) v) q = Ok (q\<lparr>pkt_SourcePort := v\<rparr>)"
    "packet_attribute K 6 (attribute (AttributeKeySrcChannel K) v) q = Ok (q\<lparr>pkt_SourceChannel := v\<rparr>)"
    "packet_attribute K 7 (attribute (AttributeKeyDstPort K) v) q = Ok (q\<lparr>pkt_DestinationPort := v\<rparr>)"
    "packet_attribute K 8 (attribute (AttributeKeyDstChannel K) v) q = Ok (q\<lparr>pkt_DestinationChannel := v\<rparr>)"
  using assms unfolding known_keys_def
  by (auto simp: packet_attribute_def attribute_def assertIndex_def strToUint64_def height_parts index_def)

lemma length_packet_attributes: "length (packet_attributes K p) = 9"
  by (simp add: packet_attributes_def)

lemma send_packet_parsed:
  assumes "distinct (known_keys K)" "other_attributes K extra"
  shows "over_attributes (packet_attribute K) q (send_packet_event K p extra) =
    Ok (p\<lparr>pkt_Data := Some (slice_bytes (pkt_Data p))\<rparr>)"
proof -
  have "over_attributes (packet_attribute K) q (send_packet_event K p extra) =
      and_then (fold_outcome (\<lambda>a (i, attr). packet_attribute K i attr a) q (List.enumerate 0 (packet_attributes K p)))
        (\<lambda>p. fold_outcome (\<lambda>a (i, attr). packet_attribute K i attr a) p (List.enumerate 9 extra))"
    by (simp add: over_attributes_def send_packet_event_def enumerate_append_eq fold_outcome_append length_packet_attributes)
  moreover have "fold_outcome (\<lambda>a (i, attr). packet_attribute K i attr a) q (List.enumerate 0 (packet_attributes K p)) =
      Ok (p\<lparr>pkt_Data := Some (slice_bytes (pkt_Data p))\<rparr>)"
    using packet_attribute_steps [OF assms(1)]
    by (simp add: packet_attributes_def eval_nat_numeral Packet_zero_def)
  ultimately show ?thesis using other_attributes_skip [OF assms(2)] by simp
qed

text \<open>An event of ibc-go about a packet, or another event.\<close>

fun event_of :: "packet_lib \<Rightarrow> (Packet \<times> (bytes \<times> bytes) list) + Event \<Rightarrow> Event" where
  "event_of K (Inl (p, extra)) = send_packet_event K p extra"
| "event_of K (Inr ev) = ev"

definition emitted :: "packet_lib \<Rightarrow> (Packet \<times> (bytes \<times> bytes) list) + Event \<Rightarrow> bool" where
  "emitted K x \<longleftrightarrow> (case x of
     Inl (p, extra) \<Rightarrow> other_attributes K extra \<and> pkt_Data p \<noteq> None \<and> Packet_ValidateBasic K p = Ok ()
   | Inr ev \<Rightarrow> ev_Type ev \<noteq> EventTypeSendPacket K)"

definition emitted_packets :: "((Packet \<times> (bytes \<times> bytes) list) + Event) list \<Rightarrow> Packet list" where
  "emitted_packets xs = concat (map (case_sum (\<lambda>(p, extra). [p]) (\<lambda>_. [])) xs)"

lemma packets_loop:
  assumes "distinct (known_keys K)" "\<forall>x \<in> set xs. emitted K x"
  shows "fold_outcome (\<lambda>packets ev.
       if ev_Type ev \<noteq> EventTypeSendPacket K then Ok packets
       else and_then (over_attributes (packet_attribute K) Packet_zero ev) (\<lambda>packet.
         and_then (Packet_ValidateBasic K packet) (\<lambda>_. Ok (packets @ [packet])))) acc (map (event_of K) xs) =
    Ok (acc @ emitted_packets xs)"
  using assms(2)
proof (induction xs arbitrary: acc)
  case Nil
  then show ?case by (simp add: emitted_packets_def)
next
  case (Cons x xs)
  show ?case
  proof (cases x)
    case (Inl pe)
    obtain p extra where pe: "pe = (p, extra)" by fastforce
    with Inl Cons.prems have "other_attributes K extra" "pkt_Data p \<noteq> None" "Packet_ValidateBasic K p = Ok ()"
      by (auto simp: emitted_def)
    moreover have "ev_Type (send_packet_event K p extra) = EventTypeSendPacket K" by (simp add: send_packet_event_def)
    moreover have "p\<lparr>pkt_Data := Some (slice_bytes (pkt_Data p))\<rparr> = p" if "pkt_Data p \<noteq> None"
      using that by (cases p) auto
    ultimately show ?thesis
      using Cons Inl pe send_packet_parsed [OF assms(1)] by (simp add: emitted_packets_def)
  next
    case (Inr ev)
    with Cons show ?thesis by (simp add: emitted_def emitted_packets_def)
  qed
qed

lemma packets_parsed:
  "distinct (known_keys K) \<Longrightarrow> \<forall>x \<in> set xs. emitted K x \<Longrightarrow>
   getPacketsFromEvents K (map (event_of K) xs) = Ok (emitted_packets xs)"
  unfolding getPacketsFromEvents_def by (simp only: packets_loop append_Nil)


section \<open>What the handlers store\<close>

context ledger_stub
begin

lemma store_each:
  assumes "for_each f ps s = (Ok u, s')" "distinct (map key ps)"
    and body: "\<And>p s. f p s = then_call (lift (enc p)) (\<lambda>bz. PutState S (key p) (Some bz)) s"
  shows "(\<forall>p \<in> set ps. \<exists>b. enc p = Ok b \<and> final s' (key p) = Some (Some b))
    \<and> (\<forall>k. k \<notin> key ` set ps \<longrightarrow> final s' k = final s k)"
  using assms(1,2)
proof (induction ps arbitrary: s)
  case (Cons p ps)
  from Cons.prems(1) obtain s1 where f: "f p s = (Ok (), s1)" and run: "for_each f ps s1 = (Ok u, s')"
    by (auto simp: then_call_Ok)
  from f obtain b where b: "enc p = Ok b" and put: "PutState S (key p) (Some b) s = (Ok (), s1)"
    by (auto simp: body then_call_Ok)
  from Cons.IH [OF run] Cons.prems(2) have
      IH: "\<forall>p \<in> set ps. \<exists>b. enc p = Ok b \<and> final s' (key p) = Some (Some b)"
      "\<And>k. k \<notin> key ` set ps \<Longrightarrow> final s' k = final s1 k"
    by auto
  have "final s1 = (final s)(key p \<mapsto> Some b)" by (rule put_writes [OF put])
  with IH b Cons.prems(2) show ?case by auto
qed simp

end

text \<open>A stored key tells the port, the channel and the sequence.\<close>

lemma packet_key_join:
  "makePacketKey keyPrefix portID channelID sequence =
     keyPrefix @ ''/'' @ join_with CHR ''/'' [portID, channelID, format_u64 sequence]"
  by (simp add: makePacketKey_def)

lemma packet_key_inject:
  assumes "plain p" "plain c" "plain p'" "plain c'"
  shows "makePacketKey pre p c n = makePacketKey pre p' c' n' \<longleftrightarrow> p = p' \<and> c = c' \<and> n = n'"
proof
  assume "makePacketKey pre p c n = makePacketKey pre p' c' n'"
  then have "join_with CHR ''/'' [p, c, format_u64 n] = join_with CHR ''/'' [p', c', format_u64 n']"
    by (simp add: packet_key_join)
  then have "[p, c, format_u64 n] = [p', c', format_u64 n']"
    by (rule join_with_inject) (use assms in \<open>auto simp: plain_def\<close>)
  then show "p = p' \<and> c = c' \<and> n = n'" by simp
qed simp

definition packet_id :: "Packet \<Rightarrow> string \<times> string \<times> u64" where
  "packet_id p = (pkt_SourcePort p, pkt_SourceChannel p, pkt_Sequence p)"

definition packet_key :: "Packet \<Rightarrow> string" where
  "packet_key p = makePacketKey packetEventKeyPrefix (pkt_SourcePort p) (pkt_SourceChannel p) (pkt_Sequence p)"

lemma packet_keys_distinct:
  assumes "distinct (map packet_id ps)" "\<forall>p \<in> set ps. plain (pkt_SourcePort p) \<and> plain (pkt_SourceChannel p)"
  shows "distinct (map packet_key ps)"
  using assms
proof (induction ps)
  case (Cons p ps)
  have "packet_key p \<noteq> packet_key q" if "q \<in> set ps" for q
  proof -
    from Cons.prems(1) that have "packet_id p \<noteq> packet_id q" by auto
    moreover have "packet_key p = packet_key q \<longleftrightarrow> packet_id p = packet_id q"
      unfolding packet_key_def packet_id_def using Cons.prems(2) that by (subst packet_key_inject) auto
    ultimately show ?thesis by simp
  qed
  with Cons show ?case by auto
qed simp

section \<open>Properties\<close>

text \<open>
  C29: The packets that ibc-go announces are recovered from its events. From any list of events in
  which the packet events carry the documented attributes in the documented order, with whatever
  further attributes and other events, the handler reads back exactly the packets that were sent, in
  order.
\<close>

theorem packets_recovered:
  assumes "distinct (known_keys K)" "\<forall>x \<in> set xs. emitted K x"
  shows "getPacketsFromEvents K (map (event_of K) xs) = Ok (emitted_packets xs)"
  by (rule packets_parsed [OF assms])

text \<open>The names that ibc-go uses, with an encoding that keeps the data only.\<close>

definition ibc_packet_lib :: packet_lib where
  "ibc_packet_lib = \<lparr>EventTypeSendPacket = ''send_packet'', EventTypeWriteAck = ''write_acknowledgement'',
     AttributeKeyData = ''packet_data'', AttributeKeyDataHex = ''packet_data_hex'',
     AttributeKeyTimeoutHeight = ''packet_timeout_height'', AttributeKeyTimeoutTimestamp = ''packet_timeout_timestamp'',
     AttributeKeySequence = ''packet_sequence'', AttributeKeySrcPort = ''packet_src_port'',
     AttributeKeySrcChannel = ''packet_src_channel'', AttributeKeyDstPort = ''packet_dst_port'',
     AttributeKeyDstChannel = ''packet_dst_channel'', AttributeKeyAck = ''packet_ack'',
     Packet_ValidateBasic = (\<lambda>p. require (pkt_Sequence p \<noteq> 0) (ErrorNew ''packet sequence cannot be 0'')),
     Packet_Marshal = (\<lambda>p. Ok (slice_bytes (pkt_Data p))),
     Packet_Unmarshal = (\<lambda>b. Ok (Packet_zero\<lparr>pkt_Data := Some b, pkt_Sequence := 1\<rparr>)),
     json_Marshal_Packet = (\<lambda>p. Ok (slice_bytes (pkt_Data p)))\<rparr>"

definition demo_packet :: Packet where
  "demo_packet = Packet_zero\<lparr>pkt_Sequence := 1, pkt_Data := Some [1, 2]\<rparr>"

lemma demo_keys_distinct: "distinct (known_keys ibc_packet_lib)"
  by (simp add: known_keys_def ibc_packet_lib_def)

lemma demo_emitted: "\<forall>x \<in> set [Inl (demo_packet, []), Inr \<lparr>ev_Type = ''message'', ev_Attributes = []\<rparr>]. emitted ibc_packet_lib x"
  by (simp add: emitted_def other_attributes_def demo_packet_def ibc_packet_lib_def)

theorem packets_recovered_witness:
  "getPacketsFromEvents ibc_packet_lib
     [send_packet_event ibc_packet_lib demo_packet [], \<lparr>ev_Type = ''message'', ev_Attributes = []\<rparr>] = Ok [demo_packet]"
  using packets_recovered [OF demo_keys_distinct demo_emitted] by (simp add: emitted_packets_def)

text \<open>
  C30: A packet that was announced in the events of a transaction can be queried afterwards. If
  handling the events succeeds, then after the commit a query for the port, channel and sequence of any
  of the packets returns the JSON form of that packet, over every stub that meets its contract; the
  packets have different ids, identifiers have no separator in them, and decoding a packet inverts
  encoding it.
\<close>

theorem handled_packet_is_queryable:
  assumes "ledger_stub S view final commit" "distinct (known_keys K)" "\<forall>x \<in> set xs. emitted K x"
    and "\<And>p b. p \<in> set (emitted_packets xs) \<Longrightarrow> Packet_Marshal K p = Ok b \<Longrightarrow> Packet_Unmarshal K b = Ok p"
    and "distinct (map packet_id (emitted_packets xs))"
    and "\<forall>p \<in> set (emitted_packets xs). plain (pkt_SourcePort p) \<and> plain (pkt_SourceChannel p)"
    and "HandlePacketEvent K S (map (event_of K) xs) s = (Ok True, s')"
    and "p \<in> set (emitted_packets xs)"
    and "QueryPacket K S (pkt_SourcePort p) (pkt_SourceChannel p) (pkt_Sequence p) (commit s') = (Ok js, t)"
  shows "json_Marshal_Packet K p = Ok (bytes_of_string js) \<and> t = commit s'"
proof -
  have "for_each (\<lambda>p. then_call (lift (Packet_Marshal K p)) (\<lambda>bz. PutState S (packet_key p) (Some bz)))
      (emitted_packets xs) s = (Ok (), s')"
    using assms(7) packets_parsed [OF assms(2,3)]
    by (simp only: HandlePacketEvent_def packet_key_def then_call_Ok) (auto simp: lift_def give_def)
  from ledger_stub.store_each [OF assms(1) this packet_keys_distinct [OF assms(5,6)] refl] assms(8) obtain b where
      b: "Packet_Marshal K p = Ok b" "final s' (packet_key p) = Some (Some b)"
    by blast
  have v: "view (commit s') (packet_key p) = Some (Some b)"
    using b(2) ledger_stub.commit_view [OF assms(1)] by simp
  obtain r t' where g: "GetState S (packet_key p) (commit s') = (r, t')" by fastforce
  from ledger_stub.get_reads [OF assms(1) g] v have t': "t' = commit s'" "\<And>w. r = Ok w \<Longrightarrow> w = Some b" by auto
  from assms(9) g obtain w where w: "r = Ok w"
    unfolding QueryPacket_def packet_key_def [symmetric] then_call_Ok by auto
  with t'(2) have r: "r = Ok (Some b)" by simp
  from assms(9) show ?thesis
    unfolding QueryPacket_def packet_key_def [symmetric] then_call_step(1) [where m = "GetState S (packet_key p)",
        OF g [unfolded r t'(1)]] option.case then_call_Ok
    using assms(4) [OF assms(8) b(1)] by auto
qed

theorem handled_packet_is_queryable_witness:
  "\<exists>s' js. HandlePacketEvent ibc_packet_lib MakeFakeStub [send_packet_event ibc_packet_lib demo_packet []] (empty_ledger None) = (Ok True, s')
     \<and> QueryPacket ibc_packet_lib MakeFakeStub '''' '''' 1 s' = (Ok js, s') \<and> bytes_of_string js = [1, 2]"
proof -
  let ?xs = "[Inl (demo_packet, [])] :: ((Packet \<times> (bytes \<times> bytes) list) + Event) list"
  have e: "\<forall>x \<in> set ?xs. emitted ibc_packet_lib x" using demo_emitted by simp
  have ps: "emitted_packets ?xs = [demo_packet]" by (simp add: emitted_packets_def)
  have f: "pkt_SourcePort demo_packet = []" "pkt_SourceChannel demo_packet = []" "pkt_Sequence demo_packet = 1"
      "pkt_Data demo_packet = Some [1, 2]"
    by (simp_all add: demo_packet_def Packet_zero_def)
  have d: "distinct (map packet_id (emitted_packets ?xs))"
      "\<forall>p \<in> set (emitted_packets ?xs). plain (pkt_SourcePort p) \<and> plain (pkt_SourceChannel p)"
      "demo_packet \<in> set (emitted_packets ?xs)"
    unfolding ps by (simp_all add: plain_def f)
  have m: "Packet_Unmarshal ibc_packet_lib b = Ok p"
    if "p \<in> set (emitted_packets ?xs)" "Packet_Marshal ibc_packet_lib p = Ok b" for p b
    using that unfolding ps by (simp add: ibc_packet_lib_def demo_packet_def)
  have l: "Packet_Marshal ibc_packet_lib demo_packet = Ok [1, 2]" "\<And>b. Packet_Unmarshal ibc_packet_lib b = Ok (Packet_zero\<lparr>pkt_Data := Some b, pkt_Sequence := 1\<rparr>)"
      "\<And>p. json_Marshal_Packet ibc_packet_lib p = Ok (slice_bytes (pkt_Data p))"
    by (simp_all add: ibc_packet_lib_def f)
  let ?s = "snd (fake_PutState (packet_key demo_packet) (Some [1, 2]) (empty_ledger None))"
  have h: "HandlePacketEvent ibc_packet_lib MakeFakeStub (map (event_of ibc_packet_lib) ?xs) (empty_ledger None) = (Ok True, ?s)"
    unfolding HandlePacketEvent_def packets_parsed [OF demo_keys_distinct e] ps
    by (simp add: then_call_def fake_PutState_def packet_key_def l)
  obtain js where js: "QueryPacket ibc_packet_lib MakeFakeStub (pkt_SourcePort demo_packet) (pkt_SourceChannel demo_packet)
      (pkt_Sequence demo_packet) ?s = (Ok js, ?s)"
    by (simp add: QueryPacket_def packet_key_def [symmetric] then_call_def fake_PutState_def fake_GetState_def l lookup_update)
  have "json_Marshal_Packet ibc_packet_lib demo_packet = Ok (bytes_of_string js) \<and> ?s = ?s"
    by (rule handled_packet_is_queryable [where view = fake_view and xs = ?xs and s = "empty_ledger None" and p = demo_packet,
          OF fake.ledger_stub_axioms demo_keys_distinct e m d(1,2) h d(3) js])
  with l have "bytes_of_string js = [1, 2]" by (simp add: f)
  with h js show ?thesis by (auto simp: f)
qed

end
