(* ===== verification/Fabric_Codec.thy ===== *)
theory Fabric_Codec
  imports Commitment_Codec
begin

text \<open>
  The messages of \<open>light-clients/fabric/types/fabric.pb.go\<close>, from the leaves up: proofs, chaincode
  and MSP information, headers, and the client and consensus states. Every message is a record with
  its generated methods and an interpretation of the contract \<open>wire_message\<close>; the generated \<open>Equal\<close>
  methods of the proofs are at the end.
\<close>

section \<open>Messages of the light client\<close>

subsection \<open>\<open>MessageProof\<close>\<close>

record MessageProof =
  mp_Identities :: "bytes list"
  mp_Signatures :: "bytes list"

definition MessageProof_zero :: MessageProof where
  "MessageProof_zero = \<lparr>mp_Identities = [], mp_Signatures = []\<rparr>"

definition MessageProof_Size :: "MessageProof \<Rightarrow> nat" where
  "MessageProof_Size m =
     repeated_size length (mp_Identities m)
     + repeated_size length (mp_Signatures m)"

definition MessageProof_MarshalToSizedBuffer :: "MessageProof \<Rightarrow> bytes \<Rightarrow> (bytes \<times> nat) outcome" where
  "MessageProof_MarshalToSizedBuffer m = sized_buffer (put_all
     [put_repeated (put_element 0x12) (mp_Signatures m),
      put_repeated (put_element 0x0A) (mp_Identities m)])"

definition MessageProof_Marshal :: "MessageProof \<Rightarrow> bytes outcome" where
  "MessageProof_Marshal = marshal_with MessageProof_Size MessageProof_MarshalToSizedBuffer"

definition MessageProof_MarshalTo :: "MessageProof \<Rightarrow> bytes \<Rightarrow> (bytes \<times> nat) outcome" where
  "MessageProof_MarshalTo = marshal_to_with MessageProof_Size MessageProof_MarshalToSizedBuffer"

definition MessageProof_fields :: "nat \<rightharpoonup> MessageProof reader" where
  "MessageProof_fields =
     [1 \<mapsto> element_reader ''Identities'' Ok mp_Identities (\<lambda>v m. m\<lparr>mp_Identities := v\<rparr>),
      2 \<mapsto> element_reader ''Signatures'' Ok mp_Signatures (\<lambda>v m. m\<lparr>mp_Signatures := v\<rparr>)]"

definition MessageProof_Unmarshal :: "bytes \<Rightarrow> MessageProof \<Rightarrow> MessageProof outcome" where
  "MessageProof_Unmarshal = unmarshal_with ''MessageProof'' MessageProof_fields"

text \<open>The reference encoding, and the normal form that a value takes on the wire.\<close>

definition MessageProof_enc :: "MessageProof \<Rightarrow> bytes" where
  "MessageProof_enc m = concat
     [enc_repeated (enc_element 0x0A) (mp_Identities m),
      enc_repeated (enc_element 0x12) (mp_Signatures m)]"

definition MessageProof_norm :: "MessageProof \<Rightarrow> MessageProof" where
  "MessageProof_norm m = m"

lemma MessageProof_norm_id [simp]: "MessageProof_norm = (\<lambda>m. m)"
  by (simp add: fun_eq_iff MessageProof_norm_def)

lemma MessageProof_readers:
  "MessageProof_fields 1 = Some (element_reader ''Identities'' Ok mp_Identities (\<lambda>v m. m\<lparr>mp_Identities := v\<rparr>))"
  "MessageProof_fields 2 = Some (element_reader ''Signatures'' Ok mp_Signatures (\<lambda>v m. m\<lparr>mp_Signatures := v\<rparr>))"
  by (simp_all add: MessageProof_fields_def)

lemma MessageProof_decodes:
  "decodes ''MessageProof'' MessageProof_fields
     [enc_repeated (enc_element 0x0A) (mp_Identities m),
      enc_repeated (enc_element 0x12) (mp_Signatures m)]
     MessageProof_zero (Ok (MessageProof_norm m))"
  apply (rule decodes_elements [where fields = MessageProof_fields, OF tags(6) MessageProof_readers(1)])
     apply (simp, simp, simp)
  apply (rule decodes_elements [where fields = MessageProof_fields, OF tags(7) MessageProof_readers(2)])
     apply (simp, simp, simp)
  by (rule decodes_Nil) (simp add: MessageProof_zero_def MessageProof_norm_def ucast_simps option.map_ident)

interpretation MessageProof_wire: wire_message MessageProof_Size MessageProof_MarshalToSizedBuffer MessageProof_Marshal
  MessageProof_MarshalTo MessageProof_Unmarshal MessageProof_zero MessageProof_enc MessageProof_norm
proof
  fix m :: MessageProof and d :: bytes
  show "length (MessageProof_enc m) = MessageProof_Size m"
    by (simp add: MessageProof_enc_def MessageProof_Size_def length_enc )
  show "writes (MessageProof_MarshalToSizedBuffer m) (MessageProof_enc m)"
    unfolding MessageProof_MarshalToSizedBuffer_def
    by (rule writes_fields [OF MessageProof_enc_def])
      (simp add: puts_intros )
  show "MessageProof_Marshal m = marshal_with MessageProof_Size MessageProof_MarshalToSizedBuffer m"
    by (simp add: MessageProof_Marshal_def)
  show "MessageProof_MarshalTo m d = marshal_to_with MessageProof_Size MessageProof_MarshalToSizedBuffer m d"
    by (simp add: MessageProof_MarshalTo_def)
  show "MessageProof_Unmarshal (MessageProof_enc m) MessageProof_zero = Ok (MessageProof_norm m)" if "length (MessageProof_enc m) < 2 ^ 63"
    using that unmarshal_with_decodes [OF MessageProof_decodes] by (simp add: MessageProof_enc_def MessageProof_Unmarshal_def)
  show "unmarshal_safe MessageProof_Unmarshal"
    unfolding MessageProof_Unmarshal_def by (rule unmarshal_with_safe)
      (auto simp: MessageProof_fields_def readers_ok  split: if_splits)
  show "MessageProof_enc (MessageProof_norm m) = MessageProof_enc m"
    by (simp add: MessageProof_enc_def MessageProof_norm_def enc_mapped )
qed

subsection \<open>\<open>CommitmentProof\<close>\<close>

record CommitmentProof =
  cp_Proposal :: slice
  cp_NsIndex :: u32
  cp_WriteSetIndex :: u32
  cp_Identities :: "bytes list"
  cp_Signatures :: "bytes list"

definition CommitmentProof_zero :: CommitmentProof where
  "CommitmentProof_zero = \<lparr>cp_Proposal = None, cp_NsIndex = 0, cp_WriteSetIndex = 0, cp_Identities = [], cp_Signatures = []\<rparr>"

definition CommitmentProof_Size :: "CommitmentProof \<Rightarrow> nat" where
  "CommitmentProof_Size m =
     bytes_size (length (slice_bytes (cp_Proposal m)))
     + varint_size (ucast (cp_NsIndex m))
     + varint_size (ucast (cp_WriteSetIndex m))
     + repeated_size length (cp_Identities m)
     + repeated_size length (cp_Signatures m)"

definition CommitmentProof_MarshalToSizedBuffer :: "CommitmentProof \<Rightarrow> bytes \<Rightarrow> (bytes \<times> nat) outcome" where
  "CommitmentProof_MarshalToSizedBuffer m = sized_buffer (put_all
     [put_repeated (put_element 0x2A) (cp_Signatures m),
      put_repeated (put_element 0x22) (cp_Identities m),
      put_varint_field 0x18 (ucast (cp_WriteSetIndex m)),
      put_varint_field 0x10 (ucast (cp_NsIndex m)),
      put_bytes_field 0x0A (slice_bytes (cp_Proposal m))])"

definition CommitmentProof_Marshal :: "CommitmentProof \<Rightarrow> bytes outcome" where
  "CommitmentProof_Marshal = marshal_with CommitmentProof_Size CommitmentProof_MarshalToSizedBuffer"

definition CommitmentProof_MarshalTo :: "CommitmentProof \<Rightarrow> bytes \<Rightarrow> (bytes \<times> nat) outcome" where
  "CommitmentProof_MarshalTo = marshal_to_with CommitmentProof_Size CommitmentProof_MarshalToSizedBuffer"

definition CommitmentProof_fields :: "nat \<rightharpoonup> CommitmentProof reader" where
  "CommitmentProof_fields =
     [1 \<mapsto> slice_reader ''Proposal'' (\<lambda>v m. m\<lparr>cp_Proposal := v\<rparr>),
      2 \<mapsto> varint_reader ''NsIndex'' (\<lambda>v m. m\<lparr>cp_NsIndex := v\<rparr>),
      3 \<mapsto> varint_reader ''WriteSetIndex'' (\<lambda>v m. m\<lparr>cp_WriteSetIndex := v\<rparr>),
      4 \<mapsto> element_reader ''Identities'' Ok cp_Identities (\<lambda>v m. m\<lparr>cp_Identities := v\<rparr>),
      5 \<mapsto> element_reader ''Signatures'' Ok cp_Signatures (\<lambda>v m. m\<lparr>cp_Signatures := v\<rparr>)]"

definition CommitmentProof_Unmarshal :: "bytes \<Rightarrow> CommitmentProof \<Rightarrow> CommitmentProof outcome" where
  "CommitmentProof_Unmarshal = unmarshal_with ''CommitmentProof'' CommitmentProof_fields"

text \<open>The reference encoding, and the normal form that a value takes on the wire.\<close>

definition CommitmentProof_enc :: "CommitmentProof \<Rightarrow> bytes" where
  "CommitmentProof_enc m = concat
     [enc_bytes 0x0A (slice_bytes (cp_Proposal m)),
      enc_varint 0x10 (ucast (cp_NsIndex m)),
      enc_varint 0x18 (ucast (cp_WriteSetIndex m)),
      enc_repeated (enc_element 0x22) (cp_Identities m),
      enc_repeated (enc_element 0x2A) (cp_Signatures m)]"

definition CommitmentProof_norm :: "CommitmentProof \<Rightarrow> CommitmentProof" where
  "CommitmentProof_norm m = m\<lparr>cp_Proposal := norm_slice (cp_Proposal m)\<rparr>"

lemma CommitmentProof_readers:
  "CommitmentProof_fields 1 = Some (slice_reader ''Proposal'' (\<lambda>v m. m\<lparr>cp_Proposal := v\<rparr>))"
  "CommitmentProof_fields 2 = Some (varint_reader ''NsIndex'' (\<lambda>v m. m\<lparr>cp_NsIndex := v\<rparr>))"
  "CommitmentProof_fields 3 = Some (varint_reader ''WriteSetIndex'' (\<lambda>v m. m\<lparr>cp_WriteSetIndex := v\<rparr>))"
  "CommitmentProof_fields 4 = Some (element_reader ''Identities'' Ok cp_Identities (\<lambda>v m. m\<lparr>cp_Identities := v\<rparr>))"
  "CommitmentProof_fields 5 = Some (element_reader ''Signatures'' Ok cp_Signatures (\<lambda>v m. m\<lparr>cp_Signatures := v\<rparr>))"
  by (simp_all add: CommitmentProof_fields_def)

lemma CommitmentProof_decodes:
  "decodes ''CommitmentProof'' CommitmentProof_fields
     [enc_bytes 0x0A (slice_bytes (cp_Proposal m)),
      enc_varint 0x10 (ucast (cp_NsIndex m)),
      enc_varint 0x18 (ucast (cp_WriteSetIndex m)),
      enc_repeated (enc_element 0x22) (cp_Identities m),
      enc_repeated (enc_element 0x2A) (cp_Signatures m)]
     CommitmentProof_zero (Ok (CommitmentProof_norm m))"
  apply (rule decodes_slice [where fields = CommitmentProof_fields, OF tags(6) CommitmentProof_readers(1)])
   apply (simp add: CommitmentProof_zero_def)
  apply (rule decodes_varint [where fields = CommitmentProof_fields, OF tags(2) CommitmentProof_readers(2)])
   apply (simp add: CommitmentProof_zero_def)
  apply (rule decodes_varint [where fields = CommitmentProof_fields, OF tags(3) CommitmentProof_readers(3)])
   apply (simp add: CommitmentProof_zero_def)
  apply (rule decodes_elements [where fields = CommitmentProof_fields, OF tags(9) CommitmentProof_readers(4)])
     apply (simp, simp, simp)
  apply (rule decodes_elements [where fields = CommitmentProof_fields, OF tags(10) CommitmentProof_readers(5)])
     apply (simp, simp, simp)
  by (rule decodes_Nil) (simp add: CommitmentProof_zero_def CommitmentProof_norm_def ucast_simps option.map_ident)

interpretation CommitmentProof_wire: wire_message CommitmentProof_Size CommitmentProof_MarshalToSizedBuffer CommitmentProof_Marshal
  CommitmentProof_MarshalTo CommitmentProof_Unmarshal CommitmentProof_zero CommitmentProof_enc CommitmentProof_norm
proof
  fix m :: CommitmentProof and d :: bytes
  show "length (CommitmentProof_enc m) = CommitmentProof_Size m"
    by (simp add: CommitmentProof_enc_def CommitmentProof_Size_def length_enc )
  show "writes (CommitmentProof_MarshalToSizedBuffer m) (CommitmentProof_enc m)"
    unfolding CommitmentProof_MarshalToSizedBuffer_def
    by (rule writes_fields [OF CommitmentProof_enc_def])
      (simp add: puts_intros )
  show "CommitmentProof_Marshal m = marshal_with CommitmentProof_Size CommitmentProof_MarshalToSizedBuffer m"
    by (simp add: CommitmentProof_Marshal_def)
  show "CommitmentProof_MarshalTo m d = marshal_to_with CommitmentProof_Size CommitmentProof_MarshalToSizedBuffer m d"
    by (simp add: CommitmentProof_MarshalTo_def)
  show "CommitmentProof_Unmarshal (CommitmentProof_enc m) CommitmentProof_zero = Ok (CommitmentProof_norm m)" if "length (CommitmentProof_enc m) < 2 ^ 63"
    using that unmarshal_with_decodes [OF CommitmentProof_decodes] by (simp add: CommitmentProof_enc_def CommitmentProof_Unmarshal_def)
  show "unmarshal_safe CommitmentProof_Unmarshal"
    unfolding CommitmentProof_Unmarshal_def by (rule unmarshal_with_safe)
      (auto simp: CommitmentProof_fields_def readers_ok  split: if_splits)
  show "CommitmentProof_enc (CommitmentProof_norm m) = CommitmentProof_enc m"
    by (simp add: CommitmentProof_enc_def CommitmentProof_norm_def enc_mapped )
qed

subsection \<open>\<open>Prefix\<close>\<close>

record Prefix =
  pre_Value :: slice

definition Prefix_zero :: Prefix where
  "Prefix_zero = \<lparr>pre_Value = None\<rparr>"

definition Prefix_Size :: "Prefix \<Rightarrow> nat" where
  "Prefix_Size m =
     bytes_size (length (slice_bytes (pre_Value m)))"

definition Prefix_MarshalToSizedBuffer :: "Prefix \<Rightarrow> bytes \<Rightarrow> (bytes \<times> nat) outcome" where
  "Prefix_MarshalToSizedBuffer m = sized_buffer (put_all
     [put_bytes_field 0x0A (slice_bytes (pre_Value m))])"

definition Prefix_Marshal :: "Prefix \<Rightarrow> bytes outcome" where
  "Prefix_Marshal = marshal_with Prefix_Size Prefix_MarshalToSizedBuffer"

definition Prefix_MarshalTo :: "Prefix \<Rightarrow> bytes \<Rightarrow> (bytes \<times> nat) outcome" where
  "Prefix_MarshalTo = marshal_to_with Prefix_Size Prefix_MarshalToSizedBuffer"

definition Prefix_fields :: "nat \<rightharpoonup> Prefix reader" where
  "Prefix_fields =
     [1 \<mapsto> slice_reader ''Value'' (\<lambda>v m. m\<lparr>pre_Value := v\<rparr>)]"

definition Prefix_Unmarshal :: "bytes \<Rightarrow> Prefix \<Rightarrow> Prefix outcome" where
  "Prefix_Unmarshal = unmarshal_with ''Prefix'' Prefix_fields"

text \<open>The reference encoding, and the normal form that a value takes on the wire.\<close>

definition Prefix_enc :: "Prefix \<Rightarrow> bytes" where
  "Prefix_enc m = concat
     [enc_bytes 0x0A (slice_bytes (pre_Value m))]"

definition Prefix_norm :: "Prefix \<Rightarrow> Prefix" where
  "Prefix_norm m = m\<lparr>pre_Value := norm_slice (pre_Value m)\<rparr>"

lemma Prefix_readers:
  "Prefix_fields 1 = Some (slice_reader ''Value'' (\<lambda>v m. m\<lparr>pre_Value := v\<rparr>))"
  by (simp_all add: Prefix_fields_def)

lemma Prefix_decodes:
  "decodes ''Prefix'' Prefix_fields
     [enc_bytes 0x0A (slice_bytes (pre_Value m))]
     Prefix_zero (Ok (Prefix_norm m))"
  apply (rule decodes_slice [where fields = Prefix_fields, OF tags(6) Prefix_readers(1)])
   apply (simp add: Prefix_zero_def)
  by (rule decodes_Nil) (simp add: Prefix_zero_def Prefix_norm_def ucast_simps option.map_ident)

interpretation Prefix_wire: wire_message Prefix_Size Prefix_MarshalToSizedBuffer Prefix_Marshal
  Prefix_MarshalTo Prefix_Unmarshal Prefix_zero Prefix_enc Prefix_norm
proof
  fix m :: Prefix and d :: bytes
  show "length (Prefix_enc m) = Prefix_Size m"
    by (simp add: Prefix_enc_def Prefix_Size_def length_enc )
  show "writes (Prefix_MarshalToSizedBuffer m) (Prefix_enc m)"
    unfolding Prefix_MarshalToSizedBuffer_def
    by (rule writes_fields [OF Prefix_enc_def])
      (simp add: puts_intros )
  show "Prefix_Marshal m = marshal_with Prefix_Size Prefix_MarshalToSizedBuffer m"
    by (simp add: Prefix_Marshal_def)
  show "Prefix_MarshalTo m d = marshal_to_with Prefix_Size Prefix_MarshalToSizedBuffer m d"
    by (simp add: Prefix_MarshalTo_def)
  show "Prefix_Unmarshal (Prefix_enc m) Prefix_zero = Ok (Prefix_norm m)" if "length (Prefix_enc m) < 2 ^ 63"
    using that unmarshal_with_decodes [OF Prefix_decodes] by (simp add: Prefix_enc_def Prefix_Unmarshal_def)
  show "unmarshal_safe Prefix_Unmarshal"
    unfolding Prefix_Unmarshal_def by (rule unmarshal_with_safe)
      (auto simp: Prefix_fields_def readers_ok  split: if_splits)
  show "Prefix_enc (Prefix_norm m) = Prefix_enc m"
    by (simp add: Prefix_enc_def Prefix_norm_def enc_mapped )
qed

subsection \<open>\<open>ChaincodeID\<close>\<close>

record ChaincodeID =
  ccid_Path :: string
  ccid_Name :: string
  ccid_Version :: string

definition ChaincodeID_zero :: ChaincodeID where
  "ChaincodeID_zero = \<lparr>ccid_Path = '''', ccid_Name = '''', ccid_Version = ''''\<rparr>"

definition ChaincodeID_Size :: "ChaincodeID \<Rightarrow> nat" where
  "ChaincodeID_Size m =
     bytes_size (length (ccid_Path m))
     + bytes_size (length (ccid_Name m))
     + bytes_size (length (ccid_Version m))"

definition ChaincodeID_MarshalToSizedBuffer :: "ChaincodeID \<Rightarrow> bytes \<Rightarrow> (bytes \<times> nat) outcome" where
  "ChaincodeID_MarshalToSizedBuffer m = sized_buffer (put_all
     [put_bytes_field 0x1A (bytes_of_string (ccid_Version m)),
      put_bytes_field 0x12 (bytes_of_string (ccid_Name m)),
      put_bytes_field 0x0A (bytes_of_string (ccid_Path m))])"

definition ChaincodeID_Marshal :: "ChaincodeID \<Rightarrow> bytes outcome" where
  "ChaincodeID_Marshal = marshal_with ChaincodeID_Size ChaincodeID_MarshalToSizedBuffer"

definition ChaincodeID_MarshalTo :: "ChaincodeID \<Rightarrow> bytes \<Rightarrow> (bytes \<times> nat) outcome" where
  "ChaincodeID_MarshalTo = marshal_to_with ChaincodeID_Size ChaincodeID_MarshalToSizedBuffer"

definition ChaincodeID_fields :: "nat \<rightharpoonup> ChaincodeID reader" where
  "ChaincodeID_fields =
     [1 \<mapsto> string_reader ''Path'' (\<lambda>v m. m\<lparr>ccid_Path := v\<rparr>),
      2 \<mapsto> string_reader ''Name'' (\<lambda>v m. m\<lparr>ccid_Name := v\<rparr>),
      3 \<mapsto> string_reader ''Version'' (\<lambda>v m. m\<lparr>ccid_Version := v\<rparr>)]"

definition ChaincodeID_Unmarshal :: "bytes \<Rightarrow> ChaincodeID \<Rightarrow> ChaincodeID outcome" where
  "ChaincodeID_Unmarshal = unmarshal_with ''ChaincodeID'' ChaincodeID_fields"

text \<open>The reference encoding, and the normal form that a value takes on the wire.\<close>

definition ChaincodeID_enc :: "ChaincodeID \<Rightarrow> bytes" where
  "ChaincodeID_enc m = concat
     [enc_bytes 0x0A (bytes_of_string (ccid_Path m)),
      enc_bytes 0x12 (bytes_of_string (ccid_Name m)),
      enc_bytes 0x1A (bytes_of_string (ccid_Version m))]"

definition ChaincodeID_norm :: "ChaincodeID \<Rightarrow> ChaincodeID" where
  "ChaincodeID_norm m = m"

lemma ChaincodeID_norm_id [simp]: "ChaincodeID_norm = (\<lambda>m. m)"
  by (simp add: fun_eq_iff ChaincodeID_norm_def)

lemma ChaincodeID_readers:
  "ChaincodeID_fields 1 = Some (string_reader ''Path'' (\<lambda>v m. m\<lparr>ccid_Path := v\<rparr>))"
  "ChaincodeID_fields 2 = Some (string_reader ''Name'' (\<lambda>v m. m\<lparr>ccid_Name := v\<rparr>))"
  "ChaincodeID_fields 3 = Some (string_reader ''Version'' (\<lambda>v m. m\<lparr>ccid_Version := v\<rparr>))"
  by (simp_all add: ChaincodeID_fields_def)

lemma ChaincodeID_decodes:
  "decodes ''ChaincodeID'' ChaincodeID_fields
     [enc_bytes 0x0A (bytes_of_string (ccid_Path m)),
      enc_bytes 0x12 (bytes_of_string (ccid_Name m)),
      enc_bytes 0x1A (bytes_of_string (ccid_Version m))]
     ChaincodeID_zero (Ok (ChaincodeID_norm m))"
  apply (rule decodes_string [where fields = ChaincodeID_fields, OF tags(6) ChaincodeID_readers(1)])
   apply (simp add: ChaincodeID_zero_def)
  apply (rule decodes_string [where fields = ChaincodeID_fields, OF tags(7) ChaincodeID_readers(2)])
   apply (simp add: ChaincodeID_zero_def)
  apply (rule decodes_string [where fields = ChaincodeID_fields, OF tags(8) ChaincodeID_readers(3)])
   apply (simp add: ChaincodeID_zero_def)
  by (rule decodes_Nil) (simp add: ChaincodeID_zero_def ChaincodeID_norm_def ucast_simps option.map_ident)

interpretation ChaincodeID_wire: wire_message ChaincodeID_Size ChaincodeID_MarshalToSizedBuffer ChaincodeID_Marshal
  ChaincodeID_MarshalTo ChaincodeID_Unmarshal ChaincodeID_zero ChaincodeID_enc ChaincodeID_norm
proof
  fix m :: ChaincodeID and d :: bytes
  show "length (ChaincodeID_enc m) = ChaincodeID_Size m"
    by (simp add: ChaincodeID_enc_def ChaincodeID_Size_def length_enc )
  show "writes (ChaincodeID_MarshalToSizedBuffer m) (ChaincodeID_enc m)"
    unfolding ChaincodeID_MarshalToSizedBuffer_def
    by (rule writes_fields [OF ChaincodeID_enc_def])
      (simp add: puts_intros )
  show "ChaincodeID_Marshal m = marshal_with ChaincodeID_Size ChaincodeID_MarshalToSizedBuffer m"
    by (simp add: ChaincodeID_Marshal_def)
  show "ChaincodeID_MarshalTo m d = marshal_to_with ChaincodeID_Size ChaincodeID_MarshalToSizedBuffer m d"
    by (simp add: ChaincodeID_MarshalTo_def)
  show "ChaincodeID_Unmarshal (ChaincodeID_enc m) ChaincodeID_zero = Ok (ChaincodeID_norm m)" if "length (ChaincodeID_enc m) < 2 ^ 63"
    using that unmarshal_with_decodes [OF ChaincodeID_decodes] by (simp add: ChaincodeID_enc_def ChaincodeID_Unmarshal_def)
  show "unmarshal_safe ChaincodeID_Unmarshal"
    unfolding ChaincodeID_Unmarshal_def by (rule unmarshal_with_safe)
      (auto simp: ChaincodeID_fields_def readers_ok  split: if_splits)
  show "ChaincodeID_enc (ChaincodeID_norm m) = ChaincodeID_enc m"
    by (simp add: ChaincodeID_enc_def ChaincodeID_norm_def enc_mapped )
qed

subsection \<open>\<open>MSPInfo\<close>\<close>

record MSPInfo =
  mi_MSPID :: string
  mi_Config :: slice
  mi_Policy :: slice
  mi_Freezed :: bool

definition MSPInfo_zero :: MSPInfo where
  "MSPInfo_zero = \<lparr>mi_MSPID = '''', mi_Config = None, mi_Policy = None, mi_Freezed = False\<rparr>"

definition MSPInfo_Size :: "MSPInfo \<Rightarrow> nat" where
  "MSPInfo_Size m =
     bytes_size (length (mi_MSPID m))
     + bytes_size (length (slice_bytes (mi_Config m)))
     + bytes_size (length (slice_bytes (mi_Policy m)))
     + (if mi_Freezed m then 2 else 0)"

definition MSPInfo_MarshalToSizedBuffer :: "MSPInfo \<Rightarrow> bytes \<Rightarrow> (bytes \<times> nat) outcome" where
  "MSPInfo_MarshalToSizedBuffer m = sized_buffer (put_all
     [put_bool_field 0x20 (mi_Freezed m),
      put_bytes_field 0x1A (slice_bytes (mi_Policy m)),
      put_bytes_field 0x12 (slice_bytes (mi_Config m)),
      put_bytes_field 0x0A (bytes_of_string (mi_MSPID m))])"

definition MSPInfo_Marshal :: "MSPInfo \<Rightarrow> bytes outcome" where
  "MSPInfo_Marshal = marshal_with MSPInfo_Size MSPInfo_MarshalToSizedBuffer"

definition MSPInfo_MarshalTo :: "MSPInfo \<Rightarrow> bytes \<Rightarrow> (bytes \<times> nat) outcome" where
  "MSPInfo_MarshalTo = marshal_to_with MSPInfo_Size MSPInfo_MarshalToSizedBuffer"

definition MSPInfo_fields :: "nat \<rightharpoonup> MSPInfo reader" where
  "MSPInfo_fields =
     [1 \<mapsto> string_reader ''MSPID'' (\<lambda>v m. m\<lparr>mi_MSPID := v\<rparr>),
      2 \<mapsto> slice_reader ''Config'' (\<lambda>v m. m\<lparr>mi_Config := v\<rparr>),
      3 \<mapsto> slice_reader ''Policy'' (\<lambda>v m. m\<lparr>mi_Policy := v\<rparr>),
      4 \<mapsto> varint_reader ''Freezed'' (\<lambda>(v :: i64) m. m\<lparr>mi_Freezed := v \<noteq> 0\<rparr>)]"

definition MSPInfo_Unmarshal :: "bytes \<Rightarrow> MSPInfo \<Rightarrow> MSPInfo outcome" where
  "MSPInfo_Unmarshal = unmarshal_with ''MSPInfo'' MSPInfo_fields"

text \<open>The reference encoding, and the normal form that a value takes on the wire.\<close>

definition MSPInfo_enc :: "MSPInfo \<Rightarrow> bytes" where
  "MSPInfo_enc m = concat
     [enc_bytes 0x0A (bytes_of_string (mi_MSPID m)),
      enc_bytes 0x12 (slice_bytes (mi_Config m)),
      enc_bytes 0x1A (slice_bytes (mi_Policy m)),
      enc_bool 0x20 (mi_Freezed m)]"

definition MSPInfo_norm :: "MSPInfo \<Rightarrow> MSPInfo" where
  "MSPInfo_norm m = m\<lparr>mi_Config := norm_slice (mi_Config m),
     mi_Policy := norm_slice (mi_Policy m)\<rparr>"

lemma MSPInfo_readers:
  "MSPInfo_fields 1 = Some (string_reader ''MSPID'' (\<lambda>v m. m\<lparr>mi_MSPID := v\<rparr>))"
  "MSPInfo_fields 2 = Some (slice_reader ''Config'' (\<lambda>v m. m\<lparr>mi_Config := v\<rparr>))"
  "MSPInfo_fields 3 = Some (slice_reader ''Policy'' (\<lambda>v m. m\<lparr>mi_Policy := v\<rparr>))"
  "MSPInfo_fields 4 = Some (varint_reader ''Freezed'' (\<lambda>(v :: i64) m. m\<lparr>mi_Freezed := v \<noteq> 0\<rparr>))"
  by (simp_all add: MSPInfo_fields_def)

lemma MSPInfo_decodes:
  "decodes ''MSPInfo'' MSPInfo_fields
     [enc_bytes 0x0A (bytes_of_string (mi_MSPID m)),
      enc_bytes 0x12 (slice_bytes (mi_Config m)),
      enc_bytes 0x1A (slice_bytes (mi_Policy m)),
      enc_bool 0x20 (mi_Freezed m)]
     MSPInfo_zero (Ok (MSPInfo_norm m))"
  apply (rule decodes_string [where fields = MSPInfo_fields, OF tags(6) MSPInfo_readers(1)])
   apply (simp add: MSPInfo_zero_def)
  apply (rule decodes_slice [where fields = MSPInfo_fields, OF tags(7) MSPInfo_readers(2)])
   apply (simp add: MSPInfo_zero_def)
  apply (rule decodes_slice [where fields = MSPInfo_fields, OF tags(8) MSPInfo_readers(3)])
   apply (simp add: MSPInfo_zero_def)
  apply (rule decodes_bool [where fields = MSPInfo_fields, OF tags(4) MSPInfo_readers(4)])
   apply (simp add: MSPInfo_zero_def)
  by (rule decodes_Nil) (simp add: MSPInfo_zero_def MSPInfo_norm_def ucast_simps option.map_ident)

interpretation MSPInfo_wire: wire_message MSPInfo_Size MSPInfo_MarshalToSizedBuffer MSPInfo_Marshal
  MSPInfo_MarshalTo MSPInfo_Unmarshal MSPInfo_zero MSPInfo_enc MSPInfo_norm
proof
  fix m :: MSPInfo and d :: bytes
  show "length (MSPInfo_enc m) = MSPInfo_Size m"
    by (simp add: MSPInfo_enc_def MSPInfo_Size_def length_enc )
  show "writes (MSPInfo_MarshalToSizedBuffer m) (MSPInfo_enc m)"
    unfolding MSPInfo_MarshalToSizedBuffer_def
    by (rule writes_fields [OF MSPInfo_enc_def])
      (simp add: puts_intros )
  show "MSPInfo_Marshal m = marshal_with MSPInfo_Size MSPInfo_MarshalToSizedBuffer m"
    by (simp add: MSPInfo_Marshal_def)
  show "MSPInfo_MarshalTo m d = marshal_to_with MSPInfo_Size MSPInfo_MarshalToSizedBuffer m d"
    by (simp add: MSPInfo_MarshalTo_def)
  show "MSPInfo_Unmarshal (MSPInfo_enc m) MSPInfo_zero = Ok (MSPInfo_norm m)" if "length (MSPInfo_enc m) < 2 ^ 63"
    using that unmarshal_with_decodes [OF MSPInfo_decodes] by (simp add: MSPInfo_enc_def MSPInfo_Unmarshal_def)
  show "unmarshal_safe MSPInfo_Unmarshal"
    unfolding MSPInfo_Unmarshal_def by (rule unmarshal_with_safe)
      (auto simp: MSPInfo_fields_def readers_ok  split: if_splits)
  show "MSPInfo_enc (MSPInfo_norm m) = MSPInfo_enc m"
    by (simp add: MSPInfo_enc_def MSPInfo_norm_def enc_mapped )
qed

subsection \<open>\<open>MSPInfos\<close>\<close>

record MSPInfos =
  mis_Infos :: "MSPInfo list"

definition MSPInfos_zero :: MSPInfos where
  "MSPInfos_zero = \<lparr>mis_Infos = []\<rparr>"

definition MSPInfos_Size :: "MSPInfos \<Rightarrow> nat" where
  "MSPInfos_Size m =
     repeated_size MSPInfo_Size (mis_Infos m)"

definition MSPInfos_MarshalToSizedBuffer :: "MSPInfos \<Rightarrow> bytes \<Rightarrow> (bytes \<times> nat) outcome" where
  "MSPInfos_MarshalToSizedBuffer m = sized_buffer (put_all
     [put_repeated (\<lambda>x. put_message_field 0x0A (MSPInfo_MarshalToSizedBuffer x)) (mis_Infos m)])"

definition MSPInfos_Marshal :: "MSPInfos \<Rightarrow> bytes outcome" where
  "MSPInfos_Marshal = marshal_with MSPInfos_Size MSPInfos_MarshalToSizedBuffer"

definition MSPInfos_MarshalTo :: "MSPInfos \<Rightarrow> bytes \<Rightarrow> (bytes \<times> nat) outcome" where
  "MSPInfos_MarshalTo = marshal_to_with MSPInfos_Size MSPInfos_MarshalToSizedBuffer"

definition MSPInfos_fields :: "nat \<rightharpoonup> MSPInfos reader" where
  "MSPInfos_fields =
     [1 \<mapsto> element_reader ''Infos'' (\<lambda>bs. MSPInfo_Unmarshal bs MSPInfo_zero) mis_Infos (\<lambda>v m. m\<lparr>mis_Infos := v\<rparr>)]"

definition MSPInfos_Unmarshal :: "bytes \<Rightarrow> MSPInfos \<Rightarrow> MSPInfos outcome" where
  "MSPInfos_Unmarshal = unmarshal_with ''MSPInfos'' MSPInfos_fields"

text \<open>The reference encoding, and the normal form that a value takes on the wire.\<close>

definition MSPInfos_enc :: "MSPInfos \<Rightarrow> bytes" where
  "MSPInfos_enc m = concat
     [enc_repeated (\<lambda>x. enc_element 0x0A (MSPInfo_enc x)) (mis_Infos m)]"

definition MSPInfos_norm :: "MSPInfos \<Rightarrow> MSPInfos" where
  "MSPInfos_norm m = m\<lparr>mis_Infos := map MSPInfo_norm (mis_Infos m)\<rparr>"

lemma MSPInfos_readers:
  "MSPInfos_fields 1 = Some (element_reader ''Infos'' (\<lambda>bs. MSPInfo_Unmarshal bs MSPInfo_zero) mis_Infos (\<lambda>v m. m\<lparr>mis_Infos := v\<rparr>))"
  by (simp_all add: MSPInfos_fields_def)

lemma MSPInfos_decodes:
  "decodes ''MSPInfos'' MSPInfos_fields
     [enc_repeated (\<lambda>x. enc_element 0x0A (MSPInfo_enc x)) (mis_Infos m)]
     MSPInfos_zero (Ok (MSPInfos_norm m))"
  apply (rule decodes_repeated [where fields = MSPInfos_fields and norm = MSPInfo_norm and e = MSPInfo_enc, OF tags(6) MSPInfos_readers(1)])
      apply (simp add: MSPInfo_wire.reads_back, simp, simp, simp)
  by (rule decodes_Nil) (simp add: MSPInfos_zero_def MSPInfos_norm_def ucast_simps option.map_ident)

interpretation MSPInfos_wire: wire_message MSPInfos_Size MSPInfos_MarshalToSizedBuffer MSPInfos_Marshal
  MSPInfos_MarshalTo MSPInfos_Unmarshal MSPInfos_zero MSPInfos_enc MSPInfos_norm
proof
  fix m :: MSPInfos and d :: bytes
  show "length (MSPInfos_enc m) = MSPInfos_Size m"
    by (simp add: MSPInfos_enc_def MSPInfos_Size_def length_enc MSPInfo_wire.size_enc)
  show "writes (MSPInfos_MarshalToSizedBuffer m) (MSPInfos_enc m)"
    unfolding MSPInfos_MarshalToSizedBuffer_def
    by (rule writes_fields [OF MSPInfos_enc_def])
      (simp add: puts_intros MSPInfo_wire.to_sized_writes)
  show "MSPInfos_Marshal m = marshal_with MSPInfos_Size MSPInfos_MarshalToSizedBuffer m"
    by (simp add: MSPInfos_Marshal_def)
  show "MSPInfos_MarshalTo m d = marshal_to_with MSPInfos_Size MSPInfos_MarshalToSizedBuffer m d"
    by (simp add: MSPInfos_MarshalTo_def)
  show "MSPInfos_Unmarshal (MSPInfos_enc m) MSPInfos_zero = Ok (MSPInfos_norm m)" if "length (MSPInfos_enc m) < 2 ^ 63"
    using that unmarshal_with_decodes [OF MSPInfos_decodes] by (simp add: MSPInfos_enc_def MSPInfos_Unmarshal_def)
  show "unmarshal_safe MSPInfos_Unmarshal"
    unfolding MSPInfos_Unmarshal_def by (rule unmarshal_with_safe)
      (auto simp: MSPInfos_fields_def readers_ok MSPInfo_wire.safe split: if_splits)
  show "MSPInfos_enc (MSPInfos_norm m) = MSPInfos_enc m"
    by (simp add: MSPInfos_enc_def MSPInfos_norm_def enc_mapped MSPInfo_wire.enc_norm)
qed

text \<open>The enumeration is an \<open>int32\<close>: a decoded header can hold a value that has no name.\<close>

type_synonym MSPHeaderType = "32 word"

definition MSPHeaderTypeCreate :: MSPHeaderType where "MSPHeaderTypeCreate = 0"
definition MSPHeaderTypeUpdatePolicy :: MSPHeaderType where "MSPHeaderTypeUpdatePolicy = 1"
definition MSPHeaderTypeUpdateConfig :: MSPHeaderType where "MSPHeaderTypeUpdateConfig = 2"
definition MSPHeaderTypeFreeze :: MSPHeaderType where "MSPHeaderTypeFreeze = 3"

subsection \<open>\<open>MSPHeader\<close>\<close>

record MSPHeader =
  mh_Type :: MSPHeaderType
  mh_MSPID :: string
  mh_Config :: slice
  mh_Policy :: slice
  mh_Proof :: "MessageProof option"

definition MSPHeader_zero :: MSPHeader where
  "MSPHeader_zero = \<lparr>mh_Type = 0, mh_MSPID = '''', mh_Config = None, mh_Policy = None, mh_Proof = None\<rparr>"

definition MSPHeader_Size :: "MSPHeader \<Rightarrow> nat" where
  "MSPHeader_Size m =
     varint_size (scast (mh_Type m))
     + bytes_size (length (mh_MSPID m))
     + bytes_size (length (slice_bytes (mh_Config m)))
     + bytes_size (length (slice_bytes (mh_Policy m)))
     + optional_size MessageProof_Size (mh_Proof m)"

definition MSPHeader_MarshalToSizedBuffer :: "MSPHeader \<Rightarrow> bytes \<Rightarrow> (bytes \<times> nat) outcome" where
  "MSPHeader_MarshalToSizedBuffer m = sized_buffer (put_all
     [put_optional (\<lambda>x. put_message_field 0x2A (MessageProof_MarshalToSizedBuffer x)) (mh_Proof m),
      put_bytes_field 0x22 (slice_bytes (mh_Policy m)),
      put_bytes_field 0x1A (slice_bytes (mh_Config m)),
      put_bytes_field 0x12 (bytes_of_string (mh_MSPID m)),
      put_varint_field 0x08 (scast (mh_Type m))])"

definition MSPHeader_Marshal :: "MSPHeader \<Rightarrow> bytes outcome" where
  "MSPHeader_Marshal = marshal_with MSPHeader_Size MSPHeader_MarshalToSizedBuffer"

definition MSPHeader_MarshalTo :: "MSPHeader \<Rightarrow> bytes \<Rightarrow> (bytes \<times> nat) outcome" where
  "MSPHeader_MarshalTo = marshal_to_with MSPHeader_Size MSPHeader_MarshalToSizedBuffer"

definition MSPHeader_fields :: "nat \<rightharpoonup> MSPHeader reader" where
  "MSPHeader_fields =
     [1 \<mapsto> varint_reader ''Type'' (\<lambda>v m. m\<lparr>mh_Type := v\<rparr>),
      2 \<mapsto> string_reader ''MSPID'' (\<lambda>v m. m\<lparr>mh_MSPID := v\<rparr>),
      3 \<mapsto> slice_reader ''Config'' (\<lambda>v m. m\<lparr>mh_Config := v\<rparr>),
      4 \<mapsto> slice_reader ''Policy'' (\<lambda>v m. m\<lparr>mh_Policy := v\<rparr>),
      5 \<mapsto> pointer_reader ''Proof'' MessageProof_Unmarshal MessageProof_zero mh_Proof (\<lambda>v m. m\<lparr>mh_Proof := v\<rparr>)]"

definition MSPHeader_Unmarshal :: "bytes \<Rightarrow> MSPHeader \<Rightarrow> MSPHeader outcome" where
  "MSPHeader_Unmarshal = unmarshal_with ''MSPHeader'' MSPHeader_fields"

text \<open>The reference encoding, and the normal form that a value takes on the wire.\<close>

definition MSPHeader_enc :: "MSPHeader \<Rightarrow> bytes" where
  "MSPHeader_enc m = concat
     [enc_varint 0x08 (scast (mh_Type m)),
      enc_bytes 0x12 (bytes_of_string (mh_MSPID m)),
      enc_bytes 0x1A (slice_bytes (mh_Config m)),
      enc_bytes 0x22 (slice_bytes (mh_Policy m)),
      enc_optional (\<lambda>x. enc_element 0x2A (MessageProof_enc x)) (mh_Proof m)]"

definition MSPHeader_norm :: "MSPHeader \<Rightarrow> MSPHeader" where
  "MSPHeader_norm m = m\<lparr>mh_Config := norm_slice (mh_Config m),
     mh_Policy := norm_slice (mh_Policy m)\<rparr>"

lemma MSPHeader_readers:
  "MSPHeader_fields 1 = Some (varint_reader ''Type'' (\<lambda>v m. m\<lparr>mh_Type := v\<rparr>))"
  "MSPHeader_fields 2 = Some (string_reader ''MSPID'' (\<lambda>v m. m\<lparr>mh_MSPID := v\<rparr>))"
  "MSPHeader_fields 3 = Some (slice_reader ''Config'' (\<lambda>v m. m\<lparr>mh_Config := v\<rparr>))"
  "MSPHeader_fields 4 = Some (slice_reader ''Policy'' (\<lambda>v m. m\<lparr>mh_Policy := v\<rparr>))"
  "MSPHeader_fields 5 = Some (pointer_reader ''Proof'' MessageProof_Unmarshal MessageProof_zero mh_Proof (\<lambda>v m. m\<lparr>mh_Proof := v\<rparr>))"
  by (simp_all add: MSPHeader_fields_def)

lemma MSPHeader_decodes:
  "decodes ''MSPHeader'' MSPHeader_fields
     [enc_varint 0x08 (scast (mh_Type m)),
      enc_bytes 0x12 (bytes_of_string (mh_MSPID m)),
      enc_bytes 0x1A (slice_bytes (mh_Config m)),
      enc_bytes 0x22 (slice_bytes (mh_Policy m)),
      enc_optional (\<lambda>x. enc_element 0x2A (MessageProof_enc x)) (mh_Proof m)]
     MSPHeader_zero (Ok (MSPHeader_norm m))"
  apply (rule decodes_varint [where fields = MSPHeader_fields, OF tags(1) MSPHeader_readers(1)])
   apply (simp add: MSPHeader_zero_def)
  apply (rule decodes_string [where fields = MSPHeader_fields, OF tags(7) MSPHeader_readers(2)])
   apply (simp add: MSPHeader_zero_def)
  apply (rule decodes_slice [where fields = MSPHeader_fields, OF tags(8) MSPHeader_readers(3)])
   apply (simp add: MSPHeader_zero_def)
  apply (rule decodes_slice [where fields = MSPHeader_fields, OF tags(9) MSPHeader_readers(4)])
   apply (simp add: MSPHeader_zero_def)
  apply (rule decodes_pointer [where fields = MSPHeader_fields and norm = MessageProof_norm and e = MessageProof_enc, OF tags(10) MSPHeader_readers(5)])
     apply (simp add: MessageProof_wire.reads_back, simp add: MSPHeader_zero_def, simp add: MSPHeader_zero_def)
  by (rule decodes_Nil) (simp add: MSPHeader_zero_def MSPHeader_norm_def ucast_simps option.map_ident)

interpretation MSPHeader_wire: wire_message MSPHeader_Size MSPHeader_MarshalToSizedBuffer MSPHeader_Marshal
  MSPHeader_MarshalTo MSPHeader_Unmarshal MSPHeader_zero MSPHeader_enc MSPHeader_norm
proof
  fix m :: MSPHeader and d :: bytes
  show "length (MSPHeader_enc m) = MSPHeader_Size m"
    by (simp add: MSPHeader_enc_def MSPHeader_Size_def length_enc MessageProof_wire.size_enc)
  show "writes (MSPHeader_MarshalToSizedBuffer m) (MSPHeader_enc m)"
    unfolding MSPHeader_MarshalToSizedBuffer_def
    by (rule writes_fields [OF MSPHeader_enc_def])
      (simp add: puts_intros MessageProof_wire.to_sized_writes)
  show "MSPHeader_Marshal m = marshal_with MSPHeader_Size MSPHeader_MarshalToSizedBuffer m"
    by (simp add: MSPHeader_Marshal_def)
  show "MSPHeader_MarshalTo m d = marshal_to_with MSPHeader_Size MSPHeader_MarshalToSizedBuffer m d"
    by (simp add: MSPHeader_MarshalTo_def)
  show "MSPHeader_Unmarshal (MSPHeader_enc m) MSPHeader_zero = Ok (MSPHeader_norm m)" if "length (MSPHeader_enc m) < 2 ^ 63"
    using that unmarshal_with_decodes [OF MSPHeader_decodes] by (simp add: MSPHeader_enc_def MSPHeader_Unmarshal_def)
  show "unmarshal_safe MSPHeader_Unmarshal"
    unfolding MSPHeader_Unmarshal_def by (rule unmarshal_with_safe)
      (auto simp: MSPHeader_fields_def readers_ok MessageProof_wire.safe split: if_splits)
  show "MSPHeader_enc (MSPHeader_norm m) = MSPHeader_enc m"
    by (simp add: MSPHeader_enc_def MSPHeader_norm_def enc_mapped MessageProof_wire.enc_norm)
qed

subsection \<open>\<open>MSPHeaders\<close>\<close>

record MSPHeaders =
  mhs_Headers :: "MSPHeader list"

definition MSPHeaders_zero :: MSPHeaders where
  "MSPHeaders_zero = \<lparr>mhs_Headers = []\<rparr>"

definition MSPHeaders_Size :: "MSPHeaders \<Rightarrow> nat" where
  "MSPHeaders_Size m =
     repeated_size MSPHeader_Size (mhs_Headers m)"

definition MSPHeaders_MarshalToSizedBuffer :: "MSPHeaders \<Rightarrow> bytes \<Rightarrow> (bytes \<times> nat) outcome" where
  "MSPHeaders_MarshalToSizedBuffer m = sized_buffer (put_all
     [put_repeated (\<lambda>x. put_message_field 0x0A (MSPHeader_MarshalToSizedBuffer x)) (mhs_Headers m)])"

definition MSPHeaders_Marshal :: "MSPHeaders \<Rightarrow> bytes outcome" where
  "MSPHeaders_Marshal = marshal_with MSPHeaders_Size MSPHeaders_MarshalToSizedBuffer"

definition MSPHeaders_MarshalTo :: "MSPHeaders \<Rightarrow> bytes \<Rightarrow> (bytes \<times> nat) outcome" where
  "MSPHeaders_MarshalTo = marshal_to_with MSPHeaders_Size MSPHeaders_MarshalToSizedBuffer"

definition MSPHeaders_fields :: "nat \<rightharpoonup> MSPHeaders reader" where
  "MSPHeaders_fields =
     [1 \<mapsto> element_reader ''Headers'' (\<lambda>bs. MSPHeader_Unmarshal bs MSPHeader_zero) mhs_Headers (\<lambda>v m. m\<lparr>mhs_Headers := v\<rparr>)]"

definition MSPHeaders_Unmarshal :: "bytes \<Rightarrow> MSPHeaders \<Rightarrow> MSPHeaders outcome" where
  "MSPHeaders_Unmarshal = unmarshal_with ''MSPHeaders'' MSPHeaders_fields"

text \<open>The reference encoding, and the normal form that a value takes on the wire.\<close>

definition MSPHeaders_enc :: "MSPHeaders \<Rightarrow> bytes" where
  "MSPHeaders_enc m = concat
     [enc_repeated (\<lambda>x. enc_element 0x0A (MSPHeader_enc x)) (mhs_Headers m)]"

definition MSPHeaders_norm :: "MSPHeaders \<Rightarrow> MSPHeaders" where
  "MSPHeaders_norm m = m\<lparr>mhs_Headers := map MSPHeader_norm (mhs_Headers m)\<rparr>"

lemma MSPHeaders_readers:
  "MSPHeaders_fields 1 = Some (element_reader ''Headers'' (\<lambda>bs. MSPHeader_Unmarshal bs MSPHeader_zero) mhs_Headers (\<lambda>v m. m\<lparr>mhs_Headers := v\<rparr>))"
  by (simp_all add: MSPHeaders_fields_def)

lemma MSPHeaders_decodes:
  "decodes ''MSPHeaders'' MSPHeaders_fields
     [enc_repeated (\<lambda>x. enc_element 0x0A (MSPHeader_enc x)) (mhs_Headers m)]
     MSPHeaders_zero (Ok (MSPHeaders_norm m))"
  apply (rule decodes_repeated [where fields = MSPHeaders_fields and norm = MSPHeader_norm and e = MSPHeader_enc, OF tags(6) MSPHeaders_readers(1)])
      apply (simp add: MSPHeader_wire.reads_back, simp, simp, simp)
  by (rule decodes_Nil) (simp add: MSPHeaders_zero_def MSPHeaders_norm_def ucast_simps option.map_ident)

interpretation MSPHeaders_wire: wire_message MSPHeaders_Size MSPHeaders_MarshalToSizedBuffer MSPHeaders_Marshal
  MSPHeaders_MarshalTo MSPHeaders_Unmarshal MSPHeaders_zero MSPHeaders_enc MSPHeaders_norm
proof
  fix m :: MSPHeaders and d :: bytes
  show "length (MSPHeaders_enc m) = MSPHeaders_Size m"
    by (simp add: MSPHeaders_enc_def MSPHeaders_Size_def length_enc MSPHeader_wire.size_enc)
  show "writes (MSPHeaders_MarshalToSizedBuffer m) (MSPHeaders_enc m)"
    unfolding MSPHeaders_MarshalToSizedBuffer_def
    by (rule writes_fields [OF MSPHeaders_enc_def])
      (simp add: puts_intros MSPHeader_wire.to_sized_writes)
  show "MSPHeaders_Marshal m = marshal_with MSPHeaders_Size MSPHeaders_MarshalToSizedBuffer m"
    by (simp add: MSPHeaders_Marshal_def)
  show "MSPHeaders_MarshalTo m d = marshal_to_with MSPHeaders_Size MSPHeaders_MarshalToSizedBuffer m d"
    by (simp add: MSPHeaders_MarshalTo_def)
  show "MSPHeaders_Unmarshal (MSPHeaders_enc m) MSPHeaders_zero = Ok (MSPHeaders_norm m)" if "length (MSPHeaders_enc m) < 2 ^ 63"
    using that unmarshal_with_decodes [OF MSPHeaders_decodes] by (simp add: MSPHeaders_enc_def MSPHeaders_Unmarshal_def)
  show "unmarshal_safe MSPHeaders_Unmarshal"
    unfolding MSPHeaders_Unmarshal_def by (rule unmarshal_with_safe)
      (auto simp: MSPHeaders_fields_def readers_ok MSPHeader_wire.safe split: if_splits)
  show "MSPHeaders_enc (MSPHeaders_norm m) = MSPHeaders_enc m"
    by (simp add: MSPHeaders_enc_def MSPHeaders_norm_def enc_mapped MSPHeader_wire.enc_norm)
qed

subsection \<open>\<open>ChaincodeInfo\<close>\<close>

record ChaincodeInfo =
  ci_ChannelId :: string
  ci_ChaincodeId :: ChaincodeID
  ci_EndorsementPolicy :: slice
  ci_IbcPolicy :: slice
  ci_Proof :: "MessageProof option"

definition ChaincodeInfo_zero :: ChaincodeInfo where
  "ChaincodeInfo_zero = \<lparr>ci_ChannelId = '''', ci_ChaincodeId = ChaincodeID_zero, ci_EndorsementPolicy = None, ci_IbcPolicy = None, ci_Proof = None\<rparr>"

definition ChaincodeInfo_Size :: "ChaincodeInfo \<Rightarrow> nat" where
  "ChaincodeInfo_Size m =
     bytes_size (length (ci_ChannelId m))
     + element_size (ChaincodeID_Size (ci_ChaincodeId m))
     + bytes_size (length (slice_bytes (ci_EndorsementPolicy m)))
     + bytes_size (length (slice_bytes (ci_IbcPolicy m)))
     + optional_size MessageProof_Size (ci_Proof m)"

definition ChaincodeInfo_MarshalToSizedBuffer :: "ChaincodeInfo \<Rightarrow> bytes \<Rightarrow> (bytes \<times> nat) outcome" where
  "ChaincodeInfo_MarshalToSizedBuffer m = sized_buffer (put_all
     [put_optional (\<lambda>x. put_message_field 0x2A (MessageProof_MarshalToSizedBuffer x)) (ci_Proof m),
      put_bytes_field 0x22 (slice_bytes (ci_IbcPolicy m)),
      put_bytes_field 0x1A (slice_bytes (ci_EndorsementPolicy m)),
      put_message_field 0x12 (ChaincodeID_MarshalToSizedBuffer (ci_ChaincodeId m)),
      put_bytes_field 0x0A (bytes_of_string (ci_ChannelId m))])"

definition ChaincodeInfo_Marshal :: "ChaincodeInfo \<Rightarrow> bytes outcome" where
  "ChaincodeInfo_Marshal = marshal_with ChaincodeInfo_Size ChaincodeInfo_MarshalToSizedBuffer"

definition ChaincodeInfo_MarshalTo :: "ChaincodeInfo \<Rightarrow> bytes \<Rightarrow> (bytes \<times> nat) outcome" where
  "ChaincodeInfo_MarshalTo = marshal_to_with ChaincodeInfo_Size ChaincodeInfo_MarshalToSizedBuffer"

definition ChaincodeInfo_fields :: "nat \<rightharpoonup> ChaincodeInfo reader" where
  "ChaincodeInfo_fields =
     [1 \<mapsto> string_reader ''ChannelId'' (\<lambda>v m. m\<lparr>ci_ChannelId := v\<rparr>),
      2 \<mapsto> message_reader ''ChaincodeId'' ChaincodeID_Unmarshal ci_ChaincodeId (\<lambda>v m. m\<lparr>ci_ChaincodeId := v\<rparr>),
      3 \<mapsto> slice_reader ''EndorsementPolicy'' (\<lambda>v m. m\<lparr>ci_EndorsementPolicy := v\<rparr>),
      4 \<mapsto> slice_reader ''IbcPolicy'' (\<lambda>v m. m\<lparr>ci_IbcPolicy := v\<rparr>),
      5 \<mapsto> pointer_reader ''Proof'' MessageProof_Unmarshal MessageProof_zero ci_Proof (\<lambda>v m. m\<lparr>ci_Proof := v\<rparr>)]"

definition ChaincodeInfo_Unmarshal :: "bytes \<Rightarrow> ChaincodeInfo \<Rightarrow> ChaincodeInfo outcome" where
  "ChaincodeInfo_Unmarshal = unmarshal_with ''ChaincodeInfo'' ChaincodeInfo_fields"

text \<open>The reference encoding, and the normal form that a value takes on the wire.\<close>

definition ChaincodeInfo_enc :: "ChaincodeInfo \<Rightarrow> bytes" where
  "ChaincodeInfo_enc m = concat
     [enc_bytes 0x0A (bytes_of_string (ci_ChannelId m)),
      enc_element 0x12 (ChaincodeID_enc (ci_ChaincodeId m)),
      enc_bytes 0x1A (slice_bytes (ci_EndorsementPolicy m)),
      enc_bytes 0x22 (slice_bytes (ci_IbcPolicy m)),
      enc_optional (\<lambda>x. enc_element 0x2A (MessageProof_enc x)) (ci_Proof m)]"

definition ChaincodeInfo_norm :: "ChaincodeInfo \<Rightarrow> ChaincodeInfo" where
  "ChaincodeInfo_norm m = m\<lparr>ci_EndorsementPolicy := norm_slice (ci_EndorsementPolicy m),
     ci_IbcPolicy := norm_slice (ci_IbcPolicy m)\<rparr>"

lemma ChaincodeInfo_readers:
  "ChaincodeInfo_fields 1 = Some (string_reader ''ChannelId'' (\<lambda>v m. m\<lparr>ci_ChannelId := v\<rparr>))"
  "ChaincodeInfo_fields 2 = Some (message_reader ''ChaincodeId'' ChaincodeID_Unmarshal ci_ChaincodeId (\<lambda>v m. m\<lparr>ci_ChaincodeId := v\<rparr>))"
  "ChaincodeInfo_fields 3 = Some (slice_reader ''EndorsementPolicy'' (\<lambda>v m. m\<lparr>ci_EndorsementPolicy := v\<rparr>))"
  "ChaincodeInfo_fields 4 = Some (slice_reader ''IbcPolicy'' (\<lambda>v m. m\<lparr>ci_IbcPolicy := v\<rparr>))"
  "ChaincodeInfo_fields 5 = Some (pointer_reader ''Proof'' MessageProof_Unmarshal MessageProof_zero ci_Proof (\<lambda>v m. m\<lparr>ci_Proof := v\<rparr>))"
  by (simp_all add: ChaincodeInfo_fields_def)

lemma ChaincodeInfo_decodes:
  "decodes ''ChaincodeInfo'' ChaincodeInfo_fields
     [enc_bytes 0x0A (bytes_of_string (ci_ChannelId m)),
      enc_element 0x12 (ChaincodeID_enc (ci_ChaincodeId m)),
      enc_bytes 0x1A (slice_bytes (ci_EndorsementPolicy m)),
      enc_bytes 0x22 (slice_bytes (ci_IbcPolicy m)),
      enc_optional (\<lambda>x. enc_element 0x2A (MessageProof_enc x)) (ci_Proof m)]
     ChaincodeInfo_zero (Ok (ChaincodeInfo_norm m))"
  apply (rule decodes_string [where fields = ChaincodeInfo_fields, OF tags(6) ChaincodeInfo_readers(1)])
   apply (simp add: ChaincodeInfo_zero_def)
  apply (rule decodes_message [where fields = ChaincodeInfo_fields, OF tags(7) ChaincodeInfo_readers(2)])
   apply (simp add: ChaincodeInfo_zero_def ChaincodeID_wire.reads_back)
  apply (rule decodes_slice [where fields = ChaincodeInfo_fields, OF tags(8) ChaincodeInfo_readers(3)])
   apply (simp add: ChaincodeInfo_zero_def)
  apply (rule decodes_slice [where fields = ChaincodeInfo_fields, OF tags(9) ChaincodeInfo_readers(4)])
   apply (simp add: ChaincodeInfo_zero_def)
  apply (rule decodes_pointer [where fields = ChaincodeInfo_fields and norm = MessageProof_norm and e = MessageProof_enc, OF tags(10) ChaincodeInfo_readers(5)])
     apply (simp add: MessageProof_wire.reads_back, simp add: ChaincodeInfo_zero_def, simp add: ChaincodeInfo_zero_def)
  by (rule decodes_Nil) (simp add: ChaincodeInfo_zero_def ChaincodeInfo_norm_def ucast_simps option.map_ident)

interpretation ChaincodeInfo_wire: wire_message ChaincodeInfo_Size ChaincodeInfo_MarshalToSizedBuffer ChaincodeInfo_Marshal
  ChaincodeInfo_MarshalTo ChaincodeInfo_Unmarshal ChaincodeInfo_zero ChaincodeInfo_enc ChaincodeInfo_norm
proof
  fix m :: ChaincodeInfo and d :: bytes
  show "length (ChaincodeInfo_enc m) = ChaincodeInfo_Size m"
    by (simp add: ChaincodeInfo_enc_def ChaincodeInfo_Size_def length_enc ChaincodeID_wire.size_enc MessageProof_wire.size_enc)
  show "writes (ChaincodeInfo_MarshalToSizedBuffer m) (ChaincodeInfo_enc m)"
    unfolding ChaincodeInfo_MarshalToSizedBuffer_def
    by (rule writes_fields [OF ChaincodeInfo_enc_def])
      (simp add: puts_intros ChaincodeID_wire.to_sized_writes MessageProof_wire.to_sized_writes)
  show "ChaincodeInfo_Marshal m = marshal_with ChaincodeInfo_Size ChaincodeInfo_MarshalToSizedBuffer m"
    by (simp add: ChaincodeInfo_Marshal_def)
  show "ChaincodeInfo_MarshalTo m d = marshal_to_with ChaincodeInfo_Size ChaincodeInfo_MarshalToSizedBuffer m d"
    by (simp add: ChaincodeInfo_MarshalTo_def)
  show "ChaincodeInfo_Unmarshal (ChaincodeInfo_enc m) ChaincodeInfo_zero = Ok (ChaincodeInfo_norm m)" if "length (ChaincodeInfo_enc m) < 2 ^ 63"
    using that unmarshal_with_decodes [OF ChaincodeInfo_decodes] by (simp add: ChaincodeInfo_enc_def ChaincodeInfo_Unmarshal_def)
  show "unmarshal_safe ChaincodeInfo_Unmarshal"
    unfolding ChaincodeInfo_Unmarshal_def by (rule unmarshal_with_safe)
      (auto simp: ChaincodeInfo_fields_def readers_ok ChaincodeID_wire.safe MessageProof_wire.safe split: if_splits)
  show "ChaincodeInfo_enc (ChaincodeInfo_norm m) = ChaincodeInfo_enc m"
    by (simp add: ChaincodeInfo_enc_def ChaincodeInfo_norm_def enc_mapped ChaincodeID_wire.enc_norm MessageProof_wire.enc_norm)
qed

subsection \<open>\<open>ChaincodeHeader\<close>\<close>

record ChaincodeHeader =
  ch_Sequence :: Sequence
  ch_Proof :: CommitmentProof

definition ChaincodeHeader_zero :: ChaincodeHeader where
  "ChaincodeHeader_zero = \<lparr>ch_Sequence = Sequence_zero, ch_Proof = CommitmentProof_zero\<rparr>"

definition ChaincodeHeader_Size :: "ChaincodeHeader \<Rightarrow> nat" where
  "ChaincodeHeader_Size m =
     element_size (Sequence_Size (ch_Sequence m))
     + element_size (CommitmentProof_Size (ch_Proof m))"

definition ChaincodeHeader_MarshalToSizedBuffer :: "ChaincodeHeader \<Rightarrow> bytes \<Rightarrow> (bytes \<times> nat) outcome" where
  "ChaincodeHeader_MarshalToSizedBuffer m = sized_buffer (put_all
     [put_message_field 0x12 (CommitmentProof_MarshalToSizedBuffer (ch_Proof m)),
      put_message_field 0x0A (Sequence_MarshalToSizedBuffer (ch_Sequence m))])"

definition ChaincodeHeader_Marshal :: "ChaincodeHeader \<Rightarrow> bytes outcome" where
  "ChaincodeHeader_Marshal = marshal_with ChaincodeHeader_Size ChaincodeHeader_MarshalToSizedBuffer"

definition ChaincodeHeader_MarshalTo :: "ChaincodeHeader \<Rightarrow> bytes \<Rightarrow> (bytes \<times> nat) outcome" where
  "ChaincodeHeader_MarshalTo = marshal_to_with ChaincodeHeader_Size ChaincodeHeader_MarshalToSizedBuffer"

definition ChaincodeHeader_fields :: "nat \<rightharpoonup> ChaincodeHeader reader" where
  "ChaincodeHeader_fields =
     [1 \<mapsto> message_reader ''Sequence'' Sequence_Unmarshal ch_Sequence (\<lambda>v m. m\<lparr>ch_Sequence := v\<rparr>),
      2 \<mapsto> message_reader ''Proof'' CommitmentProof_Unmarshal ch_Proof (\<lambda>v m. m\<lparr>ch_Proof := v\<rparr>)]"

definition ChaincodeHeader_Unmarshal :: "bytes \<Rightarrow> ChaincodeHeader \<Rightarrow> ChaincodeHeader outcome" where
  "ChaincodeHeader_Unmarshal = unmarshal_with ''ChaincodeHeader'' ChaincodeHeader_fields"

text \<open>The reference encoding, and the normal form that a value takes on the wire.\<close>

definition ChaincodeHeader_enc :: "ChaincodeHeader \<Rightarrow> bytes" where
  "ChaincodeHeader_enc m = concat
     [enc_element 0x0A (Sequence_enc (ch_Sequence m)),
      enc_element 0x12 (CommitmentProof_enc (ch_Proof m))]"

definition ChaincodeHeader_norm :: "ChaincodeHeader \<Rightarrow> ChaincodeHeader" where
  "ChaincodeHeader_norm m = m\<lparr>ch_Proof := CommitmentProof_norm (ch_Proof m)\<rparr>"

lemma ChaincodeHeader_readers:
  "ChaincodeHeader_fields 1 = Some (message_reader ''Sequence'' Sequence_Unmarshal ch_Sequence (\<lambda>v m. m\<lparr>ch_Sequence := v\<rparr>))"
  "ChaincodeHeader_fields 2 = Some (message_reader ''Proof'' CommitmentProof_Unmarshal ch_Proof (\<lambda>v m. m\<lparr>ch_Proof := v\<rparr>))"
  by (simp_all add: ChaincodeHeader_fields_def)

lemma ChaincodeHeader_decodes:
  "decodes ''ChaincodeHeader'' ChaincodeHeader_fields
     [enc_element 0x0A (Sequence_enc (ch_Sequence m)),
      enc_element 0x12 (CommitmentProof_enc (ch_Proof m))]
     ChaincodeHeader_zero (Ok (ChaincodeHeader_norm m))"
  apply (rule decodes_message [where fields = ChaincodeHeader_fields, OF tags(6) ChaincodeHeader_readers(1)])
   apply (simp add: ChaincodeHeader_zero_def Sequence_wire.reads_back)
  apply (rule decodes_message [where fields = ChaincodeHeader_fields, OF tags(7) ChaincodeHeader_readers(2)])
   apply (simp add: ChaincodeHeader_zero_def CommitmentProof_wire.reads_back)
  by (rule decodes_Nil) (simp add: ChaincodeHeader_zero_def ChaincodeHeader_norm_def ucast_simps option.map_ident)

interpretation ChaincodeHeader_wire: wire_message ChaincodeHeader_Size ChaincodeHeader_MarshalToSizedBuffer ChaincodeHeader_Marshal
  ChaincodeHeader_MarshalTo ChaincodeHeader_Unmarshal ChaincodeHeader_zero ChaincodeHeader_enc ChaincodeHeader_norm
proof
  fix m :: ChaincodeHeader and d :: bytes
  show "length (ChaincodeHeader_enc m) = ChaincodeHeader_Size m"
    by (simp add: ChaincodeHeader_enc_def ChaincodeHeader_Size_def length_enc Sequence_wire.size_enc CommitmentProof_wire.size_enc)
  show "writes (ChaincodeHeader_MarshalToSizedBuffer m) (ChaincodeHeader_enc m)"
    unfolding ChaincodeHeader_MarshalToSizedBuffer_def
    by (rule writes_fields [OF ChaincodeHeader_enc_def])
      (simp add: puts_intros Sequence_wire.to_sized_writes CommitmentProof_wire.to_sized_writes)
  show "ChaincodeHeader_Marshal m = marshal_with ChaincodeHeader_Size ChaincodeHeader_MarshalToSizedBuffer m"
    by (simp add: ChaincodeHeader_Marshal_def)
  show "ChaincodeHeader_MarshalTo m d = marshal_to_with ChaincodeHeader_Size ChaincodeHeader_MarshalToSizedBuffer m d"
    by (simp add: ChaincodeHeader_MarshalTo_def)
  show "ChaincodeHeader_Unmarshal (ChaincodeHeader_enc m) ChaincodeHeader_zero = Ok (ChaincodeHeader_norm m)" if "length (ChaincodeHeader_enc m) < 2 ^ 63"
    using that unmarshal_with_decodes [OF ChaincodeHeader_decodes] by (simp add: ChaincodeHeader_enc_def ChaincodeHeader_Unmarshal_def)
  show "unmarshal_safe ChaincodeHeader_Unmarshal"
    unfolding ChaincodeHeader_Unmarshal_def by (rule unmarshal_with_safe)
      (auto simp: ChaincodeHeader_fields_def readers_ok Sequence_wire.safe CommitmentProof_wire.safe split: if_splits)
  show "ChaincodeHeader_enc (ChaincodeHeader_norm m) = ChaincodeHeader_enc m"
    by (simp add: ChaincodeHeader_enc_def ChaincodeHeader_norm_def enc_mapped Sequence_wire.enc_norm CommitmentProof_wire.enc_norm)
qed

subsection \<open>\<open>Header\<close>\<close>

record Header =
  hdr_ChaincodeHeader :: "ChaincodeHeader option"
  hdr_ChaincodeInfo :: "ChaincodeInfo option"
  hdr_MSPHeaders :: "MSPHeaders option"

definition Header_zero :: Header where
  "Header_zero = \<lparr>hdr_ChaincodeHeader = None, hdr_ChaincodeInfo = None, hdr_MSPHeaders = None\<rparr>"

definition Header_Size :: "Header \<Rightarrow> nat" where
  "Header_Size m =
     optional_size ChaincodeHeader_Size (hdr_ChaincodeHeader m)
     + optional_size ChaincodeInfo_Size (hdr_ChaincodeInfo m)
     + optional_size MSPHeaders_Size (hdr_MSPHeaders m)"

definition Header_MarshalToSizedBuffer :: "Header \<Rightarrow> bytes \<Rightarrow> (bytes \<times> nat) outcome" where
  "Header_MarshalToSizedBuffer m = sized_buffer (put_all
     [put_optional (\<lambda>x. put_message_field 0x1A (MSPHeaders_MarshalToSizedBuffer x)) (hdr_MSPHeaders m),
      put_optional (\<lambda>x. put_message_field 0x12 (ChaincodeInfo_MarshalToSizedBuffer x)) (hdr_ChaincodeInfo m),
      put_optional (\<lambda>x. put_message_field 0x0A (ChaincodeHeader_MarshalToSizedBuffer x)) (hdr_ChaincodeHeader m)])"

definition Header_Marshal :: "Header \<Rightarrow> bytes outcome" where
  "Header_Marshal = marshal_with Header_Size Header_MarshalToSizedBuffer"

definition Header_MarshalTo :: "Header \<Rightarrow> bytes \<Rightarrow> (bytes \<times> nat) outcome" where
  "Header_MarshalTo = marshal_to_with Header_Size Header_MarshalToSizedBuffer"

definition Header_fields :: "nat \<rightharpoonup> Header reader" where
  "Header_fields =
     [1 \<mapsto> pointer_reader ''ChaincodeHeader'' ChaincodeHeader_Unmarshal ChaincodeHeader_zero hdr_ChaincodeHeader (\<lambda>v m. m\<lparr>hdr_ChaincodeHeader := v\<rparr>),
      2 \<mapsto> pointer_reader ''ChaincodeInfo'' ChaincodeInfo_Unmarshal ChaincodeInfo_zero hdr_ChaincodeInfo (\<lambda>v m. m\<lparr>hdr_ChaincodeInfo := v\<rparr>),
      3 \<mapsto> pointer_reader ''MSPHeaders'' MSPHeaders_Unmarshal MSPHeaders_zero hdr_MSPHeaders (\<lambda>v m. m\<lparr>hdr_MSPHeaders := v\<rparr>)]"

definition Header_Unmarshal :: "bytes \<Rightarrow> Header \<Rightarrow> Header outcome" where
  "Header_Unmarshal = unmarshal_with ''Header'' Header_fields"

text \<open>The reference encoding, and the normal form that a value takes on the wire.\<close>

definition Header_enc :: "Header \<Rightarrow> bytes" where
  "Header_enc m = concat
     [enc_optional (\<lambda>x. enc_element 0x0A (ChaincodeHeader_enc x)) (hdr_ChaincodeHeader m),
      enc_optional (\<lambda>x. enc_element 0x12 (ChaincodeInfo_enc x)) (hdr_ChaincodeInfo m),
      enc_optional (\<lambda>x. enc_element 0x1A (MSPHeaders_enc x)) (hdr_MSPHeaders m)]"

definition Header_norm :: "Header \<Rightarrow> Header" where
  "Header_norm m = m\<lparr>hdr_ChaincodeHeader := map_option ChaincodeHeader_norm (hdr_ChaincodeHeader m),
     hdr_ChaincodeInfo := map_option ChaincodeInfo_norm (hdr_ChaincodeInfo m),
     hdr_MSPHeaders := map_option MSPHeaders_norm (hdr_MSPHeaders m)\<rparr>"

lemma Header_readers:
  "Header_fields 1 = Some (pointer_reader ''ChaincodeHeader'' ChaincodeHeader_Unmarshal ChaincodeHeader_zero hdr_ChaincodeHeader (\<lambda>v m. m\<lparr>hdr_ChaincodeHeader := v\<rparr>))"
  "Header_fields 2 = Some (pointer_reader ''ChaincodeInfo'' ChaincodeInfo_Unmarshal ChaincodeInfo_zero hdr_ChaincodeInfo (\<lambda>v m. m\<lparr>hdr_ChaincodeInfo := v\<rparr>))"
  "Header_fields 3 = Some (pointer_reader ''MSPHeaders'' MSPHeaders_Unmarshal MSPHeaders_zero hdr_MSPHeaders (\<lambda>v m. m\<lparr>hdr_MSPHeaders := v\<rparr>))"
  by (simp_all add: Header_fields_def)

lemma Header_decodes:
  "decodes ''Header'' Header_fields
     [enc_optional (\<lambda>x. enc_element 0x0A (ChaincodeHeader_enc x)) (hdr_ChaincodeHeader m),
      enc_optional (\<lambda>x. enc_element 0x12 (ChaincodeInfo_enc x)) (hdr_ChaincodeInfo m),
      enc_optional (\<lambda>x. enc_element 0x1A (MSPHeaders_enc x)) (hdr_MSPHeaders m)]
     Header_zero (Ok (Header_norm m))"
  apply (rule decodes_pointer [where fields = Header_fields and norm = ChaincodeHeader_norm and e = ChaincodeHeader_enc, OF tags(6) Header_readers(1)])
     apply (simp add: ChaincodeHeader_wire.reads_back, simp add: Header_zero_def, simp add: Header_zero_def)
  apply (rule decodes_pointer [where fields = Header_fields and norm = ChaincodeInfo_norm and e = ChaincodeInfo_enc, OF tags(7) Header_readers(2)])
     apply (simp add: ChaincodeInfo_wire.reads_back, simp add: Header_zero_def, simp add: Header_zero_def)
  apply (rule decodes_pointer [where fields = Header_fields and norm = MSPHeaders_norm and e = MSPHeaders_enc, OF tags(8) Header_readers(3)])
     apply (simp add: MSPHeaders_wire.reads_back, simp add: Header_zero_def, simp add: Header_zero_def)
  by (rule decodes_Nil) (simp add: Header_zero_def Header_norm_def ucast_simps option.map_ident)

interpretation Header_wire: wire_message Header_Size Header_MarshalToSizedBuffer Header_Marshal
  Header_MarshalTo Header_Unmarshal Header_zero Header_enc Header_norm
proof
  fix m :: Header and d :: bytes
  show "length (Header_enc m) = Header_Size m"
    by (simp add: Header_enc_def Header_Size_def length_enc ChaincodeHeader_wire.size_enc ChaincodeInfo_wire.size_enc MSPHeaders_wire.size_enc)
  show "writes (Header_MarshalToSizedBuffer m) (Header_enc m)"
    unfolding Header_MarshalToSizedBuffer_def
    by (rule writes_fields [OF Header_enc_def])
      (simp add: puts_intros ChaincodeHeader_wire.to_sized_writes ChaincodeInfo_wire.to_sized_writes MSPHeaders_wire.to_sized_writes)
  show "Header_Marshal m = marshal_with Header_Size Header_MarshalToSizedBuffer m"
    by (simp add: Header_Marshal_def)
  show "Header_MarshalTo m d = marshal_to_with Header_Size Header_MarshalToSizedBuffer m d"
    by (simp add: Header_MarshalTo_def)
  show "Header_Unmarshal (Header_enc m) Header_zero = Ok (Header_norm m)" if "length (Header_enc m) < 2 ^ 63"
    using that unmarshal_with_decodes [OF Header_decodes] by (simp add: Header_enc_def Header_Unmarshal_def)
  show "unmarshal_safe Header_Unmarshal"
    unfolding Header_Unmarshal_def by (rule unmarshal_with_safe)
      (auto simp: Header_fields_def readers_ok ChaincodeHeader_wire.safe ChaincodeInfo_wire.safe MSPHeaders_wire.safe split: if_splits)
  show "Header_enc (Header_norm m) = Header_enc m"
    by (simp add: Header_enc_def Header_norm_def enc_mapped ChaincodeHeader_wire.enc_norm ChaincodeInfo_wire.enc_norm MSPHeaders_wire.enc_norm)
qed

subsection \<open>\<open>ConsensusState\<close>\<close>

record ConsensusState =
  cons_Timestamp :: i64

definition ConsensusState_zero :: ConsensusState where
  "ConsensusState_zero = \<lparr>cons_Timestamp = 0\<rparr>"

definition ConsensusState_Size :: "ConsensusState \<Rightarrow> nat" where
  "ConsensusState_Size m =
     varint_size (cons_Timestamp m)"

definition ConsensusState_MarshalToSizedBuffer :: "ConsensusState \<Rightarrow> bytes \<Rightarrow> (bytes \<times> nat) outcome" where
  "ConsensusState_MarshalToSizedBuffer m = sized_buffer (put_all
     [put_varint_field 0x08 (cons_Timestamp m)])"

definition ConsensusState_Marshal :: "ConsensusState \<Rightarrow> bytes outcome" where
  "ConsensusState_Marshal = marshal_with ConsensusState_Size ConsensusState_MarshalToSizedBuffer"

definition ConsensusState_MarshalTo :: "ConsensusState \<Rightarrow> bytes \<Rightarrow> (bytes \<times> nat) outcome" where
  "ConsensusState_MarshalTo = marshal_to_with ConsensusState_Size ConsensusState_MarshalToSizedBuffer"

definition ConsensusState_fields :: "nat \<rightharpoonup> ConsensusState reader" where
  "ConsensusState_fields =
     [1 \<mapsto> varint_reader ''Timestamp'' (\<lambda>v m. m\<lparr>cons_Timestamp := v\<rparr>)]"

definition ConsensusState_Unmarshal :: "bytes \<Rightarrow> ConsensusState \<Rightarrow> ConsensusState outcome" where
  "ConsensusState_Unmarshal = unmarshal_with ''ConsensusState'' ConsensusState_fields"

text \<open>The reference encoding, and the normal form that a value takes on the wire.\<close>

definition ConsensusState_enc :: "ConsensusState \<Rightarrow> bytes" where
  "ConsensusState_enc m = concat
     [enc_varint 0x08 (cons_Timestamp m)]"

definition ConsensusState_norm :: "ConsensusState \<Rightarrow> ConsensusState" where
  "ConsensusState_norm m = m"

lemma ConsensusState_norm_id [simp]: "ConsensusState_norm = (\<lambda>m. m)"
  by (simp add: fun_eq_iff ConsensusState_norm_def)

lemma ConsensusState_readers:
  "ConsensusState_fields 1 = Some (varint_reader ''Timestamp'' (\<lambda>v m. m\<lparr>cons_Timestamp := v\<rparr>))"
  by (simp_all add: ConsensusState_fields_def)

lemma ConsensusState_decodes:
  "decodes ''ConsensusState'' ConsensusState_fields
     [enc_varint 0x08 (cons_Timestamp m)]
     ConsensusState_zero (Ok (ConsensusState_norm m))"
  apply (rule decodes_varint [where fields = ConsensusState_fields, OF tags(1) ConsensusState_readers(1)])
   apply (simp add: ConsensusState_zero_def)
  by (rule decodes_Nil) (simp add: ConsensusState_zero_def ConsensusState_norm_def ucast_simps option.map_ident)

interpretation ConsensusState_wire: wire_message ConsensusState_Size ConsensusState_MarshalToSizedBuffer ConsensusState_Marshal
  ConsensusState_MarshalTo ConsensusState_Unmarshal ConsensusState_zero ConsensusState_enc ConsensusState_norm
proof
  fix m :: ConsensusState and d :: bytes
  show "length (ConsensusState_enc m) = ConsensusState_Size m"
    by (simp add: ConsensusState_enc_def ConsensusState_Size_def length_enc )
  show "writes (ConsensusState_MarshalToSizedBuffer m) (ConsensusState_enc m)"
    unfolding ConsensusState_MarshalToSizedBuffer_def
    by (rule writes_fields [OF ConsensusState_enc_def])
      (simp add: puts_intros )
  show "ConsensusState_Marshal m = marshal_with ConsensusState_Size ConsensusState_MarshalToSizedBuffer m"
    by (simp add: ConsensusState_Marshal_def)
  show "ConsensusState_MarshalTo m d = marshal_to_with ConsensusState_Size ConsensusState_MarshalToSizedBuffer m d"
    by (simp add: ConsensusState_MarshalTo_def)
  show "ConsensusState_Unmarshal (ConsensusState_enc m) ConsensusState_zero = Ok (ConsensusState_norm m)" if "length (ConsensusState_enc m) < 2 ^ 63"
    using that unmarshal_with_decodes [OF ConsensusState_decodes] by (simp add: ConsensusState_enc_def ConsensusState_Unmarshal_def)
  show "unmarshal_safe ConsensusState_Unmarshal"
    unfolding ConsensusState_Unmarshal_def by (rule unmarshal_with_safe)
      (auto simp: ConsensusState_fields_def readers_ok  split: if_splits)
  show "ConsensusState_enc (ConsensusState_norm m) = ConsensusState_enc m"
    by (simp add: ConsensusState_enc_def ConsensusState_norm_def enc_mapped )
qed

subsection \<open>\<open>ClientState\<close>\<close>

record ClientState =
  cs_Id :: string
  cs_LastChaincodeHeader :: ChaincodeHeader
  cs_LastChaincodeInfo :: ChaincodeInfo
  cs_LastMspInfos :: MSPInfos

definition ClientState_zero :: ClientState where
  "ClientState_zero = \<lparr>cs_Id = '''', cs_LastChaincodeHeader = ChaincodeHeader_zero, cs_LastChaincodeInfo = ChaincodeInfo_zero, cs_LastMspInfos = MSPInfos_zero\<rparr>"

definition ClientState_Size :: "ClientState \<Rightarrow> nat" where
  "ClientState_Size m =
     bytes_size (length (cs_Id m))
     + element_size (ChaincodeHeader_Size (cs_LastChaincodeHeader m))
     + element_size (ChaincodeInfo_Size (cs_LastChaincodeInfo m))
     + element_size (MSPInfos_Size (cs_LastMspInfos m))"

definition ClientState_MarshalToSizedBuffer :: "ClientState \<Rightarrow> bytes \<Rightarrow> (bytes \<times> nat) outcome" where
  "ClientState_MarshalToSizedBuffer m = sized_buffer (put_all
     [put_message_field 0x22 (MSPInfos_MarshalToSizedBuffer (cs_LastMspInfos m)),
      put_message_field 0x1A (ChaincodeInfo_MarshalToSizedBuffer (cs_LastChaincodeInfo m)),
      put_message_field 0x12 (ChaincodeHeader_MarshalToSizedBuffer (cs_LastChaincodeHeader m)),
      put_bytes_field 0x0A (bytes_of_string (cs_Id m))])"

definition ClientState_Marshal :: "ClientState \<Rightarrow> bytes outcome" where
  "ClientState_Marshal = marshal_with ClientState_Size ClientState_MarshalToSizedBuffer"

definition ClientState_MarshalTo :: "ClientState \<Rightarrow> bytes \<Rightarrow> (bytes \<times> nat) outcome" where
  "ClientState_MarshalTo = marshal_to_with ClientState_Size ClientState_MarshalToSizedBuffer"

definition ClientState_fields :: "nat \<rightharpoonup> ClientState reader" where
  "ClientState_fields =
     [1 \<mapsto> string_reader ''Id'' (\<lambda>v m. m\<lparr>cs_Id := v\<rparr>),
      2 \<mapsto> message_reader ''LastChaincodeHeader'' ChaincodeHeader_Unmarshal cs_LastChaincodeHeader (\<lambda>v m. m\<lparr>cs_LastChaincodeHeader := v\<rparr>),
      3 \<mapsto> message_reader ''LastChaincodeInfo'' ChaincodeInfo_Unmarshal cs_LastChaincodeInfo (\<lambda>v m. m\<lparr>cs_LastChaincodeInfo := v\<rparr>),
      4 \<mapsto> message_reader ''LastMspInfos'' MSPInfos_Unmarshal cs_LastMspInfos (\<lambda>v m. m\<lparr>cs_LastMspInfos := v\<rparr>)]"

definition ClientState_Unmarshal :: "bytes \<Rightarrow> ClientState \<Rightarrow> ClientState outcome" where
  "ClientState_Unmarshal = unmarshal_with ''ClientState'' ClientState_fields"

text \<open>The reference encoding, and the normal form that a value takes on the wire.\<close>

definition ClientState_enc :: "ClientState \<Rightarrow> bytes" where
  "ClientState_enc m = concat
     [enc_bytes 0x0A (bytes_of_string (cs_Id m)),
      enc_element 0x12 (ChaincodeHeader_enc (cs_LastChaincodeHeader m)),
      enc_element 0x1A (ChaincodeInfo_enc (cs_LastChaincodeInfo m)),
      enc_element 0x22 (MSPInfos_enc (cs_LastMspInfos m))]"

definition ClientState_norm :: "ClientState \<Rightarrow> ClientState" where
  "ClientState_norm m = m\<lparr>cs_LastChaincodeHeader := ChaincodeHeader_norm (cs_LastChaincodeHeader m),
     cs_LastChaincodeInfo := ChaincodeInfo_norm (cs_LastChaincodeInfo m),
     cs_LastMspInfos := MSPInfos_norm (cs_LastMspInfos m)\<rparr>"

lemma ClientState_readers:
  "ClientState_fields 1 = Some (string_reader ''Id'' (\<lambda>v m. m\<lparr>cs_Id := v\<rparr>))"
  "ClientState_fields 2 = Some (message_reader ''LastChaincodeHeader'' ChaincodeHeader_Unmarshal cs_LastChaincodeHeader (\<lambda>v m. m\<lparr>cs_LastChaincodeHeader := v\<rparr>))"
  "ClientState_fields 3 = Some (message_reader ''LastChaincodeInfo'' ChaincodeInfo_Unmarshal cs_LastChaincodeInfo (\<lambda>v m. m\<lparr>cs_LastChaincodeInfo := v\<rparr>))"
  "ClientState_fields 4 = Some (message_reader ''LastMspInfos'' MSPInfos_Unmarshal cs_LastMspInfos (\<lambda>v m. m\<lparr>cs_LastMspInfos := v\<rparr>))"
  by (simp_all add: ClientState_fields_def)

lemma ClientState_decodes:
  "decodes ''ClientState'' ClientState_fields
     [enc_bytes 0x0A (bytes_of_string (cs_Id m)),
      enc_element 0x12 (ChaincodeHeader_enc (cs_LastChaincodeHeader m)),
      enc_element 0x1A (ChaincodeInfo_enc (cs_LastChaincodeInfo m)),
      enc_element 0x22 (MSPInfos_enc (cs_LastMspInfos m))]
     ClientState_zero (Ok (ClientState_norm m))"
  apply (rule decodes_string [where fields = ClientState_fields, OF tags(6) ClientState_readers(1)])
   apply (simp add: ClientState_zero_def)
  apply (rule decodes_message [where fields = ClientState_fields, OF tags(7) ClientState_readers(2)])
   apply (simp add: ClientState_zero_def ChaincodeHeader_wire.reads_back)
  apply (rule decodes_message [where fields = ClientState_fields, OF tags(8) ClientState_readers(3)])
   apply (simp add: ClientState_zero_def ChaincodeInfo_wire.reads_back)
  apply (rule decodes_message [where fields = ClientState_fields, OF tags(9) ClientState_readers(4)])
   apply (simp add: ClientState_zero_def MSPInfos_wire.reads_back)
  by (rule decodes_Nil) (simp add: ClientState_zero_def ClientState_norm_def ucast_simps option.map_ident)

interpretation ClientState_wire: wire_message ClientState_Size ClientState_MarshalToSizedBuffer ClientState_Marshal
  ClientState_MarshalTo ClientState_Unmarshal ClientState_zero ClientState_enc ClientState_norm
proof
  fix m :: ClientState and d :: bytes
  show "length (ClientState_enc m) = ClientState_Size m"
    by (simp add: ClientState_enc_def ClientState_Size_def length_enc ChaincodeHeader_wire.size_enc ChaincodeInfo_wire.size_enc MSPInfos_wire.size_enc)
  show "writes (ClientState_MarshalToSizedBuffer m) (ClientState_enc m)"
    unfolding ClientState_MarshalToSizedBuffer_def
    by (rule writes_fields [OF ClientState_enc_def])
      (simp add: puts_intros ChaincodeHeader_wire.to_sized_writes ChaincodeInfo_wire.to_sized_writes MSPInfos_wire.to_sized_writes)
  show "ClientState_Marshal m = marshal_with ClientState_Size ClientState_MarshalToSizedBuffer m"
    by (simp add: ClientState_Marshal_def)
  show "ClientState_MarshalTo m d = marshal_to_with ClientState_Size ClientState_MarshalToSizedBuffer m d"
    by (simp add: ClientState_MarshalTo_def)
  show "ClientState_Unmarshal (ClientState_enc m) ClientState_zero = Ok (ClientState_norm m)" if "length (ClientState_enc m) < 2 ^ 63"
    using that unmarshal_with_decodes [OF ClientState_decodes] by (simp add: ClientState_enc_def ClientState_Unmarshal_def)
  show "unmarshal_safe ClientState_Unmarshal"
    unfolding ClientState_Unmarshal_def by (rule unmarshal_with_safe)
      (auto simp: ClientState_fields_def readers_ok ChaincodeHeader_wire.safe ChaincodeInfo_wire.safe MSPInfos_wire.safe split: if_splits)
  show "ClientState_enc (ClientState_norm m) = ClientState_enc m"
    by (simp add: ClientState_enc_def ClientState_norm_def enc_mapped ChaincodeHeader_wire.enc_norm ChaincodeInfo_wire.enc_norm MSPInfos_wire.enc_norm)
qed

section \<open>The generated Equal methods\<close>

text \<open>
  The argument is an \<open>interface{}\<close>: \<open>nil\<close>, a pointer to the message type (possibly \<open>nil\<close>), a value of
  it, or a value of some other type. The receiver is a pointer.
\<close>

datatype 'm dynamic = NilInterface | PointerTo "'m option" | ValueOf 'm | OtherType

fun slices_equal :: "bytes list \<Rightarrow> bytes list \<Rightarrow> bool" where
  "slices_equal (x # xs) (y # ys) = (x = y \<and> slices_equal xs ys)"
| "slices_equal xs ys = True"

definition equal_pointers :: "('m \<Rightarrow> 'm \<Rightarrow> bool) \<Rightarrow> 'm option \<Rightarrow> 'm option \<Rightarrow> bool" where
  "equal_pointers eq this that1 =
     (case that1 of
        None \<Rightarrow> this = None
      | Some b \<Rightarrow> (case this of None \<Rightarrow> False | Some a \<Rightarrow> eq a b))"

definition equal_with :: "('m \<Rightarrow> 'm \<Rightarrow> bool) \<Rightarrow> 'm option \<Rightarrow> 'm dynamic \<Rightarrow> bool" where
  "equal_with eq this that =
     (case that of
        NilInterface \<Rightarrow> this = None
      | PointerTo p \<Rightarrow> equal_pointers eq this p
      | ValueOf v \<Rightarrow> equal_pointers eq this (Some v)
      | OtherType \<Rightarrow> False)"

definition CommitmentProof_Equal :: "CommitmentProof option \<Rightarrow> CommitmentProof dynamic \<Rightarrow> bool" where
  "CommitmentProof_Equal = equal_with (\<lambda>this that1.
     if slice_bytes (cp_Proposal this) \<noteq> slice_bytes (cp_Proposal that1) then False
     else if cp_NsIndex this \<noteq> cp_NsIndex that1 then False
     else if cp_WriteSetIndex this \<noteq> cp_WriteSetIndex that1 then False
     else if length (cp_Identities this) \<noteq> length (cp_Identities that1) then False
     else if \<not> slices_equal (cp_Identities this) (cp_Identities that1) then False
     else if length (cp_Signatures this) \<noteq> length (cp_Signatures that1) then False
     else slices_equal (cp_Signatures this) (cp_Signatures that1))"

definition MessageProof_Equal :: "MessageProof option \<Rightarrow> MessageProof dynamic \<Rightarrow> bool" where
  "MessageProof_Equal = equal_with (\<lambda>this that1.
     if length (mp_Identities this) \<noteq> length (mp_Identities that1) then False
     else if \<not> slices_equal (mp_Identities this) (mp_Identities that1) then False
     else if length (mp_Signatures this) \<noteq> length (mp_Signatures that1) then False
     else slices_equal (mp_Signatures this) (mp_Signatures that1))"

lemma slices_equal_iff: "length xs = length ys \<Longrightarrow> slices_equal xs ys \<longleftrightarrow> xs = ys"
  by (induction xs ys rule: list_induct2) auto

lemma MessageProof_Equal_iff:
  "MessageProof_Equal (Some p) (ValueOf q) \<longleftrightarrow> MessageProof_enc p = MessageProof_enc q"
  if "MessageProof_Size p < 2 ^ 63"
  using that
  by (auto simp: MessageProof_Equal_def equal_with_def equal_pointers_def slices_equal_iff
      MessageProof_wire.enc_inject)

lemma CommitmentProof_Equal_iff:
  "CommitmentProof_Equal (Some p) (ValueOf q) \<longleftrightarrow> CommitmentProof_enc p = CommitmentProof_enc q"
  if "CommitmentProof_Size p < 2 ^ 63"
proof -
  have "CommitmentProof_Equal (Some p) (ValueOf q) \<longleftrightarrow> CommitmentProof_norm p = CommitmentProof_norm q"
    by (cases p; cases q)
      (auto simp: CommitmentProof_Equal_def equal_with_def equal_pointers_def slices_equal_iff
        CommitmentProof_norm_def norm_slice_eq_iff)
  then show ?thesis using that by (simp add: CommitmentProof_wire.enc_inject)
qed

section \<open>Properties\<close>

text \<open>
  C15: Whatever header is marshalled, unmarshalling the bytes gives it back, except that empty byte
  strings come back as \<open>nil\<close>: the back-to-front writes of the generated code and its decoding loop are
  inverse to each other through all the nested messages.
\<close>

theorem header_round_trip:
  assumes "Header_Size h < 2 ^ 63"
  shows "and_then (Header_Marshal h) (\<lambda>d. Header_Unmarshal d Header_zero) = Ok (Header_norm h)"
  by (rule Header_wire.round_trip [OF assms])

theorem header_round_trip_witness:
  "and_then (Header_Marshal \<lparr>hdr_ChaincodeHeader = None, hdr_ChaincodeInfo = None,
     hdr_MSPHeaders = Some \<lparr>mhs_Headers = []\<rparr>\<rparr>) (\<lambda>d. Header_Unmarshal d Header_zero) =
   Ok \<lparr>hdr_ChaincodeHeader = None, hdr_ChaincodeInfo = None,
     hdr_MSPHeaders = Some \<lparr>mhs_Headers = []\<rparr>\<rparr>"
  using header_round_trip [of "\<lparr>hdr_ChaincodeHeader = None, hdr_ChaincodeInfo = None,
     hdr_MSPHeaders = Some \<lparr>mhs_Headers = []\<rparr>\<rparr>"]
    sov_bound [of 0]
  by (simp add: Header_Size_def Header_norm_def MSPHeaders_norm_def optional_size_def element_size_def
      MSPHeaders_Size_def repeated_size_def)

text \<open>
  C16: Decoding ends on every input, with a value or an error. Lengths that overflow, truncated fields,
  unknown fields and nested groups do not make \<open>Unmarshal\<close> of a header panic or loop: a round that
  does not advance the index, with which the loop of the code would run forever, is a panic of the
  model, and it does not happen.
\<close>

theorem header_unmarshal_total:
  assumes "length d < 2 ^ 63"
  shows "\<not> panics (Header_Unmarshal d h)"
  by (rule Header_wire.unmarshal_not_panics [OF assms])

theorem header_unmarshal_total_witness: "\<not> panics (Header_Unmarshal [0x0A, 0xFF, 0xFF] Header_zero)"
  by (rule header_unmarshal_total) simp

text \<open>
  C17: \<open>Marshal\<close> of a client state succeeds on every value and its result has exactly the length that
  \<open>Size\<close> computed, so no write falls outside the buffer and no byte of it is left unwritten.
\<close>

theorem client_state_marshal_exact:
  "\<exists>d. ClientState_Marshal m = Ok d \<and> length d = ClientState_Size m \<and> d = ClientState_enc m"
  by (simp add: ClientState_wire.marshal_enc ClientState_wire.size_enc)

text \<open>
  The generated \<open>Equal\<close> of commitment proofs holds exactly between proofs with the same encoding.
\<close>

theorem commitment_proof_equal_encoding:
  assumes "CommitmentProof_Size p < 2 ^ 63"
  shows "CommitmentProof_Equal (Some p) (ValueOf q) \<longleftrightarrow> CommitmentProof_Marshal p = CommitmentProof_Marshal q"
  using CommitmentProof_Equal_iff [OF assms] by (simp add: CommitmentProof_wire.marshal_enc)

theorem commitment_proof_equal_encoding_witness:
  "CommitmentProof_Marshal CommitmentProof_zero =
   CommitmentProof_Marshal (CommitmentProof_zero\<lparr>cp_Proposal := Some []\<rparr>)"
  using commitment_proof_equal_encoding [of CommitmentProof_zero "CommitmentProof_zero\<lparr>cp_Proposal := Some []\<rparr>"]
  by (simp add: CommitmentProof_Equal_def equal_with_def equal_pointers_def CommitmentProof_zero_def
      CommitmentProof_Size_def bytes_size_def varint_size_def repeated_size_def)

end
