(* ===== verification/Header_Msp.thy ===== *)
theory Header_Msp
  imports Fabric_Codec Commitment
begin

text \<open>
  Headers and MSP information of the light client: \<open>light-clients/fabric/types/header.go\<close> and
  \<open>msp.go\<close>. The text form of a chaincode id (\<open>proto.CompactTextString\<close>) and the decoding of an
  \<open>msp.MSPConfig\<close> belong to libraries and are arguments.
\<close>

section \<open>Headers\<close>

definition NewHeader :: "ChaincodeHeader option \<Rightarrow> ChaincodeInfo option \<Rightarrow> MSPHeaders option \<Rightarrow> Header" where
  "NewHeader cheader cinfo mheaders =
     \<lparr>hdr_ChaincodeHeader = cheader, hdr_ChaincodeInfo = cinfo, hdr_MSPHeaders = mheaders\<rparr>"

text \<open>The pointer to the chaincode header is followed without a test.\<close>

definition Header_GetHeight :: "Header \<Rightarrow> Height outcome" where
  "Header_GetHeight h =
     (case hdr_ChaincodeHeader h of
        None \<Rightarrow> Panic ''invalid memory address or nil pointer dereference''
      | Some c \<Rightarrow> Ok (NewHeight 0 (seq_Value (ch_Sequence c))))"

definition NewChaincodeHeader :: "u64 \<Rightarrow> i64 \<Rightarrow> CommitmentProof \<Rightarrow> ChaincodeHeader" where
  "NewChaincodeHeader sq timestamp proof' =
     \<lparr>ch_Sequence = \<lparr>seq_Value = sq, seq_Timestamp = timestamp\<rparr>, ch_Proof = proof'\<rparr>"

definition ChaincodeHeader_ValidateBasic :: "ChaincodeHeader \<Rightarrow> unit outcome" where
  "ChaincodeHeader_ValidateBasic h = Ok ()"

definition NewChaincodeInfo ::
    "string \<Rightarrow> ChaincodeID \<Rightarrow> slice \<Rightarrow> slice \<Rightarrow> MessageProof option \<Rightarrow> ChaincodeInfo" where
  "NewChaincodeInfo chanID ccID endorsementPolicy ibcPolicy proof' =
     \<lparr>ci_ChannelId = chanID, ci_ChaincodeId = ccID, ci_EndorsementPolicy = endorsementPolicy,
      ci_IbcPolicy = ibcPolicy, ci_Proof = proof'\<rparr>"

definition ChaincodeInfo_ValidateBasic :: "ChaincodeInfo \<Rightarrow> unit outcome" where
  "ChaincodeInfo_ValidateBasic ci = Ok ()"

definition ChaincodeInfo_GetChainID :: "(ChaincodeID \<Rightarrow> string) \<Rightarrow> ChaincodeInfo \<Rightarrow> string" where
  "ChaincodeInfo_GetChainID compact_text ci =
     ci_ChannelId ci @ ''/'' @ compact_text (ci_ChaincodeId ci)"

text \<open>\<open>peer.ChaincodeID\<close> of Fabric.\<close>

record peer_ChaincodeID =
  peer_Path :: string
  peer_Name :: string
  peer_Version :: string

definition GetFabricChaincodeID :: "ChaincodeInfo \<Rightarrow> peer_ChaincodeID" where
  "GetFabricChaincodeID ci =
     \<lparr>peer_Path = ccid_Path (ci_ChaincodeId ci), peer_Name = ccid_Name (ci_ChaincodeId ci),
      peer_Version = ccid_Version (ci_ChaincodeId ci)\<rparr>"

definition ChaincodeInfo_GetSignBytes :: "ChaincodeInfo \<Rightarrow> bytes outcome" where
  "ChaincodeInfo_GetSignBytes ci = must (ChaincodeInfo_Marshal (ci\<lparr>ci_Proof := None\<rparr>))"

definition NewMSPHeader ::
    "MSPHeaderType \<Rightarrow> string \<Rightarrow> slice \<Rightarrow> slice \<Rightarrow> MessageProof option \<Rightarrow> MSPHeader" where
  "NewMSPHeader mhType mspID config policy proof' =
     \<lparr>mh_Type = mhType, mh_MSPID = mspID, mh_Config = config, mh_Policy = policy, mh_Proof = proof'\<rparr>"

definition MSPHeader_ValidateBasic :: "MSPHeader \<Rightarrow> unit outcome" where
  "MSPHeader_ValidateBasic mh =
     (if mh_MSPID mh = '''' then Err (ErrorNew ''MSPID is empty'')
      else
        let validConfigPolicy =
          (if mh_Type mh = MSPHeaderTypeCreate then mh_Config mh \<noteq> None \<and> mh_Policy mh \<noteq> None
           else if mh_Type mh = MSPHeaderTypeUpdatePolicy then mh_Config mh = None \<and> mh_Policy mh \<noteq> None
           else if mh_Type mh = MSPHeaderTypeUpdateConfig then mh_Config mh \<noteq> None \<and> mh_Policy mh = None
           else if mh_Type mh = MSPHeaderTypeFreeze then mh_Config mh = None \<and> mh_Policy mh = None
           else False)
        in if \<not> validConfigPolicy then Err (ErrorNew ''config or policy is invalid'')
           else if mh_Proof mh = None then Err (ErrorNew ''proof is empty'')
           else Ok ())"

definition MSPHeader_GetSignBytes :: "MSPHeader \<Rightarrow> bytes outcome" where
  "MSPHeader_GetSignBytes mh = must (MSPHeader_Marshal (mh\<lparr>mh_Proof := None\<rparr>))"

definition NewMSPHeaders :: "MSPHeader list \<Rightarrow> MSPHeaders" where
  "NewMSPHeaders headers = \<lparr>mhs_Headers = headers\<rparr>"

definition CompareMSPID :: "string \<Rightarrow> string \<Rightarrow> int" where
  "CompareMSPID a b = (if a = b then 0 else if a < b then - 1 else 1)"

text \<open>The loop of \<open>MSPHeaders.ValidateBasic\<close>: the ids seen so far and the previous one.\<close>

fun validate_headers :: "(string \<Rightarrow> bool) \<Rightarrow> string \<Rightarrow> MSPHeader list \<Rightarrow> unit outcome" where
  "validate_headers m prevID [] = Ok ()"
| "validate_headers m prevID (mh # mhs) =
     and_then (MSPHeader_ValidateBasic mh) (\<lambda>_.
       if m (mh_MSPID mh) then Err (ErrorNew ''some MSPHeaders are duplicated'')
       else if 0 < CompareMSPID prevID (mh_MSPID mh)
       then Err (ErrorNew ''MSPID must be sorted by ascending order'')
       else validate_headers (m(mh_MSPID mh := True)) (mh_MSPID mh) mhs)"

definition MSPHeaders_ValidateBasic :: "MSPHeaders \<Rightarrow> unit outcome" where
  "MSPHeaders_ValidateBasic mhs = validate_headers (\<lambda>_. False) '''' (mhs_Headers mhs)"

text \<open>\<open>if p != nil { if err := p.ValidateBasic(); err != nil { return err } }\<close>\<close>

definition validate_optional :: "('a \<Rightarrow> unit outcome) \<Rightarrow> 'a option \<Rightarrow> unit outcome" where
  "validate_optional validate p = (case p of None \<Rightarrow> Ok () | Some x \<Rightarrow> validate x)"

definition Header_ValidateBasic :: "Header \<Rightarrow> unit outcome" where
  "Header_ValidateBasic h =
     (if hdr_ChaincodeHeader h = None \<and> hdr_ChaincodeInfo h = None \<and> hdr_MSPHeaders h = None
      then Err (ErrorNew ''either ChaincodeHeader, ChaincodeInfo or MSPHeaders must be non-nil value'')
      else and_then (validate_optional ChaincodeHeader_ValidateBasic (hdr_ChaincodeHeader h)) (\<lambda>_.
        and_then (validate_optional ChaincodeInfo_ValidateBasic (hdr_ChaincodeInfo h)) (\<lambda>_.
          validate_optional MSPHeaders_ValidateBasic (hdr_MSPHeaders h))))"

section \<open>MSP information\<close>

definition NewMSPInfo :: "string \<Rightarrow> slice \<Rightarrow> slice \<Rightarrow> MSPInfo" where
  "NewMSPInfo mspID config policy =
     \<lparr>mi_MSPID = mspID, mi_Config = config, mi_Policy = policy, mi_Freezed = False\<rparr>"

fun msp_configs :: "(bytes \<Rightarrow> 'c outcome) \<Rightarrow> 'c list \<Rightarrow> MSPInfo list \<Rightarrow> 'c list outcome" where
  "msp_configs unmarshal configs [] = Ok configs"
| "msp_configs unmarshal configs (mi # mis) =
     (if mi_Freezed mi then msp_configs unmarshal configs mis
      else case mi_Config mi of
        None \<Rightarrow> Err (ErrorNew ''a MSPInfo has no config'')
      | Some bz \<Rightarrow> and_then (unmarshal bz) (\<lambda>c. msp_configs unmarshal (configs @ [c]) mis))"

definition GetMSPPBConfigs :: "(bytes \<Rightarrow> 'c outcome) \<Rightarrow> MSPInfos \<Rightarrow> 'c list outcome" where
  "GetMSPPBConfigs unmarshal mi = msp_configs unmarshal [] (mis_Infos mi)"

fun index_of_msp :: "int \<Rightarrow> MSPInfo list \<Rightarrow> string \<Rightarrow> int" where
  "index_of_msp i [] mspID = - 1"
| "index_of_msp i (info # infos) mspID =
     (if mi_MSPID info = mspID then i else index_of_msp (i + 1) infos mspID)"

definition indexOfMSPID :: "MSPInfos \<Rightarrow> string \<Rightarrow> int" where
  "indexOfMSPID mi mspID = index_of_msp 0 (mis_Infos mi) mspID"

definition HasMSPID :: "MSPInfos \<Rightarrow> string \<Rightarrow> bool" where
  "HasMSPID mi mspID = (indexOfMSPID mi mspID \<noteq> - 1)"

definition IndexOf :: "MSPInfos \<Rightarrow> string \<Rightarrow> int" where
  "IndexOf mi mspID = indexOfMSPID mi mspID"

text \<open>The result is a pointer into the slice, which the callers only read.\<close>

definition FindMSPInfo :: "MSPInfos \<Rightarrow> string \<Rightarrow> MSPInfo outcome" where
  "FindMSPInfo mi mspID =
     (let idx = indexOfMSPID mi mspID
      in if idx < 0 then Err (ErrorNew ''MSPInfo not found'')
         else index (mis_Infos mi) (nat idx))"

definition generateMSPInfos :: "Header \<Rightarrow> MSPInfos outcome" where
  "generateMSPInfos header =
     (case hdr_MSPHeaders header of
        None \<Rightarrow> Panic ''invalid memory address or nil pointer dereference''
      | Some mhs \<Rightarrow> Ok \<lparr>mis_Infos =
          map (\<lambda>mh. \<lparr>mi_MSPID = mh_MSPID mh, mi_Config = mh_Config mh, mi_Policy = mh_Policy mh,
                     mi_Freezed = False\<rparr>)
            (filter (\<lambda>mh. mh_Type mh = MSPHeaderTypeCreate) (mhs_Headers mhs))\<rparr>)"

section \<open>Lemmas\<close>

lemma CompareMSPID_simps [simp]:
  "0 < CompareMSPID a b \<longleftrightarrow> b < a" "CompareMSPID a b < 0 \<longleftrightarrow> a < b" "CompareMSPID a b = 0 \<longleftrightarrow> a = b"
  by (auto simp: CompareMSPID_def)

lemma valid_header_id: "MSPHeader_ValidateBasic mh = Ok u \<Longrightarrow> mh_MSPID mh \<noteq> ''''"
  by (auto simp: MSPHeader_ValidateBasic_def)

lemma valid_header_proof: "MSPHeader_ValidateBasic mh = Ok u \<Longrightarrow> mh_Proof mh \<noteq> None"
  by (auto simp: MSPHeader_ValidateBasic_def Let_def split: if_splits)

lemma valid_header_type:
  "MSPHeader_ValidateBasic mh = Ok u \<Longrightarrow>
   mh_Type mh \<in> {MSPHeaderTypeCreate, MSPHeaderTypeUpdatePolicy, MSPHeaderTypeUpdateConfig, MSPHeaderTypeFreeze}"
  by (auto simp: MSPHeader_ValidateBasic_def Let_def split: if_splits)

lemma MSPHeader_ValidateBasic_not_panics [simp]: "\<not> panics (MSPHeader_ValidateBasic mh)"
  by (simp add: MSPHeader_ValidateBasic_def Let_def)

lemma validate_headers_not_panics [simp]: "\<not> panics (validate_headers m prevID mhs)"
  by (induction mhs arbitrary: m prevID) (auto simp: panics_and_then)

lemma Header_ValidateBasic_not_panics [simp]: "\<not> panics (Header_ValidateBasic h)"
  by (auto simp: Header_ValidateBasic_def panics_and_then validate_optional_def
      ChaincodeHeader_ValidateBasic_def ChaincodeInfo_ValidateBasic_def MSPHeaders_ValidateBasic_def
      split: option.splits)

text \<open>The loop accepts exactly the strictly increasing lists of valid headers.\<close>

lemma validate_headers_iff:
  assumes "\<And>x. m x \<Longrightarrow> x \<le> prevID" "m prevID \<or> prevID = ''''"
  shows "validate_headers m prevID mhs = Ok () \<longleftrightarrow>
    (\<forall>mh \<in> set mhs. MSPHeader_ValidateBasic mh = Ok () \<and> prevID < mh_MSPID mh)
    \<and> sorted_wrt (<) (map mh_MSPID mhs)"
  using assms
proof (induction m prevID mhs rule: validate_headers.induct)
  case (1 m prevID)
  then show ?case by simp
next
  case (2 m prevID mh mhs)
  show ?case
  proof (cases "MSPHeader_ValidateBasic mh = Ok () \<and> prevID < mh_MSPID mh")
    case True
    then have new: "\<not> m (mh_MSPID mh)" "\<not> mh_MSPID mh < prevID"
      using "2.prems"(1) by (auto simp: not_le [symmetric])
    have "validate_headers (m(mh_MSPID mh := True)) (mh_MSPID mh) mhs = Ok () \<longleftrightarrow>
        (\<forall>mh' \<in> set mhs. MSPHeader_ValidateBasic mh' = Ok () \<and> mh_MSPID mh < mh_MSPID mh')
        \<and> sorted_wrt (<) (map mh_MSPID mhs)"
    proof (rule "2.IH" [of "()"])
      fix x
      assume "(m(mh_MSPID mh := True)) x"
      then show "x \<le> mh_MSPID mh"
        using "2.prems"(1) [of x] True by (cases "x = mh_MSPID mh") auto
    qed (use True new in auto)
    with True new show ?thesis by (auto dest: less_trans)
  next
    case False
    have "prevID < mh_MSPID mh" if "MSPHeader_ValidateBasic mh = Ok ()" "\<not> m (mh_MSPID mh)"
      "\<not> mh_MSPID mh < prevID"
      using that "2.prems"(2) valid_header_id [OF that(1)] by (cases "mh_MSPID mh = prevID") auto
    with False show ?thesis
      by (cases "MSPHeader_ValidateBasic mh") auto
  qed
qed

lemma MSPHeaders_ValidateBasic_iff:
  "MSPHeaders_ValidateBasic mhs = Ok () \<longleftrightarrow>
     (\<forall>mh \<in> set (mhs_Headers mhs). MSPHeader_ValidateBasic mh = Ok ())
     \<and> sorted_wrt (<) (map mh_MSPID (mhs_Headers mhs))"
proof -
  have "'''' < mh_MSPID mh" if "MSPHeader_ValidateBasic mh = Ok ()" for mh
    using valid_header_id [OF that] by (cases "mh_MSPID mh") auto
  then show ?thesis
    unfolding MSPHeaders_ValidateBasic_def by (subst validate_headers_iff) auto
qed

lemma Header_ValidateBasic_iff:
  "Header_ValidateBasic h = Ok () \<longleftrightarrow>
     \<not> (hdr_ChaincodeHeader h = None \<and> hdr_ChaincodeInfo h = None \<and> hdr_MSPHeaders h = None)
     \<and> (\<forall>mhs. hdr_MSPHeaders h = Some mhs \<longrightarrow> MSPHeaders_ValidateBasic mhs = Ok ())"
  by (auto simp: Header_ValidateBasic_def validate_optional_def ChaincodeHeader_ValidateBasic_def
      ChaincodeInfo_ValidateBasic_def split: option.splits)

text \<open>Looking an id up.\<close>

abbreviation msp_ids :: "MSPInfo list \<Rightarrow> string list" where
  "msp_ids infos \<equiv> map mi_MSPID infos"

lemma index_of_msp_absent: "0 \<le> i \<Longrightarrow> index_of_msp i infos mspID = - 1 \<longleftrightarrow> mspID \<notin> set (msp_ids infos)"
  by (induction i infos mspID rule: index_of_msp.induct) auto

lemma index_of_msp_split:
  "mspID \<notin> set (msp_ids xs) \<Longrightarrow> mi_MSPID info = mspID \<Longrightarrow>
   index_of_msp i (xs @ info # ys) mspID = i + int (length xs)"
  by (induction xs arbitrary: i) auto

lemma msp_first:
  assumes "mspID \<in> set (msp_ids infos)"
  obtains xs info ys where "infos = xs @ info # ys" "mi_MSPID info = mspID" "mspID \<notin> set (msp_ids xs)"
proof -
  from assms obtain xs ys where "msp_ids infos = xs @ mspID # ys" "mspID \<notin> set xs"
    by (meson split_list_first)
  then obtain as info bs where "infos = as @ info # bs" "map mi_MSPID as = xs" "mi_MSPID info = mspID"
    by (auto simp: map_eq_append_conv map_eq_Cons_conv)
  with \<open>mspID \<notin> set xs\<close> show ?thesis by (intro that) auto
qed

lemma HasMSPID_iff: "HasMSPID mi mspID \<longleftrightarrow> mspID \<in> set (msp_ids (mis_Infos mi))"
  using index_of_msp_absent [of 0] by (auto simp: HasMSPID_def indexOfMSPID_def)

lemma FindMSPInfo_absent:
  "mspID \<notin> set (msp_ids (mis_Infos mi)) \<Longrightarrow> FindMSPInfo mi mspID = Err (ErrorNew ''MSPInfo not found'')"
  using index_of_msp_absent [of 0 "mis_Infos mi" mspID]
  by (simp add: FindMSPInfo_def indexOfMSPID_def Let_def)

lemma FindMSPInfo_split:
  "mis_Infos mi = xs @ info # ys \<Longrightarrow> mi_MSPID info = mspID \<Longrightarrow> mspID \<notin> set (msp_ids xs) \<Longrightarrow>
   FindMSPInfo mi mspID = Ok info"
  by (simp add: FindMSPInfo_def indexOfMSPID_def index_of_msp_split index_def)

lemma FindMSPInfo_Ok:
  assumes "FindMSPInfo mi mspID = Ok info"
  obtains xs ys where "mis_Infos mi = xs @ info # ys" "mi_MSPID info = mspID" "mspID \<notin> set (msp_ids xs)"
proof -
  have "mspID \<in> set (msp_ids (mis_Infos mi))"
    using assms FindMSPInfo_absent by fastforce
  then obtain xs info' ys where split: "mis_Infos mi = xs @ info' # ys" "mi_MSPID info' = mspID"
      "mspID \<notin> set (msp_ids xs)"
    by (rule msp_first)
  have "info' = info" using FindMSPInfo_split [OF split] assms by simp
  with split show ?thesis by (intro that) auto
qed

lemma FindMSPInfo_not_panics [simp]: "\<not> panics (FindMSPInfo mi mspID)"
proof (cases "mspID \<in> set (msp_ids (mis_Infos mi))")
  case True
  then obtain xs info ys where "mis_Infos mi = xs @ info # ys" "mi_MSPID info = mspID"
      "mspID \<notin> set (msp_ids xs)"
    by (rule msp_first)
  from FindMSPInfo_split [OF this] show ?thesis by simp
next
  case False
  then show ?thesis by (simp add: FindMSPInfo_absent)
qed

lemma msp_configs_not_panics:
  "(\<And>b. \<not> panics (unmarshal b)) \<Longrightarrow> \<not> panics (msp_configs unmarshal configs infos)"
  by (induction unmarshal configs infos rule: msp_configs.induct)
    (auto simp: panics_and_then split: option.splits)

text \<open>Only the configurations of MSPs that are not frozen are used, in the order of the list.\<close>

lemma msp_configs_Ok:
  "msp_configs unmarshal configs infos = Ok cs \<Longrightarrow>
   \<exists>new. cs = configs @ new \<and>
     list_all2 (\<lambda>info c. mi_Config info \<noteq> None \<and> unmarshal (slice_bytes (mi_Config info)) = Ok c)
       (filter (\<lambda>info. \<not> mi_Freezed info) infos) new"
proof (induction unmarshal configs infos arbitrary: cs rule: msp_configs.induct)
  case (1 unmarshal configs)
  then show ?case by simp
next
  case (2 unmarshal configs mi mis)
  show ?case
  proof (cases "mi_Freezed mi")
    case True
    with 2 show ?thesis by simp
  next
    case False
    with "2.prems" obtain bz c where c: "mi_Config mi = Some bz" "unmarshal bz = Ok c"
        "msp_configs unmarshal (configs @ [c]) mis = Ok cs"
      by (auto simp: outcome_simps split: option.splits)
    from "2.IH"(2) [OF False c] obtain new where "cs = (configs @ [c]) @ new"
        "list_all2 (\<lambda>info c. mi_Config info \<noteq> None \<and> unmarshal (slice_bytes (mi_Config info)) = Ok c)
           (filter (\<lambda>info. \<not> mi_Freezed info) mis) new"
      by blast
    with False c show ?thesis by (intro exI [of _ "c # new"]) simp
  qed
qed

section \<open>Bytes to sign\<close>

lemma ChaincodeInfo_GetSignBytes_enc:
  "ChaincodeInfo_GetSignBytes ci = Ok (ChaincodeInfo_enc (ci\<lparr>ci_Proof := None\<rparr>))"
  by (simp add: ChaincodeInfo_GetSignBytes_def ChaincodeInfo_wire.marshal_enc)

lemma MSPHeader_GetSignBytes_enc: "MSPHeader_GetSignBytes mh = Ok (MSPHeader_enc (mh\<lparr>mh_Proof := None\<rparr>))"
  by (simp add: MSPHeader_GetSignBytes_def MSPHeader_wire.marshal_enc)

lemma sign_bytes_first:
  "ci_ChannelId ci \<noteq> [] \<Longrightarrow> \<exists>r. ChaincodeInfo_enc ci = 0x0A # r"
  "MSPHeader_enc (mh\<lparr>mh_Proof := None\<rparr>) \<noteq> 0x0A # r"
  by (auto simp: ChaincodeInfo_enc_def MSPHeader_enc_def enc_bytes_def enc_element_def enc_varint_def
      enc_optional_def)

section \<open>Properties\<close>

text \<open>
  C34: The bytes that are signed for a chaincode info and for an MSP header are never the same, as long
  as the info names a channel. A set of signatures collected for the one cannot be replayed for the
  other.
\<close>

theorem sign_bytes_separated:
  assumes "ci_ChannelId ci \<noteq> ''''"
  shows "ChaincodeInfo_GetSignBytes ci \<noteq> MSPHeader_GetSignBytes mh"
  using sign_bytes_first(1) [of "ci\<lparr>ci_Proof := None\<rparr>"] sign_bytes_first(2) assms
  by (auto simp: ChaincodeInfo_GetSignBytes_enc MSPHeader_GetSignBytes_enc)

theorem sign_bytes_separated_witness:
  "ChaincodeInfo_GetSignBytes (NewChaincodeInfo ''ch'' ChaincodeID_zero None None None) \<noteq>
   MSPHeader_GetSignBytes (NewMSPHeader 0 ''Org1MSP'' None None None)"
  by (rule sign_bytes_separated) (simp add: NewChaincodeInfo_def)

text \<open>
  C39: Without a channel they can coincide: the signed bytes of such a chaincode info are also those of a
  header that creates an MSP, whose id is the encoded chaincode id and whose configuration and policy
  are the two policies of the info.
\<close>

theorem sign_bytes_shared:
  assumes "ci_ChannelId ci = ''''" "ChaincodeID_enc (ci_ChaincodeId ci) \<noteq> []"
  shows "ChaincodeInfo_GetSignBytes ci = MSPHeader_GetSignBytes
    (NewMSPHeader MSPHeaderTypeCreate (string_of_bytes (ChaincodeID_enc (ci_ChaincodeId ci)))
       (ci_EndorsementPolicy ci) (ci_IbcPolicy ci) p)"
  using assms
  by (simp add: ChaincodeInfo_GetSignBytes_enc MSPHeader_GetSignBytes_enc ChaincodeInfo_enc_def
      MSPHeader_enc_def NewMSPHeader_def MSPHeaderTypeCreate_def enc_optional_def enc_varint_def enc_bytes_def)

theorem sign_bytes_shared_witness:
  "ChaincodeInfo_GetSignBytes (NewChaincodeInfo '''' (ChaincodeID_zero\<lparr>ccid_Name := ''x''\<rparr>) (Some [1]) (Some [2]) None) =
   MSPHeader_GetSignBytes (NewMSPHeader MSPHeaderTypeCreate
     (string_of_bytes (ChaincodeID_enc (ChaincodeID_zero\<lparr>ccid_Name := ''x''\<rparr>))) (Some [1]) (Some [2]) None)"
  using sign_bytes_shared [of "NewChaincodeInfo '''' (ChaincodeID_zero\<lparr>ccid_Name := ''x''\<rparr>) (Some [1]) (Some [2]) None"
      None]
  by (simp add: NewChaincodeInfo_def ChaincodeID_enc_def ChaincodeID_zero_def enc_bytes_def enc_element_def
      bytes_of_string_def)

text \<open>
  A list of MSP headers passes validation exactly when every header is valid by itself and the ids
  are strictly increasing in byte order, so in particular no two headers are about the same MSP.
\<close>

theorem msp_headers_validation:
  "MSPHeaders_ValidateBasic mhs = Ok () \<longleftrightarrow>
     (\<forall>mh \<in> set (mhs_Headers mhs). MSPHeader_ValidateBasic mh = Ok ())
     \<and> sorted_wrt (<) (map mh_MSPID (mhs_Headers mhs))"
  by (rule MSPHeaders_ValidateBasic_iff)

theorem msp_headers_validation_witness:
  "MSPHeaders_ValidateBasic \<lparr>mhs_Headers = [NewMSPHeader MSPHeaderTypeFreeze ''A'' None None (Some MessageProof_zero),
     NewMSPHeader MSPHeaderTypeFreeze ''B'' None None (Some MessageProof_zero)]\<rparr> = Ok ()"
  unfolding msp_headers_validation
  by (simp add: NewMSPHeader_def MSPHeader_ValidateBasic_def MSPHeaderTypeCreate_def MSPHeaderTypeFreeze_def
      MSPHeaderTypeUpdateConfig_def MSPHeaderTypeUpdatePolicy_def less_char_def)

text \<open>
  C33: The signed bytes of an MSP header determine its type, its id and, up to empty versus missing
  values, its configuration and policy.
\<close>

theorem msp_sign_bytes_injective:
  assumes "MSPHeader_Size (mh\<lparr>mh_Proof := None\<rparr>) < 2 ^ 63"
    and "MSPHeader_GetSignBytes mh = MSPHeader_GetSignBytes mh'"
  shows "mh_Type mh = mh_Type mh' \<and> mh_MSPID mh = mh_MSPID mh' \<and>
    slice_bytes (mh_Config mh) = slice_bytes (mh_Config mh') \<and>
    slice_bytes (mh_Policy mh) = slice_bytes (mh_Policy mh')"
proof -
  have "MSPHeader_enc (mh\<lparr>mh_Proof := None\<rparr>) = MSPHeader_enc (mh'\<lparr>mh_Proof := None\<rparr>)"
    using assms(2) by (simp add: MSPHeader_GetSignBytes_enc)
  then have "MSPHeader_norm (mh\<lparr>mh_Proof := None\<rparr>) = MSPHeader_norm (mh'\<lparr>mh_Proof := None\<rparr>)"
    using MSPHeader_wire.enc_inject [OF assms(1)] by blast
  then show ?thesis by (cases mh; cases mh') (auto simp: MSPHeader_norm_def norm_slice_eq_iff)
qed

theorem msp_sign_bytes_injective_witness:
  "mh_MSPID (NewMSPHeader 3 ''A'' None None None) = mh_MSPID (NewMSPHeader 3 ''A'' (Some []) None (Some MessageProof_zero))"
proof -
  let ?a = "NewMSPHeader 3 ''A'' None None None" and ?b = "NewMSPHeader 3 ''A'' (Some []) None (Some MessageProof_zero)"
  have "MSPHeader_Size (?a\<lparr>mh_Proof := None\<rparr>) < 2 ^ 63"
    using sov_bound [of 3] sov_bound [of 1]
    by (simp add: NewMSPHeader_def MSPHeader_Size_def varint_size_def bytes_size_def element_size_def
        optional_size_def)
  moreover have "MSPHeader_GetSignBytes ?a = MSPHeader_GetSignBytes ?b"
    by (simp add: NewMSPHeader_def MSPHeader_GetSignBytes_enc MSPHeader_enc_def)
  ultimately show ?thesis using msp_sign_bytes_injective by blast
qed

end
