(* ===== verification/Endorsement.thy ===== *)
theory Endorsement
  imports Header_Msp
begin

text \<open>
  Verification of endorsements: \<open>light-clients/fabric/types/fabric.go\<close> and \<open>commitment.go\<close>. What Fabric
  provides (decoding of its protobuf messages, MSPs, signature policies) is the record \<open>fabric_lib\<close>;
  the checks of this repository around it are modelled in full, with the accesses that can panic.
\<close>

section \<open>The libraries of Fabric\<close>

text \<open>The field \<open>Type\<close> of \<open>peer.ApplicationPolicy\<close>, a oneof over policy envelopes \<open>'e\<close>.\<close>

datatype 'e policy_type = PolicyNone | PolicySignature 'e | PolicyReference string

text \<open>\<open>protoutil.SignedData\<close>\<close>

record SignedData =
  sd_Data :: bytes
  sd_Identity :: bytes
  sd_Signature :: bytes

text \<open>
  A write of a namespace is its key and value. The type variables are the MSP configurations, the
  MSPs, the MSP manager, the policy envelopes and the policies of Fabric.
\<close>

record ('c, 'm, 'g, 'e, 'p) fabric_lib =
  unmarshal_MSPConfig :: "bytes \<Rightarrow> 'c outcome"
  unmarshal_ApplicationPolicy :: "bytes \<Rightarrow> 'e policy_type outcome"
  SWFactory_Get :: "unit outcome"
  msp_New :: "'m outcome"
  msp_Setup :: "'m \<Rightarrow> 'c \<Rightarrow> 'm outcome"
  manager_Setup :: "'m list \<Rightarrow> 'g outcome"
  NewPolicy :: "'g \<Rightarrow> 'e \<Rightarrow> 'p outcome"
  EvaluateSignedData :: "'p \<Rightarrow> SignedData list \<Rightarrow> unit outcome"
  unmarshal_ProposalResponsePayload :: "bytes \<Rightarrow> bytes outcome"
  unmarshal_ChaincodeAction :: "bytes \<Rightarrow> (peer_ChaincodeID option \<times> bytes) outcome"
  TxRwSet_FromProtoBytes :: "bytes \<Rightarrow> (string \<times> slice) list list outcome"

section \<open>Commitment proofs\<close>

definition CommitmentProof_VerifyMembership :: "CommitmentProof \<Rightarrow> unit outcome" where
  "CommitmentProof_VerifyMembership p = Ok ()"

definition CommitmentProof_VerifyNonMembership :: "CommitmentProof \<Rightarrow> unit outcome" where
  "CommitmentProof_VerifyNonMembership p = Ok ()"

definition CommitmentProof_Empty :: "CommitmentProof \<Rightarrow> bool" where
  "CommitmentProof_Empty p = (length (cp_Signatures p) = 0)"

definition CommitmentProof_ValidateBasic :: "CommitmentProof \<Rightarrow> unit outcome" where
  "CommitmentProof_ValidateBasic p =
     (if length (cp_Identities p) \<noteq> length (cp_Signatures p)
      then Err (ErrorNew ''mismatch length: %v != %v'') else Ok ())"

text \<open>
  The loops go over the indices of the signatures and read the identity at the same index; the
  message of a commitment proof is the proposal followed by the identity.
\<close>

definition ToSignedData :: "CommitmentProof \<Rightarrow> SignedData list outcome" where
  "ToSignedData p = fold_outcome (\<lambda>sigSet i.
     and_then (index (cp_Identities p) i) (\<lambda>identity.
       and_then (index (cp_Signatures p) i) (\<lambda>signature.
         Ok (sigSet @ [\<lparr>sd_Data = slice_bytes (cp_Proposal p) @ identity, sd_Identity = identity,
                         sd_Signature = signature\<rparr>]))))
     [] [0..<length (cp_Signatures p)]"

definition makeSignedDataListWithMessageProof :: "MessageProof \<Rightarrow> bytes \<Rightarrow> SignedData list outcome" where
  "makeSignedDataListWithMessageProof p v = fold_outcome (\<lambda>sigSet i.
     and_then (index (mp_Identities p) i) (\<lambda>identity.
       and_then (index (mp_Signatures p) i) (\<lambda>signature.
         Ok (sigSet @ [\<lparr>sd_Data = v, sd_Identity = identity, sd_Signature = signature\<rparr>]))))
     [] [0..<length (mp_Signatures p)]"

definition NewPrefix :: "slice \<Rightarrow> Prefix" where
  "NewPrefix v = \<lparr>pre_Value = v\<rparr>"

definition Prefix_Bytes :: "Prefix \<Rightarrow> slice" where
  "Prefix_Bytes fp = pre_Value fp"

definition Prefix_Empty :: "Prefix \<Rightarrow> bool" where
  "Prefix_Empty fp = (length (slice_bytes (Prefix_Bytes fp)) = 0)"

section \<open>Policies\<close>

definition setupVerifyingMSP :: "('c, 'm, 'g, 'e, 'p) fabric_lib \<Rightarrow> 'c \<Rightarrow> 'm outcome" where
  "setupVerifyingMSP L mspConf =
     and_then (SWFactory_Get L) (\<lambda>_. and_then (msp_New L) (\<lambda>m. msp_Setup L m mspConf))"

definition setupVerifyingMSPManager :: "('c, 'm, 'g, 'e, 'p) fabric_lib \<Rightarrow> 'c list \<Rightarrow> 'g outcome" where
  "setupVerifyingMSPManager L mspConfigs =
     and_then (fold_outcome (\<lambda>msps conf. and_then (setupVerifyingMSP L conf) (\<lambda>m. Ok (msps @ [m])))
       [] mspConfigs) (manager_Setup L)"

text \<open>The type assertion on the policy panics when it is not a signature policy.\<close>

definition getPolicyEvaluator ::
    "('c, 'm, 'g, 'e, 'p) fabric_lib \<Rightarrow> slice \<Rightarrow> 'c list \<Rightarrow> 'p outcome" where
  "getPolicyEvaluator L policyBytes configs =
     and_then (unmarshal_ApplicationPolicy L (slice_bytes policyBytes)) (\<lambda>ap.
       case ap of
         PolicySignature sigp \<Rightarrow>
           and_then (setupVerifyingMSPManager L configs) (\<lambda>mgr. NewPolicy L mgr sigp)
       | _ \<Rightarrow> Panic ''interface conversion'')"

definition VerifyEndorsedMessage ::
    "('c, 'm, 'g, 'e, 'p) fabric_lib \<Rightarrow> slice \<Rightarrow> MessageProof \<Rightarrow> bytes \<Rightarrow> 'c list \<Rightarrow> unit outcome" where
  "VerifyEndorsedMessage L policyBytes p v configs =
     and_then (getPolicyEvaluator L policyBytes configs) (\<lambda>policy.
       and_then (makeSignedDataListWithMessageProof p v) (\<lambda>sigs. EvaluateSignedData L policy sigs))"

section \<open>Commitments in the write set of a proposal\<close>

definition equalChaincodeID :: "peer_ChaincodeID \<Rightarrow> peer_ChaincodeID \<Rightarrow> bool" where
  "equalChaincodeID a b =
     (if peer_Name a = peer_Name b \<and> peer_Path a = peer_Path b \<and> peer_Version a = peer_Version b
      then True else False)"

definition getTxReadWriteSetFromProposalResponsePayload ::
    "('c, 'm, 'g, 'e, 'p) fabric_lib \<Rightarrow> bytes
       \<Rightarrow> (peer_ChaincodeID option \<times> (string \<times> slice) list list) outcome" where
  "getTxReadWriteSetFromProposalResponsePayload L proposal =
     and_then (unmarshal_ProposalResponsePayload L proposal) (\<lambda>extension.
       and_then (unmarshal_ChaincodeAction L extension) (\<lambda>(ccid, results).
         and_then (TxRwSet_FromProtoBytes L results) (\<lambda>txRWSet. Ok (ccid, txRWSet))))"

definition ensureWriteSetIncludesCommitment ::
    "(string \<times> slice) list list \<Rightarrow> u32 \<Rightarrow> u32 \<Rightarrow> string \<Rightarrow> bytes \<Rightarrow> bool outcome" where
  "ensureWriteSetIncludesCommitment rwsets nsIdx rwsIdx targetKey expectValue =
     and_then (index rwsets (unat nsIdx)) (\<lambda>rws.
       if length rws \<le> unat rwsIdx then Err (ErrorNew ''not found index '%v'(length=%v)'')
       else and_then (index rws (unat rwsIdx)) (\<lambda>(key, v).
         if targetKey \<noteq> key then Err (ErrorNew ''unexpected key '%v'(expected=%v)'')
         else Ok (slice_bytes v = expectValue)))"

definition VerifyEndorsedCommitment ::
    "('c, 'm, 'g, 'e, 'p) fabric_lib \<Rightarrow> peer_ChaincodeID \<Rightarrow> slice \<Rightarrow> CommitmentProof \<Rightarrow> string \<Rightarrow> bytes
       \<Rightarrow> 'c list \<Rightarrow> bool outcome" where
  "VerifyEndorsedCommitment L ccID policyBytes p key v configs =
     and_then (getPolicyEvaluator L policyBytes configs) (\<lambda>policy.
       and_then (ToSignedData p) (\<lambda>sigs.
         and_then (EvaluateSignedData L policy sigs) (\<lambda>_.
           and_then (getTxReadWriteSetFromProposalResponsePayload L (slice_bytes (cp_Proposal p)))
             (\<lambda>(id, rwset).
               case id of
                 None \<Rightarrow> Panic ''invalid memory address or nil pointer dereference''
               | Some id' \<Rightarrow>
                   if \<not> equalChaincodeID ccID id'
                   then Err (ErrorNew ''got unexpected chaincodeID: expected=%v actual=%v'')
                   else ensureWriteSetIncludesCommitment rwset (cp_NsIndex p) (cp_WriteSetIndex p) key v))))"

section \<open>Headers\<close>

definition VerifyChaincodeHeader ::
    "('c, 'm, 'g, 'e, 'p) fabric_lib \<Rightarrow> ClientState \<Rightarrow> ChaincodeHeader \<Rightarrow> unit outcome" where
  "VerifyChaincodeHeader L clientState h =
     and_then (GetMSPPBConfigs (unmarshal_MSPConfig L) (cs_LastMspInfos clientState)) (\<lambda>configs.
       and_then (Sequence_Bytes (ch_Sequence h)) (\<lambda>bz.
         and_then (VerifyEndorsedCommitment L (GetFabricChaincodeID (cs_LastChaincodeInfo clientState))
             (ci_EndorsementPolicy (cs_LastChaincodeInfo clientState)) (ch_Proof h)
             (MakeSequenceCommitmentEntryKey (seq_Value (ch_Sequence h))) bz configs) (\<lambda>ok.
           if \<not> ok then Err (ErrorNew ''failed to verify a endorsed commitment'') else Ok ())))"

definition VerifyChaincodeInfo ::
    "('c, 'm, 'g, 'e, 'p) fabric_lib \<Rightarrow> ClientState \<Rightarrow> ChaincodeInfo \<Rightarrow> unit outcome" where
  "VerifyChaincodeInfo L clientState info =
     (case ci_Proof info of
        None \<Rightarrow> Err (ErrorNew ''a proof is empty'')
      | Some p \<Rightarrow>
          and_then (GetMSPPBConfigs (unmarshal_MSPConfig L) (cs_LastMspInfos clientState)) (\<lambda>configs.
            and_then (ChaincodeInfo_GetSignBytes info) (\<lambda>bz.
              VerifyEndorsedMessage L (ci_IbcPolicy (cs_LastChaincodeInfo clientState)) p bz configs)))"

definition verifyMSPCreate ::
    "('c, 'm, 'g, 'e, 'p) fabric_lib \<Rightarrow> ClientState \<Rightarrow> MSPHeader \<Rightarrow> unit outcome" where
  "verifyMSPCreate L clientState mh =
     (case mh_Proof mh of
        None \<Rightarrow> Err (ErrorNew ''proof is nil'')
      | Some p \<Rightarrow>
          if HasMSPID (cs_LastMspInfos clientState) (mh_MSPID mh)
          then Err (ErrorNew ''MSPInfo has already been created'')
          else and_then (GetMSPPBConfigs (unmarshal_MSPConfig L) (cs_LastMspInfos clientState)) (\<lambda>lastConfigs.
            and_then (MSPHeader_GetSignBytes mh) (\<lambda>bz.
              VerifyEndorsedMessage L (ci_IbcPolicy (cs_LastChaincodeInfo clientState)) p bz lastConfigs)))"

text \<open>The common part of the three updates, with the policy chosen from the MSP information.\<close>

definition verify_existing_msp ::
    "('c, 'm, 'g, 'e, 'p) fabric_lib \<Rightarrow> (MSPInfo \<Rightarrow> slice) \<Rightarrow> ClientState \<Rightarrow> MSPHeader \<Rightarrow> unit outcome" where
  "verify_existing_msp L policy_of clientState mh =
     (case mh_Proof mh of
        None \<Rightarrow> Err (ErrorNew ''proof is nil'')
      | Some p \<Rightarrow>
          and_then (FindMSPInfo (cs_LastMspInfos clientState) (mh_MSPID mh)) (\<lambda>mi.
            if mi_Freezed mi then Err (ErrorNew ''MSPInfo is freezed'')
            else and_then (GetMSPPBConfigs (unmarshal_MSPConfig L) (cs_LastMspInfos clientState)) (\<lambda>lastConfigs.
              and_then (MSPHeader_GetSignBytes mh) (\<lambda>bz.
                VerifyEndorsedMessage L (policy_of mi) p bz lastConfigs))))"

definition verifyMSPUpdatePolicy ::
    "('c, 'm, 'g, 'e, 'p) fabric_lib \<Rightarrow> ClientState \<Rightarrow> MSPHeader \<Rightarrow> unit outcome" where
  "verifyMSPUpdatePolicy L clientState mh =
     verify_existing_msp L (\<lambda>mi. ci_IbcPolicy (cs_LastChaincodeInfo clientState)) clientState mh"

definition verifyMSPUpdateConfig ::
    "('c, 'm, 'g, 'e, 'p) fabric_lib \<Rightarrow> ClientState \<Rightarrow> MSPHeader \<Rightarrow> unit outcome" where
  "verifyMSPUpdateConfig L clientState mh = verify_existing_msp L mi_Policy clientState mh"

definition verifyMSPFreeze ::
    "('c, 'm, 'g, 'e, 'p) fabric_lib \<Rightarrow> ClientState \<Rightarrow> MSPHeader \<Rightarrow> unit outcome" where
  "verifyMSPFreeze L clientState mh =
     verify_existing_msp L (\<lambda>mi. ci_IbcPolicy (cs_LastChaincodeInfo clientState)) clientState mh"

definition VerifyMSPHeader ::
    "('c, 'm, 'g, 'e, 'p) fabric_lib \<Rightarrow> ClientState \<Rightarrow> MSPHeader \<Rightarrow> unit outcome" where
  "VerifyMSPHeader L clientState mh =
     (if mh_Type mh = MSPHeaderTypeCreate then verifyMSPCreate L clientState mh
      else if mh_Type mh = MSPHeaderTypeUpdatePolicy then verifyMSPUpdatePolicy L clientState mh
      else if mh_Type mh = MSPHeaderTypeUpdateConfig then verifyMSPUpdateConfig L clientState mh
      else if mh_Type mh = MSPHeaderTypeFreeze then verifyMSPFreeze L clientState mh
      else Err (ErrorNew ''invalid type''))"

definition VerifyMSPHeaders ::
    "('c, 'm, 'g, 'e, 'p) fabric_lib \<Rightarrow> ClientState \<Rightarrow> MSPHeaders \<Rightarrow> unit outcome" where
  "VerifyMSPHeaders L clientState mhs =
     fold_outcome (\<lambda>_ mh. VerifyMSPHeader L clientState mh) () (mhs_Headers mhs)"

section \<open>Lemmas\<close>

text \<open>A loop over indices that collects what it reads at them from two slices.\<close>

lemma fold_index_pairs:
  assumes "n \<le> length ys"
  shows "fold_outcome (\<lambda>acc i. and_then (index xs i) (\<lambda>x. and_then (index ys i) (\<lambda>y. Ok (acc @ [f x y])))) [] [0..<n] =
    (if n \<le> length xs then Ok (map2 f (take n xs) (take n ys)) else Panic ''index out of range'')"
  using assms
proof (induction n)
  case 0
  then show ?case by simp
next
  case (Suc n)
  then have n: "n < length ys" "n \<le> length ys" by auto
  show ?case
  proof (cases "n < length xs")
    case True
    with Suc.IH [OF n(2)] n show ?thesis
      by (simp add: fold_outcome_append index_def take_Suc_conv_app_nth)
  next
    case False
    with Suc.IH [OF n(2)] n show ?thesis
      by (cases "n = length xs") (simp_all add: fold_outcome_append index_def)
  qed
qed

definition commitment_signed_data :: "CommitmentProof \<Rightarrow> SignedData list" where
  "commitment_signed_data p = map2 (\<lambda>identity signature.
     \<lparr>sd_Data = slice_bytes (cp_Proposal p) @ identity, sd_Identity = identity, sd_Signature = signature\<rparr>)
     (cp_Identities p) (cp_Signatures p)"

definition message_signed_data :: "MessageProof \<Rightarrow> bytes \<Rightarrow> SignedData list" where
  "message_signed_data p v = map2 (\<lambda>identity signature.
     \<lparr>sd_Data = v, sd_Identity = identity, sd_Signature = signature\<rparr>) (mp_Identities p) (mp_Signatures p)"

lemma map2_take: "length ys \<le> length xs \<Longrightarrow> map2 f (take (length ys) xs) ys = map2 f xs ys"
  by (metis (no_types) take_zip take_all_iff dual_order.refl length_zip min.absorb2)

lemma ToSignedData_eq:
  "ToSignedData p =
     (if length (cp_Signatures p) \<le> length (cp_Identities p) then Ok (commitment_signed_data p)
      else Panic ''index out of range'')"
  unfolding ToSignedData_def commitment_signed_data_def
  by (subst fold_index_pairs) (auto simp: map2_take)

lemma makeSignedDataList_eq:
  "makeSignedDataListWithMessageProof p v =
     (if length (mp_Signatures p) \<le> length (mp_Identities p) then Ok (message_signed_data p v)
      else Panic ''index out of range'')"
  unfolding makeSignedDataListWithMessageProof_def message_signed_data_def
  by (subst fold_index_pairs) (auto simp: map2_take)

lemma equalChaincodeID_iff [simp]: "equalChaincodeID a b \<longleftrightarrow> a = b"
  by (cases a; cases b) (auto simp: equalChaincodeID_def)

lemma ensureWriteSet_Ok:
  "ensureWriteSetIncludesCommitment rwsets nsIdx rwsIdx key v = Ok b \<longleftrightarrow>
     unat nsIdx < length rwsets \<and> unat rwsIdx < length (rwsets ! unat nsIdx)
     \<and> fst (rwsets ! unat nsIdx ! unat rwsIdx) = key
     \<and> b = (slice_bytes (snd (rwsets ! unat nsIdx ! unat rwsIdx)) = v)"
  by (auto simp: ensureWriteSetIncludesCommitment_def outcome_simps index_def split: if_splits prod.splits)

lemma ensureWriteSet_panics:
  "panics (ensureWriteSetIncludesCommitment rwsets nsIdx rwsIdx key v) \<longleftrightarrow> length rwsets \<le> unat nsIdx"
  by (auto simp: ensureWriteSetIncludesCommitment_def panics_and_then index_def split: if_splits prod.splits)

text \<open>
  What a verified commitment means: the policy accepts signatures over the proposal by the
  identities of the proof, and the proposal was made by the chaincode and writes the value at the
  key, at the place the proof points to.
\<close>

definition endorsed ::
    "('c, 'm, 'g, 'e, 'p) fabric_lib \<Rightarrow> peer_ChaincodeID \<Rightarrow> slice \<Rightarrow> CommitmentProof \<Rightarrow> 'c list
       \<Rightarrow> (string \<times> slice) list list \<Rightarrow> bool" where
  "endorsed L ccID policyBytes p configs rwsets \<longleftrightarrow>
     length (cp_Signatures p) \<le> length (cp_Identities p)
     \<and> (\<exists>policy. getPolicyEvaluator L policyBytes configs = Ok policy
          \<and> EvaluateSignedData L policy (commitment_signed_data p) = Ok ())
     \<and> getTxReadWriteSetFromProposalResponsePayload L (slice_bytes (cp_Proposal p)) = Ok (Some ccID, rwsets)"

lemma VerifyEndorsedCommitment_Ok:
  "VerifyEndorsedCommitment L ccID policyBytes p key v configs = Ok b \<longleftrightarrow>
     (\<exists>rwsets. endorsed L ccID policyBytes p configs rwsets \<and>
        ensureWriteSetIncludesCommitment rwsets (cp_NsIndex p) (cp_WriteSetIndex p) key v = Ok b)"
  by (auto simp: VerifyEndorsedCommitment_def endorsed_def outcome_simps ToSignedData_eq
      split: if_splits option.splits)

lemma VerifyEndorsedMessage_Ok:
  "VerifyEndorsedMessage L policyBytes p v configs = Ok () \<longleftrightarrow>
     length (mp_Signatures p) \<le> length (mp_Identities p)
     \<and> (\<exists>policy. getPolicyEvaluator L policyBytes configs = Ok policy
          \<and> EvaluateSignedData L policy (message_signed_data p v) = Ok ())"
  by (auto simp: VerifyEndorsedMessage_def outcome_simps makeSignedDataList_eq split: if_splits)

lemma verify_existing_msp_Ok:
  assumes "verify_existing_msp L policy_of cs mh = Ok ()"
  shows "\<exists>mi. FindMSPInfo (cs_LastMspInfos cs) (mh_MSPID mh) = Ok mi \<and> \<not> mi_Freezed mi"
  using assms by (auto simp: verify_existing_msp_def outcome_simps split: option.splits if_splits)

text \<open>An accepted header creates an MSP that is not there, or changes one that is there and not frozen.\<close>

lemma VerifyMSPHeader_target:
  assumes "VerifyMSPHeader L cs mh = Ok ()"
  shows "if mh_Type mh = MSPHeaderTypeCreate then \<not> HasMSPID (cs_LastMspInfos cs) (mh_MSPID mh)
    else \<exists>mi. FindMSPInfo (cs_LastMspInfos cs) (mh_MSPID mh) = Ok mi \<and> \<not> mi_Freezed mi"
proof (cases "mh_Type mh = MSPHeaderTypeCreate")
  case True
  with assms show ?thesis
    by (auto simp: VerifyMSPHeader_def verifyMSPCreate_def split: option.splits if_splits)
next
  case False
  with assms obtain g where "verify_existing_msp L g cs mh = Ok ()"
    unfolding VerifyMSPHeader_def verifyMSPUpdatePolicy_def verifyMSPUpdateConfig_def verifyMSPFreeze_def
    by (auto split: if_splits)
  with False verify_existing_msp_Ok show ?thesis by (metis (full_types))
qed

lemma fold_outcome_all:
  "fold_outcome (\<lambda>_. f) () xs = Ok () \<longleftrightarrow> (\<forall>x \<in> set xs. f x = Ok ())"
proof (induction xs)
  case (Cons x xs)
  then show ?case by (cases "f x") auto
qed simp

lemma VerifyMSPHeaders_iff:
  "VerifyMSPHeaders L cs mhs = Ok () \<longleftrightarrow> (\<forall>mh \<in> set (mhs_Headers mhs). VerifyMSPHeader L cs mh = Ok ())"
  by (simp add: VerifyMSPHeaders_def fold_outcome_all)

section \<open>Properties\<close>

text \<open>
  C8: A commitment is verified exactly when the signature policy accepts signatures by the identities of
  the proof over the proposal, the proposal is a simulation result of the expected chaincode, and the
  write of that result at the indices of the proof is the expected value at the expected key.
\<close>

theorem commitment_verified_iff:
  "VerifyEndorsedCommitment L ccID policyBytes p key v configs = Ok True \<longleftrightarrow>
     (\<exists>rwsets policy. length (cp_Signatures p) \<le> length (cp_Identities p)
        \<and> getPolicyEvaluator L policyBytes configs = Ok policy
        \<and> EvaluateSignedData L policy (map2 (\<lambda>identity signature.
             \<lparr>sd_Data = slice_bytes (cp_Proposal p) @ identity, sd_Identity = identity,
              sd_Signature = signature\<rparr>) (cp_Identities p) (cp_Signatures p)) = Ok ()
        \<and> getTxReadWriteSetFromProposalResponsePayload L (slice_bytes (cp_Proposal p)) = Ok (Some ccID, rwsets)
        \<and> unat (cp_NsIndex p) < length rwsets
        \<and> unat (cp_WriteSetIndex p) < length (rwsets ! unat (cp_NsIndex p))
        \<and> fst (rwsets ! unat (cp_NsIndex p) ! unat (cp_WriteSetIndex p)) = key
        \<and> slice_bytes (snd (rwsets ! unat (cp_NsIndex p) ! unat (cp_WriteSetIndex p))) = v)"
  by (auto simp: VerifyEndorsedCommitment_Ok endorsed_def ensureWriteSet_Ok commitment_signed_data_def)

text \<open>
  C38: The bounds of the namespace index are not checked: a proof whose signatures a policy accepts and
  whose proposal is by the expected chaincode, but whose \<open>NsIndex\<close> is not below the number of
  namespaces, does not give an error but a panic.
\<close>

theorem namespace_index_panics:
  assumes "endorsed L ccID policyBytes p configs rwsets" "length rwsets \<le> unat (cp_NsIndex p)"
  shows "panics (VerifyEndorsedCommitment L ccID policyBytes p key v configs)"
proof -
  from assms(1) have "VerifyEndorsedCommitment L ccID policyBytes p key v configs =
      ensureWriteSetIncludesCommitment rwsets (cp_NsIndex p) (cp_WriteSetIndex p) key v"
    by (auto simp: VerifyEndorsedCommitment_def endorsed_def ToSignedData_eq)
  with assms(2) show ?thesis by (simp add: ensureWriteSet_panics)
qed

text \<open>Libraries under which everything decodes and every policy accepts, for a proposal of one namespace.\<close>

definition accepting_lib ::
    "(string \<times> slice) list list \<Rightarrow> peer_ChaincodeID \<Rightarrow> (unit, unit, unit, unit, unit) fabric_lib" where
  "accepting_lib rwsets ccID =
     \<lparr>unmarshal_MSPConfig = (\<lambda>_. Ok ()), unmarshal_ApplicationPolicy = (\<lambda>_. Ok (PolicySignature ())),
      SWFactory_Get = Ok (), msp_New = Ok (), msp_Setup = (\<lambda>_ _. Ok ()), manager_Setup = (\<lambda>_. Ok ()),
      NewPolicy = (\<lambda>_ _. Ok ()), EvaluateSignedData = (\<lambda>_ _. Ok ()),
      unmarshal_ProposalResponsePayload = Ok, unmarshal_ChaincodeAction = (\<lambda>b. Ok (Some ccID, b)),
      TxRwSet_FromProtoBytes = (\<lambda>_. Ok rwsets)\<rparr>"

theorem namespace_index_panics_witness:
  "panics (VerifyEndorsedCommitment (accepting_lib [] (GetFabricChaincodeID ChaincodeInfo_zero))
     (GetFabricChaincodeID ChaincodeInfo_zero) None CommitmentProof_zero ''k'' [] [])"
  by (rule namespace_index_panics [where rwsets = "[]"])
    (simp_all add: endorsed_def accepting_lib_def getPolicyEvaluator_def setupVerifyingMSPManager_def
      getTxReadWriteSetFromProposalResponsePayload_def CommitmentProof_zero_def)

text \<open>
  Building the signed data of a proof returns one entry per signature, each with the identity at the
  same index, when there are at least as many identities as signatures; with fewer identities it
  panics, since nothing compares the two numbers beforehand.
\<close>

theorem signed_data_of_proof:
  "ToSignedData p = (if length (cp_Signatures p) \<le> length (cp_Identities p)
     then Ok (map2 (\<lambda>identity signature.
       \<lparr>sd_Data = slice_bytes (cp_Proposal p) @ identity, sd_Identity = identity, sd_Signature = signature\<rparr>)
       (cp_Identities p) (cp_Signatures p))
     else Panic ''index out of range'')"
  by (simp add: ToSignedData_eq commitment_signed_data_def)

end
