(* ===== verification/Client_Update.thy ===== *)
theory Client_Update
  imports Endorsement Sequence_Manager
begin

text \<open>
  Updates of the light client: \<open>light-clients/fabric/types/update.go\<close>. The MSP information of a
  client is shown to be the table that the accepted headers describe, sorted by id in every
  reachable state, and the panics of the update are shown not to happen after the validity check.
  The order on heights belongs to ibc-go and is an argument.
\<close>

section \<open>The client state\<close>

definition ClientState_GetLatestHeight :: "ClientState \<Rightarrow> Height" where
  "ClientState_GetLatestHeight cs = NewHeight 0 (seq_Value (ch_Sequence (cs_LastChaincodeHeader cs)))"

definition ClientState_GetLatestTimestamp :: "ClientState \<Rightarrow> i64" where
  "ClientState_GetLatestTimestamp cs = seq_Timestamp (ch_Sequence (cs_LastChaincodeHeader cs))"

definition NewConsensusState :: "i64 \<Rightarrow> ConsensusState" where
  "NewConsensusState timestamp = \<lparr>cons_Timestamp = timestamp\<rparr>"

section \<open>Validity of a header\<close>

definition ErrInvalidHeader :: error where
  "ErrInvalidHeader = ErrorRoot ''invalid client header''"

definition wrap_error :: "error \<Rightarrow> error \<Rightarrow> error" where
  "wrap_error root e = ErrorWrap root (error_string e)"

definition check_chaincode_header ::
    "('c, 'm, 'g, 'e, 'p) fabric_lib \<Rightarrow> (Height \<Rightarrow> Height \<Rightarrow> bool) \<Rightarrow> ClientState \<Rightarrow> ChaincodeHeader
       \<Rightarrow> unit outcome" where
  "check_chaincode_header L EQ clientState h =
     (if sint (seq_Timestamp (ch_Sequence h)) \<le> sint (ClientState_GetLatestTimestamp clientState)
      then Err (ErrorWrap ErrInvalidHeader ''header blocktime <= latest client state block time (%v <= %v)'')
      else
        let lh = ClientState_GetLatestHeight clientState
        in if \<not> EQ (NewHeight 0 (seq_Value (ch_Sequence h)))
                 (NewHeight (RevisionNumber lh) (RevisionHeight lh + 1))
           then Err (ErrorWrap ErrInvalidHeader ''header sequence != expected client state sequence (%d != %d)'')
           else map_err (wrap_error ErrInvalidHeader) (VerifyChaincodeHeader L clientState h))"

definition check_chaincode_info ::
    "('c, 'm, 'g, 'e, 'p) fabric_lib \<Rightarrow> ClientState \<Rightarrow> ChaincodeInfo \<Rightarrow> unit outcome" where
  "check_chaincode_info L clientState info =
     (if length (slice_bytes (ci_EndorsementPolicy info)) = 0
      then Err (ErrorWrap ErrInvalidHeader ''ChaincodeInfo.EndorsementPolicy must be non-empty value'')
      else map_err (wrap_error ErrInvalidHeader) (VerifyChaincodeInfo L clientState info))"

definition checkValidity ::
    "('c, 'm, 'g, 'e, 'p) fabric_lib \<Rightarrow> (Height \<Rightarrow> Height \<Rightarrow> bool) \<Rightarrow> ClientState \<Rightarrow> Header \<Rightarrow> unit outcome" where
  "checkValidity L EQ clientState header =
     and_then (map_err (wrap_error ErrInvalidHeader) (Header_ValidateBasic header)) (\<lambda>_.
       and_then (validate_optional (check_chaincode_header L EQ clientState) (hdr_ChaincodeHeader header)) (\<lambda>_.
         and_then (validate_optional (check_chaincode_info L clientState) (hdr_ChaincodeInfo header)) (\<lambda>_.
           validate_optional
             (\<lambda>mhs. map_err (wrap_error ErrInvalidHeader) (VerifyMSPHeaders L clientState mhs))
             (hdr_MSPHeaders header))))"

section \<open>The update\<close>

fun insert_msp :: "MSPInfo \<Rightarrow> bool \<Rightarrow> MSPInfo list \<Rightarrow> MSPInfo list \<Rightarrow> MSPInfo list \<times> bool" where
  "insert_msp new appended newInfos [] = (newInfos, appended)"
| "insert_msp new appended newInfos (info # infos) =
     (if \<not> appended \<and> CompareMSPID (mi_MSPID new) (mi_MSPID info) < 0
      then insert_msp new True (newInfos @ [new, info]) infos
      else insert_msp new appended (newInfos @ [info]) infos)"

definition set_infos :: "MSPInfo list \<Rightarrow> ClientState \<Rightarrow> ClientState" where
  "set_infos infos cs = cs\<lparr>cs_LastMspInfos := (cs_LastMspInfos cs)\<lparr>mis_Infos := infos\<rparr>\<rparr>"

definition createMSPInfo :: "ClientState \<Rightarrow> MSPHeader \<Rightarrow> ClientState" where
  "createMSPInfo clientState mh =
     (let new = NewMSPInfo (mh_MSPID mh) (mh_Config mh) (mh_Policy mh);
          (newInfos, appended) = insert_msp new False [] (mis_Infos (cs_LastMspInfos clientState))
      in set_infos (if \<not> appended then newInfos @ [new] else newInfos) clientState)"

text \<open>\<open>clientState.LastMspInfos.Infos[idx].f = v\<close>\<close>

definition modify_msp :: "(MSPInfo \<Rightarrow> MSPInfo) \<Rightarrow> ClientState \<Rightarrow> string \<Rightarrow> ClientState outcome" where
  "modify_msp f clientState mspID =
     (let infos = mis_Infos (cs_LastMspInfos clientState);
          idx = IndexOf (cs_LastMspInfos clientState) mspID
      in if idx < 0 \<or> int (length infos) \<le> idx then Panic ''index out of range''
         else Ok (set_infos (infos[nat idx := f (infos ! nat idx)]) clientState))"

definition updateMSPConfig :: "ClientState \<Rightarrow> MSPHeader \<Rightarrow> ClientState outcome" where
  "updateMSPConfig clientState mh =
     modify_msp (\<lambda>info. info\<lparr>mi_Config := mh_Config mh\<rparr>) clientState (mh_MSPID mh)"

definition updateMSPPolicy :: "ClientState \<Rightarrow> MSPHeader \<Rightarrow> ClientState outcome" where
  "updateMSPPolicy clientState mh =
     modify_msp (\<lambda>info. info\<lparr>mi_Policy := mh_Policy mh\<rparr>) clientState (mh_MSPID mh)"

definition freezeMSPInfo :: "ClientState \<Rightarrow> MSPHeader \<Rightarrow> ClientState outcome" where
  "freezeMSPInfo clientState mh =
     modify_msp (\<lambda>info. info\<lparr>mi_Freezed := True\<rparr>) clientState (mh_MSPID mh)"

definition updateMSPInfo :: "ClientState \<Rightarrow> MSPHeader \<Rightarrow> ClientState outcome" where
  "updateMSPInfo clientState mh =
     (if mh_Type mh = MSPHeaderTypeCreate then Ok (createMSPInfo clientState mh)
      else if mh_Type mh = MSPHeaderTypeUpdatePolicy then updateMSPPolicy clientState mh
      else if mh_Type mh = MSPHeaderTypeUpdateConfig then updateMSPConfig clientState mh
      else if mh_Type mh = MSPHeaderTypeFreeze then freezeMSPInfo clientState mh
      else Panic ''invalid MSPHeaderType'')"

definition updateMSPInfos :: "ClientState \<Rightarrow> MSPHeaders \<Rightarrow> ClientState outcome" where
  "updateMSPInfos clientState mhs = fold_outcome updateMSPInfo clientState (mhs_Headers mhs)"

definition update_client :: "ClientState \<Rightarrow> Header \<Rightarrow> (ClientState \<times> ConsensusState option) outcome" where
  "update_client clientState header =
     and_then (must (Header_ValidateBasic header)) (\<lambda>_.
       let clientState = (case hdr_ChaincodeInfo header of
             None \<Rightarrow> clientState
           | Some ci \<Rightarrow> clientState\<lparr>cs_LastChaincodeInfo := ci\<rparr>);
           (clientState, consensusState) = (case hdr_ChaincodeHeader header of
             None \<Rightarrow> (clientState, None)
           | Some ch \<Rightarrow> (clientState\<lparr>cs_LastChaincodeHeader := ch\<rparr>,
               Some (NewConsensusState (seq_Timestamp (ch_Sequence ch)))))
       in and_then (case hdr_MSPHeaders header of
             None \<Rightarrow> Ok clientState
           | Some mhs \<Rightarrow> updateMSPInfos clientState mhs) (\<lambda>clientState.
         Ok (clientState, consensusState)))"

text \<open>An \<open>exported.Header\<close>: a pointer to a header of this client, or something else.\<close>

datatype any_header = FabricHeader "Header option" | OtherHeader

definition CheckHeaderAndUpdateState ::
    "('c, 'm, 'g, 'e, 'p) fabric_lib \<Rightarrow> (Height \<Rightarrow> Height \<Rightarrow> bool) \<Rightarrow> ClientState \<Rightarrow> any_header
       \<Rightarrow> (ClientState \<times> ConsensusState option) outcome" where
  "CheckHeaderAndUpdateState L EQ cs header =
     (case header of
        OtherHeader \<Rightarrow> Err (ErrorWrap ErrInvalidHeader ''header is not from Fabric'')
      | FabricHeader None \<Rightarrow> Panic ''invalid memory address or nil pointer dereference''
      | FabricHeader (Some fabHeader) \<Rightarrow>
          and_then (checkValidity L EQ cs fabHeader) (\<lambda>_. update_client cs fabHeader))"

section \<open>The table of MSPs\<close>

text \<open>The abstract view of the MSP information: what is known of each id.\<close>

definition infos_of :: "ClientState \<Rightarrow> MSPInfo list" where
  "infos_of cs = mis_Infos (cs_LastMspInfos cs)"

definition msp_table :: "ClientState \<Rightarrow> string \<rightharpoonup> MSPInfo" where
  "msp_table cs = map_of (map (\<lambda>info. (mi_MSPID info, info)) (infos_of cs))"

definition msps_sorted :: "ClientState \<Rightarrow> bool" where
  "msps_sorted cs \<longleftrightarrow> sorted_wrt (<) (msp_ids (infos_of cs))"

text \<open>What a header asks for, on the table.\<close>

definition change_info :: "MSPHeader \<Rightarrow> MSPInfo \<Rightarrow> MSPInfo" where
  "change_info mh info =
     (if mh_Type mh = MSPHeaderTypeUpdatePolicy then info\<lparr>mi_Policy := mh_Policy mh\<rparr>
      else if mh_Type mh = MSPHeaderTypeUpdateConfig then info\<lparr>mi_Config := mh_Config mh\<rparr>
      else if mh_Type mh = MSPHeaderTypeFreeze then info\<lparr>mi_Freezed := True\<rparr>
      else info)"

definition apply_header :: "MSPHeader \<Rightarrow> (string \<rightharpoonup> MSPInfo) \<Rightarrow> string \<rightharpoonup> MSPInfo" where
  "apply_header mh t =
     (if mh_Type mh = MSPHeaderTypeCreate
      then t(mh_MSPID mh \<mapsto> NewMSPInfo (mh_MSPID mh) (mh_Config mh) (mh_Policy mh))
      else t(mh_MSPID mh := map_option (change_info mh) (t (mh_MSPID mh))))"

definition applicable :: "MSPHeader \<Rightarrow> ClientState \<Rightarrow> bool" where
  "applicable mh cs \<longleftrightarrow>
     (if mh_Type mh = MSPHeaderTypeCreate then msp_table cs (mh_MSPID mh) = None
      else mh_Type mh \<in> {MSPHeaderTypeUpdatePolicy, MSPHeaderTypeUpdateConfig, MSPHeaderTypeFreeze}
        \<and> msp_table cs (mh_MSPID mh) \<noteq> None)"

lemma infos_of_set_infos [simp]: "infos_of (set_infos infos cs) = infos"
  by (simp add: infos_of_def set_infos_def)

lemma msp_table_None: "msp_table cs mspID = None \<longleftrightarrow> mspID \<notin> set (msp_ids (infos_of cs))"
  by (auto simp: msp_table_def map_of_eq_None_iff image_image)

lemma msp_table_id: "msp_table cs mspID = Some info \<Longrightarrow> mi_MSPID info = mspID"
  by (auto simp: msp_table_def dest!: map_of_SomeD)

lemma table_split:
  "mspID \<notin> set (msp_ids xs) \<Longrightarrow> mi_MSPID info = mspID \<Longrightarrow>
   map_of (map (\<lambda>i. (mi_MSPID i, i)) (xs @ info # ys)) mspID = Some info"
  by (induction xs) auto

lemma FindMSPInfo_table:
  "FindMSPInfo (cs_LastMspInfos cs) mspID = Ok info \<longleftrightarrow> msp_table cs mspID = Some info"
proof
  assume "FindMSPInfo (cs_LastMspInfos cs) mspID = Ok info"
  then show "msp_table cs mspID = Some info"
    by (rule FindMSPInfo_Ok) (simp add: msp_table_def infos_of_def table_split del: map_append list.map)
next
  assume t: "msp_table cs mspID = Some info"
  then have "mspID \<in> set (msp_ids (infos_of cs))" by (metis msp_table_None option.distinct(1))
  then obtain xs info' ys where split: "infos_of cs = xs @ info' # ys" "mi_MSPID info' = mspID"
      "mspID \<notin> set (msp_ids xs)"
    by (rule msp_first)
  then have "info' = info" using t table_split [OF split(3,2)] by (simp add: msp_table_def del: map_append list.map)
  then show "FindMSPInfo (cs_LastMspInfos cs) mspID = Ok info"
    using split by (intro FindMSPInfo_split) (auto simp: infos_of_def)
qed

lemma HasMSPID_table: "HasMSPID (cs_LastMspInfos cs) mspID \<longleftrightarrow> msp_table cs mspID \<noteq> None"
  by (simp add: HasMSPID_iff msp_table_None infos_of_def)

subsection \<open>Creation\<close>

lemma insert_msp_done: "insert_msp new True acc infos = (acc @ infos, True)"
  by (induction infos arbitrary: acc) auto

lemma insert_msp_eq:
  "insert_msp new False acc infos =
     (let before = takeWhile (\<lambda>i. \<not> mi_MSPID new < mi_MSPID i) infos;
          after = dropWhile (\<lambda>i. \<not> mi_MSPID new < mi_MSPID i) infos
      in if after = [] then (acc @ before, False) else (acc @ before @ new # after, True))"
  by (induction infos arbitrary: acc) (auto simp: insert_msp_done Let_def)

lemma createMSPInfo_infos:
  "infos_of (createMSPInfo cs mh) =
     takeWhile (\<lambda>i. \<not> mh_MSPID mh < mi_MSPID i) (infos_of cs)
     @ NewMSPInfo (mh_MSPID mh) (mh_Config mh) (mh_Policy mh)
     # dropWhile (\<lambda>i. \<not> mh_MSPID mh < mi_MSPID i) (infos_of cs)"
proof -
  let ?new = "NewMSPInfo (mh_MSPID mh) (mh_Config mh) (mh_Policy mh)"
  have id: "mi_MSPID ?new = mh_MSPID mh" by (simp add: NewMSPInfo_def)
  show ?thesis
    by (cases "dropWhile (\<lambda>i. \<not> mh_MSPID mh < mi_MSPID i) (infos_of cs) = []")
      (simp_all only: createMSPInfo_def Let_def insert_msp_eq id infos_of_def [symmetric] infos_of_set_infos
        prod.case if_True if_False not_False_eq_True not_True_eq_False append_Nil refl)
qed

lemma sorted_insert:
  assumes "sorted_wrt (<) (msp_ids infos)" "mi_MSPID new \<notin> set (msp_ids infos)"
  shows "sorted_wrt (<) (msp_ids (takeWhile (\<lambda>i. \<not> mi_MSPID new < mi_MSPID i) infos @ new
    # dropWhile (\<lambda>i. \<not> mi_MSPID new < mi_MSPID i) infos))"
  using assms
proof (induction infos)
  case (Cons info infos)
  then show ?case
    by (cases "mi_MSPID new < mi_MSPID info")
      (auto simp: not_less dest: less_trans set_takeWhileD set_dropWhileD)
qed simp

lemma table_insert:
  assumes "k \<notin> fst ` set (xs @ ys)"
  shows "map_of (xs @ (k, v) # ys) = (map_of (xs @ ys))(k \<mapsto> v)"
  using assms by (induction xs) (auto simp: fun_upd_twist)

lemma createMSPInfo_table:
  assumes "msp_table cs (mh_MSPID mh) = None"
  shows "msp_table (createMSPInfo cs mh) =
    (msp_table cs)(mh_MSPID mh \<mapsto> NewMSPInfo (mh_MSPID mh) (mh_Config mh) (mh_Policy mh))"
proof -
  let ?P = "\<lambda>i. \<not> mh_MSPID mh < mi_MSPID i" and ?k = "\<lambda>i. (mi_MSPID i, i)"
  let ?xs = "map ?k (takeWhile ?P (infos_of cs))" and ?ys = "map ?k (dropWhile ?P (infos_of cs))"
  have split: "?xs @ ?ys = map ?k (infos_of cs)"
    by (simp only: map_append [symmetric] takeWhile_dropWhile_id)
  then have "mh_MSPID mh \<notin> fst ` set (?xs @ ?ys)"
    using assms by (simp add: split msp_table_None image_image del: set_append)
  from table_insert [OF this] show ?thesis
    unfolding msp_table_def split [symmetric] createMSPInfo_infos
    by (simp add: NewMSPInfo_def)
qed

subsection \<open>Modification\<close>

lemma modify_msp_split:
  assumes "infos_of cs = xs @ info # ys" "mi_MSPID info = mspID" "mspID \<notin> set (msp_ids xs)"
  shows "modify_msp f cs mspID = Ok (set_infos (xs @ f info # ys) cs)"
  using assms
  by (simp add: modify_msp_def IndexOf_def indexOfMSPID_def infos_of_def [symmetric] index_of_msp_split
      Let_def list_update_append)

lemma table_modify:
  assumes "k \<notin> fst ` set xs"
  shows "map_of (xs @ (k, v') # ys) = (map_of (xs @ (k, v) # ys))(k \<mapsto> v')"
  using assms by (induction xs) (auto simp: fun_upd_twist)

lemma modify_msp_ok:
  assumes "msp_table cs mspID = Some info" "\<And>i. mi_MSPID (f i) = mi_MSPID i"
  obtains cs' where "modify_msp f cs mspID = Ok cs'" "msp_table cs' = (msp_table cs)(mspID \<mapsto> f info)"
    "msp_ids (infos_of cs') = msp_ids (infos_of cs)" "\<exists>infos. cs' = set_infos infos cs"
proof -
  from assms(1) have "FindMSPInfo (cs_LastMspInfos cs) mspID = Ok info" by (simp add: FindMSPInfo_table)
  then obtain xs ys where split: "infos_of cs = xs @ info # ys" "mi_MSPID info = mspID"
      "mspID \<notin> set (msp_ids xs)"
    by (rule FindMSPInfo_Ok) (auto simp: infos_of_def)
  have "msp_table (set_infos (xs @ f info # ys) cs) = (msp_table cs)(mspID \<mapsto> f info)"
    using table_modify [of mspID "map (\<lambda>i. (mi_MSPID i, i)) xs"] split
    by (simp add: msp_table_def assms(2) image_image)
  then show ?thesis
    using split assms(2) by (intro that [OF modify_msp_split [OF split]]) auto
qed

lemma change_info_id [simp]: "mi_MSPID (change_info mh info) = mi_MSPID info"
  by (simp add: change_info_def)

lemma msp_types_distinct [simp]:
  "MSPHeaderTypeUpdatePolicy \<noteq> MSPHeaderTypeCreate" "MSPHeaderTypeUpdateConfig \<noteq> MSPHeaderTypeCreate"
  "MSPHeaderTypeFreeze \<noteq> MSPHeaderTypeCreate" "MSPHeaderTypeUpdateConfig \<noteq> MSPHeaderTypeUpdatePolicy"
  "MSPHeaderTypeFreeze \<noteq> MSPHeaderTypeUpdatePolicy" "MSPHeaderTypeFreeze \<noteq> MSPHeaderTypeUpdateConfig"
  by (simp_all add: MSPHeaderTypeCreate_def MSPHeaderTypeUpdatePolicy_def MSPHeaderTypeUpdateConfig_def
      MSPHeaderTypeFreeze_def)

lemma updateMSPInfo_modify:
  assumes "mh_Type mh \<in> {MSPHeaderTypeUpdatePolicy, MSPHeaderTypeUpdateConfig, MSPHeaderTypeFreeze}"
  shows "updateMSPInfo cs mh = modify_msp (change_info mh) cs (mh_MSPID mh)"
proof -
  have "change_info mh = (\<lambda>info. info\<lparr>mi_Policy := mh_Policy mh\<rparr>) \<or> mh_Type mh \<noteq> MSPHeaderTypeUpdatePolicy"
    "change_info mh = (\<lambda>info. info\<lparr>mi_Config := mh_Config mh\<rparr>) \<or> mh_Type mh \<noteq> MSPHeaderTypeUpdateConfig"
    "change_info mh = (\<lambda>info. info\<lparr>mi_Freezed := True\<rparr>) \<or> mh_Type mh \<noteq> MSPHeaderTypeFreeze"
    by (auto simp: change_info_def fun_eq_iff)
  with assms show ?thesis
    by (auto simp: updateMSPInfo_def updateMSPPolicy_def updateMSPConfig_def freezeMSPInfo_def)
qed

subsection \<open>Headers in turn\<close>

lemma set_infos_fields [simp]:
  "cs_LastChaincodeHeader (set_infos infos cs) = cs_LastChaincodeHeader cs"
  "cs_LastChaincodeInfo (set_infos infos cs) = cs_LastChaincodeInfo cs"
  "cs_Id (set_infos infos cs) = cs_Id cs"
  "set_infos infos (set_infos infos' cs) = set_infos infos cs"
  "set_infos (infos_of cs) cs = cs"
  by (simp_all add: set_infos_def infos_of_def)

lemma createMSPInfo_set_infos: "\<exists>infos. createMSPInfo cs mh = set_infos infos cs"
  by (auto simp: createMSPInfo_def Let_def split: prod.splits)

lemma updateMSPInfo_ok:
  assumes "applicable mh cs" "msps_sorted cs"
  obtains cs' where "updateMSPInfo cs mh = Ok cs'" "msp_table cs' = apply_header mh (msp_table cs)"
    "msps_sorted cs'" "\<exists>infos. cs' = set_infos infos cs"
proof (cases "mh_Type mh = MSPHeaderTypeCreate")
  case True
  then have new: "msp_table cs (mh_MSPID mh) = None" using assms(1) by (simp add: applicable_def)
  have "msps_sorted (createMSPInfo cs mh)"
    using sorted_insert [of "infos_of cs" "NewMSPInfo (mh_MSPID mh) (mh_Config mh) (mh_Policy mh)"] assms(2) new
    unfolding msps_sorted_def createMSPInfo_infos by (simp add: NewMSPInfo_def msp_table_None)
  with True createMSPInfo_table [OF new] createMSPInfo_set_infos show ?thesis
    by (intro that [of "createMSPInfo cs mh"]) (simp_all add: updateMSPInfo_def apply_header_def)
next
  case False
  then obtain info where info: "msp_table cs (mh_MSPID mh) = Some info"
      and ty: "mh_Type mh \<in> {MSPHeaderTypeUpdatePolicy, MSPHeaderTypeUpdateConfig, MSPHeaderTypeFreeze}"
    using assms(1) by (auto simp: applicable_def)
  from info obtain cs' where cs': "modify_msp (change_info mh) cs (mh_MSPID mh) = Ok cs'"
      "msp_table cs' = (msp_table cs)(mh_MSPID mh \<mapsto> change_info mh info)"
      "msp_ids (infos_of cs') = msp_ids (infos_of cs)" "\<exists>infos. cs' = set_infos infos cs"
    by (rule modify_msp_ok [where f = "change_info mh"]) simp_all
  show ?thesis
    using cs' assms(2) False info ty
    by (intro that [of cs']) (simp_all add: updateMSPInfo_modify apply_header_def msps_sorted_def)
qed

lemma apply_header_other: "k \<noteq> mh_MSPID mh \<Longrightarrow> apply_header mh t k = t k"
  by (simp add: apply_header_def)

lemma fold_headers_other:
  "k \<notin> mh_MSPID ` set mhs \<Longrightarrow> fold apply_header mhs t k = t k"
  by (induction mhs arbitrary: t) (auto simp: apply_header_other)

lemma updateMSPInfos_ok:
  assumes "\<forall>mh \<in> set mhs. applicable mh cs" "distinct (map mh_MSPID mhs)" "msps_sorted cs"
  shows "\<exists>cs'. fold_outcome updateMSPInfo cs mhs = Ok cs' \<and> msp_table cs' = fold apply_header mhs (msp_table cs)
    \<and> msps_sorted cs' \<and> (\<exists>infos. cs' = set_infos infos cs)"
  using assms
proof (induction mhs arbitrary: cs)
  case Nil
  then show ?case by (auto intro: exI [of _ "infos_of cs"])
next
  case (Cons mh mhs)
  from Cons.prems have "applicable mh cs" "msps_sorted cs" by simp_all
  then obtain cs1 where cs1: "updateMSPInfo cs mh = Ok cs1"
      "msp_table cs1 = apply_header mh (msp_table cs)" "msps_sorted cs1" "\<exists>infos. cs1 = set_infos infos cs"
    by (rule updateMSPInfo_ok)
  have "applicable mh' cs1" if "mh' \<in> set mhs" for mh'
  proof -
    have "mh_MSPID mh' \<noteq> mh_MSPID mh" using that Cons.prems(2) by (metis distinct.simps(2) image_eqI list.map(2) set_map)
    then have "msp_table cs1 (mh_MSPID mh') = msp_table cs (mh_MSPID mh')"
      by (simp add: cs1(2) apply_header_other)
    then have "applicable mh' cs1 \<longleftrightarrow> applicable mh' cs" by (simp only: applicable_def)
    with that Cons.prems(1) show ?thesis by simp
  qed
  with Cons.IH [of cs1] Cons.prems(2) cs1(3) obtain cs' where
      "fold_outcome updateMSPInfo cs1 mhs = Ok cs'" "msp_table cs' = fold apply_header mhs (msp_table cs1)"
      "msps_sorted cs'" "\<exists>infos. cs' = set_infos infos cs1"
    by auto
  with cs1 show ?case by (intro exI [of _ cs']) auto
qed

section \<open>The update after the check\<close>

definition msp_headers_of :: "Header \<Rightarrow> MSPHeader list" where
  "msp_headers_of h = (case hdr_MSPHeaders h of None \<Rightarrow> [] | Some mhs \<Rightarrow> mhs_Headers mhs)"

lemma map_err_Ok_unit: "map_err f r = Ok () \<longleftrightarrow> r = Ok ()"
  by (cases r) auto

lemma checkValidity_iff:
  "checkValidity L EQ cs h = Ok () \<longleftrightarrow>
     Header_ValidateBasic h = Ok ()
     \<and> (\<forall>ch. hdr_ChaincodeHeader h = Some ch \<longrightarrow> check_chaincode_header L EQ cs ch = Ok ())
     \<and> (\<forall>ci. hdr_ChaincodeInfo h = Some ci \<longrightarrow> check_chaincode_info L cs ci = Ok ())
     \<and> (\<forall>mh \<in> set (msp_headers_of h). VerifyMSPHeader L cs mh = Ok ())"
  by (auto simp: checkValidity_def outcome_simps validate_optional_def VerifyMSPHeaders_iff msp_headers_of_def
      map_err_Ok_unit split: option.splits)

lemma checked_headers:
  assumes "checkValidity L EQ cs h = Ok ()"
  shows "\<forall>mh \<in> set (msp_headers_of h). applicable mh cs" "distinct (map mh_MSPID (msp_headers_of h))"
proof -
  from assms have vb: "Header_ValidateBasic h = Ok ()"
    and vm: "\<forall>mh \<in> set (msp_headers_of h). VerifyMSPHeader L cs mh = Ok ()"
    by (simp_all add: checkValidity_iff)
  have mhs: "(\<forall>mh \<in> set (msp_headers_of h). MSPHeader_ValidateBasic mh = Ok ())
      \<and> sorted_wrt (<) (map mh_MSPID (msp_headers_of h))"
    using vb by (auto simp: msp_headers_of_def Header_ValidateBasic_iff MSPHeaders_ValidateBasic_iff split: option.splits)
  then show "distinct (map mh_MSPID (msp_headers_of h))" by (simp add: strict_sorted_iff)
  show "\<forall>mh \<in> set (msp_headers_of h). applicable mh cs"
  proof
    fix mh assume mh: "mh \<in> set (msp_headers_of h)"
    from VerifyMSPHeader_target [of L cs mh] vm mh valid_header_type [of mh "()"] mhs
    show "applicable mh cs"
      by (auto simp: applicable_def HasMSPID_table FindMSPInfo_table split: if_splits)
  qed
qed

lemma update_client_eq:
  assumes "Header_ValidateBasic h = Ok ()"
  shows "update_client cs h =
    (let cs1 = cs\<lparr>cs_LastChaincodeInfo := (case hdr_ChaincodeInfo h of None \<Rightarrow> cs_LastChaincodeInfo cs | Some ci \<Rightarrow> ci),
                  cs_LastChaincodeHeader := (case hdr_ChaincodeHeader h of None \<Rightarrow> cs_LastChaincodeHeader cs | Some ch \<Rightarrow> ch)\<rparr>
     in and_then (fold_outcome updateMSPInfo cs1 (msp_headers_of h)) (\<lambda>cs'.
       Ok (cs', map_option (\<lambda>ch. NewConsensusState (seq_Timestamp (ch_Sequence ch))) (hdr_ChaincodeHeader h))))"
  using assms
  by (auto simp: update_client_def Let_def updateMSPInfos_def msp_headers_of_def split: option.splits)

lemma update_after_check:
  assumes "checkValidity L EQ cs h = Ok ()" "msps_sorted cs"
  shows "\<exists>cs'. update_client cs h =
      Ok (cs', map_option (\<lambda>ch. NewConsensusState (seq_Timestamp (ch_Sequence ch))) (hdr_ChaincodeHeader h))
    \<and> msp_table cs' = fold apply_header (msp_headers_of h) (msp_table cs) \<and> msps_sorted cs'
    \<and> cs_LastChaincodeInfo cs' = (case hdr_ChaincodeInfo h of None \<Rightarrow> cs_LastChaincodeInfo cs | Some ci \<Rightarrow> ci)
    \<and> cs_LastChaincodeHeader cs' = (case hdr_ChaincodeHeader h of None \<Rightarrow> cs_LastChaincodeHeader cs | Some ch \<Rightarrow> ch)
    \<and> cs_Id cs' = cs_Id cs"
proof -
  let ?cs1 = "cs\<lparr>cs_LastChaincodeInfo := (case hdr_ChaincodeInfo h of None \<Rightarrow> cs_LastChaincodeInfo cs | Some ci \<Rightarrow> ci),
    cs_LastChaincodeHeader := (case hdr_ChaincodeHeader h of None \<Rightarrow> cs_LastChaincodeHeader cs | Some ch \<Rightarrow> ch)\<rparr>"
  have same: "infos_of ?cs1 = infos_of cs" by (simp add: infos_of_def)
  then have t: "msp_table ?cs1 = msp_table cs" "msps_sorted ?cs1"
    using assms(2) by (simp_all add: msp_table_def msps_sorted_def)
  then have "applicable mh ?cs1 \<longleftrightarrow> applicable mh cs" for mh by (simp only: applicable_def)
  with checked_headers(1) [OF assms(1)] have "\<forall>mh \<in> set (msp_headers_of h). applicable mh ?cs1"
    by blast
  from updateMSPInfos_ok [OF this checked_headers(2) [OF assms(1)] t(2)] obtain cs' infos where
      "fold_outcome updateMSPInfo ?cs1 (msp_headers_of h) = Ok cs'"
      "msp_table cs' = fold apply_header (msp_headers_of h) (msp_table cs)"
      "msps_sorted cs'" "cs' = set_infos infos ?cs1"
    unfolding t(1) by blast
  moreover have "Header_ValidateBasic h = Ok ()" using assms(1) by (simp add: checkValidity_iff)
  ultimately show ?thesis
    by (intro exI [of _ cs']) (simp add: update_client_eq Let_def)
qed

lemma accepted_update:
  assumes "CheckHeaderAndUpdateState L EQ cs hdr = Ok (cs', cons)"
  obtains h where "hdr = FabricHeader (Some h)" "checkValidity L EQ cs h = Ok ()"
    "update_client cs h = Ok (cs', cons)"
  using assms by (auto simp: CheckHeaderAndUpdateState_def outcome_simps split: any_header.splits option.splits)

section \<open>Reachable clients\<close>

inductive client_reach ::
    "('c, 'm, 'g, 'e, 'p) fabric_lib \<Rightarrow> (Height \<Rightarrow> Height \<Rightarrow> bool) \<Rightarrow> ClientState \<Rightarrow> ClientState \<Rightarrow> bool"
  for L EQ cs0 where
  reach_start: "client_reach L EQ cs0 cs0"
| reach_update: "client_reach L EQ cs0 cs \<Longrightarrow> CheckHeaderAndUpdateState L EQ cs hdr = Ok (cs', cons) \<Longrightarrow>
     client_reach L EQ cs0 cs'"

lemma update_keeps_sorted:
  assumes "CheckHeaderAndUpdateState L EQ cs hdr = Ok (cs', cons)" "msps_sorted cs"
  shows "msps_sorted cs'"
  using assms(1) by (rule accepted_update) (use update_after_check [OF _ assms(2)] in fastforce)

lemma client_reach_sorted:
  assumes "client_reach L EQ cs0 cs" "msps_sorted cs0"
  shows "msps_sorted cs"
  using assms by induction (auto intro: update_keeps_sorted)

text \<open>No accepted header is about a frozen MSP.\<close>

lemma frozen_untouched:
  assumes "checkValidity L EQ cs h = Ok ()" "msp_table cs k = Some info" "mi_Freezed info"
  shows "k \<notin> mh_MSPID ` set (msp_headers_of h)"
proof
  assume "k \<in> mh_MSPID ` set (msp_headers_of h)"
  then obtain mh where mh: "mh \<in> set (msp_headers_of h)" "mh_MSPID mh = k" by auto
  then have "VerifyMSPHeader L cs mh = Ok ()" using assms(1) by (simp add: checkValidity_iff)
  from VerifyMSPHeader_target [OF this] mh assms(2,3) show False
    by (auto simp: HasMSPID_table FindMSPInfo_table split: if_splits)
qed

lemma update_keeps_frozen:
  assumes "CheckHeaderAndUpdateState L EQ cs hdr = Ok (cs', cons)" "msps_sorted cs"
    and "msp_table cs k = Some info" "mi_Freezed info"
  shows "msp_table cs' k = Some info"
proof -
  from assms(1) obtain h where h: "checkValidity L EQ cs h = Ok ()" "update_client cs h = Ok (cs', cons)"
    by (rule accepted_update)
  from update_after_check [OF h(1) assms(2)] h(2)
  have "msp_table cs' = fold apply_header (msp_headers_of h) (msp_table cs)" by auto
  with frozen_untouched [OF h(1) assms(3,4)] assms(3) show ?thesis by (simp add: fold_headers_other)
qed

text \<open>The configurations that endorsements are verified with are the same without the entry of a frozen MSP.\<close>

lemma msp_configs_without:
  assumes "\<forall>i \<in> set infos. mi_MSPID i = k \<longrightarrow> mi_Freezed i"
  shows "msp_configs unmarshal configs infos = msp_configs unmarshal configs (filter (\<lambda>i. mi_MSPID i \<noteq> k) infos)"
  using assms
proof (induction infos arbitrary: configs)
  case (Cons i infos)
  then have "msp_configs unmarshal acc infos = msp_configs unmarshal acc (filter (\<lambda>i. mi_MSPID i \<noteq> k) infos)" for acc by simp
  with Cons.prems show ?case by (auto split: option.splits)
qed simp

lemma frozen_not_used:
  assumes "msps_sorted cs" "msp_table cs k = Some info" "mi_Freezed info"
  shows "GetMSPPBConfigs unmarshal (cs_LastMspInfos cs) = GetMSPPBConfigs unmarshal \<lparr>mis_Infos = filter (\<lambda>i. mi_MSPID i \<noteq> k) (infos_of cs)\<rparr>"
proof -
  have "distinct (msp_ids (infos_of cs))" using assms(1) by (simp add: msps_sorted_def strict_sorted_iff)
  then have "distinct (map fst (map (\<lambda>i. (mi_MSPID i, i)) (infos_of cs)))" by (simp add: comp_def)
  with assms(2) have "i = info" if "i \<in> set (infos_of cs)" "mi_MSPID i = k" for i
    using map_of_is_SomeI [of "map (\<lambda>i. (mi_MSPID i, i)) (infos_of cs)" k i] that by (force simp: msp_table_def)
  with assms(3) have "\<forall>i \<in> set (infos_of cs). mi_MSPID i = k \<longrightarrow> mi_Freezed i" by blast
  from msp_configs_without [OF this] show ?thesis by (simp add: GetMSPPBConfigs_def infos_of_def)
qed

section \<open>Properties\<close>

text \<open>
  C3: After the validity check has accepted a header, the update never panics (no MSP is missing, no
  header has an unknown type) and does exactly what the header says: the chaincode info and header are
  replaced if given, the table of MSPs is changed by the MSP headers in turn, and the list that
  represents it stays strictly sorted by id.
\<close>

theorem checked_update_refines_table:
  assumes "checkValidity L EQ cs h = Ok ()" "msps_sorted cs"
  shows "\<exists>cs'. update_client cs h =
      Ok (cs', map_option (\<lambda>ch. NewConsensusState (seq_Timestamp (ch_Sequence ch))) (hdr_ChaincodeHeader h))
    \<and> msp_table cs' = fold apply_header (msp_headers_of h) (msp_table cs) \<and> msps_sorted cs'
    \<and> cs_LastChaincodeInfo cs' = (case hdr_ChaincodeInfo h of None \<Rightarrow> cs_LastChaincodeInfo cs | Some ci \<Rightarrow> ci)
    \<and> cs_LastChaincodeHeader cs' = (case hdr_ChaincodeHeader h of None \<Rightarrow> cs_LastChaincodeHeader cs | Some ch \<Rightarrow> ch)
    \<and> cs_Id cs' = cs_Id cs"
  by (rule update_after_check [OF assms])

text \<open>A client that knows \<open>A\<close> and a frozen \<open>F\<close>, and a header that creates \<open>B\<close> and freezes \<open>A\<close>.\<close>

definition demo_client :: ClientState where
  "demo_client = set_infos [NewMSPInfo ''A'' (Some [1]) (Some [2]),
     (NewMSPInfo ''F'' (Some [1]) (Some [2]))\<lparr>mi_Freezed := True\<rparr>] ClientState_zero"

definition demo_header :: Header where
  "demo_header = NewHeader None None (Some (NewMSPHeaders
     [NewMSPHeader MSPHeaderTypeFreeze ''A'' None None (Some MessageProof_zero),
      NewMSPHeader MSPHeaderTypeCreate ''B'' (Some [3]) (Some [4]) (Some MessageProof_zero)]))"

definition demo_lib :: "(unit, unit, unit, unit, unit) fabric_lib" where
  "demo_lib = accepting_lib [] (GetFabricChaincodeID ChaincodeInfo_zero)"

lemma demo_client_sorted: "msps_sorted demo_client"
  by (simp add: msps_sorted_def demo_client_def NewMSPInfo_def less_char_def)

lemma demo_checked: "checkValidity demo_lib (=) demo_client demo_header = Ok ()"
proof -
  have infos: "cs_LastMspInfos demo_client = \<lparr>mis_Infos = infos_of demo_client\<rparr>"
    by (simp add: infos_of_def)
  have "infos_of demo_client = [NewMSPInfo ''A'' (Some [1]) (Some [2]),
      (NewMSPInfo ''F'' (Some [1]) (Some [2]))\<lparr>mi_Freezed := True\<rparr>]"
    by (simp add: demo_client_def)
  then show ?thesis
    unfolding checkValidity_iff
    by (simp add: demo_header_def NewHeader_def NewMSPHeaders_def msp_headers_of_def Header_ValidateBasic_iff
        MSPHeaders_ValidateBasic_iff NewMSPHeader_def MSPHeader_ValidateBasic_def VerifyMSPHeader_def
        verifyMSPFreeze_def verify_existing_msp_def verifyMSPCreate_def infos FindMSPInfo_def HasMSPID_def
        indexOfMSPID_def NewMSPInfo_def GetMSPPBConfigs_def index_def demo_lib_def accepting_lib_def
        MSPHeader_GetSignBytes_enc VerifyEndorsedMessage_def getPolicyEvaluator_def setupVerifyingMSPManager_def
        setupVerifyingMSP_def makeSignedDataList_eq MessageProof_zero_def less_char_def)
qed

theorem checked_update_refines_table_witness:
  "\<exists>cs'. update_client demo_client demo_header = Ok (cs', None) \<and> msps_sorted cs'
     \<and> msp_table cs' = fold apply_header (msp_headers_of demo_header) (msp_table demo_client)"
  using checked_update_refines_table [OF demo_checked demo_client_sorted]
  by (auto simp: demo_header_def NewHeader_def)

text \<open>
  C13: A frozen MSP stays frozen for good and is not used again. Whatever headers a client accepts from some
  state on, the information about an MSP that was frozen there (its configuration and policy included) is
  unchanged; the configurations with which every endorsement is verified are those of the list of MSPs
  without it, so that none of its certificates counts; and no header that is about it is accepted, be
  it to create, to change or to freeze it again.
\<close>

theorem frozen_msp_stays:
  assumes "client_reach L EQ cs0 cs" "msps_sorted cs0" "msp_table cs0 k = Some info" "mi_Freezed info"
  shows "msp_table cs k = Some info
    \<and> GetMSPPBConfigs unmarshal (cs_LastMspInfos cs) = GetMSPPBConfigs unmarshal \<lparr>mis_Infos = filter (\<lambda>i. mi_MSPID i \<noteq> k) (infos_of cs)\<rparr>
    \<and> (checkValidity L EQ cs h = Ok () \<longrightarrow> k \<notin> mh_MSPID ` set (msp_headers_of h))"
proof -
  from assms(1) have "msp_table cs k = Some info"
  proof induction
    case reach_start
    show ?case by (fact assms(3))
  next
    case (reach_update cs hdr cs' cons)
    from client_reach_sorted [OF reach_update(1) assms(2)] reach_update(2,3) assms(4)
    show ?case by (blast intro: update_keeps_frozen)
  qed
  with frozen_not_used [OF client_reach_sorted [OF assms(1,2)] _ assms(4)] frozen_untouched [OF _ _ assms(4)] show ?thesis by blast
qed

lemma demo_accepted: "\<exists>cs'. CheckHeaderAndUpdateState demo_lib (=) demo_client (FabricHeader (Some demo_header)) = Ok (cs', None)"
  using update_after_check [OF demo_checked demo_client_sorted] demo_checked
  by (auto simp: CheckHeaderAndUpdateState_def demo_header_def NewHeader_def)

theorem frozen_msp_stays_witness:
  "\<exists>cs. client_reach demo_lib (=) demo_client cs \<and> cs \<noteq> demo_client \<and> (\<exists>info. msp_table cs ''F'' = Some info \<and> mi_Freezed info)
    \<and> GetMSPPBConfigs (\<lambda>bz. Ok bz) (cs_LastMspInfos cs) = GetMSPPBConfigs (\<lambda>bz. Ok bz) \<lparr>mis_Infos = filter (\<lambda>i. mi_MSPID i \<noteq> ''F'') (infos_of cs)\<rparr>"
proof -
  from demo_accepted obtain cs where cs:
      "CheckHeaderAndUpdateState demo_lib (=) demo_client (FabricHeader (Some demo_header)) = Ok (cs, None)"
    by blast
  let ?info = "(NewMSPInfo ''F'' (Some [1]) (Some [2]))\<lparr>mi_Freezed := True\<rparr>"
  have r: "client_reach demo_lib (=) demo_client cs" using reach_update [OF reach_start cs] .
  have f: "msp_table demo_client ''F'' = Some ?info" "mi_Freezed ?info"
    by (simp_all add: msp_table_def demo_client_def NewMSPInfo_def)
  have n: "msp_table demo_client ''B'' = None"
    by (simp add: msp_table_def demo_client_def NewMSPInfo_def)
  have "msp_table cs ''B'' \<noteq> None"
    using update_after_check [OF demo_checked demo_client_sorted] cs demo_checked
    by (auto simp: CheckHeaderAndUpdateState_def demo_header_def NewHeader_def msp_headers_of_def
        NewMSPHeaders_def apply_header_def NewMSPHeader_def)
  with n have "cs \<noteq> demo_client" by auto
  with r f(2) frozen_msp_stays [OF r demo_client_sorted f, of "\<lambda>bz. Ok bz"] show ?thesis by blast
qed

text \<open>
  C12: Whatever headers a client accepts, its list of MSPs stays strictly sorted, so an id occurs in it
  at most once and the lookups by index find the one entry there is.
\<close>

theorem reachable_msps_sorted:
  assumes "client_reach L EQ cs0 cs" "msps_sorted cs0"
  shows "msps_sorted cs \<and> distinct (msp_ids (infos_of cs))"
  using client_reach_sorted [OF assms] by (simp add: msps_sorted_def strict_sorted_iff)

theorem reachable_msps_sorted_witness:
  "\<exists>cs. client_reach demo_lib (=) demo_client cs \<and> distinct (msp_ids (infos_of cs))"
proof -
  from demo_accepted obtain cs where cs:
      "CheckHeaderAndUpdateState demo_lib (=) demo_client (FabricHeader (Some demo_header)) = Ok (cs, None)"
    by blast
  then have r: "client_reach demo_lib (=) demo_client cs" by (rule reach_update [OF reach_start])
  with reachable_msps_sorted [OF r demo_client_sorted] show ?thesis by blast
qed

text \<open>
  C11: An accepted header that carries a chaincode header advances the height by exactly one and the
  time strictly, stores a consensus state with that time, and had the endorsement of its sequence
  verified against the policy and the MSPs the client knew before; one that carries none leaves
  height and time alone and makes no consensus state.
\<close>

theorem accepted_header_advances:
  assumes "\<And>a b. EQ a b \<longleftrightarrow> a = b"
    and "CheckHeaderAndUpdateState L EQ cs (FabricHeader (Some h)) = Ok (cs', cons)" "msps_sorted cs"
  shows "case hdr_ChaincodeHeader h of
      None \<Rightarrow> cs_LastChaincodeHeader cs' = cs_LastChaincodeHeader cs \<and> cons = None
    | Some ch \<Rightarrow> RevisionHeight (ClientState_GetLatestHeight cs') = RevisionHeight (ClientState_GetLatestHeight cs) + 1
        \<and> sint (ClientState_GetLatestTimestamp cs) < sint (ClientState_GetLatestTimestamp cs')
        \<and> cons = Some (NewConsensusState (ClientState_GetLatestTimestamp cs'))
        \<and> VerifyChaincodeHeader L cs ch = Ok ()"
proof -
  have check: "checkValidity L EQ cs h = Ok ()" and up: "update_client cs h = Ok (cs', cons)"
    using assms(2) by (auto simp: CheckHeaderAndUpdateState_def outcome_simps)
  from update_after_check [OF check assms(3)] up have
      "cs_LastChaincodeHeader cs' = (case hdr_ChaincodeHeader h of None \<Rightarrow> cs_LastChaincodeHeader cs | Some ch \<Rightarrow> ch)"
      "cons = map_option (\<lambda>ch. NewConsensusState (seq_Timestamp (ch_Sequence ch))) (hdr_ChaincodeHeader h)"
    by auto
  moreover have "check_chaincode_header L EQ cs ch = Ok ()" if "hdr_ChaincodeHeader h = Some ch" for ch
    using check that by (simp add: checkValidity_iff)
  ultimately show ?thesis
    by (auto simp: check_chaincode_header_def assms(1) Let_def ClientState_GetLatestHeight_def NewHeight_def
        ClientState_GetLatestTimestamp_def map_err_Ok_unit split: option.splits if_splits)
qed

text \<open>A client at the third sequence, and a header with the fourth, which the peers have written.\<close>

definition demo_next :: ChaincodeHeader where
  "demo_next = \<lparr>ch_Sequence = \<lparr>seq_Value = 4, seq_Timestamp = 105\<rparr>, ch_Proof = CommitmentProof_zero\<rparr>"

definition demo_third :: ClientState where
  "demo_third = demo_client\<lparr>cs_LastChaincodeHeader := \<lparr>ch_Sequence = \<lparr>seq_Value = 3, seq_Timestamp = 100\<rparr>, ch_Proof = CommitmentProof_zero\<rparr>\<rparr>"

definition demo_writes :: "(unit, unit, unit, unit, unit) fabric_lib" where
  "demo_writes = accepting_lib [[(MakeSequenceCommitmentEntryKey 4, Some (Sequence_enc (ch_Sequence demo_next)))]]
     (GetFabricChaincodeID ChaincodeInfo_zero)"

lemma demo_third_sorted: "msps_sorted demo_third"
  using demo_client_sorted by (simp add: msps_sorted_def demo_third_def infos_of_def)

lemma demo_next_verified: "VerifyChaincodeHeader demo_writes demo_third demo_next = Ok ()"
  by (simp add: VerifyChaincodeHeader_def demo_writes_def demo_third_def demo_client_def demo_next_def accepting_lib_def GetMSPPBConfigs_def
      set_infos_def NewMSPInfo_def VerifyEndorsedCommitment_def getPolicyEvaluator_def setupVerifyingMSPManager_def setupVerifyingMSP_def
      ToSignedData_eq CommitmentProof_zero_def getTxReadWriteSetFromProposalResponsePayload_def equalChaincodeID_def
      ensureWriteSetIncludesCommitment_def index_def ClientState_zero_def)

lemma demo_next_accepted:
  "\<exists>cs' cons. CheckHeaderAndUpdateState demo_writes (=) demo_third (FabricHeader (Some (NewHeader (Some demo_next) None None))) = Ok (cs', cons)"
proof -
  have "check_chaincode_header demo_writes (=) demo_third demo_next = Ok ()"
    by (simp add: check_chaincode_header_def demo_next_verified Let_def ClientState_GetLatestTimestamp_def ClientState_GetLatestHeight_def)
      (simp add: demo_third_def demo_next_def NewHeight_def)
  then have v: "checkValidity demo_writes (=) demo_third (NewHeader (Some demo_next) None None) = Ok ()"
    by (simp add: checkValidity_iff NewHeader_def Header_ValidateBasic_iff msp_headers_of_def)
  from update_after_check [OF v demo_third_sorted] v show ?thesis by (auto simp: CheckHeaderAndUpdateState_def)
qed

theorem accepted_header_advances_witness:
  "\<exists>cs'. CheckHeaderAndUpdateState demo_writes (=) demo_third (FabricHeader (Some (NewHeader (Some demo_next) None None)))
       = Ok (cs', Some (NewConsensusState (ClientState_GetLatestTimestamp cs')))
     \<and> RevisionHeight (ClientState_GetLatestHeight cs') = 4 \<and> sint (ClientState_GetLatestTimestamp demo_third) < sint (ClientState_GetLatestTimestamp cs')
     \<and> VerifyChaincodeHeader demo_writes demo_third demo_next = Ok ()"
proof -
  from demo_next_accepted obtain cs' cons where
    cs: "CheckHeaderAndUpdateState demo_writes (=) demo_third (FabricHeader (Some (NewHeader (Some demo_next) None None))) = Ok (cs', cons)"
    by blast
  have "RevisionHeight (ClientState_GetLatestHeight demo_third) = 3" by (simp add: demo_third_def ClientState_GetLatestHeight_def NewHeight_def)
  with accepted_header_advances [OF refl cs demo_third_sorted] cs show ?thesis by (auto simp: NewHeader_def)
qed

end
