(* ===== verification/Client_State.thy ===== *)
theory Client_State
  imports Client_Update
begin

text \<open>
  The client state and the consensus state of the light client: \<open>client_state.go\<close>,
  \<open>consensus_state.go\<close>, \<open>store.go\<close> and \<open>proposal_handle.go\<close> of \<open>light-clients/fabric/types\<close>, with the
  eight verification functions that ibc-go calls to check what the counterparty has committed.
  The functions of ibc-go and of the codec are the record \<open>client_lib\<close>.
\<close>

section \<open>Libraries\<close>

text \<open>An \<open>exported.ConsensusState\<close>: a pointer to a consensus state of this client, or something else.\<close>

datatype any_consensus = FabricConsensus "ConsensusState option" | OtherConsensus

text \<open>
  An \<open>exported.Prefix\<close>: no value, a \<open>*commitmenttypes.MerklePrefix\<close> (a pointer, \<open>None\<close> if it is
  \<open>nil\<close>) with its bytes, or another type.
\<close>

datatype any_prefix = NilPrefix | MerklePrefix "slice option" | OtherPrefix slice

text \<open>
  The type variables are the interface values that ibc-go passes in: client states, consensus
  states, connection ends and channels of any type.
\<close>

record ('cl, 'co, 'conn, 'chan) client_lib =
  Height_LT :: "Height \<Rightarrow> Height \<Rightarrow> bool"
  Height_LTE :: "Height \<Rightarrow> Height \<Rightarrow> bool"
  ConsensusStateKey :: "Height \<Rightarrow> bytes"
  UnmarshalConsensusState :: "bytes \<Rightarrow> any_consensus outcome"
  Unmarshal_CommitmentProof :: "bytes \<Rightarrow> CommitmentProof outcome"
  MarshalClientState :: "'cl \<Rightarrow> bytes outcome"
  MarshalConsensusState :: "'co \<Rightarrow> bytes outcome"
  Marshal_ConnectionEnd :: "'conn \<Rightarrow> bytes outcome"
  Marshal_Channel :: "'chan \<Rightarrow> bytes outcome"
  CommitAcknowledgement :: "bytes \<Rightarrow> bytes"
  ClientIdentifierValidator :: "string \<Rightarrow> unit outcome"
  compact_text_ChaincodeID :: "ChaincodeID \<Rightarrow> string"
  paths :: ibc_lib

definition prefix_bytes :: "any_prefix \<Rightarrow> bytes outcome" where
  "prefix_bytes prefix =
     (case prefix of
        MerklePrefix (Some b) \<Rightarrow> Ok (slice_bytes b)
      | OtherPrefix b \<Rightarrow> Ok (slice_bytes b)
      | _ \<Rightarrow> Panic ''invalid memory address or nil pointer dereference'')"

section \<open>Consensus states\<close>

definition Fabric :: string where
  "Fabric = ''hyperledgerfabric''"

definition ErrInvalidConsensus :: error where
  "ErrInvalidConsensus = ErrorRoot ''invalid consensus state''"

definition ConsensusState_ClientType :: "ConsensusState \<Rightarrow> string" where
  "ConsensusState_ClientType cs = Fabric"

text \<open>The root is \<open>nil\<close>: this client has no commitment root.\<close>

definition ConsensusState_GetRoot :: "ConsensusState \<Rightarrow> bytes option" where
  "ConsensusState_GetRoot cs = None"

text \<open>\<open>uint64(cs.Timestamp)\<close> keeps the bits.\<close>

definition ConsensusState_GetTimestamp :: "ConsensusState \<Rightarrow> u64" where
  "ConsensusState_GetTimestamp cs = cons_Timestamp cs"

definition ConsensusState_ValidateBasic :: "ConsensusState \<Rightarrow> unit outcome" where
  "ConsensusState_ValidateBasic cs =
     (if cons_Timestamp cs = 0 then Err (ErrorWrap ErrInvalidConsensus ''timestamp cannot be zero Unix time'')
      else Ok ())"

text \<open>The client store is its method \<open>Get\<close>.\<close>

definition GetConsensusState ::
    "('cl, 'co, 'conn, 'chan) client_lib \<Rightarrow> (bytes \<Rightarrow> slice outcome) \<Rightarrow> Height \<Rightarrow> ConsensusState option outcome" where
  "GetConsensusState C kvstore height =
     and_then (kvstore (ConsensusStateKey C height)) (\<lambda>bz.
       case bz of
         None \<Rightarrow> Err (ErrorWrap (ErrorRoot ''consensus state not found'') ''consensus state does not exist for height %s'')
       | Some b \<Rightarrow>
           and_then (map_err (\<lambda>_. ErrorWrap ErrInvalidConsensus ''unmarshal error: %v'') (UnmarshalConsensusState C b))
             (\<lambda>consensusStateI.
               case consensusStateI of
                 FabricConsensus cs \<Rightarrow> Ok cs
               | OtherConsensus \<Rightarrow> Err (ErrorWrap ErrInvalidConsensus ''invalid consensus type %T, expected %T'')))"

section \<open>The client state\<close>

definition NewClientState :: "string \<Rightarrow> ChaincodeHeader \<Rightarrow> ChaincodeInfo \<Rightarrow> MSPInfos \<Rightarrow> ClientState" where
  "NewClientState i chaincodeHeader chaincodeInfo mspInfos =
     \<lparr>cs_Id = i, cs_LastChaincodeHeader = chaincodeHeader, cs_LastChaincodeInfo = chaincodeInfo,
      cs_LastMspInfos = mspInfos\<rparr>"

definition ClientState_GetID :: "ClientState \<Rightarrow> string" where
  "ClientState_GetID cs = cs_Id cs"

definition ClientState_GetChainID :: "('cl, 'co, 'conn, 'chan) client_lib \<Rightarrow> ClientState \<Rightarrow> string" where
  "ClientState_GetChainID C cs = ChaincodeInfo_GetChainID (compact_text_ChaincodeID C) (cs_LastChaincodeInfo cs)"

definition ClientState_ClientType :: "ClientState \<Rightarrow> string" where
  "ClientState_ClientType cs = Fabric"

definition ClientState_IsFrozen :: "ClientState \<Rightarrow> bool" where
  "ClientState_IsFrozen cs = False"

definition ClientState_Validate :: "('cl, 'co, 'conn, 'chan) client_lib \<Rightarrow> ClientState \<Rightarrow> unit outcome" where
  "ClientState_Validate C cs =
     (if trim_space (ClientState_GetChainID C cs) = '''' then Err (ErrorNew ''chain id cannot be blank'')
      else if Height_LTE C (ClientState_GetLatestHeight cs) (NewHeight 0 0)
      then Err (ErrorNew ''height must be '>=': %d'')
      else ClientIdentifierValidator C (cs_Id cs))"

definition ClientState_GetProofSpecs :: "ClientState \<Rightarrow> unit list option" where
  "ClientState_GetProofSpecs cs = None"

definition ClientState_ZeroCustomFields :: "ClientState \<Rightarrow> ClientState" where
  "ClientState_ZeroCustomFields cs =
     NewClientState (cs_Id cs) (cs_LastChaincodeHeader cs) (cs_LastChaincodeInfo cs) (cs_LastMspInfos cs)"

definition ClientState_ExportMetadata :: "ClientState \<Rightarrow> (bytes \<times> bytes) list" where
  "ClientState_ExportMetadata cs = []"

definition ClientState_Status :: "ClientState \<Rightarrow> string" where
  "ClientState_Status cs = ''Active''"

definition ClientState_Initialize :: "ClientState \<Rightarrow> any_consensus \<Rightarrow> unit outcome" where
  "ClientState_Initialize cs consState =
     (case consState of
        FabricConsensus _ \<Rightarrow> Ok ()
      | OtherConsensus \<Rightarrow>
          Err (ErrorWrap ErrInvalidConsensus ''invalid initial consensus state. expected type: %T, got: %T''))"

definition ClientState_VerifyUpgradeAndUpdateState :: "ClientState \<Rightarrow> (ClientState \<times> ConsensusState) outcome" where
  "ClientState_VerifyUpgradeAndUpdateState cs =
     Err (ErrorWrap (ErrorRoot ''invalid client upgrade'') ''cannot upgrade fabric client'')"

definition ClientState_CheckMisbehaviourAndUpdateState :: "ClientState \<Rightarrow> ClientState outcome" where
  "ClientState_CheckMisbehaviourAndUpdateState cs = Panic ''unsupported operation''"

definition ClientState_CheckSubstituteAndUpdateState :: "ClientState \<Rightarrow> ClientState outcome" where
  "ClientState_CheckSubstituteAndUpdateState cs = Panic ''not implemented error''"

section \<open>Verification functions\<close>

definition ErrInvalidPrefix :: error where
  "ErrInvalidPrefix = ErrorRoot ''invalid prefix''"

definition ErrInvalidProof :: error where
  "ErrInvalidProof = ErrorRoot ''invalid proof''"

definition produceVerificationArgs ::
    "('cl, 'co, 'conn, 'chan) client_lib \<Rightarrow> (bytes \<Rightarrow> slice outcome) \<Rightarrow> ClientState \<Rightarrow> Height \<Rightarrow> any_prefix \<Rightarrow> slice
       \<Rightarrow> (CommitmentProof \<times> ConsensusState option) outcome" where
  "produceVerificationArgs C kvstore cs height prefix p =
     (if Height_LT C (ClientState_GetLatestHeight cs) height
      then Err (ErrorWrap (ErrorRoot ''invalid height'') ''client state height < proof height (%d < %d)'')
      else if ClientState_IsFrozen cs then Err (ErrorRoot ''light client is frozen due to misbehaviour'')
      else case prefix of
        NilPrefix \<Rightarrow> Err (ErrorWrap ErrInvalidPrefix ''prefix cannot be empty'')
      | OtherPrefix _ \<Rightarrow> Err (ErrorWrap ErrInvalidPrefix ''invalid prefix type %T, expected *MerklePrefix'')
      | MerklePrefix _ \<Rightarrow>
          (case p of
             None \<Rightarrow> Err (ErrorWrap ErrInvalidProof ''proof cannot be empty'')
           | Some bz \<Rightarrow>
               and_then (map_err
                   (\<lambda>_. ErrorWrap ErrInvalidProof ''failed to unmarshal proof into commitment merkle proof'')
                   (Unmarshal_CommitmentProof C bz)) (\<lambda>commitmentProof.
                 and_then (GetConsensusState C kvstore height) (\<lambda>consensusState.
                   Ok (commitmentProof, consensusState)))))"

text \<open>The end of every verification function.\<close>

definition verify_entry ::
    "('c, 'm, 'g, 'e, 'p) fabric_lib \<Rightarrow> ClientState \<Rightarrow> CommitmentProof \<Rightarrow> string \<Rightarrow> bytes \<Rightarrow> 'c list \<Rightarrow> unit outcome" where
  "verify_entry L cs fabProof key bz configs =
     and_then (VerifyEndorsedCommitment L (GetFabricChaincodeID (cs_LastChaincodeInfo cs))
         (ci_EndorsementPolicy (cs_LastChaincodeInfo cs)) fabProof key bz configs) (\<lambda>ok.
       if \<not> ok then Err (ErrorNew ''unexpected value'') else Ok ())"

definition VerifyClientState ::
    "('c, 'm, 'g, 'e, 'p) fabric_lib \<Rightarrow> ('cl, 'co, 'conn, 'chan) client_lib \<Rightarrow> (bytes \<Rightarrow> slice outcome) \<Rightarrow> ClientState
       \<Rightarrow> Height \<Rightarrow> any_prefix \<Rightarrow> string \<Rightarrow> slice \<Rightarrow> 'cl option \<Rightarrow> unit outcome" where
  "VerifyClientState L C kvstore cs height prefix counterpartyClientIdentifier p clientState =
     and_then (produceVerificationArgs C kvstore cs height prefix p) (\<lambda>(fabProof, _).
       case clientState of
         None \<Rightarrow> Err (ErrorWrap (ErrorRoot ''light client is invalid'') ''client state cannot be empty'')
       | Some cl \<Rightarrow>
           and_then (MarshalClientState C cl) (\<lambda>bz.
             and_then (GetMSPPBConfigs (unmarshal_MSPConfig L) (cs_LastMspInfos cs)) (\<lambda>configs.
               and_then (prefix_bytes prefix) (\<lambda>pb.
                 verify_entry L cs fabProof
                   (MakeClientStateCommitmentEntryKey pb counterpartyClientIdentifier) bz configs))))"

definition VerifyClientConsensusState ::
    "('c, 'm, 'g, 'e, 'p) fabric_lib \<Rightarrow> ('cl, 'co, 'conn, 'chan) client_lib \<Rightarrow> (bytes \<Rightarrow> slice outcome) \<Rightarrow> ClientState
       \<Rightarrow> Height \<Rightarrow> string \<Rightarrow> Height \<Rightarrow> any_prefix \<Rightarrow> slice \<Rightarrow> 'co \<Rightarrow> unit outcome" where
  "VerifyClientConsensusState L C kvstore cs height counterpartyClientIdentifier consensusHeight prefix p consensusState =
     and_then (produceVerificationArgs C kvstore cs height prefix p) (\<lambda>(fabProof, _).
       and_then (MarshalConsensusState C consensusState) (\<lambda>bz.
         and_then (GetMSPPBConfigs (unmarshal_MSPConfig L) (cs_LastMspInfos cs)) (\<lambda>configs.
           and_then (prefix_bytes prefix) (\<lambda>pb.
             verify_entry L cs fabProof
               (MakeConsensusStateCommitmentEntryKey (paths C) pb counterpartyClientIdentifier consensusHeight)
               bz configs))))"

text \<open>A connection end or channel of a type other than that of ibc-go is \<open>None\<close>.\<close>

definition VerifyConnectionState ::
    "('c, 'm, 'g, 'e, 'p) fabric_lib \<Rightarrow> ('cl, 'co, 'conn, 'chan) client_lib \<Rightarrow> (bytes \<Rightarrow> slice outcome) \<Rightarrow> ClientState
       \<Rightarrow> Height \<Rightarrow> any_prefix \<Rightarrow> slice \<Rightarrow> string \<Rightarrow> 'conn option \<Rightarrow> unit outcome" where
  "VerifyConnectionState L C kvstore cs height prefix p connectionID connectionEnd =
     and_then (produceVerificationArgs C kvstore cs height prefix p) (\<lambda>(fabProof, _).
       and_then (prefix_bytes prefix) (\<lambda>pb.
         let key = MakeConnectionStateCommitmentEntryKey (paths C) pb connectionID
         in case connectionEnd of
           None \<Rightarrow> Err (ErrorWrap (ErrorRoot ''invalid type'') ''invalid connection type %T'')
         | Some connection \<Rightarrow>
             and_then (Marshal_ConnectionEnd C connection) (\<lambda>bz.
               and_then (GetMSPPBConfigs (unmarshal_MSPConfig L) (cs_LastMspInfos cs)) (\<lambda>configs.
                 verify_entry L cs fabProof key bz configs))))"

definition VerifyChannelState ::
    "('c, 'm, 'g, 'e, 'p) fabric_lib \<Rightarrow> ('cl, 'co, 'conn, 'chan) client_lib \<Rightarrow> (bytes \<Rightarrow> slice outcome) \<Rightarrow> ClientState
       \<Rightarrow> Height \<Rightarrow> any_prefix \<Rightarrow> slice \<Rightarrow> string \<Rightarrow> string \<Rightarrow> 'chan option \<Rightarrow> unit outcome" where
  "VerifyChannelState L C kvstore cs height prefix p portID channelID channel =
     and_then (produceVerificationArgs C kvstore cs height prefix p) (\<lambda>(fabProof, _).
       and_then (prefix_bytes prefix) (\<lambda>pb.
         let key = MakeChannelStateCommitmentEntryKey (paths C) pb portID channelID
         in case channel of
           None \<Rightarrow> Err (ErrorWrap (ErrorRoot ''invalid type'') ''invalid channel type %T'')
         | Some channelEnd \<Rightarrow>
             and_then (Marshal_Channel C channelEnd) (\<lambda>bz.
               and_then (GetMSPPBConfigs (unmarshal_MSPConfig L) (cs_LastMspInfos cs)) (\<lambda>configs.
                 verify_entry L cs fabProof key bz configs))))"

text \<open>
  The delay periods are arguments of the four functions about packets, and none of them reads them.
\<close>

definition VerifyPacketCommitment ::
    "('c, 'm, 'g, 'e, 'p) fabric_lib \<Rightarrow> ('cl, 'co, 'conn, 'chan) client_lib \<Rightarrow> (bytes \<Rightarrow> slice outcome) \<Rightarrow> ClientState
       \<Rightarrow> Height \<Rightarrow> u64 \<Rightarrow> u64 \<Rightarrow> any_prefix \<Rightarrow> slice \<Rightarrow> string \<Rightarrow> string \<Rightarrow> u64 \<Rightarrow> bytes \<Rightarrow> unit outcome" where
  "VerifyPacketCommitment L C kvstore cs height delayTimePeriod delayBlockPeriod prefix p portID channelID sequence
       commitmentBytes =
     and_then (produceVerificationArgs C kvstore cs height prefix p) (\<lambda>(fabProof, _).
       and_then (GetMSPPBConfigs (unmarshal_MSPConfig L) (cs_LastMspInfos cs)) (\<lambda>configs.
         and_then (prefix_bytes prefix) (\<lambda>pb.
           verify_entry L cs fabProof (MakePacketCommitmentEntryKey (paths C) pb portID channelID sequence)
             commitmentBytes configs)))"

definition VerifyPacketAcknowledgement ::
    "('c, 'm, 'g, 'e, 'p) fabric_lib \<Rightarrow> ('cl, 'co, 'conn, 'chan) client_lib \<Rightarrow> (bytes \<Rightarrow> slice outcome) \<Rightarrow> ClientState
       \<Rightarrow> Height \<Rightarrow> u64 \<Rightarrow> u64 \<Rightarrow> any_prefix \<Rightarrow> slice \<Rightarrow> string \<Rightarrow> string \<Rightarrow> u64 \<Rightarrow> bytes \<Rightarrow> unit outcome" where
  "VerifyPacketAcknowledgement L C kvstore cs height delayTimePeriod delayBlockPeriod prefix p portID channelID sequence
       acknowledgement =
     and_then (produceVerificationArgs C kvstore cs height prefix p) (\<lambda>(fabProof, _).
       and_then (GetMSPPBConfigs (unmarshal_MSPConfig L) (cs_LastMspInfos cs)) (\<lambda>configs.
         and_then (prefix_bytes prefix) (\<lambda>pb.
           verify_entry L cs fabProof (MakePacketAcknowledgementEntryKey (paths C) pb portID channelID sequence)
             (CommitAcknowledgement C acknowledgement) configs)))"

definition VerifyPacketReceiptAbsence ::
    "('c, 'm, 'g, 'e, 'p) fabric_lib \<Rightarrow> ('cl, 'co, 'conn, 'chan) client_lib \<Rightarrow> (bytes \<Rightarrow> slice outcome) \<Rightarrow> ClientState
       \<Rightarrow> Height \<Rightarrow> u64 \<Rightarrow> u64 \<Rightarrow> any_prefix \<Rightarrow> slice \<Rightarrow> string \<Rightarrow> string \<Rightarrow> u64 \<Rightarrow> unit outcome" where
  "VerifyPacketReceiptAbsence L C kvstore cs height delayTimePeriod delayBlockPeriod prefix p portID channelID sequence =
     and_then (produceVerificationArgs C kvstore cs height prefix p) (\<lambda>(fabProof, _).
       and_then (GetMSPPBConfigs (unmarshal_MSPConfig L) (cs_LastMspInfos cs)) (\<lambda>configs.
         and_then (prefix_bytes prefix) (\<lambda>pb.
           verify_entry L cs fabProof (MakePacketReceiptAbsenceEntryKey (paths C) pb portID channelID sequence)
             [0] configs)))"

definition VerifyNextSequenceRecv ::
    "('c, 'm, 'g, 'e, 'p) fabric_lib \<Rightarrow> ('cl, 'co, 'conn, 'chan) client_lib \<Rightarrow> (bytes \<Rightarrow> slice outcome) \<Rightarrow> ClientState
       \<Rightarrow> Height \<Rightarrow> u64 \<Rightarrow> u64 \<Rightarrow> any_prefix \<Rightarrow> slice \<Rightarrow> string \<Rightarrow> string \<Rightarrow> u64 \<Rightarrow> unit outcome" where
  "VerifyNextSequenceRecv L C kvstore cs height delayTimePeriod delayBlockPeriod prefix p portID channelID
       nextSequenceRecv =
     and_then (produceVerificationArgs C kvstore cs height prefix p) (\<lambda>(fabProof, _).
       and_then (GetMSPPBConfigs (unmarshal_MSPConfig L) (cs_LastMspInfos cs)) (\<lambda>configs.
         and_then (prefix_bytes prefix) (\<lambda>pb.
           verify_entry L cs fabProof (MakeNextSequenceRecvEntryKey (paths C) pb portID channelID)
             (Uint64ToBigEndian (paths C) nextSequenceRecv) configs)))"

section \<open>Lemmas\<close>

lemma chain_id_not_blank: "trim_space (ClientState_GetChainID C cs) \<noteq> []"
proof
  have "CHR ''/'' \<in> set (trim_space (ClientState_GetChainID C cs))"
    by (rule trim_space_slash) (simp add: ClientState_GetChainID_def ChaincodeInfo_GetChainID_def)
  moreover assume "trim_space (ClientState_GetChainID C cs) = []"
  ultimately show False by simp
qed

text \<open>
  The arguments are accepted when the proof height is not above the client, the prefix and the proof
  are there, and a consensus state is stored for the proof height.
\<close>

lemma produceVerificationArgs_Ok:
  "produceVerificationArgs C kvstore cs height prefix p = Ok (cp, cons) \<longleftrightarrow>
     \<not> Height_LT C (ClientState_GetLatestHeight cs) height
     \<and> (\<exists>m. prefix = MerklePrefix m)
     \<and> (\<exists>bz. p = Some bz \<and> Unmarshal_CommitmentProof C bz = Ok cp)
     \<and> GetConsensusState C kvstore height = Ok cons"
  by (auto simp: produceVerificationArgs_def ClientState_IsFrozen_def outcome_simps
      split: any_prefix.splits option.splits)

lemma verify_entry_Ok:
  "verify_entry L cs cp key bz configs = Ok () \<longleftrightarrow>
     VerifyEndorsedCommitment L (GetFabricChaincodeID (cs_LastChaincodeInfo cs))
       (ci_EndorsementPolicy (cs_LastChaincodeInfo cs)) cp key bz configs = Ok True"
  by (auto simp: verify_entry_def outcome_simps split: if_splits)

lemma prefix_bytes_merkle: "prefix_bytes (MerklePrefix m) = Ok pb \<longleftrightarrow> (\<exists>b. m = Some b \<and> pb = slice_bytes b)"
  by (auto simp: prefix_bytes_def split: option.splits)


section \<open>What a verified proof says\<close>

text \<open>
  The meaning shared by the verification functions: the proof decodes, a consensus state is known at its
  height, and it is an endorsement of the value at the key by the chaincode of the client under its
  policy and its MSPs.
\<close>

definition committed ::
    "('c, 'm, 'g, 'e, 'p) fabric_lib \<Rightarrow> ('cl, 'co, 'conn, 'chan) client_lib \<Rightarrow> (bytes \<Rightarrow> slice outcome) \<Rightarrow> ClientState
       \<Rightarrow> Height \<Rightarrow> slice \<Rightarrow> string \<Rightarrow> bytes \<Rightarrow> bool" where
  "committed L C kvstore cs height p key v \<longleftrightarrow>
     \<not> Height_LT C (ClientState_GetLatestHeight cs) height
     \<and> (\<exists>cons. GetConsensusState C kvstore height = Ok cons)
     \<and> (\<exists>bz cp configs. p = Some bz \<and> Unmarshal_CommitmentProof C bz = Ok cp
          \<and> GetMSPPBConfigs (unmarshal_MSPConfig L) (cs_LastMspInfos cs) = Ok configs
          \<and> VerifyEndorsedCommitment L (GetFabricChaincodeID (cs_LastChaincodeInfo cs))
              (ci_EndorsementPolicy (cs_LastChaincodeInfo cs)) cp key v configs = Ok True)"

text \<open>What ibc-go can ask a client to verify.\<close>

datatype ('cl, 'co, 'conn, 'chan) claim =
    ClientStateClaim string "'cl option"
  | ConsensusStateClaim string Height 'co
  | ConnectionClaim string "'conn option"
  | ChannelClaim string string "'chan option"
  | PacketClaim string string u64 bytes
  | AcknowledgementClaim string string u64 bytes
  | ReceiptAbsenceClaim string string u64
  | NextSequenceRecvClaim string string u64

fun verify_claim ::
    "('c, 'm, 'g, 'e, 'p) fabric_lib \<Rightarrow> ('cl, 'co, 'conn, 'chan) client_lib \<Rightarrow> (bytes \<Rightarrow> slice outcome) \<Rightarrow> ClientState
       \<Rightarrow> Height \<Rightarrow> any_prefix \<Rightarrow> slice \<Rightarrow> ('cl, 'co, 'conn, 'chan) claim \<Rightarrow> unit outcome" where
  "verify_claim L C kvstore cs h prefix p (ClientStateClaim i cl) = VerifyClientState L C kvstore cs h prefix i p cl"
| "verify_claim L C kvstore cs h prefix p (ConsensusStateClaim i ch co) =
     VerifyClientConsensusState L C kvstore cs h i ch prefix p co"
| "verify_claim L C kvstore cs h prefix p (ConnectionClaim i c) = VerifyConnectionState L C kvstore cs h prefix p i c"
| "verify_claim L C kvstore cs h prefix p (ChannelClaim q i c) = VerifyChannelState L C kvstore cs h prefix p q i c"
| "verify_claim L C kvstore cs h prefix p (PacketClaim q i n v) =
     VerifyPacketCommitment L C kvstore cs h 0 0 prefix p q i n v"
| "verify_claim L C kvstore cs h prefix p (AcknowledgementClaim q i n v) =
     VerifyPacketAcknowledgement L C kvstore cs h 0 0 prefix p q i n v"
| "verify_claim L C kvstore cs h prefix p (ReceiptAbsenceClaim q i n) =
     VerifyPacketReceiptAbsence L C kvstore cs h 0 0 prefix p q i n"
| "verify_claim L C kvstore cs h prefix p (NextSequenceRecvClaim q i n) =
     VerifyNextSequenceRecv L C kvstore cs h 0 0 prefix p q i n"

fun claim_subject :: "('cl, 'co, 'conn, 'chan) claim \<Rightarrow> subject" where
  "claim_subject (ClientStateClaim i cl) = ClientStateOf i"
| "claim_subject (ConsensusStateClaim i ch co) = ConsensusStateOf i ch"
| "claim_subject (ConnectionClaim i c) = ConnectionOf i"
| "claim_subject (ChannelClaim q i c) = ChannelOf q i"
| "claim_subject (PacketClaim q i n v) = PacketOf q i n"
| "claim_subject (AcknowledgementClaim q i n v) = AcknowledgementOf q i n"
| "claim_subject (ReceiptAbsenceClaim q i n) = ReceiptAbsenceOf q i n"
| "claim_subject (NextSequenceRecvClaim q i n) = NextSequenceRecvOf q i"

definition optional_bytes :: "('a \<Rightarrow> bytes outcome) \<Rightarrow> 'a option \<Rightarrow> bytes option" where
  "optional_bytes f x =
     (case x of None \<Rightarrow> None | Some y \<Rightarrow> (case f y of Ok b \<Rightarrow> Some b | _ \<Rightarrow> None))"

text \<open>The bytes that have to be committed, if the value of the claim can be encoded.\<close>

fun claim_value :: "('cl, 'co, 'conn, 'chan) client_lib \<Rightarrow> ('cl, 'co, 'conn, 'chan) claim \<Rightarrow> bytes option" where
  "claim_value C (ClientStateClaim i cl) = optional_bytes (MarshalClientState C) cl"
| "claim_value C (ConsensusStateClaim i ch co) = optional_bytes (MarshalConsensusState C) (Some co)"
| "claim_value C (ConnectionClaim i c) = optional_bytes (Marshal_ConnectionEnd C) c"
| "claim_value C (ChannelClaim q i c) = optional_bytes (Marshal_Channel C) c"
| "claim_value C (PacketClaim q i n v) = Some v"
| "claim_value C (AcknowledgementClaim q i n v) = Some (CommitAcknowledgement C v)"
| "claim_value C (ReceiptAbsenceClaim q i n) = Some [0]"
| "claim_value C (NextSequenceRecvClaim q i n) = Some (Uint64ToBigEndian (paths C) n)"

lemma optional_bytes_Some: "optional_bytes f x = Some v \<longleftrightarrow> (\<exists>y. x = Some y \<and> f y = Ok v)"
  by (auto simp: optional_bytes_def split: outcome.splits option.splits)

lemmas verify_defs = VerifyClientState_def VerifyClientConsensusState_def VerifyConnectionState_def
  VerifyChannelState_def VerifyPacketCommitment_def VerifyPacketAcknowledgement_def
  VerifyPacketReceiptAbsence_def VerifyNextSequenceRecv_def

lemma verify_claim_iff:
  "verify_claim L C kvstore cs h prefix p x = Ok () \<longleftrightarrow>
     (\<exists>b v. prefix = MerklePrefix (Some b) \<and> claim_value C x = Some v
        \<and> committed L C kvstore cs h p (subject_key (paths C) (slice_bytes b) (claim_subject x)) v)"
  by (cases x)
    (auto simp: verify_defs committed_def outcome_simps produceVerificationArgs_Ok verify_entry_Ok
      prefix_bytes_merkle optional_bytes_Some Let_def split: option.splits)

text \<open>A proof points to one write of one proposal, so it commits to one key and one value.\<close>

lemma committed_unique:
  assumes "committed L C kvstore cs h p key v" "committed L C kvstore' cs' h' p key' v'"
  shows "key = key' \<and> v = v'"
  using assms by (fastforce simp: committed_def VerifyEndorsedCommitment_Ok endorsed_def ensureWriteSet_Ok)


text \<open>A library of ibc-go under which heights compare by revision and height and the generated codec is used.\<close>

definition height_le :: "Height \<Rightarrow> Height \<Rightarrow> bool" where
  "height_le a b \<longleftrightarrow> RevisionNumber a < RevisionNumber b
     \<or> RevisionNumber a = RevisionNumber b \<and> RevisionHeight a \<le> RevisionHeight b"

definition plain_client_lib :: "(bytes, bytes, bytes, bytes) client_lib" where
  "plain_client_lib =
     \<lparr>Height_LT = (\<lambda>a b. \<not> height_le b a), Height_LTE = height_le,
      ConsensusStateKey = (\<lambda>h. bytes_of_string (ConsensusStatePath standard_lib h)),
      UnmarshalConsensusState = (\<lambda>b. and_then (ConsensusState_Unmarshal b ConsensusState_zero)
        (\<lambda>c. Ok (FabricConsensus (Some c)))),
      Unmarshal_CommitmentProof = (\<lambda>b. CommitmentProof_Unmarshal b CommitmentProof_zero),
      MarshalClientState = Ok, MarshalConsensusState = Ok, Marshal_ConnectionEnd = Ok, Marshal_Channel = Ok,
      CommitAcknowledgement = (\<lambda>b. b),
      ClientIdentifierValidator = (\<lambda>i. require (i \<noteq> '''') (ErrorNew ''identifier cannot be blank'')),
      compact_text_ChaincodeID = ccid_Name, paths = standard_lib\<rparr>"

lemma demo_unmarshal:
  "CommitmentProof_Unmarshal [] CommitmentProof_zero = Ok CommitmentProof_zero"
  "ConsensusState_Unmarshal [] ConsensusState_zero = Ok ConsensusState_zero"
  by (simp_all add: CommitmentProof_Unmarshal_def ConsensusState_Unmarshal_def unmarshal_with_def
      unmarshal_loop.simps)

section \<open>Properties\<close>

text \<open>
  C6: The eight verification functions accept exactly what they should. Each of them succeeds if and
  only if the prefix is a Merkle prefix, the value in question has an encoding, the proof height is not
  above the client and has a consensus state, the proof decodes, and it is an endorsement, by the
  chaincode of the client under its endorsement policy and MSPs, of that encoding at the key of that
  subject.
\<close>

theorem claim_verified_iff:
  "verify_claim L C kvstore cs h prefix p x = Ok () \<longleftrightarrow>
     (\<exists>b v. prefix = MerklePrefix (Some b) \<and> claim_value C x = Some v
        \<and> committed L C kvstore cs h p (subject_key (paths C) (slice_bytes b) (claim_subject x)) v)"
  by (rule verify_claim_iff)

text \<open>
  C7: A proof binds what it proves. Whatever client states, stores and heights are used, a proof that
  verifies two claims under one prefix verifies the same claim twice: the two are about the same
  subject and the committed bytes are the same. In particular a proof of a packet commitment is never
  a proof of an acknowledgement, of a receipt absence or of another packet.
\<close>

theorem proof_binds_claim:
  assumes "ics24_paths (paths C)"
    and "plain_subject (claim_subject x)" "plain_subject (claim_subject y)"
    and "verify_claim L C kvstore cs h prefix p x = Ok ()" "verify_claim L C kvstore' cs' h' prefix p y = Ok ()"
  shows "claim_subject x = claim_subject y \<and> claim_value C x = claim_value C y"
proof -
  from assms(4,5) obtain b v v' where
      "committed L C kvstore cs h p (subject_key (paths C) (slice_bytes b) (claim_subject x)) v"
      "committed L C kvstore' cs' h' p (subject_key (paths C) (slice_bytes b) (claim_subject y)) v'"
      "claim_value C x = Some v" "claim_value C y = Some v'"
    by (auto simp: verify_claim_iff)
  with committed_unique subject_key_injective [OF assms(1-3)] show ?thesis by (metis (no_types))
qed

definition demo_packet_lib :: "(unit, unit, unit, unit, unit) fabric_lib" where
  "demo_packet_lib = accepting_lib
     [[(MakePacketCommitmentEntryKey standard_lib (bytes_of_string ''ibc'') ''p'' ''c'' 1, Some [7])]]
     (GetFabricChaincodeID ChaincodeInfo_zero)"

lemma demo_proof [simp]:
  "cp_NsIndex CommitmentProof_zero = 0" "cp_WriteSetIndex CommitmentProof_zero = 0"
  "cp_Signatures CommitmentProof_zero = []" "cp_Identities CommitmentProof_zero = []"
  by (simp_all add: CommitmentProof_zero_def)

lemma demo_packet_verified:
  "verify_claim demo_packet_lib plain_client_lib (\<lambda>_. Ok (Some [])) ClientState_zero (NewHeight 0 0)
     (MerklePrefix (Some (Some (bytes_of_string ''ibc'')))) (Some []) (PacketClaim ''p'' ''c'' 1 [7]) = Ok ()"
  unfolding verify_claim_iff
  by (auto simp: committed_def plain_client_lib_def demo_unmarshal GetConsensusState_def
      height_le_def NewHeight_def demo_packet_lib_def accepting_lib_def VerifyEndorsedCommitment_Ok endorsed_def
      ensureWriteSet_Ok getPolicyEvaluator_def setupVerifyingMSPManager_def GetMSPPBConfigs_def
      getTxReadWriteSetFromProposalResponsePayload_def ClientState_zero_def
      MSPInfos_zero_def ClientState_GetLatestHeight_def demo_proof)

theorem proof_binds_claim_witness:
  "plain_subject (PacketOf ''p'' ''c'' 1) \<and>
   verify_claim demo_packet_lib plain_client_lib (\<lambda>_. Ok (Some [])) ClientState_zero (NewHeight 0 0)
     (MerklePrefix (Some (Some (bytes_of_string ''ibc'')))) (Some []) (AcknowledgementClaim ''p'' ''c'' 1 [7]) \<noteq> Ok ()"
proof -
  have l: "ics24_paths (paths plain_client_lib)" by (simp add: plain_client_lib_def standard_lib_paths)
  have pl: "plain_subject (claim_subject (PacketClaim ''p'' ''c'' 1 [7]))"
      "plain_subject (claim_subject (AcknowledgementClaim ''p'' ''c'' 1 [7]))"
    by (simp_all add: plain_def)
  show ?thesis using proof_binds_claim [OF l pl demo_packet_verified] by (auto simp: plain_def)
qed

text \<open>
  A client state is valid exactly when its height is not zero and its id is a valid client
  identifier. The test for a blank chain id never fires, since a chain id always has a \<open>/\<close> in it.
\<close>

theorem client_state_validation:
  assumes "\<And>a b. Height_LTE C a b \<longleftrightarrow> height_le a b"
  shows "ClientState_Validate C cs = Ok () \<longleftrightarrow>
    seq_Value (ch_Sequence (cs_LastChaincodeHeader cs)) \<noteq> 0 \<and> ClientIdentifierValidator C (cs_Id cs) = Ok ()"
  by (auto simp: ClientState_Validate_def chain_id_not_blank assms height_le_def NewHeight_def
      ClientState_GetLatestHeight_def)

theorem client_state_validation_witness:
  "ClientState_Validate plain_client_lib ClientState_zero \<noteq> Ok ()"
proof -
  have "Height_LTE plain_client_lib a b \<longleftrightarrow> height_le a b" for a b by (simp add: plain_client_lib_def)
  from client_state_validation [OF this] show ?thesis by (simp add: plain_client_lib_def ClientState_zero_def)
qed

end
