(* ===== verification/Chaincode.thy ===== *)
theory Chaincode
  imports App_Runner Packet_Events Client_State
begin

text \<open>
  The contract functions of \<open>chaincode/chaincode.go\<close>. A transaction of the application is run and its
  events are handled; an endorsement reads the state of the application and writes one commitment
  entry, which the counterparty can verify from the write set of the endorsed simulation.
\<close>

section \<open>The chaincode\<close>

text \<open>
  What the chaincode uses of libraries: the functions of ibc-go, with the codec of the application in
  them, the store key of \<open>24-host\<close>, and JSON.
\<close>

record ('cl, 'co, 'conn, 'chan) chaincode_lib =
  ibc_client_lib :: "('cl, 'co, 'conn, 'chan) client_lib"
  host_StoreKey :: string
  json_Marshal_Events :: "Event list \<Rightarrow> bytes outcome"
  json_Unmarshal_RequestQuery :: "bytes \<Rightarrow> chaincode_RequestQuery outcome"

definition EventIBC :: string where
  "EventIBC = ''ibc''"

record ('db, 'ah, 's, 'app) IBCChaincode =
  sequenceMgr :: "'s SequenceManager"
  runner :: "('db, 'ah, 's, 'app) AppRunner"
  eventHandler :: "'s event_handler list"

definition NewIBCChaincode ::
    "string \<Rightarrow> 's SequenceManager \<Rightarrow> ('db, 'ah, 's, 'app) AppProvider \<Rightarrow> 'ah \<Rightarrow> ('s stub \<Rightarrow> 'db) \<Rightarrow> 's event_handler list
       \<Rightarrow> ('db, 'ah, 's, 'app) IBCChaincode" where
  "NewIBCChaincode name mgr provider ante dbp handler =
     \<lparr>sequenceMgr = mgr, runner = NewAppRunner name provider ante dbp mgr, eventHandler = handler\<rparr>"

definition SetEventHandler ::
    "'s event_handler list \<Rightarrow> ('db, 'ah, 's, 'app) IBCChaincode \<Rightarrow> ('db, 'ah, 's, 'app) IBCChaincode" where
  "SetEventHandler handler c = c\<lparr>eventHandler := handler\<rparr>"

definition GetAppRunner :: "('db, 'ah, 's, 'app) IBCChaincode \<Rightarrow> ('db, 'ah, 's, 'app) AppRunner" where
  "GetAppRunner c = runner c"

definition GetIgnoredFunctions :: "string list" where
  "GetIgnoredFunctions = [''SetEventHandler'', ''GetAppRunner'']"

type_synonym ('db, 'ah, 'm, 's, 'cl, 'co, 'conn, 'chan) ibc_chaincode =
  "('db, 'ah, 's, ('m, 's, 'cl, 'co, 'conn, 'chan) Application) IBCChaincode"

section \<open>Transactions and queries\<close>

definition InitChaincode :: "('db, 'ah, 'm, 's, 'cl, 'co, 'conn, 'chan) ibc_chaincode \<Rightarrow> 's stub \<Rightarrow> string \<Rightarrow> ('s, unit) call" where
  "InitChaincode c S appStateJSON =
     then_call (Runner_Init (runner c) S (bytes_of_string appStateJSON)) (\<lambda>_.
       then_call (InitSequence (sequenceMgr c) S) (\<lambda>_. give ()))"

definition HandleTx ::
    "('cl, 'co, 'conn, 'chan) chaincode_lib \<Rightarrow> ('db, 'ah, 'm, 's, 'cl, 'co, 'conn, 'chan) ibc_chaincode \<Rightarrow> 's stub \<Rightarrow> string
       \<Rightarrow> ('s, ResponseTx) call" where
  "HandleTx H c S txJSON =
     then_call (Runner_RunTx (json_Marshal_Events H) (runner c) S (bytes_of_string txJSON)) (\<lambda>(res, events).
       then_call (MultiEventHandler_Handle (eventHandler c) S events) (\<lambda>_.
         then_call (SetEvent S EventIBC (bytes_of_string (rtx_Events res))) (\<lambda>_. give res)))"

definition Chaincode_Query ::
    "('cl, 'co, 'conn, 'chan) chaincode_lib \<Rightarrow> ('db, 'ah, 'm, 's, 'cl, 'co, 'conn, 'chan) ibc_chaincode \<Rightarrow> 's stub \<Rightarrow> string
       \<Rightarrow> ('s, chaincode_ResponseQuery) call" where
  "Chaincode_Query H c S reqJSON =
     then_call (lift (json_Unmarshal_RequestQuery H (bytes_of_string reqJSON))) (\<lambda>req. Runner_Query (runner c) S req)"

definition Chaincode_GetSequence :: "('db, 'ah, 's, 'app) IBCChaincode \<Rightarrow> 's stub \<Rightarrow> ('s, Sequence) call" where
  "Chaincode_GetSequence c S = GetCurrentSequence (sequenceMgr c) S"

definition Chaincode_UpdateSequence :: "('db, 'ah, 's, 'app) IBCChaincode \<Rightarrow> 's stub \<Rightarrow> ('s, Sequence) call" where
  "Chaincode_UpdateSequence c S = UpdateSequence (sequenceMgr c) S"

section \<open>Endorsements\<close>

text \<open>\<open>PutState(entry.Key, entry.Value)\<close>, with the entry as result.\<close>

definition put_entry :: "'s stub \<Rightarrow> Entry \<Rightarrow> ('s, Entry) call" where
  "put_entry S e = then_call (PutState S (entry_Key e) (entry_Value e)) (\<lambda>_. give e)"

definition EndorseSequenceCommitment ::
    "('cl, 'co, 'conn, 'chan) chaincode_lib \<Rightarrow> ('db, 'ah, 's, 'app) IBCChaincode \<Rightarrow> 's stub \<Rightarrow> ('s, CommitmentEntry) call" where
  "EndorseSequenceCommitment H c S =
     then_call (\<lambda>s. let args = GetArgs S s
        in if 1 < length args
           then GetSequence (sequenceMgr c) S (BigEndianToUint64 (paths (ibc_client_lib H)) (args ! 1)) s
           else GetCurrentSequence (sequenceMgr c) S s) (\<lambda>sq.
       then_call (lift (MakeSequenceCommitmentEntry sq)) (\<lambda>entry.
         then_call (put_entry S entry) (\<lambda>e. give (ToCommitment e))))"

text \<open>
  The frame that the other endorsements share: a cached context of the application, the entry made from
  it, the writer of the cache, and the write of the entry.
\<close>

definition endorse_entry ::
    "('db, 'ah, 'm, 's, 'cl, 'co, 'conn, 'chan) ibc_chaincode \<Rightarrow> 's stub
       \<Rightarrow> (('m, 's, 'cl, 'co, 'conn, 'chan) ibc_keeper \<Rightarrow> 's sdk_context \<Rightarrow> ('m, 's, Entry) cached) \<Rightarrow> ('s, CommitmentEntry) call" where
  "endorse_entry c S mk =
     then_call (RunFunc (runner c) S (\<lambda>app.
         let ((cctx, ms), writer) = app_MakeCacheContext app block_header_zero
         in then_call (mk (app_GetIBCKeeper app) cctx ms) (\<lambda>(e, ms').
              then_call (writer ms') (\<lambda>_. put_entry S e)))) (\<lambda>entry.
       give (ToCommitment entry))"

text \<open>A getter followed by what is made of its result.\<close>

definition then_make :: "('s, 'a \<times> 'm) call \<Rightarrow> ('a \<Rightarrow> Entry outcome) \<Rightarrow> ('s, Entry \<times> 'm) call" where
  "then_make c f = then_call c (\<lambda>(a, m). then_call (lift (f a)) (\<lambda>e. give (e, m)))"

definition host_prefix :: "('cl, 'co, 'conn, 'chan) chaincode_lib \<Rightarrow> bytes" where
  "host_prefix H = bytes_of_string (host_StoreKey H)"

definition EndorseClientState ::
    "('cl, 'co, 'conn, 'chan) chaincode_lib \<Rightarrow> ('db, 'ah, 'm, 's, 'cl, 'co, 'conn, 'chan) ibc_chaincode \<Rightarrow> 's stub \<Rightarrow> string
       \<Rightarrow> ('s, CommitmentEntry) call" where
  "EndorseClientState H c S clientID =
     endorse_entry c S (\<lambda>keeper cctx ms. then_make (GetClientState keeper cctx clientID ms) (\<lambda>found.
       case found of
         None \<Rightarrow> Err (ErrorWrap (ErrorRoot ''light client not found'') ''clientID '%v' not found'')
       | Some cs \<Rightarrow> and_then (MarshalClientState (ibc_client_lib H) cs) (\<lambda>bz.
           MakeClientStateCommitmentEntry (host_prefix H) clientID (Some bz))))"

definition makeHeight :: "u64 \<Rightarrow> Height" where
  "makeHeight height = NewHeight 0 height"

definition EndorseConsensusStateCommitment ::
    "('cl, 'co, 'conn, 'chan) chaincode_lib \<Rightarrow> ('db, 'ah, 'm, 's, 'cl, 'co, 'conn, 'chan) ibc_chaincode \<Rightarrow> 's stub \<Rightarrow> string \<Rightarrow> u64
       \<Rightarrow> ('s, CommitmentEntry) call" where
  "EndorseConsensusStateCommitment H c S clientID height =
     endorse_entry c S (\<lambda>keeper cctx ms.
       then_make (GetClientConsensusState keeper cctx clientID (makeHeight height) ms) (\<lambda>found.
         case found of
           None \<Rightarrow> Err (ErrorNew ''consensusState not found: clientID=%v height=%v'')
         | Some css \<Rightarrow> and_then (MarshalConsensusState (ibc_client_lib H) css) (\<lambda>bz.
             MakeConsensusStateCommitmentEntry (paths (ibc_client_lib H)) (host_prefix H) clientID (makeHeight height) (Some bz))))"

definition EndorseConnectionState ::
    "('cl, 'co, 'conn, 'chan) chaincode_lib \<Rightarrow> ('db, 'ah, 'm, 's, 'cl, 'co, 'conn, 'chan) ibc_chaincode \<Rightarrow> 's stub \<Rightarrow> string
       \<Rightarrow> ('s, CommitmentEntry) call" where
  "EndorseConnectionState H c S connectionID =
     endorse_entry c S (\<lambda>keeper cctx ms. then_make (GetConnection keeper cctx connectionID ms) (\<lambda>found.
       case found of
         None \<Rightarrow> Err (ErrorWrap (ErrorRoot ''connection not found'') ''cannot relay ACK of open attempt: %v'')
       | Some connection \<Rightarrow> and_then (Marshal_ConnectionEnd (ibc_client_lib H) connection) (\<lambda>bz.
           MakeConnectionStateCommitmentEntry (paths (ibc_client_lib H)) (host_prefix H) connectionID (Some bz))))"

definition EndorseChannelState ::
    "('cl, 'co, 'conn, 'chan) chaincode_lib \<Rightarrow> ('db, 'ah, 'm, 's, 'cl, 'co, 'conn, 'chan) ibc_chaincode \<Rightarrow> 's stub \<Rightarrow> string \<Rightarrow> string
       \<Rightarrow> ('s, CommitmentEntry) call" where
  "EndorseChannelState H c S portID channelID =
     endorse_entry c S (\<lambda>keeper cctx ms. then_make (GetChannel keeper cctx portID channelID ms) (\<lambda>found.
       case found of
         None \<Rightarrow> Err (ErrorWrap (ErrorRoot ''channel not found'') channelID)
       | Some channel \<Rightarrow> and_then (Marshal_Channel (ibc_client_lib H) channel) (\<lambda>bz.
           MakeChannelStateCommitmentEntry (paths (ibc_client_lib H)) (host_prefix H) portID channelID (Some bz))))"

definition EndorsePacketCommitment ::
    "('cl, 'co, 'conn, 'chan) chaincode_lib \<Rightarrow> ('db, 'ah, 'm, 's, 'cl, 'co, 'conn, 'chan) ibc_chaincode \<Rightarrow> 's stub \<Rightarrow> string \<Rightarrow> string \<Rightarrow> u64
       \<Rightarrow> ('s, CommitmentEntry) call" where
  "EndorsePacketCommitment H c S portID channelID sequence =
     endorse_entry c S (\<lambda>keeper cctx ms. then_make (GetPacketCommitment keeper cctx portID channelID sequence ms) (\<lambda>cmbz.
       if cmbz = None then Err (ErrorNew ''commitment not found'')
       else MakePacketCommitmentEntry (paths (ibc_client_lib H)) (host_prefix H) portID channelID sequence cmbz))"

definition EndorsePacketAcknowledgement ::
    "('cl, 'co, 'conn, 'chan) chaincode_lib \<Rightarrow> ('db, 'ah, 'm, 's, 'cl, 'co, 'conn, 'chan) ibc_chaincode \<Rightarrow> 's stub \<Rightarrow> string \<Rightarrow> string \<Rightarrow> u64
       \<Rightarrow> ('s, CommitmentEntry) call" where
  "EndorsePacketAcknowledgement H c S portID channelID sequence =
     endorse_entry c S (\<lambda>keeper cctx ms. then_make (GetPacketAcknowledgement keeper cctx portID channelID sequence ms) (\<lambda>found.
       case found of
         None \<Rightarrow> Err (ErrorNew ''acknowledgement packet not found'')
       | Some ackBytes \<Rightarrow>
           MakePacketAcknowledgementEntry (paths (ibc_client_lib H)) (host_prefix H) portID channelID sequence ackBytes))"

definition EndorsePacketReceiptAbsence ::
    "('cl, 'co, 'conn, 'chan) chaincode_lib \<Rightarrow> ('db, 'ah, 'm, 's, 'cl, 'co, 'conn, 'chan) ibc_chaincode \<Rightarrow> 's stub \<Rightarrow> string \<Rightarrow> string \<Rightarrow> u64
       \<Rightarrow> ('s, CommitmentEntry) call" where
  "EndorsePacketReceiptAbsence H c S portID channelID sequence =
     endorse_entry c S (\<lambda>keeper cctx ms. then_make (GetPacketReceipt keeper cctx portID channelID sequence ms) (\<lambda>found.
       if found \<noteq> None then Err (ErrorNew ''the packet receipt found'')
       else MakePacketReceiptAbsenceEntry (paths (ibc_client_lib H)) (host_prefix H) portID channelID sequence))"

definition EndorseNextSequenceRecv ::
    "('cl, 'co, 'conn, 'chan) chaincode_lib \<Rightarrow> ('db, 'ah, 'm, 's, 'cl, 'co, 'conn, 'chan) ibc_chaincode \<Rightarrow> 's stub \<Rightarrow> string \<Rightarrow> string
       \<Rightarrow> ('s, CommitmentEntry) call" where
  "EndorseNextSequenceRecv H c S portID channelID =
     endorse_entry c S (\<lambda>keeper cctx ms. then_make (GetNextSequenceRecv keeper cctx portID channelID ms) (\<lambda>found.
       case found of
         None \<Rightarrow> Err (ErrorWrap (ErrorRoot ''sequence receive not found'') ''port: %s, channel: %s'')
       | Some sq \<Rightarrow> MakeNextSequenceRecvEntry (paths (ibc_client_lib H)) (host_prefix H) portID channelID sq))"


section \<open>What an endorsement writes\<close>

text \<open>What can be endorsed of the state of the application, with the contract function for it.\<close>

datatype endorsement =
    EndorseClient string
  | EndorseConsensus string u64
  | EndorseConnection string
  | EndorseChannel string string
  | EndorsePacket string string u64
  | EndorseAcknowledgement string string u64
  | EndorseReceiptAbsence string string u64
  | EndorseNextSequence string string

fun endorse ::
    "('cl, 'co, 'conn, 'chan) chaincode_lib \<Rightarrow> ('db, 'ah, 'm, 's, 'cl, 'co, 'conn, 'chan) ibc_chaincode \<Rightarrow> 's stub \<Rightarrow> endorsement
       \<Rightarrow> ('s, CommitmentEntry) call" where
  "endorse H c S (EndorseClient i) = EndorseClientState H c S i"
| "endorse H c S (EndorseConsensus i h) = EndorseConsensusStateCommitment H c S i h"
| "endorse H c S (EndorseConnection i) = EndorseConnectionState H c S i"
| "endorse H c S (EndorseChannel p i) = EndorseChannelState H c S p i"
| "endorse H c S (EndorsePacket p i n) = EndorsePacketCommitment H c S p i n"
| "endorse H c S (EndorseAcknowledgement p i n) = EndorsePacketAcknowledgement H c S p i n"
| "endorse H c S (EndorseReceiptAbsence p i n) = EndorsePacketReceiptAbsence H c S p i n"
| "endorse H c S (EndorseNextSequence p i) = EndorseNextSequenceRecv H c S p i"

fun endorsement_subject :: "endorsement \<Rightarrow> subject" where
  "endorsement_subject (EndorseClient i) = ClientStateOf i"
| "endorsement_subject (EndorseConsensus i h) = ConsensusStateOf i (NewHeight 0 h)"
| "endorsement_subject (EndorseConnection i) = ConnectionOf i"
| "endorsement_subject (EndorseChannel p i) = ChannelOf p i"
| "endorsement_subject (EndorsePacket p i n) = PacketOf p i n"
| "endorsement_subject (EndorseAcknowledgement p i n) = AcknowledgementOf p i n"
| "endorsement_subject (EndorseReceiptAbsence p i n) = ReceiptAbsenceOf p i n"
| "endorsement_subject (EndorseNextSequence p i) = NextSequenceRecvOf p i"

text \<open>The result of a getter of the keeper, on a store over the ledger.\<close>

definition reads_as :: "('m, 's, 'a) cached \<Rightarrow> 'm \<Rightarrow> 's \<Rightarrow> 'a \<Rightarrow> bool" where
  "reads_as g m s a \<longleftrightarrow> (\<exists>m' t. g m s = (Ok (a, m'), t))"

text \<open>The encoded state of the application about something: the value, and its absence for a receipt.\<close>

fun app_state ::
    "('cl, 'co, 'conn, 'chan) client_lib \<Rightarrow> ('m, 's, 'cl, 'co, 'conn, 'chan) ibc_keeper \<Rightarrow> 's sdk_context \<Rightarrow> 'm \<Rightarrow> 's \<Rightarrow> endorsement
       \<Rightarrow> slice \<Rightarrow> bool" where
  "app_state C K ctx m s (EndorseClient i) v \<longleftrightarrow>
     (\<exists>x bz. reads_as (GetClientState K ctx i) m s (Some x) \<and> MarshalClientState C x = Ok bz \<and> v = Some bz)"
| "app_state C K ctx m s (EndorseConsensus i h) v \<longleftrightarrow>
     (\<exists>x bz. reads_as (GetClientConsensusState K ctx i (NewHeight 0 h)) m s (Some x) \<and> MarshalConsensusState C x = Ok bz \<and> v = Some bz)"
| "app_state C K ctx m s (EndorseConnection i) v \<longleftrightarrow>
     (\<exists>x bz. reads_as (GetConnection K ctx i) m s (Some x) \<and> Marshal_ConnectionEnd C x = Ok bz \<and> v = Some bz)"
| "app_state C K ctx m s (EndorseChannel p i) v \<longleftrightarrow>
     (\<exists>x bz. reads_as (GetChannel K ctx p i) m s (Some x) \<and> Marshal_Channel C x = Ok bz \<and> v = Some bz)"
| "app_state C K ctx m s (EndorsePacket p i n) v \<longleftrightarrow> v \<noteq> None \<and> reads_as (GetPacketCommitment K ctx p i n) m s v"
| "app_state C K ctx m s (EndorseAcknowledgement p i n) v \<longleftrightarrow> reads_as (GetPacketAcknowledgement K ctx p i n) m s (Some v)"
| "app_state C K ctx m s (EndorseReceiptAbsence p i n) v \<longleftrightarrow> reads_as (GetPacketReceipt K ctx p i n) m s None \<and> v = Some [0]"
| "app_state C K ctx m s (EndorseNextSequence p i) v \<longleftrightarrow>
     (\<exists>n. reads_as (GetNextSequenceRecv K ctx p i) m s (Some n) \<and> v = Some (Uint64ToBigEndian (paths C) n))"

text \<open>
  What the chaincode relies on: making an application and reading its state leave the ledger as it is,
  and a cache that was only read has nothing to write back. \<open>clean\<close> marks such caches.
\<close>

definition clean_read :: "('m \<Rightarrow> bool) \<Rightarrow> ('m, 's, 'a) cached \<Rightarrow> bool" where
  "clean_read clean g \<longleftrightarrow> (\<forall>m s r t. clean m \<longrightarrow> g m s = (r, t) \<longrightarrow> t = s \<and> (\<forall>a m'. r = Ok (a, m') \<longrightarrow> clean m'))"

definition reading_keeper :: "('m \<Rightarrow> bool) \<Rightarrow> ('m, 's, 'cl, 'co, 'conn, 'chan) ibc_keeper \<Rightarrow> bool" where
  "reading_keeper clean K \<longleftrightarrow> (\<forall>ctx p i n h.
     clean_read clean (GetClientState K ctx i) \<and> clean_read clean (GetClientConsensusState K ctx i h)
     \<and> clean_read clean (GetConnection K ctx i) \<and> clean_read clean (GetChannel K ctx p i)
     \<and> clean_read clean (GetPacketCommitment K ctx p i n) \<and> clean_read clean (GetPacketAcknowledgement K ctx p i n)
     \<and> clean_read clean (GetPacketReceipt K ctx p i n) \<and> clean_read clean (GetNextSequenceRecv K ctx p i))"

definition reading_app :: "('m \<Rightarrow> bool) \<Rightarrow> ('m, 's, 'cl, 'co, 'conn, 'chan) Application \<Rightarrow> bool" where
  "reading_app clean app \<longleftrightarrow> reading_keeper clean (app_GetIBCKeeper app)
     \<and> (\<forall>header ctx ms writer. app_MakeCacheContext app header = ((ctx, ms), writer) \<longrightarrow>
          clean ms \<and> (\<forall>m s. clean m \<longrightarrow> writer m s = (Ok (), s)))"

definition provides :: "('db, 'ah, 's, 'app) IBCChaincode \<Rightarrow> 's stub \<Rightarrow> 's \<Rightarrow> 'app \<Rightarrow> bool" where
  "provides c S s app \<longleftrightarrow> (\<exists>t. appProvider (runner c) (appName (runner c)) (dbProvider (runner c) S) (seqMgr (runner c))
     (GetBlockProvider (runner c) S) (anteHandlerProvider (runner c)) s = (Ok app, t))"

definition reading_chaincode :: "('m \<Rightarrow> bool) \<Rightarrow> ('db, 'ah, 'm, 's, 'cl, 'co, 'conn, 'chan) ibc_chaincode \<Rightarrow> bool" where
  "reading_chaincode clean c \<longleftrightarrow> reading_provider (runner c)
     \<and> (\<forall>S s app. provides c S s app \<longrightarrow> reading_app clean app)"

lemma clean_readD: "clean_read clean g \<Longrightarrow> clean m \<Longrightarrow> g m s = (Ok (a, m'), t) \<Longrightarrow> t = s \<and> clean m'"
  unfolding clean_read_def by blast

lemma then_make_Ok:
  assumes "clean_read clean g" "clean m" "then_make (g m) f s = (Ok (e, m'), t)"
  obtains a where "reads_as g m s a" "f a = Ok e" "t = s" "clean m'"
proof -
  from assms(3) obtain a t' where "g m s = (Ok (a, m'), t')" "f a = Ok e" "t = t'"
    by (auto simp: then_make_def outcome_simps)
  with clean_readD [OF assms(1,2)] show ?thesis by (intro that) (auto simp: reads_as_def)
qed

lemma endorse_entry_Ok:
  fixes c :: "('db, 'ah, 'm, 's, 'cl, 'co, 'conn, 'chan) ibc_chaincode"
  assumes "reading_chaincode clean c"
    and mk: "\<And>K ctx m e m' t. reading_keeper clean K \<Longrightarrow> clean m \<Longrightarrow> mk K ctx m s = (Ok (e, m'), t) \<Longrightarrow> t = s \<and> clean m' \<and> P K ctx m e"
    and "endorse_entry c S mk s = (Ok ce, s')"
  obtains app ctx ms writer e where "provides c S s app" "app_MakeCacheContext app block_header_zero = ((ctx, ms), writer)"
    "P (app_GetIBCKeeper app) ctx ms e" "PutState S (entry_Key e) (entry_Value e) s = (Ok (), s')" "ce = ToCommitment e"
proof -
  define f :: "('m, 's, 'cl, 'co, 'conn, 'chan) Application \<Rightarrow> ('s, Entry) call" where "f = (\<lambda>app. let ((cctx, ms), writer) = app_MakeCacheContext app block_header_zero
         in then_call (mk (app_GetIBCKeeper app) cctx ms) (\<lambda>(e, ms').
              then_call (writer ms') (\<lambda>_. put_entry S e)))"
  have r: "reading_provider (runner c)" using assms(1) by (simp add: reading_chaincode_def)
  from assms(3) obtain e where run: "RunFunc (runner c) S f s = (Ok e, s')" and ce: "ce = ToCommitment e"
    unfolding endorse_entry_def f_def [symmetric] by (auto simp: then_call_Ok)
  from run obtain app where app: "provides c S s app" and fa: "f app s = (Ok e, s')"
    by (rule RunFunc_Ok [OF r]) (auto simp: provides_def)
  with assms(1) have ra: "reading_app clean app" by (auto simp: reading_chaincode_def)
  obtain ctx ms writer where mc: "app_MakeCacheContext app block_header_zero = ((ctx, ms), writer)" by (metis prod.exhaust)
  with ra have ms: "clean ms" "\<And>m s. clean m \<Longrightarrow> writer m s = (Ok (), s)" and K: "reading_keeper clean (app_GetIBCKeeper app)"
    unfolding reading_app_def by blast+
  from fa mc obtain ms' t1 t2 where m: "mk (app_GetIBCKeeper app) ctx ms s = (Ok (e, ms'), t1)"
    and w: "writer ms' t1 = (Ok (), t2)" and p: "PutState S (entry_Key e) (entry_Value e) t2 = (Ok (), s')"
    by (auto simp: f_def put_entry_def then_call_Ok)
  from mk [OF K ms(1) m] have "t1 = s" "clean ms'" "P (app_GetIBCKeeper app) ctx ms e" by auto
  with ms(2) w p app mc ce show ?thesis by (intro that) auto
qed


lemma reading_keeperD:
  assumes "reading_keeper clean K"
  shows "clean_read clean (GetClientState K ctx i)" "clean_read clean (GetClientConsensusState K ctx i h)"
    "clean_read clean (GetConnection K ctx i)" "clean_read clean (GetChannel K ctx p i)"
    "clean_read clean (GetPacketCommitment K ctx p i n)" "clean_read clean (GetPacketAcknowledgement K ctx p i n)"
    "clean_read clean (GetPacketReceipt K ctx p i n)" "clean_read clean (GetNextSequenceRecv K ctx p i)"
  using assms by (auto simp: reading_keeper_def)

text \<open>Every endorsement writes one entry: the encoded state, at the key of its subject.\<close>

definition endorsed_entry ::
    "('cl, 'co, 'conn, 'chan) chaincode_lib \<Rightarrow> ('m, 's, 'cl, 'co, 'conn, 'chan) ibc_keeper \<Rightarrow> 's sdk_context \<Rightarrow> 'm \<Rightarrow> 's \<Rightarrow> endorsement
       \<Rightarrow> Entry \<Rightarrow> bool" where
  "endorsed_entry H K ctx m s q e \<longleftrightarrow> (\<exists>v. app_state (ibc_client_lib H) K ctx m s q v
     \<and> e = \<lparr>entry_Key = subject_key (paths (ibc_client_lib H)) (host_prefix H) (endorsement_subject q), entry_Value = v\<rparr>)"

lemmas make_entry_defs = MakeClientStateCommitmentEntry_def MakeConsensusStateCommitmentEntry_def
  MakeConnectionStateCommitmentEntry_def MakeChannelStateCommitmentEntry_def MakePacketCommitmentEntry_def
  MakePacketAcknowledgementEntry_def MakePacketReceiptAbsenceEntry_def MakeNextSequenceRecvEntry_def makeHeight_def

lemmas endorse_defs = EndorseClientState_def EndorseConsensusStateCommitment_def EndorseConnectionState_def
  EndorseChannelState_def EndorsePacketCommitment_def EndorsePacketAcknowledgement_def
  EndorsePacketReceiptAbsence_def EndorseNextSequenceRecv_def

lemma endorse_entry_getter:
  assumes "reading_chaincode clean c" "\<And>K ctx. reading_keeper clean K \<Longrightarrow> clean_read clean (g K ctx)"
    and "\<And>K ctx m a e. reads_as (g K ctx) m s a \<Longrightarrow> f a = Ok e \<Longrightarrow> endorsed_entry H K ctx m s q e"
    and "endorse_entry c S (\<lambda>K ctx m. then_make (g K ctx m) f) s = (Ok ce, s')"
  shows "\<exists>app ctx ms writer e. provides c S s app \<and> app_MakeCacheContext app block_header_zero = ((ctx, ms), writer)
    \<and> endorsed_entry H (app_GetIBCKeeper app) ctx ms s q e \<and> PutState S (entry_Key e) (entry_Value e) s = (Ok (), s')
    \<and> ce = ToCommitment e"
proof -
  have "t = s \<and> clean m' \<and> endorsed_entry H K ctx m s q e"
    if "reading_keeper clean K" "clean m" "then_make (g K ctx m) f s = (Ok (e, m'), t)" for K ctx m e m' t
    using then_make_Ok [OF assms(2) that(2,3)] that(1) assms(3) by metis
  from this show ?thesis
    by (rule endorse_entry_Ok [where P = "\<lambda>K ctx m e. endorsed_entry H K ctx m s q e"
          and mk = "\<lambda>K ctx m. then_make (g K ctx m) f", OF assms(1) _ assms(4)]) blast+
qed

lemma endorse_Ok:
  assumes "reading_chaincode clean c" "endorse H c S q s = (Ok ce, s')"
  shows "\<exists>app ctx ms writer e. provides c S s app \<and> app_MakeCacheContext app block_header_zero = ((ctx, ms), writer)
    \<and> endorsed_entry H (app_GetIBCKeeper app) ctx ms s q e \<and> PutState S (entry_Key e) (entry_Value e) s = (Ok (), s')
    \<and> ce = ToCommitment e"
proof (cases q)
  case (EndorseClient i)
  show ?thesis
    by (rule endorse_entry_getter [OF assms(1) reading_keeperD(1)
          _ assms(2) [unfolded EndorseClient endorse.simps endorse_defs]])
      (auto simp: EndorseClient endorsed_entry_def make_entry_defs outcome_simps split: option.splits)
next
  case (EndorseConsensus i h)
  show ?thesis
    by (rule endorse_entry_getter [OF assms(1) reading_keeperD(2)
          _ assms(2) [unfolded EndorseConsensus endorse.simps endorse_defs]])
      (auto simp: EndorseConsensus endorsed_entry_def make_entry_defs outcome_simps split: option.splits)
next
  case (EndorseConnection i)
  show ?thesis
    by (rule endorse_entry_getter [OF assms(1) reading_keeperD(3)
          _ assms(2) [unfolded EndorseConnection endorse.simps endorse_defs]])
      (auto simp: EndorseConnection endorsed_entry_def make_entry_defs outcome_simps split: option.splits)
next
  case (EndorseChannel p i)
  show ?thesis
    by (rule endorse_entry_getter [OF assms(1) reading_keeperD(4)
          _ assms(2) [unfolded EndorseChannel endorse.simps endorse_defs]])
      (auto simp: EndorseChannel endorsed_entry_def make_entry_defs outcome_simps split: option.splits)
next
  case (EndorsePacket p i n)
  show ?thesis
    by (rule endorse_entry_getter [OF assms(1) reading_keeperD(5)
          _ assms(2) [unfolded EndorsePacket endorse.simps endorse_defs]])
      (auto simp: EndorsePacket endorsed_entry_def make_entry_defs split: if_splits)
next
  case (EndorseAcknowledgement p i n)
  show ?thesis
    by (rule endorse_entry_getter [OF assms(1) reading_keeperD(6)
          _ assms(2) [unfolded EndorseAcknowledgement endorse.simps endorse_defs]])
      (auto simp: EndorseAcknowledgement endorsed_entry_def make_entry_defs split: option.splits)
next
  case (EndorseReceiptAbsence p i n)
  show ?thesis
    by (rule endorse_entry_getter [OF assms(1) reading_keeperD(7)
          _ assms(2) [unfolded EndorseReceiptAbsence endorse.simps endorse_defs]])
      (auto simp: EndorseReceiptAbsence endorsed_entry_def make_entry_defs split: if_splits)
next
  case (EndorseNextSequence p i)
  show ?thesis
    by (rule endorse_entry_getter [OF assms(1) reading_keeperD(8)
          _ assms(2) [unfolded EndorseNextSequence endorse.simps endorse_defs]])
      (auto simp: EndorseNextSequence endorsed_entry_def make_entry_defs split: option.splits)
qed


section \<open>Footprints\<close>

text \<open>
  Which keys of the ledger a call can change: the application the hexadecimal keys of the database, the
  event handlers keys that begin with a separator, an endorsement a key of a commitment.
\<close>

definition changes :: "(string \<Rightarrow> bool) \<Rightarrow> (string \<rightharpoonup> slice) \<Rightarrow> (string \<rightharpoonup> slice) \<Rightarrow> bool" where
  "changes P l l' \<longleftrightarrow> (\<forall>k. \<not> P k \<longrightarrow> l' k = l k)"

definition db_key :: "string \<Rightarrow> bool" where
  "db_key k \<longleftrightarrow> (\<exists>b. k = hex_encode b)"

definition event_key :: "string \<Rightarrow> bool" where
  "event_key k \<longleftrightarrow> (\<exists>r. k = CHR ''/'' # r)"

definition commitment_key :: "ibc_lib \<Rightarrow> bytes \<Rightarrow> string \<Rightarrow> bool" where
  "commitment_key L prefix k \<longleftrightarrow> (\<exists>x. k = subject_key L prefix x \<and> x \<noteq> CurrentSequence \<and> (\<forall>n. x \<noteq> SequenceAt n))"

lemma changes_refl [simp]: "changes P l l"
  by (simp add: changes_def)

lemma changes_trans: "changes P l l1 \<Longrightarrow> changes P l1 l' \<Longrightarrow> changes P l l'"
  by (simp add: changes_def)

lemma changes_mono: "changes P l l' \<Longrightarrow> (\<And>k. P k \<Longrightarrow> Q k) \<Longrightarrow> changes Q l l'"
  by (auto simp: changes_def)

lemma changes_update [simp]: "P k \<Longrightarrow> changes P l (l(k := v))"
  by (auto simp: changes_def)

lemma hex_key_chars:
  assumes "c \<in> set (hex_encode b)"
  shows "c \<noteq> CHR ''h'' \<and> c \<noteq> CHR ''/''"
proof -
  have "from_hex_char c \<noteq> None"
    using assms
  proof (induction b)
    case (Cons a b)
    have "unat a < 2 ^ LENGTH(8)" by (rule unsigned_less)
    then have "unat a div 16 < 16" by (simp add: less_mult_imp_div_less)
    with Cons show ?case by auto
  qed simp
  then show ?thesis by (auto simp: from_hex_char_def)
qed

lemma not_db_key:
  "\<not> db_key (MakeCurrentSequenceKey prefix)" "\<not> db_key (MakeSequenceKey prefix n)" "db_key k \<Longrightarrow> \<not> event_key k"
proof -
  have "CHR ''h'' \<notin> set k" "CHR ''/'' \<notin> set k" if "db_key k" for k
    using that hex_key_chars by (auto simp: db_key_def)
  then show "\<not> db_key (MakeCurrentSequenceKey prefix)" "\<not> db_key (MakeSequenceKey prefix n)" "db_key k \<Longrightarrow> \<not> event_key k"
    by (force simp: MakeCurrentSequenceKey_def MakeSequenceKey_def event_key_def)+
qed

lemma not_event_key: "\<not> event_key (MakeCurrentSequenceKey prefix)" "\<not> event_key (MakeSequenceKey prefix n)"
  by (simp_all add: event_key_def MakeCurrentSequenceKey_def MakeSequenceKey_def)

lemma not_commitment_key:
  assumes "ics24_paths L"
  shows "\<not> commitment_key L prefix (MakeCurrentSequenceKey prefix)" "\<not> commitment_key L prefix (MakeSequenceKey prefix n)"
proof -
  have "subject_key L prefix x \<noteq> MakeCurrentSequenceKey prefix \<and> subject_key L prefix x \<noteq> MakeSequenceKey prefix n"
    if "x \<noteq> CurrentSequence" "\<And>n. x \<noteq> SequenceAt n" for x n
    using that by (cases x) (auto simp: subject_key_segments [OF assms] MakeCurrentSequenceKey_def MakeSequenceKey_def
        simp del: subject_key.simps)
  then show "\<not> commitment_key L prefix (MakeCurrentSequenceKey prefix)" "\<not> commitment_key L prefix (MakeSequenceKey prefix n)"
    unfolding commitment_key_def by metis+
qed

lemma endorsement_commitment_key: "commitment_key L prefix (subject_key L prefix (endorsement_subject q))"
  unfolding commitment_key_def by (rule exI [of _ "endorsement_subject q"]) (cases q; simp)

text \<open>The shapes of the keys on the ledger are kept.\<close>

lemma ledger_keys_changes:
  assumes "ledger_keys l" "changes (\<lambda>k. db_key k \<or> event_key k \<or> commitment_key L prefix k) l l'"
  shows "ledger_keys l'"
  unfolding ledger_keys_def
proof
  fix k
  assume "k \<in> dom l'"
  show "(\<exists>b. k = hex_encode b) \<or> (\<exists>r. k = CHR ''h'' # r \<or> k = CHR ''e'' # r \<or> k = CHR ''/'' # r)"
  proof (cases "db_key k \<or> event_key k \<or> commitment_key L prefix k")
    case True
    moreover have "\<exists>r. subject_key L prefix x = CHR ''h'' # r \<or> subject_key L prefix x = CHR ''e'' # r" for x
      by (cases x) (auto simp: make_key_defs)
    ultimately show ?thesis unfolding db_key_def event_key_def commitment_key_def by blast
  next
    case False
    with assms(2) have "l' k = l k" by (simp add: changes_def)
    with \<open>k \<in> dom l'\<close> have "k \<in> dom l" by (simp add: domIff)
    with assms(1) show ?thesis by (simp add: ledger_keys_def)
  qed
qed

text \<open>A cache is written back by setting and deleting keys of the database.\<close>

definition writes_back :: "'s stub \<Rightarrow> ('m \<Rightarrow> ('s, unit) call) \<Rightarrow> bool" where
  "writes_back S w \<longleftrightarrow> (\<forall>m s s'. w m s = (Ok (), s') \<longrightarrow>
     (\<exists>cmds. for_each (\<lambda>cmd. command_Exec S cmd False) cmds s = (Ok (), s')))"

text \<open>The application of a chaincode is the modelled \<open>BaseApp\<close> over the stub, with handlers that work on caches.\<close>

definition based_on ::
    "('db, 'm, 's, 'tx, 'msg, 'i, 'r) sdk_lib \<Rightarrow> ('db, 's) kv_lib \<Rightarrow> 's stub \<Rightarrow> ('db, 'ah, 'm, 's, 'cl, 'co, 'conn, 'chan) ibc_chaincode \<Rightarrow> bool" where
  "based_on A L S c \<longleftrightarrow> reading_provider (runner c) \<and> writes_back S (write_base A)
     \<and> (\<forall>s app. provides c S s app \<longrightarrow> (\<exists>keeper bapp. app = base_application A L keeper bapp \<and> cached_app bapp
          \<and> (\<forall>f ctx bz m. app_initChainer bapp = Some f \<longrightarrow> reads_only (f ctx bz m))))"

context ledger_stub
begin

lemma for_each_changes:
  assumes "\<And>x s s'. f x s = (Ok (), s') \<Longrightarrow> changes P (final s) (final s')"
  shows "for_each f xs s = (Ok (), s') \<Longrightarrow> changes P (final s) (final s')"
proof (induction xs arbitrary: s)
  case (Cons x xs)
  then obtain t where "f x s = (Ok (), t)" "for_each f xs t = (Ok (), s')" by (auto simp: then_call_Ok)
  with assms Cons.IH show ?case by (blast intro: changes_trans)
qed simp

lemma put_changes: "PutState S k v s = (Ok (), s') \<Longrightarrow> P k \<Longrightarrow> changes P (final s) (final s')"
  by (drule put_only) (auto intro: changes_update)

lemma command_changes: "command_Exec S cmd sync s = (Ok (), s') \<Longrightarrow> changes db_key (final s) (final s')"
  unfolding command_Exec_run
  by (cases cmd) (auto simp: DB_Set_def DB_Delete_def db_key_def split: if_splits
      dest!: del_writes dest: put_changes [where P = db_key])

lemma write_back_changes:
  assumes "writes_back S w" "w m s = (Ok (), s')"
  shows "changes db_key (final s) (final s')"
proof -
  from assms obtain cmds where "for_each (\<lambda>cmd. command_Exec S cmd False) cmds s = (Ok (), s')"
    unfolding writes_back_def by blast
  then show ?thesis by (rule for_each_changes [rotated]) (rule command_changes)
qed

lemma packet_handler_changes:
  assumes "HandlePacketEvent K S events s = (Ok b, s')"
  shows "changes event_key (final s) (final s')"
proof -
  from assms obtain ps :: "Packet list" where "for_each (\<lambda>p. then_call (lift (Packet_Marshal K p)) (\<lambda>bz.
      PutState S (makePacketKey packetEventKeyPrefix (pkt_SourcePort p) (pkt_SourceChannel p) (pkt_Sequence p)) (Some bz))) ps s = (Ok (), s')"
    unfolding HandlePacketEvent_def then_call_Ok by (auto simp: lift_def give_def)
  moreover have "event_key (makePacketKey packetEventKeyPrefix p i n)" for p i n
    by (simp add: event_key_def makePacketKey_def packetEventKeyPrefix_def)
  ultimately show ?thesis
    by (elim for_each_changes [rotated]) (auto simp: then_call_Ok intro: put_changes)
qed

lemma ack_handler_changes:
  assumes "HandlePacketAcknowledgementEvent K S events s = (Ok b, s')"
  shows "changes event_key (final s) (final s')"
proof -
  from assms obtain acks :: "packetAcknowledgement list" where "for_each (\<lambda>a. PutState S (makePacketAcknowledgementKey packetAcknowledgementEventKeyPrefix
      (ack_dstPortID a) (ack_dstChannelID a) (ack_sequence a)) (ack_data a)) acks s = (Ok (), s')"
    unfolding HandlePacketAcknowledgementEvent_def then_call_Ok by (auto simp: lift_def give_def)
  moreover have "event_key (makePacketAcknowledgementKey packetAcknowledgementEventKeyPrefix p i n)" for p i n
    by (simp add: event_key_def makePacketAcknowledgementKey_def packetAcknowledgementEventKeyPrefix_def)
  ultimately show ?thesis by (elim for_each_changes [rotated]) (auto intro: put_changes)
qed

lemma handler_chain_changes:
  assumes "\<And>h s b s'. h \<in> set hs \<Longrightarrow> h S events s = (Ok b, s') \<Longrightarrow> changes P (final s) (final s')"
  shows "MultiEventHandler_Handle hs S events s = (Ok (), s') \<Longrightarrow> changes P (final s) (final s')"
  using assms
proof (induction hs arbitrary: s)
  case (Cons h hs)
  from Cons.prems(1) obtain b t where h: "h S events s = (Ok b, t)"
    and rest: "(if \<not> b then give () else MultiEventHandler_Handle hs S events) t = (Ok (), s')"
    by (simp only: MultiEventHandler_Handle.simps then_call_Ok) blast
  have "changes P (final t) (final s')"
  proof (cases b)
    case True
    with rest have "MultiEventHandler_Handle hs S events t = (Ok (), s')" by simp
    then show ?thesis by (rule Cons.IH) (auto intro: Cons.prems(2))
  next
    case False
    with rest show ?thesis by simp
  qed
  moreover have "changes P (final s) (final t)" using Cons.prems(2) [of h s b t] h by simp
  ultimately show ?case by (blast intro: changes_trans)
qed simp

lemma default_handler_changes:
  assumes "h \<in> set (DefaultMultiEventHandler K)" "h S events s = (Ok b, s')"
  shows "changes event_key (final s) (final s')"
proof (cases "h = HandlePacketEvent K")
  case True
  with assms(2) show ?thesis by (simp add: packet_handler_changes)
next
  case False
  with assms(1) have "h = HandlePacketAcknowledgementEvent K" by (simp add: DefaultMultiEventHandler_def)
  with assms(2) show ?thesis by (simp add: ack_handler_changes)
qed

lemma default_handlers_change:
  assumes "MultiEventHandler_Handle (DefaultMultiEventHandler K) S events s = (Ok (), s')"
  shows "changes event_key (final s) (final s')"
proof -
  have d: "changes event_key (final s) (final s')"
    if "h \<in> set (DefaultMultiEventHandler K)" "h S events s = (Ok b, s')" for h s b s'
    using that by (rule default_handler_changes)
  show ?thesis
    by (rule handler_chain_changes [where hs = "DefaultMultiEventHandler K" and events = events and s = s and s' = s'
          and P = event_key]) (erule (1) d, rule assms)
qed

end


lemma based_on_app:
  assumes "based_on A L S c" "provides c S s app"
  obtains keeper bapp where "app = base_application A L keeper bapp" "cached_app bapp"
    "\<And>f ctx bz m. app_initChainer bapp = Some f \<Longrightarrow> reads_only (f ctx bz m)"
  using assms unfolding based_on_def by blast

context ledger_stub
begin

lemma InitChain_changes:
  assumes "writes_back S (write_base A)" "\<And>f ctx bz m. app_initChainer bapp = Some f \<Longrightarrow> reads_only (f ctx bz m)"
    and "InitChain A bapp bz s = (Ok (), s')"
  shows "changes db_key (final s) (final s')"
proof (cases "app_initChainer bapp")
  case None
  with assms(3) show ?thesis by (simp add: InitChain_def)
next
  case (Some f)
  with assms(3) obtain u ms' t where f: "f (NewContext block_header_zero False) bz (new_cache_store A bapp) s = (Ok (u, ms'), t)"
    and w: "write_base A ms' t = (Ok (), s')"
    by (auto simp: InitChain_def then_call_Ok Let_def)
  from reads_onlyD [OF assms(2) [OF Some] f] have "t = s" .
  with write_back_changes [OF assms(1) w] show ?thesis by simp
qed

lemma RunTx_changes:
  assumes "writes_back S (write_base A)" "cached_app bapp" "RunTx A bapp S txBytes s = (Ok res, s')"
  shows "changes db_key (final s) (final s')"
proof -
  from RunTx_atomic [OF assms(2,3)] obtain ms where "write_base A ms s = (Ok (), s')" by auto
  with assms(1) show ?thesis by (rule write_back_changes)
qed

lemma Runner_Init_changes:
  assumes "based_on A L S c" "Runner_Init (runner c) S bz s = (Ok (), s')"
  shows "changes db_key (final s) (final s')"
proof -
  have r: "reading_provider (runner c)" "writes_back S (write_base A)" using assms(1) by (auto simp: based_on_def)
  from assms(2) obtain app where app: "provides c S s app" "app_InitChain app bz s = (Ok (), s')"
    unfolding Runner_Init_def by (elim RunFunc_Ok [OF r(1)]) (auto simp: provides_def)
  from assms(1) app(1) obtain keeper bapp where b: "app = base_application A L keeper bapp"
      "\<And>f ctx bz m. app_initChainer bapp = Some f \<Longrightarrow> reads_only (f ctx bz m)"
    by (rule based_on_app) blast
  with app(2) have "InitChain A bapp bz s = (Ok (), s')" by (simp add: base_application_def)
  then show ?thesis by (rule InitChain_changes [OF r(2), rotated]) (rule b(2))
qed

lemma Runner_RunTx_changes:
  assumes "based_on A L S c" "Runner_RunTx js (runner c) S bz s = (Ok (rtx, evs), s')"
  shows "changes db_key (final s) (final s')"
proof -
  have r: "reading_provider (runner c)" "writes_back S (write_base A)" using assms(1) by (auto simp: based_on_def)
  from assms(2) obtain app res where app: "provides c S s app" "app_RunTx app S bz s = (Ok res, s')"
    unfolding Runner_RunTx_def by (elim RunFunc_Ok [OF r(1)]) (auto simp: provides_def then_call_Ok)
  from assms(1) app(1) obtain keeper bapp where b: "app = base_application A L keeper bapp" "cached_app bapp"
    by (rule based_on_app) blast
  with app(2) have "RunTx A bapp S bz s = (Ok res, s')" by (simp add: base_application_def)
  with r(2) b(2) show ?thesis by (rule RunTx_changes)
qed

lemma HandleTx_changes:
  assumes "based_on A L S c" "eventHandler c = DefaultMultiEventHandler K" "HandleTx H c S tx s = (Ok res, s')"
  shows "changes (\<lambda>k. db_key k \<or> event_key k) (final s) (final s')"
proof -
  from assms(3) obtain evs t t' where tx: "Runner_RunTx (json_Marshal_Events H) (runner c) S (bytes_of_string tx) s = (Ok (res, evs), t)"
    and h: "MultiEventHandler_Handle (DefaultMultiEventHandler K) S evs t = (Ok (), t')"
    and e: "SetEvent S EventIBC (bytes_of_string (rtx_Events res)) t' = (Ok (), s')"
    unfolding HandleTx_def assms(2) by (auto simp: then_call_Ok)
  have "changes (\<lambda>k. db_key k \<or> event_key k) (final s) (final t)"
    using Runner_RunTx_changes [OF assms(1) tx] by (rule changes_mono) simp
  moreover have "changes (\<lambda>k. db_key k \<or> event_key k) (final t) (final t')"
    using default_handlers_change [OF h] by (rule changes_mono) simp
  ultimately show ?thesis using event_keeps [OF e] by (auto intro: changes_trans)
qed

lemma endorse_changes:
  assumes "reading_chaincode clean c" "endorse H c S q s = (Ok ce, s')"
  shows "changes (commitment_key (paths (ibc_client_lib H)) (host_prefix H)) (final s) (final s')"
  using endorse_Ok [OF assms]
  by (auto simp: endorsed_entry_def endorsement_commitment_key intro: put_changes)

lemma read_sequence:
  assumes "EndorseSequenceCommitment H c S s = (Ok ce, s')"
  obtains sq where "PutState S (MakeSequenceCommitmentEntryKey (seq_Value sq)) (Some (Sequence_enc sq)) s = (Ok (), s')"
    "ce = ToCommitment \<lparr>entry_Key = MakeSequenceCommitmentEntryKey (seq_Value sq), entry_Value = Some (Sequence_enc sq)\<rparr>"
    "\<exists>k. (if 1 < length (GetArgs S s)
       then k = MakeSequenceKey (sm_prefix (sequenceMgr c)) (BigEndianToUint64 (paths (ibc_client_lib H)) (GetArgs S s ! 1))
       else k = MakeCurrentSequenceKey (sm_prefix (sequenceMgr c)))
     \<and> (\<exists>b. view s k = Some (Some b) \<and> Sequence_Unmarshal b Sequence_zero = Ok sq)"
proof -
  have get: "t = s \<and> (\<exists>b. view s (MakeSequenceKey (sm_prefix m) n) = Some (Some b) \<and> Sequence_Unmarshal b Sequence_zero = Ok sq)"
    if "GetSequence m S n s = (Ok sq, t)" for m n sq t
    using that by (auto simp: GetSequence_def getSequence_def outcome_simps slice_of_def split: option.splits dest!: get_reads)
  have cur: "t = s \<and> (\<exists>b. view s (MakeCurrentSequenceKey (sm_prefix m)) = Some (Some b) \<and> Sequence_Unmarshal b Sequence_zero = Ok sq)"
    if "GetCurrentSequence m S s = (Ok sq, t)" for m sq t
    using that unfolding GetCurrentSequence_def by (elim getCurrentSequence_ok) auto
  from assms obtain sq t where sq: "(if 1 < length (GetArgs S s)
        then GetSequence (sequenceMgr c) S (BigEndianToUint64 (paths (ibc_client_lib H)) (GetArgs S s ! 1)) s
        else GetCurrentSequence (sequenceMgr c) S s) = (Ok sq, t)"
    and p: "PutState S (MakeSequenceCommitmentEntryKey (seq_Value sq)) (Some (Sequence_enc sq)) t = (Ok (), s')"
    and ce: "ce = ToCommitment \<lparr>entry_Key = MakeSequenceCommitmentEntryKey (seq_Value sq), entry_Value = Some (Sequence_enc sq)\<rparr>"
    unfolding EndorseSequenceCommitment_def then_call_Ok Let_def by (auto simp: put_entry_def MakeSequenceCommitmentEntry_def then_call_Ok)
  show ?thesis
  proof (cases "1 < length (GetArgs S s)")
    case True
    with sq get have "t = s" "\<exists>b. view s (MakeSequenceKey (sm_prefix (sequenceMgr c))
        (BigEndianToUint64 (paths (ibc_client_lib H)) (GetArgs S s ! 1))) = Some (Some b) \<and> Sequence_Unmarshal b Sequence_zero = Ok sq"
      by (metis (no_types))+
    with True p ce show ?thesis by (intro that [of sq]) auto
  next
    case False
    with sq have "GetCurrentSequence (sequenceMgr c) S s = (Ok sq, t)" by simp
    from cur [OF this] False p ce show ?thesis by (intro that [of sq]) auto
  qed
qed

lemma sequence_endorsement_changes:
  assumes "EndorseSequenceCommitment H c S s = (Ok ce, s')"
  shows "changes (commitment_key L prefix) (final s) (final s')"
proof -
  from assms obtain sq where "PutState S (MakeSequenceCommitmentEntryKey (seq_Value sq)) (Some (Sequence_enc sq)) s = (Ok (), s')"
    by (rule read_sequence)
  moreover have "commitment_key L prefix (MakeSequenceCommitmentEntryKey (seq_Value sq))"
    unfolding commitment_key_def by (rule exI [of _ "SequenceCommitment (seq_Value sq)"]) simp
  ultimately show ?thesis by (rule put_changes)
qed

end


section \<open>Runs of the chaincode\<close>

text \<open>The invocations that write to the ledger after the chaincode was initialised.\<close>

datatype invocation =
    InvokeTx string
  | InvokeUpdateSequence
  | InvokeEndorseSequence
  | InvokeEndorse endorsement

definition discard :: "('s, 'a) call \<Rightarrow> ('s, unit) call" where
  "discard c = then_call c (\<lambda>_. give ())"

fun invoke ::
    "('cl, 'co, 'conn, 'chan) chaincode_lib \<Rightarrow> ('db, 'ah, 'm, 's, 'cl, 'co, 'conn, 'chan) ibc_chaincode \<Rightarrow> 's stub \<Rightarrow> invocation
       \<Rightarrow> ('s, unit) call" where
  "invoke H c S (InvokeTx tx) = discard (HandleTx H c S tx)"
| "invoke H c S InvokeUpdateSequence = discard (Chaincode_UpdateSequence c S)"
| "invoke H c S InvokeEndorseSequence = discard (EndorseSequenceCommitment H c S)"
| "invoke H c S (InvokeEndorse q) = discard (endorse H c S q)"

text \<open>
  The states of the ledger between transactions, with the number of sequences made since the last
  initialisation: the chaincode is initialised, then transactions are committed in any order. Nothing
  prevents that \<open>InitChaincode\<close> is called again (\<open>run_again\<close>), which starts the count afresh. A transaction
  that fails is not committed. The next transaction starts on the same ledger, with a timestamp, a creator and arguments
  of its own.
\<close>

inductive chaincode_run ::
    "('cl, 'co, 'conn, 'chan) chaincode_lib \<Rightarrow> ('db, 'ah, 'm, 's, 'cl, 'co, 'conn, 'chan) ibc_chaincode \<Rightarrow> 's stub \<Rightarrow>
      ('s \<Rightarrow> string \<Rightarrow> slice option) \<Rightarrow> ('s \<Rightarrow> string \<Rightarrow> slice option) \<Rightarrow> ('s \<Rightarrow> 's) \<Rightarrow> nat \<Rightarrow> 's \<Rightarrow> bool"
  for H c S view final commit where
  run_init: "ledger_keys (final s) \<Longrightarrow> InitChaincode c S appState s = (Ok (), s') \<Longrightarrow>
     chaincode_run H c S view final commit 1 (commit s')"
| run_again: "chaincode_run H c S view final commit k s \<Longrightarrow> InitChaincode c S appState s = (Ok (), s') \<Longrightarrow>
     chaincode_run H c S view final commit 1 (commit s')"
| run_invoke: "chaincode_run H c S view final commit k s \<Longrightarrow> invoke H c S i s = (Ok (), s') \<Longrightarrow>
     chaincode_run H c S view final commit (if i = InvokeUpdateSequence then Suc k else k) (commit s')"
| run_next: "chaincode_run H c S view final commit k s \<Longrightarrow> view s' = view s \<Longrightarrow> final s' = view s' \<Longrightarrow>
     chaincode_run H c S view final commit k s'"

inductive_cases chaincode_runE: "chaincode_run H c S view final commit k s"

text \<open>
  A deployed chaincode: the modelled application, with reads that only read, the default event handlers,
  and a sequence manager under the prefix of the commitments; the paths are those of the standard.
\<close>

definition deployed ::
    "('db, 'm, 's, 'tx, 'msg, 'i, 'r) sdk_lib \<Rightarrow> ('db, 's) kv_lib \<Rightarrow> packet_lib \<Rightarrow> ('m \<Rightarrow> bool) \<Rightarrow> ('cl, 'co, 'conn, 'chan) chaincode_lib
       \<Rightarrow> 's stub \<Rightarrow> ('db, 'ah, 'm, 's, 'cl, 'co, 'conn, 'chan) ibc_chaincode \<Rightarrow> bool" where
  "deployed A L K clean H S c \<longleftrightarrow> based_on A L S c \<and> reading_chaincode clean c
     \<and> eventHandler c = DefaultMultiEventHandler K \<and> sm_prefix (sequenceMgr c) = host_prefix H
     \<and> ics24_paths (paths (ibc_client_lib H))"

lemma discard_Ok: "discard c s = (Ok (), t) \<longleftrightarrow> (\<exists>a. c s = (Ok a, t))"
  by (auto simp: discard_def then_call_Ok)

lemma changes_same_sequences:
  assumes "changes (\<lambda>k. db_key k \<or> event_key k \<or> commitment_key L prefix k) l l'" "ics24_paths L"
  shows "same_sequences prefix l l'"
proof -
  have "\<not> P k \<Longrightarrow> l' k = l k" if "P = (\<lambda>k. db_key k \<or> event_key k \<or> commitment_key L prefix k)" for P k
    using assms(1) that by (simp add: changes_def)
  then show ?thesis
    using not_db_key not_event_key not_commitment_key [OF assms(2)] by (simp add: same_sequences_def)
qed

lemma with_sequence_keys:
  assumes "ledger_keys l"
  shows "ledger_keys (with_sequence prefix q l)"
  using assms
  by (auto simp: ledger_keys_def with_sequence_def MakeCurrentSequenceKey_def MakeSequenceKey_def split: if_splits)

context ledger_stub
begin

lemma invoke_changes:
  assumes "deployed A L K clean H S c" "invoke H c S i s = (Ok (), s')" "i \<noteq> InvokeUpdateSequence"
  shows "changes (\<lambda>k. db_key k \<or> event_key k \<or> commitment_key (paths (ibc_client_lib H)) (host_prefix H) k) (final s) (final s')"
proof -
  from assms(1) have d: "based_on A L S c" "reading_chaincode clean c" "eventHandler c = DefaultMultiEventHandler K"
    by (auto simp: deployed_def)
  show ?thesis
  proof (cases i)
    case (InvokeTx tx)
    with assms(2) obtain res where "HandleTx H c S tx s = (Ok res, s')" by (auto simp: discard_Ok)
    from HandleTx_changes [OF d(1,3) this] show ?thesis by (rule changes_mono) auto
  next
    case InvokeEndorseSequence
    with assms(2) obtain ce where "EndorseSequenceCommitment H c S s = (Ok ce, s')" by (auto simp: discard_Ok)
    from sequence_endorsement_changes [OF this, of "paths (ibc_client_lib H)" "host_prefix H"]
    show ?thesis by (rule changes_mono) auto
  next
    case (InvokeEndorse q)
    with assms(2) obtain ce where "endorse H c S q s = (Ok ce, s')" by (auto simp: discard_Ok)
    from endorse_changes [OF d(2) this] show ?thesis by (rule changes_mono) auto
  qed (use assms(3) in simp)
qed

lemma InitChaincode_starts:
  assumes "InitChaincode c S appState s = (Ok (), s')" "ledger_keys (final s)" "based_on A L S c"
  shows "sequence_chain (sequenceMgr c) S view final commit 1 (commit s') \<and> ledger_keys (view (commit s'))"
proof -
  from assms(1) obtain t q where t: "Runner_Init (runner c) S (bytes_of_string appState) s = (Ok (), t)"
    and q: "InitSequence (sequenceMgr c) S t = (Ok q, s')"
    by (auto simp: InitChaincode_def then_call_Ok)
  from Runner_Init_changes [OF assms(3) t] have "ledger_keys (final t)"
    by (intro ledger_keys_changes [OF assms(2)]) (erule changes_mono, simp)
  moreover obtain q' where "final s' = with_sequence (sm_prefix (sequenceMgr c)) q' (final t)"
    using InitSequence_ok [OF q] by metis
  ultimately have "ledger_keys (view (commit s'))" by (simp add: commit_view with_sequence_keys)
  with chain_init [OF q] show ?thesis by simp
qed

lemma chaincode_run_sequences:
  assumes "chaincode_run H c S view final commit k s" "deployed A L K clean H S c"
  shows "sequence_chain (sequenceMgr c) S view final commit k s \<and> ledger_keys (view s) \<and> final s = view s"
  using assms(1)
proof induction
  case (run_init s appState s')
  have "based_on A L S c" using assms(2) by (simp add: deployed_def)
  from InitChaincode_starts [OF run_init(2,1) this] show ?case by (simp add: commit_view commit_final)
next
  case (run_again k s appState s')
  have "based_on A L S c" using assms(2) by (simp add: deployed_def)
  moreover have "ledger_keys (final s)" using run_again(3) by simp
  ultimately show ?case using InitChaincode_starts [OF run_again(2)] by (simp add: commit_view commit_final)
next
  case (run_invoke k s i s')
  show ?case
  proof (cases "i = InvokeUpdateSequence")
    case True
    with run_invoke(2) obtain q where q: "UpdateSequence (sequenceMgr c) S s = (Ok q, s')"
      by (auto simp: discard_Ok Chaincode_UpdateSequence_def)
    then obtain q' where "final s' = with_sequence (sm_prefix (sequenceMgr c)) q' (final s)"
      by (rule UpdateSequence_ok) blast
    with run_invoke(3) have "ledger_keys (view (commit s'))" by (simp add: commit_view with_sequence_keys)
    with True run_invoke(3) chain_update [OF _ q] show ?thesis by (simp add: commit_view commit_final)
  next
    case False
    have ch: "changes (\<lambda>k. db_key k \<or> event_key k \<or> commitment_key (paths (ibc_client_lib H)) (host_prefix H) k)
        (view s) (view (commit s'))"
      using invoke_changes [OF assms(2) run_invoke(2) False] run_invoke(3) by (simp add: commit_view)
    have "sm_prefix (sequenceMgr c) = host_prefix H" "ics24_paths (paths (ibc_client_lib H))"
      using assms(2) by (auto simp: deployed_def)
    with changes_same_sequences [OF ch] have "same_sequences (sm_prefix (sequenceMgr c)) (view s) (view (commit s'))" by simp
    then have "sequence_chain (sequenceMgr c) S view final commit k (commit s')"
      using run_invoke(3) by (auto simp: commit_view commit_final intro: chain_other)
    with False run_invoke(3) ledger_keys_changes [OF _ ch] show ?thesis by (simp add: commit_view commit_final)
  qed
next
  case (run_next k s s')
  then show ?case by (auto simp: same_sequences_def intro: chain_other)
qed

end


section \<open>A small chaincode\<close>

text \<open>
  The application of \<open>Base_App\<close> with a keeper that knows the commitment of one packet, over the
  in-memory stub.
\<close>

definition demo_keeper :: "(iterItem list, fake_ledger, bytes, bytes, bytes, bytes) ibc_keeper" where
  "demo_keeper = \<lparr>GetClientState = (\<lambda>_ _ m. give (None, m)), GetClientConsensusState = (\<lambda>_ _ _ m. give (None, m)),
     GetConnection = (\<lambda>_ _ m. give (None, m)), GetChannel = (\<lambda>_ _ _ m. give (None, m)),
     GetPacketCommitment = (\<lambda>_ p i n m. give (if p = ''p'' \<and> i = ''c'' \<and> n = 1 then Some [7] else None, m)),
     GetPacketAcknowledgement = (\<lambda>_ _ _ _ m. give (None, m)), GetPacketReceipt = (\<lambda>_ _ _ _ m. give (None, m)),
     GetNextSequenceRecv = (\<lambda>_ _ _ m. give (None, m))\<rparr>"

definition demo_provider ::
    "(unit, unit, fake_ledger, (iterItem list, fake_ledger, bytes, bytes, bytes, bytes) Application) AppProvider" where
  "demo_provider name db mgr blockProvider ah =
     give (base_application demo_sdk demo_kv_lib demo_keeper (SetBlockProvider (Some blockProvider) demo_app))"

definition demo_chaincode :: "(unit, unit, iterItem list, fake_ledger, bytes, bytes, bytes, bytes) ibc_chaincode" where
  "demo_chaincode = NewIBCChaincode ''demo'' demo_manager demo_provider () (\<lambda>_. ()) (DefaultMultiEventHandler ibc_packet_lib)"

definition demo_chaincode_lib :: "(bytes, bytes, bytes, bytes) chaincode_lib" where
  "demo_chaincode_lib = \<lparr>ibc_client_lib = plain_client_lib, host_StoreKey = ''ibc'', json_Marshal_Events = (\<lambda>_. Ok []),
     json_Unmarshal_RequestQuery = (\<lambda>_. Err (ErrorNew ''json''))\<rparr>"

lemma demo_chaincode_simps [simp]:
  "runner demo_chaincode = NewAppRunner ''demo'' demo_provider () (\<lambda>_. ()) demo_manager"
  "sequenceMgr demo_chaincode = demo_manager" "eventHandler demo_chaincode = DefaultMultiEventHandler ibc_packet_lib"
  by (simp_all add: demo_chaincode_def NewIBCChaincode_def)

lemma demo_runner_simps [simp]:
  "appName (NewAppRunner n p a d m) = n" "appProvider (NewAppRunner n p a d m) = p"
  "anteHandlerProvider (NewAppRunner n p a d m) = a" "dbProvider (NewAppRunner n p a d m) = d" "seqMgr (NewAppRunner n p a d m) = m"
  by (simp_all add: NewAppRunner_def)

lemma demo_provides:
  "provides demo_chaincode S s app \<longleftrightarrow> app = base_application demo_sdk demo_kv_lib demo_keeper
     (SetBlockProvider (Some (GetBlockProvider (runner demo_chaincode) S)) demo_app)"
  by (auto simp: provides_def demo_provider_def)

lemma demo_clean_keeper: "reading_keeper (\<lambda>m. m = []) demo_keeper"
  by (auto simp: reading_keeper_def clean_read_def demo_keeper_def)

lemma demo_reading: "reading_chaincode (\<lambda>m. m = []) demo_chaincode"
proof -
  have "reading_app (\<lambda>m. m = []) app" if "provides demo_chaincode S s app" for S s app
    using that unfolding demo_provides reading_app_def
    by (auto simp: base_application_def demo_clean_keeper MakeCacheContext_def new_cache_store_def CacheMultiStore_def demo_sdk_def)
  then show ?thesis by (auto simp: reading_chaincode_def reading_provider_def demo_provider_def)
qed

lemma demo_write_commands:
  "\<exists>cmds. for_each (\<lambda>cmd. command_Exec MakeFakeStub cmd False) cmds s =
     (Ok (), snd (for_each (\<lambda>(k, v). DB_Set MakeFakeStub k v) m s))"
proof (induction m arbitrary: s)
  case Nil
  show ?case by (rule exI [of _ "[]"]) simp
next
  case (Cons kv m)
  obtain k v where kv: "kv = (k, v)" by fastforce
  show ?case
  proof (cases "k = [] \<or> v = None")
    case True
    then show ?thesis by (intro exI [of _ "[]"]) (auto simp: kv DB_Set_def then_call_def)
  next
    case False
    then obtain t where t: "DB_Set MakeFakeStub k v s = (Ok (), t)" by (auto simp: DB_Set_def fake_PutState_def)
    from Cons.IH [of t] obtain cmds where
      "for_each (\<lambda>cmd. command_Exec MakeFakeStub cmd False) cmds t = (Ok (), snd (for_each (\<lambda>(k, v). DB_Set MakeFakeStub k v) m t))" ..
    with t show ?thesis by (intro exI [of _ "setCommand k v # cmds"]) (simp add: kv then_call_def)
  qed
qed

lemma demo_writes_back: "writes_back MakeFakeStub (write_base demo_sdk)"
  unfolding writes_back_def
proof (intro allI impI)
  fix m s s'
  assume "write_base demo_sdk m s = (Ok (), s')"
  then have "s' = snd (for_each (\<lambda>(k, v). DB_Set MakeFakeStub k v) m s)" by (simp add: demo_sdk_def)
  with demo_write_commands show "\<exists>cmds. for_each (\<lambda>cmd. command_Exec MakeFakeStub cmd False) cmds s = (Ok (), s')" by simp
qed

lemma demo_based: "based_on demo_sdk demo_kv_lib MakeFakeStub demo_chaincode"
proof -
  let ?app = "SetBlockProvider (Some (GetBlockProvider (runner demo_chaincode) MakeFakeStub)) demo_app"
  have "reads_only (GetBlockProvider (runner demo_chaincode) MakeFakeStub)"
    by (auto simp: reads_only_def GetBlockProvider_def then_call_def must_call_def must_def GetCurrentSequence_def
        getCurrentSequence_def fake_GetState_def split: outcome.splits option.splits prod.splits)
  then have "cached_app ?app"
    by (auto simp: cached_app_def demo_app_def SetBlockProvider_def NewBaseApp_def demo_handler_def)
  moreover have "app_initChainer ?app = None"
    by (simp add: demo_app_def SetBlockProvider_def NewBaseApp_def)
  ultimately have "\<exists>keeper bapp. base_application demo_sdk demo_kv_lib demo_keeper ?app = base_application demo_sdk demo_kv_lib keeper bapp
      \<and> cached_app bapp \<and> (\<forall>f ctx bz m. app_initChainer bapp = Some f \<longrightarrow> reads_only (f ctx bz m))"
    by (intro exI [of _ demo_keeper] exI [of _ ?app]) simp
  then show ?thesis
    unfolding based_on_def demo_provides by (simp add: demo_writes_back reading_provider_def demo_provider_def)
qed

lemma demo_deployed: "deployed demo_sdk demo_kv_lib ibc_packet_lib (\<lambda>m. m = []) demo_chaincode_lib MakeFakeStub demo_chaincode"
  by (simp add: deployed_def demo_based demo_reading demo_chaincode_lib_def host_prefix_def plain_client_lib_def
      standard_lib_paths demo_manager_def NewDefaultSequenceManager_def NewSequenceManager_def)


section \<open>Properties\<close>

text \<open>
  C9: An endorsement commits the state of the application and nothing else. When one of the eight
  endorsing functions returns, the entry it returns decodes to the encoded state of the application
  about the requested subject (for a receipt: its absence), at the key of that subject under the prefix
  of the host, and that entry is the one write of the transaction: no other key of the ledger changes.
  In particular nothing is endorsed that is not there.
\<close>

theorem endorsement_commits_state:
  assumes "ledger_stub S view final commit" "reading_chaincode clean c" "endorse H c S q s = (Ok ce, s')"
  shows "\<exists>app ctx ms writer v. provides c S s app \<and> app_MakeCacheContext app block_header_zero = ((ctx, ms), writer)
    \<and> app_state (ibc_client_lib H) (app_GetIBCKeeper app) ctx ms s q v
    \<and> EntryFromCommitment ce =
        Ok \<lparr>entry_Key = subject_key (paths (ibc_client_lib H)) (host_prefix H) (endorsement_subject q), entry_Value = Some (slice_bytes v)\<rparr>
    \<and> PutState S (subject_key (paths (ibc_client_lib H)) (host_prefix H) (endorsement_subject q)) v s = (Ok (), s')
    \<and> (\<forall>k. k \<noteq> subject_key (paths (ibc_client_lib H)) (host_prefix H) (endorsement_subject q) \<longrightarrow> final s' k = final s k)"
proof -
  let ?k = "subject_key (paths (ibc_client_lib H)) (host_prefix H) (endorsement_subject q)"
  from endorse_Ok [OF assms(2,3)] obtain app ctx ms writer v where
      *: "provides c S s app" "app_MakeCacheContext app block_header_zero = ((ctx, ms), writer)"
      "app_state (ibc_client_lib H) (app_GetIBCKeeper app) ctx ms s q v" "PutState S ?k v s = (Ok (), s')"
      "ce = ToCommitment \<lparr>entry_Key = ?k, entry_Value = v\<rparr>"
    by (auto simp: endorsed_entry_def)
  have "changes (\<lambda>k. k = ?k) (final s) (final s')" by (rule ledger_stub.put_changes [OF assms(1) *(4)]) simp
  with * show ?thesis
    by (intro exI [of _ app] exI [of _ ctx] exI [of _ ms] exI [of _ writer] exI [of _ v])
      (simp add: changes_def EntryFromCommitment_def ToCommitment_def)
qed

lemma demo_endorsed:
  "\<exists>ce s'. endorse demo_chaincode_lib demo_chaincode MakeFakeStub (EndorsePacket ''p'' ''c'' 1) (empty_ledger None) = (Ok ce, s')"
  by (simp add: endorse_defs endorse_entry_def RunFunc_def demo_provider_def then_call_def base_application_def MakeCacheContext_def
      demo_keeper_def then_make_def make_entry_defs new_cache_store_def CacheMultiStore_def demo_sdk_def put_entry_def fake_PutState_def)

theorem endorsement_commits_state_witness:
  "\<exists>ce s'. endorse demo_chaincode_lib demo_chaincode MakeFakeStub (EndorsePacket ''p'' ''c'' 1) (empty_ledger None) = (Ok ce, s')
     \<and> EntryFromCommitment ce = Ok \<lparr>entry_Key = MakePacketCommitmentEntryKey standard_lib (bytes_of_string ''ibc'') ''p'' ''c'' 1,
         entry_Value = Some [7]\<rparr>"
proof -
  from demo_endorsed obtain ce s' where
      e: "endorse demo_chaincode_lib demo_chaincode MakeFakeStub (EndorsePacket ''p'' ''c'' 1) (empty_ledger None) = (Ok ce, s')"
    by blast
  from endorsement_commits_state [where view = fake_view, OF fake.ledger_stub_axioms demo_reading e] e show ?thesis
    by (auto simp: demo_provides base_application_def reads_as_def demo_keeper_def demo_chaincode_lib_def host_prefix_def
        plain_client_lib_def)
qed


text \<open>
  C5: Whatever the chaincode does, its clock stands. In every run of a deployed chaincode (initialised,
  then transactions, endorsements, updates of the sequence and initialisations once more, committed in any
  order), when \<open>k\<close> sequences have been made since the last initialisation, the current sequence is \<open>k\<close>,
  all of \<open>1, \<dots>, k\<close> can still be read, their
  times are at least \<open>MinTimeInterval\<close> apart, and every key on the ledger still is one of the database
  or begins with \<open>h\<close>, \<open>e\<close> or \<open>/\<close>: neither the application nor the event handlers nor the commitments
  ever touch the entries of the sequence manager.
\<close>

theorem chaincode_history:
  assumes "ledger_stub S view final commit" "deployed A L K clean H S c" "sane (sequenceMgr c)"
    and "chaincode_run H c S view final commit k s" "k < 2 ^ 64"
  shows "ledger_keys (view s) \<and> (\<exists>ts. length ts = k \<and> holds_sequences (sequenceMgr c) ts (view s) \<and> spaced (sequenceMgr c) ts)"
proof -
  from ledger_stub.chaincode_run_sequences [OF assms(1,4,2)]
  have "sequence_chain (sequenceMgr c) S view final commit k s" "ledger_keys (view s)" by auto
  with ledger_stub.sequence_chain_holds [OF assms(1) _ assms(3,5)] show ?thesis by blast
qed

lemma demo_run: "\<exists>s. chaincode_run demo_chaincode_lib demo_chaincode MakeFakeStub fake_view fake_view (\<lambda>s. s) 1 s"
proof -
  from demo_first obtain s' where
    q: "InitSequence demo_manager MakeFakeStub (empty_ledger (Some 1000)) = (Ok (NewSequence 1 1000), s')" by blast
  have "Runner_Init (runner demo_chaincode) MakeFakeStub (bytes_of_string '''') (empty_ledger (Some 1000)) = (Ok (), empty_ledger (Some 1000))"
    by (simp add: Runner_Init_def RunFunc_def demo_provider_def then_call_def base_application_def InitChain_def demo_app_def
        SetBlockProvider_def NewBaseApp_def)
  with q have "InitChaincode demo_chaincode MakeFakeStub '''' (empty_ledger (Some 1000)) = (Ok (), s')"
    by (simp add: InitChaincode_def then_call_def)
  moreover have "ledger_keys (fake_view (empty_ledger (Some 1000)))"
    by (simp add: ledger_keys_def fake_view_def empty_ledger_def DAList.lookup.rep_eq DAList.empty.rep_eq)
  ultimately show ?thesis using run_init [where commit = "\<lambda>s. s"] by fastforce
qed

theorem chaincode_history_witness:
  "\<exists>s ts. length ts = 1 \<and> holds_sequences demo_manager ts (fake_view s) \<and> spaced demo_manager ts \<and> ledger_keys (fake_view s)"
proof -
  from demo_run obtain s where r: "chaincode_run demo_chaincode_lib demo_chaincode MakeFakeStub fake_view fake_view (\<lambda>s. s) 1 s" ..
  have "sane (sequenceMgr demo_chaincode)" by (simp add: sane_demo)
  from chaincode_history [where view = fake_view, OF fake.ledger_stub_axioms demo_deployed this r] show ?thesis by auto
qed

end
