(* ===== verification/Self_Client.thy ===== *)
theory Self_Client
  imports Chaincode
begin

text \<open>
  The client keeper of \<open>light-clients/fabric/keeper/client_keeper.go\<close>, which tells the connection handshake
  what the counterparty's client of this chain should have recorded: the consensus state of a height is
  the time of the sequence with that number.
\<close>

section \<open>The keeper\<close>

text \<open>The embedded keeper of ibc-go is a value of any type.\<close>

record ('k, 's) ClientKeeper =
  ck_Keeper :: 'k
  ck_seqMgr :: "'s SequenceManager"

definition NewClientKeeper :: "'k \<Rightarrow> 's SequenceManager \<Rightarrow> ('k, 's) ClientKeeper" where
  "NewClientKeeper k mgr = \<lparr>ck_Keeper = k, ck_seqMgr = mgr\<rparr>"


text \<open>An \<open>exported.ClientState\<close>: a pointer to a client state of this client, or another type.\<close>

datatype any_client = FabricClient "ClientState option" | OtherClient

definition ValidateSelfClient :: "any_client \<Rightarrow> unit outcome" where
  "ValidateSelfClient clientState =
     (case clientState of
        FabricClient cs \<Rightarrow> Ok ()
      | OtherClient \<Rightarrow> Err (ErrorNew ''unexpected client state type: %T''))"

text \<open>The two fields of the keeper of ibc-go that are used; \<open>connectionkeeper.NewKeeper\<close> is an argument.\<close>

record ('k, 'cn) ibc_Keeper =
  ibc_ClientKeeper :: 'k
  ibc_ConnectionKeeper :: 'cn

definition ApplyPatchToIBCKeeper ::
    "(('k, 's) ClientKeeper \<Rightarrow> 'cn) \<Rightarrow> ('k, 'cn) ibc_Keeper \<Rightarrow> 's SequenceManager \<Rightarrow> ('k, 'cn) ibc_Keeper" where
  "ApplyPatchToIBCKeeper connection_NewKeeper k mgr =
     k\<lparr>ibc_ConnectionKeeper := connection_NewKeeper (NewClientKeeper (ibc_ClientKeeper k) mgr)\<rparr>"

section \<open>Lemmas\<close>


section \<open>Properties\<close>



end
