(* ===== verification/Sim_App.thy ===== *)
theory Sim_App
  imports Ante Self_Client
begin

text \<open>
  The application that is deployed, \<open>simapp/app.go\<close>, and the program that starts it,
  \<open>simapp/cmd/fabibc/main.go\<close>: the stores, keepers and modules are put together on the base application.
  Keepers and modules belong to the Cosmos SDK and to ibc-go; they are values of one type \<open>'o\<close> that are only
  passed around, and their constructors are the record \<open>sim_lib\<close>. A constructor or an operation that the
  library lets panic on its arguments returns an outcome. The manager of modules registers handlers and
  services of modules that are not part of this code; only the registration of query services, which is
  code of the base application, can fail here.
\<close>

section \<open>Libraries\<close>

text \<open>The names of the stores, of the modules, and the other names of the SDK and of ibc-go.\<close>

record store_names =
  auth_StoreKey :: string
  bank_StoreKey :: string
  staking_StoreKey :: string
  params_StoreKey :: string
  ibchost_StoreKey :: string
  transfer_StoreKey :: string
  capability_StoreKey :: string
  capability_MemStoreKey :: string
  params_TStoreKey :: string

record module_names =
  auth_ModuleName :: string
  bank_ModuleName :: string
  staking_ModuleName :: string
  distr_ModuleName :: string
  transfer_ModuleName :: string
  ibchost_ModuleName :: string
  capability_ModuleName :: string
  FeeCollectorName :: string
  auth_Minter :: string
  auth_Burner :: string
  baseapp_Paramspace :: string

text \<open>
  Keys are new pointers. \<open>range_values\<close> and \<open>range_keys\<close> are the orders in which Go iterates over maps.
\<close>

record 'db key_lib =
  NewKVStoreKeys :: "string list \<Rightarrow> string \<rightharpoonup> StoreKey"
  NewMemoryStoreKeys :: "string list \<Rightarrow> string \<rightharpoonup> StoreKey"
  NewTransientStoreKeys :: "string list \<Rightarrow> string \<rightharpoonup> StoreKey"
  range_values :: "(string \<rightharpoonup> StoreKey) \<Rightarrow> StoreKey list"
  range_keys :: "(StoreKey \<rightharpoonup> 'db storeParams) \<Rightarrow> StoreKey list"

text \<open>The new routers of a base application, the decoder of transactions, the reflection service and the ante decorators.\<close>

record ('m, 's, 'tx, 'msg, 'i, 'r) base_lib =
  new_Router :: "string \<Rightarrow> ('m, 's, 'msg) handler option"
  new_QueryRouter :: "string \<Rightarrow> ('m, 's) querier option"
  new_MsgServiceRouter :: "'msg \<Rightarrow> ('m, 's, 'msg) handler option"
  TxJSONDecoder :: "bytes \<Rightarrow> 'tx outcome"
  reflection_service :: "('m, 's, 'i, 'r) ServiceDesc"
  ChainAnteDecorators :: "(('m, 's, 'tx) ante \<Rightarrow> ('m, 's, 'tx) ante) list \<Rightarrow> ('m, 's, 'tx) ante option"
  ValidateBasicDecorator :: "('m, 's, 'tx) ante \<Rightarrow> ('m, 's, 'tx) ante"

type_synonym 'o ibc_core = "('o, 'o) ibc_Keeper"

text \<open>Keepers. An operation that changes a keeper returns the changed keeper first.\<close>

record ('m, 's, 'o) keeper_lib =
  params_NewKeeper :: "StoreKey option \<Rightarrow> StoreKey option \<Rightarrow> 'o"
  params_Subspace :: "'o \<Rightarrow> string \<Rightarrow> ('o \<times> 'o) outcome"
  params_GetSubspace :: "'o \<Rightarrow> string \<Rightarrow> 'o \<times> bool"
  WithKeyTable :: "'o \<Rightarrow> nat outcome"
  capability_NewKeeper :: "StoreKey option \<Rightarrow> StoreKey option \<Rightarrow> 'o"
  ScopeToModule :: "'o \<Rightarrow> string \<Rightarrow> ('o \<times> 'o) outcome"
  InitializeAndSeal :: "'o \<Rightarrow> 's sdk_context \<Rightarrow> ('m, 's, 'o) cached"

text \<open>Keepers of accounts and coins, and of ibc-go.\<close>

record ('s, 'o) app_keepers =
  NewAccountKeeper :: "StoreKey option \<Rightarrow> 'o \<Rightarrow> (string \<rightharpoonup> string list) \<Rightarrow> 'o"
  NewModuleAddress :: "string \<Rightarrow> string"
  NewBaseKeeper :: "StoreKey option \<Rightarrow> 'o \<Rightarrow> 'o \<Rightarrow> (string \<rightharpoonup> bool) \<Rightarrow> 'o"
  ibc_NewKeeper :: "StoreKey option \<Rightarrow> 'o \<Rightarrow> 'o \<Rightarrow> 'o ibc_core"
  connection_NewKeeper :: "StoreKey option \<Rightarrow> 'o \<Rightarrow> ('o, 's) ClientKeeper \<Rightarrow> 'o"
  transfer_NewKeeper :: "StoreKey option \<Rightarrow> 'o \<Rightarrow> 'o ibc_core \<Rightarrow> 'o \<Rightarrow> 'o \<Rightarrow> 'o \<Rightarrow> 'o outcome"
  router_with_route :: "string \<Rightarrow> 'o \<Rightarrow> 'o outcome"
  ibc_SetRouter :: "'o ibc_core \<Rightarrow> 'o \<Rightarrow> 'o ibc_core outcome"

text \<open>
  Modules and their manager. \<open>msg_services\<close> and \<open>query_services\<close> are what \<open>RegisterServices\<close> does with the two
  routers of the configurator.
\<close>

record 'o module_lib =
  transfer_NewAppModule :: "'o \<Rightarrow> 'o"
  auth_NewAppModule :: "'o \<Rightarrow> 'o"
  bank_NewAppModule :: "'o \<Rightarrow> 'o \<Rightarrow> 'o"
  capability_NewAppModule :: "'o \<Rightarrow> 'o"
  ibc_NewAppModule :: "'o ibc_core \<Rightarrow> 'o"
  params_NewAppModule :: "'o \<Rightarrow> 'o"

record ('m, 's, 'msg, 'i, 'r, 'o) manager_lib =
  module_NewManager :: "'o list \<Rightarrow> 'o"
  SetOrderInitGenesis :: "'o \<Rightarrow> string list \<Rightarrow> 'o"
  RegisterRoutes :: "'o \<Rightarrow> (string \<Rightarrow> ('m, 's, 'msg) handler option) \<times> (string \<Rightarrow> ('m, 's) querier option)
    \<Rightarrow> (string \<Rightarrow> ('m, 's, 'msg) handler option) \<times> (string \<Rightarrow> ('m, 's) querier option)"
  msg_services :: "'o \<Rightarrow> ('msg \<Rightarrow> ('m, 's, 'msg) handler option) \<Rightarrow> ('msg \<Rightarrow> ('m, 's, 'msg) handler option)"
  query_services :: "'o \<Rightarrow> ('m, 's, 'i, 'r) ServiceDesc list"
  tmjson_Unmarshal_GenesisState :: "bytes \<Rightarrow> 'o outcome"
  InitGenesis :: "'o \<Rightarrow> 's sdk_context \<Rightarrow> 'o \<Rightarrow> ('m, 's, unit) cached"

record ('db, 'm, 's, 'tx, 'msg, 'i, 'r, 'o) sim_lib =
  lib_stores :: store_names
  lib_names :: module_names
  lib_keys :: "'db key_lib"
  lib_base :: "('m, 's, 'tx, 'msg, 'i, 'r) base_lib"
  lib_keepers :: "('m, 's, 'o) keeper_lib"
  lib_ibc :: "('s, 'o) app_keepers"
  lib_modules :: "'o module_lib"
  lib_manager :: "('m, 's, 'msg, 'i, 'r, 'o) manager_lib"

section \<open>Accounts and parameters\<close>

definition maccPerms :: "module_names \<Rightarrow> (string \<times> string list) list" where
  "maccPerms N = [(FeeCollectorName N, []), (distr_ModuleName N, []), (transfer_ModuleName N, [auth_Minter N, auth_Burner N])]"

definition allowedReceivingModAcc :: "module_names \<Rightarrow> string \<Rightarrow> bool" where
  "allowedReceivingModAcc N acc = (acc = distr_ModuleName N)"

text \<open>Every module account with a flag; the loop is over the keys of the map.\<close>

definition BlockedAddrs :: "('s, 'o) app_keepers \<Rightarrow> module_names \<Rightarrow> string \<rightharpoonup> bool" where
  "BlockedAddrs X N = fold (\<lambda>acc blockedAddrs. blockedAddrs(NewModuleAddress X acc \<mapsto> \<not> allowedReceivingModAcc N acc))
     (map fst (maccPerms N)) Map.empty"

text \<open>The subspaces that are made are dropped; the keeper remembers them.\<close>

definition initParamsKeeper ::
    "('m, 's, 'o) keeper_lib \<Rightarrow> module_names \<Rightarrow> StoreKey option \<Rightarrow> StoreKey option \<Rightarrow> 'o outcome" where
  "initParamsKeeper X N key tkey =
     fold_outcome (\<lambda>paramsKeeper name. and_then (params_Subspace X paramsKeeper name) (\<lambda>(paramsKeeper', _). Ok paramsKeeper'))
       (params_NewKeeper X key tkey)
       [auth_ModuleName N, bank_ModuleName N, staking_ModuleName N, distr_ModuleName N, transfer_ModuleName N, ibchost_ModuleName N]"

definition GetSubspace :: "('m, 's, 'o) keeper_lib \<Rightarrow> 'o \<Rightarrow> string \<Rightarrow> 'o" where
  "GetSubspace X paramsKeeper moduleName = fst (params_GetSubspace X paramsKeeper moduleName)"

section \<open>Handlers\<close>

text \<open>Only one decorator is active; the others are commented out.\<close>

definition DefaultAnteHandler ::
    "('m, 's, 'tx, 'msg, 'i, 'r) base_lib \<Rightarrow> 'o ibc_core \<Rightarrow> ('m, 's, 'tx) ante option" where
  "DefaultAnteHandler X ibcKeeper = ChainAnteDecorators X [ValidateBasicDecorator X]"

definition InitChainer ::
    "('m, 's, 'msg, 'i, 'r, 'o) manager_lib \<Rightarrow> 'o \<Rightarrow> 's sdk_context \<Rightarrow> bytes \<Rightarrow> ('m, 's, unit) cached" where
  "InitChainer X mm ctx appStateBytes m =
     then_call (lift (tmjson_Unmarshal_GenesisState X appStateBytes)) (\<lambda>genesisState. InitGenesis X mm ctx genesisState m)"

section \<open>The application\<close>

text \<open>The fields of \<open>IBCApp\<close> that are set: the keepers, and the rest.\<close>

record 'o IBCApp_keepers =
  AccountKeeper :: 'o
  BankKeeper :: 'o
  CapabilityKeeper :: 'o
  ParamsKeeper :: 'o
  IBCKeeper :: "'o ibc_core"
  TransferKeeper :: 'o
  ScopedIBCKeeper :: 'o
  ScopedTransferKeeper :: 'o

record ('db, 'm, 's, 'tx, 'msg, 'i, 'r, 'o) IBCApp =
  ia_BaseApp :: "('db, 'm, 's, 'tx, 'msg, 'i, 'r) BaseApp"
  ia_keys :: "string \<rightharpoonup> StoreKey"
  ia_memKeys :: "string \<rightharpoonup> StoreKey"
  ia_keepers :: "'o IBCApp_keepers"
  ia_mm :: 'o

definition kv_names :: "store_names \<Rightarrow> string list" where
  "kv_names T = [auth_StoreKey T, bank_StoreKey T, staking_StoreKey T, params_StoreKey T, ibchost_StoreKey T, transfer_StoreKey T,
     capability_StoreKey T]"

text \<open>The message router of the SDK only remembers the registry.\<close>

definition App_SetInterfaceRegistry ::
    "('m, 's, 'i, 'r) ServiceDesc \<Rightarrow> ('db, 'm, 's, 'tx, 'msg, 'i, 'r) BaseApp \<Rightarrow> ('db, 'm, 's, 'tx, 'msg, 'i, 'r) BaseApp outcome" where
  "App_SetInterfaceRegistry reflection app =
     and_then (SetInterfaceRegistry reflection (app_grpcQueryRouter app)) (\<lambda>qrt. Ok (app\<lparr>app_grpcQueryRouter := qrt\<rparr>))"

text \<open>The keepers, the parameter store of the base application and the module of transfers.\<close>

definition new_keepers ::
    "('db, 'm, 's, 'tx, 'msg, 'i, 'r, 'o) sim_lib \<Rightarrow> (string \<rightharpoonup> StoreKey) \<Rightarrow> (string \<rightharpoonup> StoreKey) \<Rightarrow> (string \<rightharpoonup> StoreKey)
       \<Rightarrow> 's SequenceManager \<Rightarrow> ('db, 'm, 's, 'tx, 'msg, 'i, 'r) BaseApp
       \<Rightarrow> (('db, 'm, 's, 'tx, 'msg, 'i, 'r) BaseApp \<times> 'o IBCApp_keepers \<times> 'o) outcome" where
  "new_keepers X keys memKeys tkeys mgr bApp =
     (let K = lib_keepers X; I = lib_ibc X; T = lib_stores X; N = lib_names X in
      and_then (initParamsKeeper K N (keys (params_StoreKey T)) (tkeys (params_TStoreKey T))) (\<lambda>pk.
      and_then (params_Subspace K pk (baseapp_Paramspace N)) (\<lambda>(pk, sub).
      and_then (WithKeyTable K sub) (\<lambda>paramStore.
      and_then (SetParamStore (Some paramStore) bApp) (\<lambda>bApp.
      and_then (ScopeToModule K (capability_NewKeeper K (keys (capability_StoreKey T)) (memKeys (capability_MemStoreKey T)))
          (ibchost_ModuleName N)) (\<lambda>(ck, scopedIBC).
      and_then (ScopeToModule K ck (transfer_ModuleName N)) (\<lambda>(ck, scopedTransfer).
        let ak = NewAccountKeeper I (keys (auth_StoreKey T)) (GetSubspace K pk (auth_ModuleName N)) (map_of (maccPerms N));
            bk = NewBaseKeeper I (keys (bank_StoreKey T)) ak (GetSubspace K pk (bank_ModuleName N)) (BlockedAddrs I N);
            ibcKeeper = ibc_NewKeeper I (keys (ibchost_StoreKey T)) (GetSubspace K pk (ibchost_ModuleName N)) scopedIBC;
            ik = ApplyPatchToIBCKeeper
              (connection_NewKeeper I (keys (ibchost_StoreKey T)) (GetSubspace K pk (ibchost_ModuleName N))) ibcKeeper mgr
        in and_then (transfer_NewKeeper I (keys (transfer_StoreKey T)) (GetSubspace K pk (transfer_ModuleName N)) ik ak bk scopedTransfer) (\<lambda>tk.
             let transferModule = transfer_NewAppModule (lib_modules X) tk
             in and_then (router_with_route I (transfer_ModuleName N) transferModule) (\<lambda>ibcRouter.
                  and_then (ibc_SetRouter I ik ibcRouter) (\<lambda>ik.
                    Ok (bApp, \<lparr>AccountKeeper = ak, BankKeeper = bk, CapabilityKeeper = ck, ParamsKeeper = pk, IBCKeeper = ik,
                      TransferKeeper = tk, ScopedIBCKeeper = scopedIBC, ScopedTransferKeeper = scopedTransfer\<rparr>, transferModule)))))))))))"

definition new_manager ::
    "('db, 'm, 's, 'tx, 'msg, 'i, 'r, 'o) sim_lib \<Rightarrow> 'o IBCApp_keepers \<Rightarrow> 'o \<Rightarrow> 'o" where
  "new_manager X ks transferModule =
     (let M = lib_modules X; N = lib_names X in
      SetOrderInitGenesis (lib_manager X)
        (module_NewManager (lib_manager X)
          [auth_NewAppModule M (AccountKeeper ks), bank_NewAppModule M (BankKeeper ks) (AccountKeeper ks),
           capability_NewAppModule M (CapabilityKeeper ks), ibc_NewAppModule M (IBCKeeper ks), params_NewAppModule M (ParamsKeeper ks),
           transferModule])
        [capability_ModuleName N, auth_ModuleName N, bank_ModuleName N, distr_ModuleName N, staking_ModuleName N, ibchost_ModuleName N,
         transfer_ModuleName N])"

text \<open>\<open>RegisterRoutes\<close> and \<open>RegisterServices\<close> of the manager on the routers of the base application.\<close>

definition register_modules ::
    "('m, 's, 'msg, 'i, 'r, 'o) manager_lib \<Rightarrow> 'o \<Rightarrow> ('db, 'm, 's, 'tx, 'msg, 'i, 'r) BaseApp
       \<Rightarrow> ('db, 'm, 's, 'tx, 'msg, 'i, 'r) BaseApp outcome" where
  "register_modules G mm bApp =
     and_then (Router bApp) (\<lambda>router.
       let (router', queryRouter') = RegisterRoutes G mm (router, app_queryRouter bApp)
       in and_then (fold_outcome RegisterService (app_grpcQueryRouter bApp) (query_services G mm)) (\<lambda>qrt.
            Ok (bApp\<lparr>app_router := router', app_queryRouter := queryRouter',
                     app_msgServiceRouter := msg_services G mm (app_msgServiceRouter bApp), app_grpcQueryRouter := qrt\<rparr>)))"

text \<open>The stores, the handlers and the block provider.\<close>

definition setup_base ::
    "('db, 'm, 's, 'tx, 'msg, 'i, 'r, 'o) sim_lib \<Rightarrow> (string \<rightharpoonup> StoreKey) \<Rightarrow> (string \<rightharpoonup> StoreKey) \<Rightarrow> (string \<rightharpoonup> StoreKey) \<Rightarrow> 'o
       \<Rightarrow> ('m, 's, 'tx) ante option \<Rightarrow> 's block_provider \<Rightarrow> ('db, 'm, 's, 'tx, 'msg, 'i, 'r) BaseApp
       \<Rightarrow> ('db, 'm, 's, 'tx, 'msg, 'i, 'r) BaseApp outcome" where
  "setup_base X keys memKeys tkeys mm anteHandler blockProvider bApp =
     and_then (MountKVStores (range_values (lib_keys X) keys) bApp) (\<lambda>bApp.
       and_then (MountTransientStores (range_values (lib_keys X) tkeys) bApp) (\<lambda>bApp.
         and_then (MountMemoryStores (range_values (lib_keys X) memKeys) bApp) (\<lambda>bApp.
           and_then (SetAnteHandler anteHandler (SetInitChainer (Some (InitChainer (lib_manager X) mm)) bApp)) (\<lambda>bApp.
             let bApp = SetBlockProvider (Some blockProvider) bApp
             in LoadLatestVersion (range_keys (lib_keys X) (storesParams (app_cms bApp))) bApp))))"

text \<open>
  The logger, the writer for traces and the codecs are left out. At the end the capability keeper is
  sealed on a cached context, which is written back.
\<close>

definition NewIBCApp ::
    "('db, 'm, 's, 'tx, 'msg, 'i, 'r, 'o) sim_lib \<Rightarrow> ('db, 'm, 's, 'tx, 'msg, 'i, 'r) sdk_lib \<Rightarrow> string \<Rightarrow> 'db \<Rightarrow> 's SequenceManager
       \<Rightarrow> 's block_provider \<Rightarrow> ('o ibc_core \<Rightarrow> ('m, 's, 'tx) ante option) \<Rightarrow> ('s, ('db, 'm, 's, 'tx, 'msg, 'i, 'r, 'o) IBCApp) call" where
  "NewIBCApp X A name db mgr blockProvider ahProvider =
     (let B = lib_base X; T = lib_stores X;
          keys = NewKVStoreKeys (lib_keys X) (kv_names T);
          memKeys = NewMemoryStoreKeys (lib_keys X) [capability_MemStoreKey T];
          tkeys = NewTransientStoreKeys (lib_keys X) [params_TStoreKey T];
          bApp = NewBaseApp (new_Router B) (new_QueryRouter B) (new_MsgServiceRouter B) name db (TxJSONDecoder B)
      in then_call (lift (App_SetInterfaceRegistry (reflection_service B) bApp)) (\<lambda>bApp.
         then_call (lift (new_keepers X keys memKeys tkeys mgr bApp)) (\<lambda>(bApp, ks, transferModule).
           let mm = new_manager X ks transferModule
           in then_call (lift (register_modules (lib_manager X) mm bApp)) (\<lambda>bApp.
              then_call (lift (setup_base X keys memKeys tkeys mm (ahProvider (IBCKeeper ks)) blockProvider bApp)) (\<lambda>bApp.
                let (ctx, ms) = MakeCacheContext A bApp block_header_zero
                in then_call (InitializeAndSeal (lib_keepers X) (CapabilityKeeper ks) ctx ms) (\<lambda>(ck, ms).
                   then_call (write_base A ms) (\<lambda>_.
                     give \<lparr>ia_BaseApp = bApp, ia_keys = keys, ia_memKeys = memKeys, ia_keepers = ks\<lparr>CapabilityKeeper := ck\<rparr>,
                           ia_mm = mm\<rparr>)))))))"

section \<open>The program\<close>

text \<open>The keeper as the chaincode calls it is an argument: the getters of ibc-go on a keeper.\<close>

definition newApp ::
    "('db, 'm, 's, 'tx, 'msg, 'i, 'r, 'o) sim_lib \<Rightarrow> ('db, 'm, 's, 'tx, 'msg, 'i, 'r) sdk_lib \<Rightarrow> ('db, 's) kv_lib
       \<Rightarrow> ('o ibc_core \<Rightarrow> ('m, 's, 'cl, 'co, 'conn, 'chan) ibc_keeper)
       \<Rightarrow> ('db, 'o ibc_core \<Rightarrow> ('m, 's, 'tx) ante option, 's, ('m, 's, 'cl, 'co, 'conn, 'chan) Application) AppProvider" where
  "newApp X A L getters name db mgr blockProvider ahProvider =
     then_call (NewIBCApp X A name db mgr blockProvider ahProvider) (\<lambda>app.
       give (base_application A L (getters (IBCKeeper (ia_keepers app))) (ia_BaseApp app)))"

text \<open>The chaincode that \<open>main\<close> starts; a database is the stub it is made with.\<close>

definition fabibc ::
    "('s stub, 'm, 's, 'tx, 'msg, 'i, 'r, 'o) sim_lib \<Rightarrow> ('s stub, 'm, 's, 'tx, 'msg, 'i, 'r) sdk_lib \<Rightarrow> ('s stub, 's) kv_lib
       \<Rightarrow> ('o ibc_core \<Rightarrow> ('m, 's, 'cl, 'co, 'conn, 'chan) ibc_keeper) \<Rightarrow> packet_lib \<Rightarrow> ('s \<Rightarrow> i64)
       \<Rightarrow> ('s stub, 'o ibc_core \<Rightarrow> ('m, 's, 'tx) ante option, 'm, 's, 'cl, 'co, 'conn, 'chan) ibc_chaincode" where
  "fabibc X A L getters P tmtime_Now =
     NewIBCChaincode ''fabricibc'' (NewDefaultSequenceManager (ibchost_StoreKey (lib_stores X)) tmtime_Now) (newApp X A L getters)
       (DefaultAnteHandler (lib_base X)) DefaultDBProvider (DefaultMultiEventHandler P)"

end
