(* ===== verification/Sim_Assembly.thy ===== *)
theory Sim_Assembly
  imports Sim_App "HOL-Library.Product_Lexorder"
begin

text \<open>
  The deployed application is put together up to the sealing of the capability keeper, which reads the
  ledger, and the program that is started runs the chaincode whose history is verified. What the Cosmos
  SDK and ibc-go promise is stated as laws first; each law has the conditions under which the library
  does not panic. The stores in memory live in the process: here, what the sealing puts into one
  is part of the cache that it returns, and is not seen by the caches that are made later.
\<close>

section \<open>What the libraries promise\<close>


text \<open>
  The names of the stores, and of the modules where they are used twice, are different and not blank; the
  route of the transfers is alphanumeric.
\<close>

definition alphanumeric :: "string \<Rightarrow> bool" where
  "alphanumeric n \<longleftrightarrow> n \<noteq> ''''
     \<and> list_all (\<lambda>c. c \<in> set ''ABCDEFGHIJKLMNOPQRSTUVWXYZabcdefghijklmnopqrstuvwxyz0123456789'') n"



text \<open>
  What is seen of the keepers of parameters and capabilities: the names of the subspaces or scopes that they
  have, whether the capability keeper is sealed, and its store key and memory key.
\<close>

record 'o keeper_view =
  spaces :: "'o \<Rightarrow> string set"
  scopes :: "'o \<Rightarrow> string set"
  sealed :: "'o \<Rightarrow> bool"
  cap_keys :: "'o \<Rightarrow> StoreKey option \<times> StoreKey option"






section \<open>Putting the application together\<close>





































section \<open>The program\<close>













section \<open>An instance of the libraries\<close>

text \<open>
  Keepers are the names that they have given out, whether they are sealed, and the keys of their stores; they
  panic where those of the SDK do. Maps are iterated in the order of their keys, where a store key is
  ordered by its name, its number and its kind.
\<close>

definition key_triple :: "StoreKey \<Rightarrow> string \<times> nat \<times> nat" where
  "key_triple k = (key_Name k, key_id k, case key_kind k of KVStoreKey \<Rightarrow> 0 | TransientStoreKey \<Rightarrow> 1 | MemoryStoreKey \<Rightarrow> 2)"

definition triple_key :: "string \<times> nat \<times> nat \<Rightarrow> StoreKey" where
  "triple_key = (\<lambda>(n, i, c). \<lparr>key_id = i, key_Name = n,
     key_kind = (if c = 0 then KVStoreKey else if c = 1 then TransientStoreKey else MemoryStoreKey)\<rparr>)"


definition new_keys :: "key_kind \<Rightarrow> string list \<Rightarrow> string \<rightharpoonup> StoreKey" where
  "new_keys kind names n = (if n \<in> set names then Some \<lparr>key_id = 0, key_Name = n, key_kind = kind\<rparr> else None)"

definition ordered_keys :: "'db key_lib" where
  "ordered_keys = \<lparr>NewKVStoreKeys = new_keys KVStoreKey, NewMemoryStoreKeys = new_keys MemoryStoreKey,
     NewTransientStoreKeys = new_keys TransientStoreKey, range_values = (\<lambda>m. map (\<lambda>n. the (m n)) (sorted_list_of_set (dom m))),
     range_keys = (\<lambda>m. map triple_key (sorted_list_of_set (key_triple ` dom m)))\<rparr>"


definition example_stores :: store_names where
  "example_stores = \<lparr>auth_StoreKey = ''acc'', bank_StoreKey = ''bank'', staking_StoreKey = ''staking'', params_StoreKey = ''params'',
     ibchost_StoreKey = ''ibc'', transfer_StoreKey = ''transfer'', capability_StoreKey = ''capability'',
     capability_MemStoreKey = ''mem_capability'', params_TStoreKey = ''transient_params''\<rparr>"

definition example_names :: module_names where
  "example_names = \<lparr>auth_ModuleName = ''auth'', bank_ModuleName = ''bank'', staking_ModuleName = ''staking'', distr_ModuleName = ''distribution'',
     transfer_ModuleName = ''transfer'', ibchost_ModuleName = ''ibc'', capability_ModuleName = ''capability'',
     FeeCollectorName = ''fee_collector'', auth_Minter = ''minter'', auth_Burner = ''burner'', baseapp_Paramspace = ''baseapp''\<rparr>"

definition example_base :: "(iterItem list, fake_ledger, nat list, nat, unit, unit) base_lib" where
  "example_base = \<lparr>new_Router = (\<lambda>_. None), new_QueryRouter = (\<lambda>_. None), new_MsgServiceRouter = (\<lambda>_. None), TxJSONDecoder = (\<lambda>b. Ok (map unat b)),
     reflection_service = \<lparr>ServiceName = ''reflection'', Methods = []\<rparr>, ChainAnteDecorators = (\<lambda>_. None), ValidateBasicDecorator = (\<lambda>a. a)\<rparr>"

record example_object =
  ob_names :: "string list"
  ob_sealed :: bool
  ob_keys :: "StoreKey option \<times> StoreKey option"

definition new_object :: "string list \<Rightarrow> example_object" where
  "new_object names = \<lparr>ob_names = names, ob_sealed = False, ob_keys = (None, None)\<rparr>"


definition example_Subspace :: "example_object \<Rightarrow> string \<Rightarrow> (example_object \<times> example_object) outcome" where
  "example_Subspace pk n = (if n = '''' then Panic ''cannot use empty string for subspace''
     else if n \<in> set (ob_names pk) then Panic ''subspace already occupied'' else Ok (pk\<lparr>ob_names := n # ob_names pk\<rparr>, new_object [n]))"

definition example_ScopeToModule :: "example_object \<Rightarrow> string \<Rightarrow> (example_object \<times> example_object) outcome" where
  "example_ScopeToModule ck n = (if ob_sealed ck then Panic ''cannot scope to module via a sealed capability keeper''
     else if trim_space n = '''' then Panic ''cannot scope to an empty module name''
     else if n \<in> set (ob_names ck) then Panic ''cannot create multiple scoped keepers for the same module name''
     else Ok (ck\<lparr>ob_names := n # ob_names ck\<rparr>, new_object [n]))"

definition example_keepers :: "(iterItem list, fake_ledger, example_object) keeper_lib" where
  "example_keepers = \<lparr>params_NewKeeper = (\<lambda>key tkey. (new_object [])\<lparr>ob_keys := (key, tkey)\<rparr>), params_Subspace = example_Subspace,
     params_GetSubspace = (\<lambda>pk n. (new_object [n], n \<in> set (ob_names pk))),
     WithKeyTable = (\<lambda>sub. if ob_sealed sub then Panic ''SetKeyTable() called on already initialized Subspace'' else Ok 0),
     capability_NewKeeper = (\<lambda>key mkey. (new_object [])\<lparr>ob_keys := (key, mkey)\<rparr>), ScopeToModule = example_ScopeToModule,
     InitializeAndSeal = (\<lambda>ck _ m. if ob_sealed ck then lift (Panic ''cannot initialize and seal an already sealed capability keeper'')
       else give (ck\<lparr>ob_sealed := True\<rparr>, m))\<rparr>"

definition example_ibc :: "(fake_ledger, example_object) app_keepers" where
  "example_ibc = \<lparr>NewAccountKeeper = (\<lambda>_ _ perms. new_object (if perms ''transfer'' = None then [] else [''transfer''])),
     NewModuleAddress = (\<lambda>n. n), NewBaseKeeper = (\<lambda>_ _ _ _. new_object []),
     ibc_NewKeeper = (\<lambda>_ _ _. \<lparr>ibc_ClientKeeper = new_object [], ibc_ConnectionKeeper = new_object []\<rparr>),
     connection_NewKeeper = (\<lambda>key _ _. (new_object [])\<lparr>ob_keys := (key, None)\<rparr>),
     transfer_NewKeeper = (\<lambda>_ _ _ ak _ _. if ''transfer'' \<in> set (ob_names ak) then Ok (new_object [])
       else Panic ''the IBC transfer module account has not been set''),
     router_with_route = (\<lambda>n _. if alphanumeric n then Ok (new_object [n]) else Panic ''route expressions can only contain alphanumeric characters''),
     ibc_SetRouter = (\<lambda>ik r. if ob_sealed r then Panic ''cannot reset a sealed router'' else Ok ik)\<rparr>"

definition example_modules :: "example_object module_lib" where
  "example_modules = \<lparr>transfer_NewAppModule = (\<lambda>tk. tk), auth_NewAppModule = (\<lambda>ak. ak), bank_NewAppModule = (\<lambda>bk _. bk),
     capability_NewAppModule = (\<lambda>ck. ck), ibc_NewAppModule = ibc_ClientKeeper, params_NewAppModule = (\<lambda>pk. pk)\<rparr>"

definition example_manager :: "(iterItem list, fake_ledger, nat, unit, unit, example_object) manager_lib" where
  "example_manager = \<lparr>module_NewManager = (\<lambda>mods. new_object (concat (map ob_names mods))), SetOrderInitGenesis = (\<lambda>mm _. mm),
     RegisterRoutes = (\<lambda>_ rs. rs), msg_services = (\<lambda>_ _ _. Some demo_handler), query_services = (\<lambda>_. []),
     tmjson_Unmarshal_GenesisState = (\<lambda>_. Ok (new_object [])), InitGenesis = (\<lambda>_ _ _ m. give ((), m))\<rparr>"

definition example_lib :: "(fake_ledger stub, iterItem list, fake_ledger, nat list, nat, unit, unit, example_object) sim_lib" where
  "example_lib = \<lparr>lib_stores = example_stores, lib_names = example_names, lib_keys = ordered_keys, lib_base = example_base,
     lib_keepers = example_keepers, lib_ibc = example_ibc, lib_modules = example_modules, lib_manager = example_manager\<rparr>"




lemma example_parts [simp]:
  "lib_stores example_lib = example_stores" "lib_names example_lib = example_names" "lib_keys example_lib = ordered_keys"
  "lib_base example_lib = example_base" "lib_keepers example_lib = example_keepers" "lib_ibc example_lib = example_ibc"
  "lib_manager example_lib = example_manager"
  by (simp_all add: example_lib_def)













section \<open>Properties\<close>





end
