(* ===== verification/Relay_Chain.thy ===== *)
theory Relay_Chain
  imports Chaincode Ante
begin

text \<open>
  The chain module of the relayer: \<open>relay/chain.go\<close>, \<open>gateway.go\<close>, \<open>fabric.go\<close>, \<open>wallet.go\<close>, \<open>tx.go\<close> and
  \<open>query.go\<close>. A chain connects to a peer through the gateway of the Fabric SDK, sends transactions and
  asks the chaincode. The SDK, the file system and the network are the record \<open>gateway_lib\<close> over a
  world \<open>'w\<close>; encodings of ibc-go messages are the record \<open>query_lib\<close>.
\<close>

section \<open>File paths\<close>

text \<open>\<open>filepath.Clean\<close> and \<open>filepath.Join\<close> of the standard library on Unix: the elements kept so far are in reverse.\<close>

fun clean_elements :: "bool \<Rightarrow> string list \<Rightarrow> string list \<Rightarrow> string list" where
  "clean_elements rooted acc [] = acc"
| "clean_elements rooted acc (e # es) =
     (if e = '''' \<or> e = ''.'' then clean_elements rooted acc es
      else if e = ''..'' then
        (if acc \<noteq> [] \<and> hd acc \<noteq> ''..'' then clean_elements rooted (tl acc) es
         else if rooted then clean_elements rooted acc es
         else clean_elements rooted (e # acc) es)
      else clean_elements rooted (e # acc) es)"

definition filepath_Clean :: "string \<Rightarrow> string" where
  "filepath_Clean path =
     (let rooted = (take 1 path = ''/'');
          out = (if rooted then ''/'' else '''') @ join_with CHR ''/'' (rev (clean_elements rooted [] (split_on CHR ''/'' path)))
      in if out = '''' then ''.'' else out)"

definition filepath_Join :: "string \<Rightarrow> string \<Rightarrow> string" where
  "filepath_Join a b =
     (if a = '''' \<and> b = '''' then '''' else filepath_Clean (join_with CHR ''/'' (filter (\<lambda>e. e \<noteq> '''') [a, b])))"

section \<open>The gateway\<close>

datatype any_identity = X509Identity string string string | OtherIdentity

text \<open>The answer of one endorser: the payload it signed, its signature and its identity.\<close>

record endorser_response =
  er_Payload :: bytes
  er_Signature :: bytes
  er_Endorser :: bytes

record channel_Response =
  resp_Payload :: bytes
  resp_Responses :: "endorser_response list"

text \<open>
  The Fabric SDK: wallets, connections and contracts. \<open>Simulate\<close> is \<open>CreateTransaction\<close> followed by
  \<open>Simulate\<close> on it.
\<close>

record ('w, 'wal, 'gwy, 'net, 'con) gateway_lib =
  NewFileSystemWallet :: "string \<Rightarrow> ('w, 'wal) call"
  Wallet_Exists :: "'wal \<Rightarrow> string \<Rightarrow> 'w \<Rightarrow> bool"
  Wallet_Get :: "'wal \<Rightarrow> string \<Rightarrow> ('w, any_identity) call"
  Wallet_Put :: "'wal \<Rightarrow> string \<Rightarrow> any_identity \<Rightarrow> ('w, unit) call"
  ReadFile :: "string \<Rightarrow> ('w, bytes) call"
  gateway_Connect :: "string \<Rightarrow> 'wal \<Rightarrow> string \<Rightarrow> ('w, 'gwy) call"
  GetNetwork :: "'gwy \<Rightarrow> string \<Rightarrow> ('w, 'net) call"
  GetContract :: "'net \<Rightarrow> string \<Rightarrow> 'con option"
  EvaluateTransaction :: "'con \<Rightarrow> string \<Rightarrow> string list \<Rightarrow> ('w, bytes) call"
  SubmitTransaction :: "'con \<Rightarrow> string \<Rightarrow> string list \<Rightarrow> ('w, bytes) call"
  Simulate :: "'con \<Rightarrow> string \<Rightarrow> string list \<Rightarrow> ('w, channel_Response) call"

text \<open>The configuration provider of the gateway is never set and is left out.\<close>

record ('wal, 'gwy, 'net, 'con) FabricGateway =
  gw_Wallet :: "'wal option"
  gw_Gateway :: "'gwy option"
  gw_Network :: "'net option"
  gw_Contract :: "'con option"

definition FabricGateway_zero :: "('wal, 'gwy, 'net, 'con) FabricGateway" where
  "FabricGateway_zero = \<lparr>gw_Wallet = None, gw_Gateway = None, gw_Network = None, gw_Contract = None\<rparr>"

text \<open>\<open>x.f, err = c(\<dots>)\<close>: the field is assigned, \<open>nil\<close> when there is an error.\<close>

definition assign :: "('a option \<Rightarrow> 'x \<Rightarrow> 'x) \<Rightarrow> ('w, 'a) call \<Rightarrow> ('w \<times> 'x, unit) call" where
  "assign upd c ws =
     (case c (fst ws) of
        (Ok a, w) \<Rightarrow> (Ok (), (w, upd (Some a) (snd ws)))
      | (Err e, w) \<Rightarrow> (Err e, (w, upd None (snd ws)))
      | (Panic p, w) \<Rightarrow> (Panic p, (w, snd ws)))"

text \<open>A call to the outside world, a read of the own state, and the use of a pointer.\<close>

definition outside :: "('w, 'a) call \<Rightarrow> ('w \<times> 'x, 'a) call" where
  "outside c ws = (case c (fst ws) of (r, w) \<Rightarrow> (r, (w, snd ws)))"

definition own :: "('x \<Rightarrow> 'a) \<Rightarrow> ('w \<times> 'x, 'a) call" where
  "own f ws = (Ok (f (snd ws)), ws)"

definition modify :: "('x \<Rightarrow> 'x) \<Rightarrow> ('w \<times> 'x, unit) call" where
  "modify f ws = (Ok (), (fst ws, f (snd ws)))"

definition deref :: "'a option \<Rightarrow> 'a outcome" where
  "deref p = (case p of None \<Rightarrow> Panic ''invalid memory address or nil pointer dereference'' | Some a \<Rightarrow> Ok a)"

definition fileSystemWallet ::
    "('w, 'wal, 'gwy, 'net, 'con) gateway_lib \<Rightarrow> string \<Rightarrow> ('w \<times> ('wal, 'gwy, 'net, 'con) FabricGateway, unit) call" where
  "fileSystemWallet G walletPath = assign (\<lambda>a gw. gw\<lparr>gw_Wallet := a\<rparr>) (NewFileSystemWallet G walletPath)"

text \<open>\<open>gw.Wallet\<close> after \<open>fileSystemWallet\<close> has succeeded, and whether it has a label.\<close>

definition current_wallet :: "('w \<times> ('wal, 'gwy, 'net, 'con) FabricGateway, 'wal) call" where
  "current_wallet = then_call (own gw_Wallet) (\<lambda>p. lift (deref p))"

definition wallet_exists ::
    "('w, 'wal, 'gwy, 'net, 'con) gateway_lib \<Rightarrow> 'wal \<Rightarrow> string \<Rightarrow> ('w \<times> ('wal, 'gwy, 'net, 'con) FabricGateway, bool) call" where
  "wallet_exists G wallet label ws = (Ok (Wallet_Exists G wallet label (fst ws)), ws)"

definition Gateway_PopulateWallet ::
    "('w, 'wal, 'gwy, 'net, 'con) gateway_lib \<Rightarrow> string \<Rightarrow> string \<Rightarrow> string \<Rightarrow> string
       \<Rightarrow> ('w \<times> ('wal, 'gwy, 'net, 'con) FabricGateway, unit) call" where
  "Gateway_PopulateWallet G walletPath mspID certPath privateKeyPath =
     then_call (fileSystemWallet G walletPath) (\<lambda>_.
       then_call current_wallet (\<lambda>wallet.
         then_call (wallet_exists G wallet mspID) (\<lambda>ex.
           if ex then give ()
           else then_call (outside (ReadFile G (filepath_Clean certPath))) (\<lambda>cert.
             then_call (outside (ReadFile G (filepath_Clean privateKeyPath))) (\<lambda>key.
               outside (Wallet_Put G wallet mspID (X509Identity mspID (string_of_bytes cert) (string_of_bytes key))))))))"

text \<open>When the network has no such contract, the function returns the error of the call before, which is \<open>nil\<close>.\<close>

definition Gateway_Connect ::
    "('w, 'wal, 'gwy, 'net, 'con) gateway_lib \<Rightarrow> string \<Rightarrow> string \<Rightarrow> string \<Rightarrow> string \<Rightarrow> string
       \<Rightarrow> ('w \<times> ('wal, 'gwy, 'net, 'con) FabricGateway, unit) call" where
  "Gateway_Connect G walletPath mspID ccpPath channel chaincodeID =
     then_call (fileSystemWallet G walletPath) (\<lambda>_.
       then_call current_wallet (\<lambda>wallet.
         then_call (wallet_exists G wallet mspID) (\<lambda>ex.
           if \<not> ex then fail (ErrorNew ''not exists wallet: %v.id'')
           else then_call (assign (\<lambda>a gw. gw\<lparr>gw_Gateway := a\<rparr>) (gateway_Connect G (filepath_Clean ccpPath) wallet mspID)) (\<lambda>_.
             then_call (then_call (own gw_Gateway) (\<lambda>p. lift (deref p))) (\<lambda>gwy.
               then_call (assign (\<lambda>a gw. gw\<lparr>gw_Network := a\<rparr>) (GetNetwork G gwy channel)) (\<lambda>_.
                 then_call (then_call (own gw_Network) (\<lambda>p. lift (deref p))) (\<lambda>network.
                   modify (\<lambda>gw. gw\<lparr>gw_Contract := GetContract G network chaincodeID\<rparr>))))))))"

section \<open>The chain\<close>

record ChainConfig =
  cfg_ChainId :: string
  cfg_WalletLabel :: string
  cfg_ConnectionProfilePath :: string
  cfg_Channel :: string
  cfg_ChaincodeId :: string

text \<open>The fields of \<open>core.PathEnd\<close> of the relayer that are read.\<close>

record PathEnd =
  pe_ClientID :: string
  pe_ConnectionID :: string
  pe_ChannelID :: string
  pe_PortID :: string

text \<open>The codec and the logger are left out; a listener is its method \<open>OnSentMsg\<close>.\<close>

record ('w, 'wal, 'gwy, 'net, 'con, 'msg) Chain =
  chain_config :: ChainConfig
  chain_pathEnd :: "PathEnd option"
  chain_homePath :: string
  chain_gateway :: "('wal, 'gwy, 'net, 'con) FabricGateway"
  chain_msgEventListener :: "('msg list \<Rightarrow> ('w, unit) call) option"

type_synonym ('w, 'wal, 'gwy, 'net, 'con, 'msg, 'a) chain_call = "('w \<times> ('w, 'wal, 'gwy, 'net, 'con, 'msg) Chain, 'a) call"

definition NewChain :: "ChainConfig \<Rightarrow> ('w, 'wal, 'gwy, 'net, 'con, 'msg) Chain" where
  "NewChain config = \<lparr>chain_config = config, chain_pathEnd = None, chain_homePath = '''', chain_gateway = FabricGateway_zero,
     chain_msgEventListener = None\<rparr>"

definition Chain_Init :: "string \<Rightarrow> ('w, 'wal, 'gwy, 'net, 'con, 'msg, unit) chain_call" where
  "Chain_Init homePath = modify (\<lambda>c. c\<lparr>chain_homePath := homePath\<rparr>)"

definition Chain_SetupForRelay :: "('w, 'wal, 'gwy, 'net, 'con, 'msg, unit) chain_call" where
  "Chain_SetupForRelay = give ()"

definition Chain_GetLatestHeight :: "('w, 'wal, 'gwy, 'net, 'con, 'msg, i64) chain_call" where
  "Chain_GetLatestHeight = give (- 1)"

definition ChainID :: "('w, 'wal, 'gwy, 'net, 'con, 'msg) Chain \<Rightarrow> string" where
  "ChainID c = cfg_ChainId (chain_config c)"

definition Chain_ClientID :: "('w, 'wal, 'gwy, 'net, 'con, 'msg) Chain \<Rightarrow> string outcome" where
  "Chain_ClientID c = and_then (deref (chain_pathEnd c)) (\<lambda>p. Ok (pe_ClientID p))"

definition Chain_Path :: "('w, 'wal, 'gwy, 'net, 'con, 'msg) Chain \<Rightarrow> PathEnd option" where
  "Chain_Path c = chain_pathEnd c"

text \<open>\<open>PathEnd.Validate\<close> is an argument.\<close>

definition SetRelayInfo :: "(PathEnd \<Rightarrow> unit outcome) \<Rightarrow> PathEnd \<Rightarrow> ('w, 'wal, 'gwy, 'net, 'con, 'msg, unit) chain_call" where
  "SetRelayInfo validate p =
     then_call (lift (map_err (\<lambda>e. ErrorWrap e ''path on chain %s failed to set: %w'') (validate p))) (\<lambda>_.
       modify (\<lambda>c. c\<lparr>chain_pathEnd := Some p\<rparr>))"

definition RegisterMsgEventListener ::
    "('msg list \<Rightarrow> ('w, unit) call) option \<Rightarrow> ('w, 'wal, 'gwy, 'net, 'con, 'msg, unit) chain_call" where
  "RegisterMsgEventListener listener = modify (\<lambda>c. c\<lparr>chain_msgEventListener := listener\<rparr>)"

definition getWalletPath :: "('w, 'wal, 'gwy, 'net, 'con, 'msg) Chain \<Rightarrow> string" where
  "getWalletPath c = filepath_Clean (filepath_Join (chain_homePath c) ''wallet'')"

text \<open>A call on the gateway of a chain.\<close>

definition on_gateway ::
    "('w \<times> ('wal, 'gwy, 'net, 'con) FabricGateway, 'a) call \<Rightarrow> ('w, 'wal, 'gwy, 'net, 'con, 'msg, 'a) chain_call" where
  "on_gateway f wc = (case f (fst wc, chain_gateway (snd wc)) of (r, (w, gw)) \<Rightarrow> (r, (w, (snd wc)\<lparr>chain_gateway := gw\<rparr>)))"

definition Chain_PopulateWallet ::
    "('w, 'wal, 'gwy, 'net, 'con) gateway_lib \<Rightarrow> string \<Rightarrow> string \<Rightarrow> ('w, 'wal, 'gwy, 'net, 'con, 'msg, unit) chain_call" where
  "Chain_PopulateWallet G certPath privateKeyPath =
     then_call (own (\<lambda>c. c)) (\<lambda>c.
       on_gateway (Gateway_PopulateWallet G (getWalletPath c) (cfg_WalletLabel (chain_config c)) certPath privateKeyPath))"

definition Chain_Connect :: "('w, 'wal, 'gwy, 'net, 'con) gateway_lib \<Rightarrow> ('w, 'wal, 'gwy, 'net, 'con, 'msg, unit) chain_call" where
  "Chain_Connect G =
     then_call (own (\<lambda>c. c)) (\<lambda>c.
       on_gateway (Gateway_Connect G (getWalletPath c) (cfg_WalletLabel (chain_config c))
         (cfg_ConnectionProfilePath (chain_config c)) (cfg_Channel (chain_config c)) (cfg_ChaincodeId (chain_config c))))"

definition Chain_Contract :: "('w, 'wal, 'gwy, 'net, 'con) gateway_lib \<Rightarrow> ('w, 'wal, 'gwy, 'net, 'con, 'msg, 'con option) chain_call" where
  "Chain_Contract G =
     then_call (own (\<lambda>c. gw_Contract (chain_gateway c))) (\<lambda>contract.
       case contract of
         Some con \<Rightarrow> give (Some con)
       | None \<Rightarrow> then_call (must_call (Chain_Connect G)) (\<lambda>_. own (\<lambda>c. gw_Contract (chain_gateway c))))"

text \<open>The contract with a method called on it.\<close>

definition contract_call ::
    "('w, 'wal, 'gwy, 'net, 'con) gateway_lib \<Rightarrow> ('con \<Rightarrow> ('w, 'a) call) \<Rightarrow> ('w, 'wal, 'gwy, 'net, 'con, 'msg, 'a) chain_call" where
  "contract_call G f = then_call (Chain_Contract G) (\<lambda>p. then_call (lift (deref p)) (\<lambda>con. outside (f con)))"

text \<open>\<open>getSerializedIdentity\<close> and \<open>GetSerializedIdentity\<close> have the same body: the MSP id and the certificate.\<close>

definition serialized_identity ::
    "('w, 'wal, 'gwy, 'net, 'con) gateway_lib \<Rightarrow> string \<Rightarrow> ('w, 'wal, 'gwy, 'net, 'con, 'msg, string \<times> bytes) chain_call" where
  "serialized_identity G label =
     then_call (on_gateway current_wallet) (\<lambda>wallet.
       then_call (outside (Wallet_Get G wallet label)) (\<lambda>creds.
         case creds of
           X509Identity mspID cert key \<Rightarrow> give (mspID, bytes_of_string cert)
         | OtherIdentity \<Rightarrow> lift (Panic ''interface conversion'')))"

definition GetAddress ::
    "('w, 'wal, 'gwy, 'net, 'con) gateway_lib \<Rightarrow> (bytes \<Rightarrow> bytes) \<Rightarrow> (string \<times> bytes \<Rightarrow> bytes outcome)
       \<Rightarrow> ('w, 'wal, 'gwy, 'net, 'con, 'msg, bytes) chain_call" where
  "GetAddress G sha256 marshal_identity =
     then_call (then_call (own (\<lambda>c. gw_Contract (chain_gateway c))) (\<lambda>contract.
         if contract = None then Chain_Connect G else give ())) (\<lambda>_.
       then_call (own (\<lambda>c. cfg_WalletLabel (chain_config c))) (\<lambda>label.
         then_call (serialized_identity G label) (\<lambda>sid.
           lift (MakeCreatorAddressWithSerializedIdentity sha256 marshal_identity sid))))"


section \<open>Sending transactions\<close>

text \<open>The transaction builder of the SDK, with builders \<open>'b\<close> and public keys \<open>'pk\<close>.\<close>

record ('w, 'b, 'pk, 'msg) tx_lib =
  TxBuilder_SetMsgs :: "'msg list \<Rightarrow> 'b outcome"
  GenPubKey :: "('w, 'pk) call"
  TxBuilder_SetSignatures :: "'pk \<Rightarrow> 'b \<Rightarrow> 'b outcome"
  TxJSONEncoder :: "'b \<Rightarrow> bytes outcome"

definition handleTxFunc :: string where
  "handleTxFunc = ''handleTx''"

definition buildTx :: "('w, 'b, 'pk, 'msg) tx_lib \<Rightarrow> 'msg list \<Rightarrow> ('w, bytes) call" where
  "buildTx T msgs =
     then_call (lift (TxBuilder_SetMsgs T msgs)) (\<lambda>txBuilder.
       then_call (GenPubKey T) (\<lambda>pubKey.
         then_call (lift (TxBuilder_SetSignatures T pubKey txBuilder)) (\<lambda>tx. lift (TxJSONEncoder T tx))))"

text \<open>
  The contract is used without connecting first. An error of the listener is logged and dropped, so
  the result is that of the submission.
\<close>

definition SendMsgs ::
    "('w, 'wal, 'gwy, 'net, 'con) gateway_lib \<Rightarrow> ('w, 'b, 'pk, 'msg) tx_lib \<Rightarrow> 'msg list
       \<Rightarrow> ('w, 'wal, 'gwy, 'net, 'con, 'msg, bytes) chain_call" where
  "SendMsgs G T msgs =
     then_call (outside (buildTx T msgs)) (\<lambda>txBytes.
       then_call (then_call (own (\<lambda>c. gw_Contract (chain_gateway c))) (\<lambda>p. lift (deref p))) (\<lambda>contract.
         then_call (outside (SubmitTransaction G contract handleTxFunc [string_of_bytes txBytes])) (\<lambda>res.
           then_call (own chain_msgEventListener) (\<lambda>listener.
             case listener of
               None \<Rightarrow> give res
             | Some onSentMsg \<Rightarrow> (\<lambda>wc. case outside (onSentMsg msgs) wc of
                   (Panic p, wc') \<Rightarrow> (Panic p, wc')
                 | (_, wc') \<Rightarrow> (Ok res, wc'))))))"

definition Send ::
    "('w, 'wal, 'gwy, 'net, 'con) gateway_lib \<Rightarrow> ('w, 'b, 'pk, 'msg) tx_lib \<Rightarrow> 'msg list
       \<Rightarrow> ('w, 'wal, 'gwy, 'net, 'con, 'msg, bool) chain_call" where
  "Send G T msgs wc =
     (case SendMsgs G T msgs wc of
        (Ok res, wc') \<Rightarrow> (Ok True, wc')
      | (Err e, wc') \<Rightarrow> (Ok False, wc')
      | (Panic p, wc') \<Rightarrow> (Panic p, wc'))"

section \<open>Queries\<close>

record PageRequest =
  page_Key :: slice
  page_Offset :: u64
  page_Limit :: u64
  page_CountTotal :: bool

text \<open>The requests of the gRPC services of ibc-go and the SDK, with the fields that are set.\<close>

datatype query_request =
    ClientStateRequest string
  | ConsensusStateRequest string u64 u64
  | ConnectionRequest string
  | ChannelRequest string string
  | PacketCommitmentRequest string string u64
  | PacketAcknowledgementRequest string string u64
  | AllBalancesRequest bytes PageRequest
  | DenomTracesRequest PageRequest
  | PacketCommitmentsRequest string string PageRequest
  | UnreceivedPacketsRequest string string "u64 list"
  | PacketAcknowledgementsRequest string string PageRequest
  | UnreceivedAcksRequest string string "u64 list"

text \<open>
  Encodings: \<open>proto.Marshal\<close> of a request, \<open>Unmarshal\<close> of the response to a path, JSON of the messages of
  the chaincode, the constructors of ibc-go with the constants that are passed to them (a connection end
  has no versions), and what is read of responses \<open>'r\<close>.
\<close>

record ('r, 'coins, 'conn, 'chan) query_lib =
  Marshal_request :: "query_request \<Rightarrow> bytes outcome"
  Unmarshal_response :: "string \<Rightarrow> bytes \<Rightarrow> 'r outcome"
  json_Marshal_RequestQuery :: "chaincode_RequestQuery \<Rightarrow> bytes outcome"
  json_Unmarshal_ResponseQuery :: "bytes \<Rightarrow> chaincode_ResponseQuery outcome"
  json_Unmarshal_Sequence :: "bytes \<Rightarrow> Sequence outcome"
  json_Unmarshal_Packet :: "bytes \<Rightarrow> Packet outcome"
  ErrConnectionNotFound :: string
  ErrChannelNotFound :: string
  NewConnectionEnd_UNINITIALIZED :: "string \<Rightarrow> string \<Rightarrow> string \<Rightarrow> bytes \<Rightarrow> u64 \<Rightarrow> 'conn"
  NewQueryConnectionResponse :: "'conn \<Rightarrow> slice \<Rightarrow> Height \<Rightarrow> 'r"
  NewChannel_UNINITIALIZED_UNORDERED :: "string \<Rightarrow> string \<Rightarrow> string list \<Rightarrow> string \<Rightarrow> 'chan"
  NewQueryChannelResponse :: "'chan \<Rightarrow> slice \<Rightarrow> Height \<Rightarrow> 'r"
  response_Sequences :: "'r \<Rightarrow> u64 list"
  response_Balances :: "'r \<Rightarrow> 'coins"

definition Chain_Query ::
    "('w, 'wal, 'gwy, 'net, 'con) gateway_lib \<Rightarrow> ('r, 'coins, 'conn, 'chan) query_lib \<Rightarrow> chaincode_RequestQuery
       \<Rightarrow> ('w, 'wal, 'gwy, 'net, 'con, 'msg, chaincode_ResponseQuery) chain_call" where
  "Chain_Query G Q req =
     then_call (lift (json_Marshal_RequestQuery Q req)) (\<lambda>bz.
       then_call (contract_call G (\<lambda>con. EvaluateTransaction G con ''query'' [string_of_bytes bz])) (\<lambda>r.
         lift (json_Unmarshal_ResponseQuery Q r)))"

definition query_path ::
    "('w, 'wal, 'gwy, 'net, 'con) gateway_lib \<Rightarrow> ('r, 'coins, 'conn, 'chan) query_lib \<Rightarrow> string \<Rightarrow> query_request
       \<Rightarrow> ('w, 'wal, 'gwy, 'net, 'con, 'msg, 'r) chain_call" where
  "query_path G Q path req =
     then_call (lift (Marshal_request Q req)) (\<lambda>bz.
       then_call (Chain_Query G Q \<lparr>crq_Data = EncodeToString bz, crq_Path = path\<rparr>) (\<lambda>r.
         then_call (lift (DecodeString (crs_Value r))) (\<lambda>bz. lift (Unmarshal_response Q path bz))))"

text \<open>The path end of the chain, which is followed without a test.\<close>

definition path_end :: "('w, 'wal, 'gwy, 'net, 'con, 'msg, PathEnd) chain_call" where
  "path_end = then_call (own chain_pathEnd) (\<lambda>p. lift (deref p))"

text \<open>\<open>strings.Contains\<close>\<close>

fun strings_Contains :: "string \<Rightarrow> string \<Rightarrow> bool" where
  "strings_Contains [] substr = (substr = [])"
| "strings_Contains (c # s) substr = (take (length substr) (c # s) = substr \<or> strings_Contains s substr)"

definition or_empty :: "string \<Rightarrow> 'r \<Rightarrow> ('x, 'r) call \<Rightarrow> ('x, 'r) call" where
  "or_empty text res c s =
     (case c s of
        (Err e, t) \<Rightarrow> if strings_Contains (error_string e) text then (Ok res, t) else (Err e, t)
      | rt \<Rightarrow> rt)"

text \<open>The answers for a connection and for a channel that are not found.\<close>

definition empty_connection :: "('r, 'coins, 'conn, 'chan) query_lib \<Rightarrow> 'conn" where
  "empty_connection Q = NewConnectionEnd_UNINITIALIZED Q ''client'' ''client'' ''connection'' [] 0"

definition emptyConnRes :: "('r, 'coins, 'conn, 'chan) query_lib \<Rightarrow> 'r" where
  "emptyConnRes Q = NewQueryConnectionResponse Q (empty_connection Q) (Some []) (NewHeight 0 0)"

definition empty_channel :: "('r, 'coins, 'conn, 'chan) query_lib \<Rightarrow> 'chan" where
  "empty_channel Q = NewChannel_UNINITIALIZED_UNORDERED Q ''port'' ''channel'' [] ''version''"

definition emptyChannelRes :: "('r, 'coins, 'conn, 'chan) query_lib \<Rightarrow> 'r" where
  "emptyChannelRes Q = NewQueryChannelResponse Q (empty_channel Q) (Some []) (NewHeight 0 0)"

definition QueryClientState ::
    "('w, 'wal, 'gwy, 'net, 'con) gateway_lib \<Rightarrow> ('r, 'coins, 'conn, 'chan) query_lib \<Rightarrow> ('w, 'wal, 'gwy, 'net, 'con, 'msg, 'r) chain_call" where
  "QueryClientState G Q = then_call path_end (\<lambda>p.
     query_path G Q ''/ibc.core.client.v1.Query/ClientState'' (ClientStateRequest (pe_ClientID p)))"

definition QueryClientConsensusState ::
    "('w, 'wal, 'gwy, 'net, 'con) gateway_lib \<Rightarrow> ('r, 'coins, 'conn, 'chan) query_lib \<Rightarrow> Height \<Rightarrow> ('w, 'wal, 'gwy, 'net, 'con, 'msg, 'r) chain_call" where
  "QueryClientConsensusState G Q h = then_call path_end (\<lambda>p.
     query_path G Q ''/ibc.core.client.v1.Query/ConsensusState''
       (ConsensusStateRequest (pe_ClientID p) (RevisionNumber h) (RevisionHeight h)))"

definition QueryConnection ::
    "('w, 'wal, 'gwy, 'net, 'con) gateway_lib \<Rightarrow> ('r, 'coins, 'conn, 'chan) query_lib \<Rightarrow> ('w, 'wal, 'gwy, 'net, 'con, 'msg, 'r) chain_call" where
  "QueryConnection G Q = then_call path_end (\<lambda>p.
     or_empty (ErrConnectionNotFound Q) (emptyConnRes Q)
       (query_path G Q ''/ibc.core.connection.v1.Query/Connection'' (ConnectionRequest (pe_ConnectionID p))))"

definition QueryChannel ::
    "('w, 'wal, 'gwy, 'net, 'con) gateway_lib \<Rightarrow> ('r, 'coins, 'conn, 'chan) query_lib \<Rightarrow> ('w, 'wal, 'gwy, 'net, 'con, 'msg, 'r) chain_call" where
  "QueryChannel G Q = then_call path_end (\<lambda>p.
     or_empty (ErrChannelNotFound Q) (emptyChannelRes Q)
       (query_path G Q ''/ibc.core.channel.v1.Query/Channel'' (ChannelRequest (pe_PortID p) (pe_ChannelID p))))"

definition QueryPacketCommitment ::
    "('w, 'wal, 'gwy, 'net, 'con) gateway_lib \<Rightarrow> ('r, 'coins, 'conn, 'chan) query_lib \<Rightarrow> u64 \<Rightarrow> ('w, 'wal, 'gwy, 'net, 'con, 'msg, 'r) chain_call" where
  "QueryPacketCommitment G Q n = then_call path_end (\<lambda>p.
     query_path G Q ''/ibc.core.channel.v1.Query/PacketCommitment'' (PacketCommitmentRequest (pe_PortID p) (pe_ChannelID p) n))"

definition QueryPacketAcknowledgementCommitment ::
    "('w, 'wal, 'gwy, 'net, 'con) gateway_lib \<Rightarrow> ('r, 'coins, 'conn, 'chan) query_lib \<Rightarrow> u64 \<Rightarrow> ('w, 'wal, 'gwy, 'net, 'con, 'msg, 'r) chain_call" where
  "QueryPacketAcknowledgementCommitment G Q n = then_call path_end (\<lambda>p.
     query_path G Q ''/ibc.core.channel.v1.Query/PacketAcknowledgement''
       (PacketAcknowledgementRequest (pe_PortID p) (pe_ChannelID p) n))"

definition QueryCurrentSequence ::
    "('w, 'wal, 'gwy, 'net, 'con) gateway_lib \<Rightarrow> ('r, 'coins, 'conn, 'chan) query_lib \<Rightarrow> ('w, 'wal, 'gwy, 'net, 'con, 'msg, Sequence) chain_call" where
  "QueryCurrentSequence G Q =
     then_call (contract_call G (\<lambda>con. EvaluateTransaction G con ''getSequence'' [])) (\<lambda>res.
       lift (json_Unmarshal_Sequence Q res))"

definition QueryBalance ::
    "('w, 'wal, 'gwy, 'net, 'con) gateway_lib \<Rightarrow> ('r, 'coins, 'conn, 'chan) query_lib \<Rightarrow> bytes \<Rightarrow> ('w, 'wal, 'gwy, 'net, 'con, 'msg, 'coins) chain_call" where
  "QueryBalance G Q address =
     then_call (query_path G Q ''/cosmos.bank.v1beta1.Query/AllBalances''
         (AllBalancesRequest address \<lparr>page_Key = Some [], page_Offset = 0, page_Limit = 1000, page_CountTotal = True\<rparr>)) (\<lambda>res.
       give (response_Balances Q res))"

definition QueryDenomTraces ::
    "('w, 'wal, 'gwy, 'net, 'con) gateway_lib \<Rightarrow> ('r, 'coins, 'conn, 'chan) query_lib \<Rightarrow> u64 \<Rightarrow> u64 \<Rightarrow> ('w, 'wal, 'gwy, 'net, 'con, 'msg, 'r) chain_call" where
  "QueryDenomTraces G Q offset limit =
     query_path G Q ''/ibc.applications.transfer.v1.Query/DenomTraces''
       (DenomTracesRequest \<lparr>page_Key = Some [], page_Offset = offset, page_Limit = limit, page_CountTotal = True\<rparr>)"

definition QueryPacketCommitments ::
    "('w, 'wal, 'gwy, 'net, 'con) gateway_lib \<Rightarrow> ('r, 'coins, 'conn, 'chan) query_lib \<Rightarrow> u64 \<Rightarrow> u64 \<Rightarrow> ('w, 'wal, 'gwy, 'net, 'con, 'msg, 'r) chain_call" where
  "QueryPacketCommitments G Q offset limit = then_call path_end (\<lambda>p.
     query_path G Q ''/ibc.core.channel.v1.Query/PacketCommitments''
       (PacketCommitmentsRequest (pe_PortID p) (pe_ChannelID p)
         \<lparr>page_Key = None, page_Offset = offset, page_Limit = limit, page_CountTotal = True\<rparr>))"

definition QueryUnrecievedPackets ::
    "('w, 'wal, 'gwy, 'net, 'con) gateway_lib \<Rightarrow> ('r, 'coins, 'conn, 'chan) query_lib \<Rightarrow> u64 list \<Rightarrow> ('w, 'wal, 'gwy, 'net, 'con, 'msg, u64 list) chain_call" where
  "QueryUnrecievedPackets G Q seqs = then_call path_end (\<lambda>p.
     then_call (query_path G Q ''/ibc.core.channel.v1.Query/UnreceivedPackets''
         (UnreceivedPacketsRequest (pe_PortID p) (pe_ChannelID p) seqs)) (\<lambda>res. give (response_Sequences Q res)))"

definition QueryPacketAcknowledgementCommitments ::
    "('w, 'wal, 'gwy, 'net, 'con) gateway_lib \<Rightarrow> ('r, 'coins, 'conn, 'chan) query_lib \<Rightarrow> u64 \<Rightarrow> u64 \<Rightarrow> ('w, 'wal, 'gwy, 'net, 'con, 'msg, 'r) chain_call" where
  "QueryPacketAcknowledgementCommitments G Q offset limit = then_call path_end (\<lambda>p.
     query_path G Q ''/ibc.core.channel.v1.Query/PacketAcknowledgements''
       (PacketAcknowledgementsRequest (pe_PortID p) (pe_ChannelID p)
         \<lparr>page_Key = None, page_Offset = offset, page_Limit = limit, page_CountTotal = True\<rparr>))"

definition QueryUnrecievedAcknowledgements ::
    "('w, 'wal, 'gwy, 'net, 'con) gateway_lib \<Rightarrow> ('r, 'coins, 'conn, 'chan) query_lib \<Rightarrow> u64 list \<Rightarrow> ('w, 'wal, 'gwy, 'net, 'con, 'msg, u64 list) chain_call" where
  "QueryUnrecievedAcknowledgements G Q seqs = then_call path_end (\<lambda>p.
     then_call (query_path G Q ''/ibc.core.channel.v1.Query/UnreceivedAcks''
         (UnreceivedAcksRequest (pe_PortID p) (pe_ChannelID p) seqs)) (\<lambda>res. give (response_Sequences Q res)))"

text \<open>The contract is fetched before the arguments are evaluated; both can panic.\<close>

definition Chain_QueryPacket ::
    "('w, 'wal, 'gwy, 'net, 'con) gateway_lib \<Rightarrow> ('r, 'coins, 'conn, 'chan) query_lib \<Rightarrow> u64 \<Rightarrow> ('w, 'wal, 'gwy, 'net, 'con, 'msg, Packet) chain_call" where
  "Chain_QueryPacket G Q sequence =
     then_call (Chain_Contract G) (\<lambda>c.
       then_call path_end (\<lambda>p.
         then_call (lift (deref c)) (\<lambda>con.
           then_call (outside (EvaluateTransaction G con ''queryPacket'' [pe_PortID p, pe_ChannelID p, format_u64 sequence])) (\<lambda>bz.
             lift (json_Unmarshal_Packet Q bz)))))"

definition Chain_QueryPacketAcknowledgement ::
    "('w, 'wal, 'gwy, 'net, 'con) gateway_lib \<Rightarrow> u64 \<Rightarrow> ('w, 'wal, 'gwy, 'net, 'con, 'msg, bytes) chain_call" where
  "Chain_QueryPacketAcknowledgement G sequence =
     then_call (Chain_Contract G) (\<lambda>c.
       then_call path_end (\<lambda>p.
         then_call (lift (deref c)) (\<lambda>con.
           then_call (outside (EvaluateTransaction G con ''queryPacketAcknowledgement''
               [pe_PortID p, pe_ChannelID p, format_u64 sequence])) (\<lambda>bz.
             lift (b64_decode (string_of_bytes bz))))))"

end
