(* ===== verification/Relay_Prover.thy ===== *)
theory Relay_Prover
  imports Relay_Chain
begin

text \<open>
  The prover module of the relayer: \<open>relay/commitment.go\<close>, \<open>proof.go\<close>, \<open>prover.go\<close> and \<open>client-tx.go\<close>. It asks
  the peers to simulate an endorsing function, makes a commitment proof from their answers, and makes
  the header and the client state from which a counterparty starts to follow this chain. The policies
  and MSP configurations of Fabric and the encodings of ibc-go are the record \<open>prover_lib\<close>.
\<close>

section \<open>Libraries\<close>

text \<open>\<open>msppb.MSPConfig\<close>, and the two roles that are used.\<close>

record msp_MSPConfig =
  mspc_Type :: "32 word"
  mspc_Config :: slice

datatype MSPRole = MSPRole_PEER | MSPRole_ADMIN

record ('w, 'any, 'cl, 'co, 'conn, 'chan, 'fc, 'msg) prover_lib =
  json_Unmarshal_Entry :: "bytes \<Rightarrow> Entry outcome"
  Unmarshal_Any :: "bytes \<Rightarrow> 'any outcome"
  UnpackAny_ClientState :: "'any \<Rightarrow> 'cl outcome"
  UnpackAny_ConsensusState :: "'any \<Rightarrow> 'co outcome"
  PackClientState :: "'cl \<Rightarrow> 'any outcome"
  PackConsensusState :: "'co \<Rightarrow> 'any outcome"
  Unmarshal_ConnectionEnd :: "bytes \<Rightarrow> 'conn outcome"
  Unmarshal_Channel :: "bytes \<Rightarrow> 'chan outcome"
  Marshal_SignedByNOutOfGivenRole :: "32 word \<Rightarrow> MSPRole \<Rightarrow> string list \<Rightarrow> bytes outcome"
  GetLocalMspConfig :: "string \<Rightarrow> string \<Rightarrow> ('w, msp_MSPConfig) call"
  Unmarshal_FabricMSPConfig :: "bytes \<Rightarrow> 'fc outcome"
  clear_SigningIdentity :: "'fc \<Rightarrow> 'fc"
  Marshal_FabricMSPConfig :: "'fc \<Rightarrow> bytes outcome"
  Marshal_MSPConfig :: "msp_MSPConfig \<Rightarrow> bytes outcome"
  NewMsgCreateClient :: "ClientState \<Rightarrow> ConsensusState \<Rightarrow> string \<Rightarrow> 'msg outcome"

record ProverConfig =
  IbcPolicies :: "string list"
  EndorsementPolicies :: "string list"
  MspConfigPaths :: "string list"

section \<open>Configurations\<close>

text \<open>A chain of the relayer: one of this module, or another one. A prover is its chain and its configuration.\<close>

datatype 'ch any_chain = FabricChain 'ch | OtherChain

record 'ch Prover =
  prover_chain :: 'ch
  prover_config :: ProverConfig

definition NewProver :: "'ch \<Rightarrow> ProverConfig \<Rightarrow> 'ch Prover" where
  "NewProver chain config = \<lparr>prover_chain = chain, prover_config = config\<rparr>"

definition ChainConfig_Build :: "ChainConfig \<Rightarrow> ('w, 'wal, 'gwy, 'net, 'con, 'msg) Chain any_chain outcome" where
  "ChainConfig_Build c = Ok (FabricChain (NewChain c))"

definition ProverConfig_Build ::
    "ProverConfig \<Rightarrow> ('w, 'wal, 'gwy, 'net, 'con, 'msg) Chain any_chain \<Rightarrow> ('w, 'wal, 'gwy, 'net, 'con, 'msg) Chain Prover outcome" where
  "ProverConfig_Build c chain =
     (case chain of
        FabricChain chain' \<Rightarrow> Ok (NewProver chain' c)
      | OtherChain \<Rightarrow> Err (ErrorNew ''chain type must be %T, not %T''))"

definition Prover_GetChainID :: "('w, 'wal, 'gwy, 'net, 'con, 'msg) Chain Prover \<Rightarrow> string" where
  "Prover_GetChainID pr = ChainID (prover_chain pr)"

text \<open>
  In what follows the chain is the state of the calls, since connecting changes it, and the
  configuration is an argument.
\<close>

section \<open>Commitment proofs\<close>

definition makeCommitmentProof :: "channel_Response \<Rightarrow> CommitmentProof outcome" where
  "makeCommitmentProof response =
     and_then (index (resp_Responses response) 0) (\<lambda>first.
       let p = \<lparr>cp_Proposal = Some (er_Payload first), cp_NsIndex = 1, cp_WriteSetIndex = 0,
                cp_Identities = map er_Endorser (resp_Responses response),
                cp_Signatures = map er_Signature (resp_Responses response)\<rparr>
       in and_then (CommitmentProof_ValidateBasic p) (\<lambda>_. Ok p))"

text \<open>\<open>int32(len(mspids)/2+1)\<close> of the MSPs, in a role.\<close>

definition majority :: "string list \<Rightarrow> 32 word" where
  "majority mspids = word_of_nat (length mspids div 2 + 1)"

definition makeEndorsementPolicy :: "('w, 'any, 'cl, 'co, 'conn, 'chan, 'fc, 'msg) prover_lib \<Rightarrow> string list \<Rightarrow> bytes outcome" where
  "makeEndorsementPolicy V mspids = Marshal_SignedByNOutOfGivenRole V (majority mspids) MSPRole_PEER mspids"

definition makeIBCPolicy :: "('w, 'any, 'cl, 'co, 'conn, 'chan, 'fc, 'msg) prover_lib \<Rightarrow> string list \<Rightarrow> bytes outcome" where
  "makeIBCPolicy V mspids = Marshal_SignedByNOutOfGivenRole V (majority mspids) MSPRole_ADMIN mspids"

definition unmarshalCommitmentEntry :: "('w, 'any, 'cl, 'co, 'conn, 'chan, 'fc, 'msg) prover_lib \<Rightarrow> bytes \<Rightarrow> Entry outcome" where
  "unmarshalCommitmentEntry V payload = json_Unmarshal_Entry V payload"

section \<open>Endorsed values\<close>

definition endorseCommitmentRaw ::
    "('w, 'wal, 'gwy, 'net, 'con) gateway_lib \<Rightarrow> ('w, 'any, 'cl, 'co, 'conn, 'chan, 'fc, 'mc) prover_lib \<Rightarrow> string \<Rightarrow> string list
       \<Rightarrow> ('w, 'wal, 'gwy, 'net, 'con, 'msg, slice \<times> CommitmentProof) chain_call" where
  "endorseCommitmentRaw G V fnName args =
     then_call (contract_call G (\<lambda>con. Simulate G con fnName args)) (\<lambda>res.
       then_call (lift (unmarshalCommitmentEntry V (resp_Payload res))) (\<lambda>entry.
         then_call (lift (makeCommitmentProof res)) (\<lambda>p. give (entry_Value entry, p))))"

definition endorseCommitment ::
    "('w, 'wal, 'gwy, 'net, 'con) gateway_lib \<Rightarrow> ('w, 'any, 'cl, 'co, 'conn, 'chan, 'fc, 'mc) prover_lib \<Rightarrow> string \<Rightarrow> string list
       \<Rightarrow> (bytes \<Rightarrow> 'a outcome) \<Rightarrow> ('w, 'wal, 'gwy, 'net, 'con, 'msg, 'a \<times> CommitmentProof) chain_call" where
  "endorseCommitment G V fnName args unmarshal =
     then_call (endorseCommitmentRaw G V fnName args) (\<lambda>(v, p).
       then_call (lift (unmarshal (slice_bytes v))) (\<lambda>result. give (result, p)))"

definition endorseClientState ::
    "('w, 'wal, 'gwy, 'net, 'con) gateway_lib \<Rightarrow> ('w, 'any, 'cl, 'co, 'conn, 'chan, 'fc, 'mc) prover_lib \<Rightarrow> string
       \<Rightarrow> ('w, 'wal, 'gwy, 'net, 'con, 'msg, 'cl \<times> CommitmentProof) chain_call" where
  "endorseClientState G V clientID =
     then_call (endorseCommitment G V ''endorseClientState'' [clientID] (Unmarshal_Any V)) (\<lambda>(any, p).
       then_call (lift (UnpackAny_ClientState V any)) (\<lambda>result. give (result, p)))"

definition endorseConsensusState ::
    "('w, 'wal, 'gwy, 'net, 'con) gateway_lib \<Rightarrow> ('w, 'any, 'cl, 'co, 'conn, 'chan, 'fc, 'mc) prover_lib \<Rightarrow> string \<Rightarrow> u64
       \<Rightarrow> ('w, 'wal, 'gwy, 'net, 'con, 'msg, 'co \<times> CommitmentProof) chain_call" where
  "endorseConsensusState G V clientID height =
     then_call (endorseCommitment G V ''endorseConsensusStateCommitment'' [clientID, format_u64 height] (Unmarshal_Any V)) (\<lambda>(any, p).
       then_call (lift (UnpackAny_ConsensusState V any)) (\<lambda>result. give (result, p)))"

definition endorseConnectionState ::
    "('w, 'wal, 'gwy, 'net, 'con) gateway_lib \<Rightarrow> ('w, 'any, 'cl, 'co, 'conn, 'chan, 'fc, 'mc) prover_lib \<Rightarrow> string
       \<Rightarrow> ('w, 'wal, 'gwy, 'net, 'con, 'msg, 'conn \<times> CommitmentProof) chain_call" where
  "endorseConnectionState G V connectionID =
     endorseCommitment G V ''endorseConnectionState'' [connectionID] (Unmarshal_ConnectionEnd V)"

definition endorseChannelState ::
    "('w, 'wal, 'gwy, 'net, 'con) gateway_lib \<Rightarrow> ('w, 'any, 'cl, 'co, 'conn, 'chan, 'fc, 'mc) prover_lib \<Rightarrow> string \<Rightarrow> string
       \<Rightarrow> ('w, 'wal, 'gwy, 'net, 'con, 'msg, 'chan \<times> CommitmentProof) chain_call" where
  "endorseChannelState G V portID channelID =
     endorseCommitment G V ''endorseChannelState'' [portID, channelID] (Unmarshal_Channel V)"

definition endorsePacketCommitment ::
    "('w, 'wal, 'gwy, 'net, 'con) gateway_lib \<Rightarrow> ('w, 'any, 'cl, 'co, 'conn, 'chan, 'fc, 'mc) prover_lib \<Rightarrow> string \<Rightarrow> string \<Rightarrow> u64
       \<Rightarrow> ('w, 'wal, 'gwy, 'net, 'con, 'msg, slice \<times> CommitmentProof) chain_call" where
  "endorsePacketCommitment G V portID channelID sequence =
     endorseCommitmentRaw G V ''endorsePacketCommitment'' [portID, channelID, format_u64 sequence]"

definition endorsePacketAcknowledgement ::
    "('w, 'wal, 'gwy, 'net, 'con) gateway_lib \<Rightarrow> ('w, 'any, 'cl, 'co, 'conn, 'chan, 'fc, 'mc) prover_lib \<Rightarrow> string \<Rightarrow> string \<Rightarrow> u64
       \<Rightarrow> ('w, 'wal, 'gwy, 'net, 'con, 'msg, slice \<times> CommitmentProof) chain_call" where
  "endorsePacketAcknowledgement G V portID channelID sequence =
     endorseCommitmentRaw G V ''endorsePacketAcknowledgement'' [portID, channelID, format_u64 sequence]"

section \<open>Queries with proofs\<close>

text \<open>The responses of ibc-go with a value, a proof and the height of the proof.\<close>

record 'a proven =
  pv_Value :: 'a
  pv_Proof :: slice
  pv_ProofHeight :: Height

definition getCurrentHeight ::
    "('w, 'wal, 'gwy, 'net, 'con) gateway_lib \<Rightarrow> ('r, 'coins, 'conn, 'chan) query_lib \<Rightarrow> ('w, 'wal, 'gwy, 'net, 'con, 'msg, Height) chain_call" where
  "getCurrentHeight G Q =
     then_call (must_call (QueryCurrentSequence G Q)) (\<lambda>sq. give (NewHeight 0 (seq_Value sq)))"

text \<open>The end of every query: the proof is encoded and the current height is asked for.\<close>

definition with_proof ::
    "('w, 'wal, 'gwy, 'net, 'con) gateway_lib \<Rightarrow> ('r, 'coins, 'conn, 'chan) query_lib \<Rightarrow> 'a \<Rightarrow> CommitmentProof
       \<Rightarrow> ('w, 'wal, 'gwy, 'net, 'con, 'msg, 'a proven) chain_call" where
  "with_proof G Q v p =
     then_call (lift (CommitmentProof_Marshal p)) (\<lambda>proofBytes.
       then_call (getCurrentHeight G Q) (\<lambda>h.
         give \<lparr>pv_Value = v, pv_Proof = Some proofBytes, pv_ProofHeight = h\<rparr>))"

definition QueryClientStateWithProof ::
    "('w, 'wal, 'gwy, 'net, 'con) gateway_lib \<Rightarrow> ('r, 'coins, 'conn, 'chan) query_lib \<Rightarrow> ('w, 'any, 'cl, 'co, 'conn, 'chan, 'fc, 'mc) prover_lib
       \<Rightarrow> ('w, 'wal, 'gwy, 'net, 'con, 'msg, 'any proven) chain_call" where
  "QueryClientStateWithProof G Q V = then_call path_end (\<lambda>e.
     then_call (endorseClientState G V (pe_ClientID e)) (\<lambda>(cs, p).
       then_call (lift (PackClientState V cs)) (\<lambda>anyCS. with_proof G Q anyCS p)))"

definition QueryClientConsensusStateWithProof ::
    "('w, 'wal, 'gwy, 'net, 'con) gateway_lib \<Rightarrow> ('r, 'coins, 'conn, 'chan) query_lib \<Rightarrow> ('w, 'any, 'cl, 'co, 'conn, 'chan, 'fc, 'mc) prover_lib \<Rightarrow> Height
       \<Rightarrow> ('w, 'wal, 'gwy, 'net, 'con, 'msg, 'any proven) chain_call" where
  "QueryClientConsensusStateWithProof G Q V dstClientConsHeight = then_call path_end (\<lambda>e.
     then_call (endorseConsensusState G V (pe_ClientID e) (RevisionHeight dstClientConsHeight)) (\<lambda>(css, p).
       then_call (lift (PackConsensusState V css)) (\<lambda>anyCSS. with_proof G Q anyCSS p)))"

text \<open>
  \<open>if err != nil { if strings.Contains(\<dots>) { return emptyRes, nil }; return nil, err }\<close> around the
  endorsement only: an error of what follows is returned.
\<close>

definition proven_or_empty ::
    "string \<Rightarrow> 'a \<Rightarrow> ('x, 'a \<times> CommitmentProof) call \<Rightarrow> ('a \<Rightarrow> CommitmentProof \<Rightarrow> ('x, 'a proven) call) \<Rightarrow> ('x, 'a proven) call" where
  "proven_or_empty text none c k s =
     (case c s of
        (Ok (v, p), t) \<Rightarrow> k v p t
      | (Err e, t) \<Rightarrow>
          if strings_Contains (error_string e) text
          then (Ok \<lparr>pv_Value = none, pv_Proof = Some [], pv_ProofHeight = NewHeight 0 0\<rparr>, t) else (Err e, t)
      | (Panic q, t) \<Rightarrow> (Panic q, t))"

definition QueryConnectionWithProof ::
    "('w, 'wal, 'gwy, 'net, 'con) gateway_lib \<Rightarrow> ('r, 'coins, 'conn, 'chan) query_lib \<Rightarrow> ('w, 'any, 'cl, 'co, 'conn, 'chan, 'fc, 'mc) prover_lib
       \<Rightarrow> ('w, 'wal, 'gwy, 'net, 'con, 'msg, 'conn proven) chain_call" where
  "QueryConnectionWithProof G Q V = then_call path_end (\<lambda>e.
     proven_or_empty (ErrConnectionNotFound Q) (empty_connection Q) (endorseConnectionState G V (pe_ConnectionID e)) (with_proof G Q))"

definition QueryChannelWithProof ::
    "('w, 'wal, 'gwy, 'net, 'con) gateway_lib \<Rightarrow> ('r, 'coins, 'conn, 'chan) query_lib \<Rightarrow> ('w, 'any, 'cl, 'co, 'conn, 'chan, 'fc, 'mc) prover_lib
       \<Rightarrow> ('w, 'wal, 'gwy, 'net, 'con, 'msg, 'chan proven) chain_call" where
  "QueryChannelWithProof G Q V = then_call path_end (\<lambda>e.
     proven_or_empty (ErrChannelNotFound Q) (empty_channel Q) (endorseChannelState G V (pe_PortID e) (pe_ChannelID e)) (with_proof G Q))"

definition QueryPacketCommitmentWithProof ::
    "('w, 'wal, 'gwy, 'net, 'con) gateway_lib \<Rightarrow> ('r, 'coins, 'conn, 'chan) query_lib \<Rightarrow> ('w, 'any, 'cl, 'co, 'conn, 'chan, 'fc, 'mc) prover_lib \<Rightarrow> u64
       \<Rightarrow> ('w, 'wal, 'gwy, 'net, 'con, 'msg, slice proven) chain_call" where
  "QueryPacketCommitmentWithProof G Q V sq = then_call path_end (\<lambda>e.
     then_call (endorsePacketCommitment G V (pe_PortID e) (pe_ChannelID e) sq) (\<lambda>(cm, p). with_proof G Q cm p))"

definition QueryPacketAcknowledgementCommitmentWithProof ::
    "('w, 'wal, 'gwy, 'net, 'con) gateway_lib \<Rightarrow> ('r, 'coins, 'conn, 'chan) query_lib \<Rightarrow> ('w, 'any, 'cl, 'co, 'conn, 'chan, 'fc, 'mc) prover_lib \<Rightarrow> u64
       \<Rightarrow> ('w, 'wal, 'gwy, 'net, 'con, 'msg, slice proven) chain_call" where
  "QueryPacketAcknowledgementCommitmentWithProof G Q V sq = then_call path_end (\<lambda>e.
     then_call (endorsePacketAcknowledgement G V (pe_PortID e) (pe_ChannelID e) sq) (\<lambda>(cm, p). with_proof G Q cm p))"

section \<open>Headers\<close>

text \<open>Only the signing identity is removed; it is what a verifier does not need.\<close>

definition getVerifyingConfig :: "('w, 'any, 'cl, 'co, 'conn, 'chan, 'fc, 'mc) prover_lib \<Rightarrow> msp_MSPConfig \<Rightarrow> msp_MSPConfig outcome" where
  "getVerifyingConfig V mconf =
     and_then (Unmarshal_FabricMSPConfig V (slice_bytes (mspc_Config mconf))) (\<lambda>conf.
       and_then (Marshal_FabricMSPConfig V (clear_SigningIdentity V conf)) (\<lambda>confb.
         Ok (mconf\<lparr>mspc_Config := Some confb\<rparr>)))"

text \<open>The loop over the paths, with the MSP id at the same index; the result is a list of \<open>MSPConfig\<close>s.\<close>

fun local_msp_configs ::
    "('w, 'any, 'cl, 'co, 'conn, 'chan, 'fc, 'mc) prover_lib \<Rightarrow> ProverConfig \<Rightarrow> nat \<Rightarrow> string list \<Rightarrow> (string \<times> msp_MSPConfig) list
       \<Rightarrow> ('w, (string \<times> msp_MSPConfig) list) call" where
  "local_msp_configs V config i [] res = give res"
| "local_msp_configs V config i (path # rest) res =
     then_call (lift (index (IbcPolicies config) i)) (\<lambda>mspId.
       then_call (GetLocalMspConfig V (filepath_Clean path) mspId) (\<lambda>mspConf.
         then_call (lift (getVerifyingConfig V mspConf)) (\<lambda>mspConf'.
           local_msp_configs V config (i + 1) rest (res @ [(mspId, mspConf')]))))"

definition GetLocalMspConfigs ::
    "('w, 'any, 'cl, 'co, 'conn, 'chan, 'fc, 'mc) prover_lib \<Rightarrow> ProverConfig \<Rightarrow> ('w, (string \<times> msp_MSPConfig) list) call" where
  "GetLocalMspConfigs V config =
     (if length (IbcPolicies config) \<noteq> length (MspConfigPaths config)
      then fail (ErrorNew ''IBCPolicies and MspConfigPaths must have the same length for now: %v != %v'')
      else local_msp_configs V config 0 (MspConfigPaths config) [])"

text \<open>The loop that makes a creating header of every MSP.\<close>

definition msp_headers ::
    "('w, 'any, 'cl, 'co, 'conn, 'chan, 'fc, 'mc) prover_lib \<Rightarrow> bytes \<Rightarrow> (string \<times> msp_MSPConfig) list \<Rightarrow> MSPHeader list outcome" where
  "msp_headers V ipBytes confs = fold_outcome (\<lambda>hs (mspId, conf).
     and_then (Marshal_MSPConfig V conf) (\<lambda>mcBytes.
       Ok (hs @ [NewMSPHeader MSPHeaderTypeCreate mspId (Some mcBytes) (Some ipBytes) (Some MessageProof_zero)]))) [] confs"

definition QueryLatestHeader ::
    "('w, 'wal, 'gwy, 'net, 'con) gateway_lib \<Rightarrow> ('r, 'coins, 'conn, 'chan) query_lib \<Rightarrow> ('w, 'any, 'cl, 'co, 'conn, 'chan, 'fc, 'mc) prover_lib
       \<Rightarrow> ProverConfig \<Rightarrow> ('w, 'wal, 'gwy, 'net, 'con, 'msg, Header) chain_call" where
  "QueryLatestHeader G Q V config =
     then_call (QueryCurrentSequence G Q) (\<lambda>sq.
       then_call (own chain_config) (\<lambda>cfg.
         then_call (lift (makeEndorsementPolicy V (EndorsementPolicies config))) (\<lambda>pcBytes.
           then_call (lift (makeIBCPolicy V (IbcPolicies config))) (\<lambda>ipBytes.
             then_call (outside (GetLocalMspConfigs V config)) (\<lambda>mspConfs.
               then_call (lift (msp_headers V ipBytes mspConfs)) (\<lambda>hs.
                 let ccid = ChaincodeID_zero\<lparr>ccid_Name := cfg_ChaincodeId cfg, ccid_Version := ''1''\<rparr>;
                     ci = NewChaincodeInfo (cfg_Channel cfg) ccid (Some pcBytes) (Some ipBytes) None;
                     ch = NewChaincodeHeader (seq_Value sq) (seq_Timestamp sq) CommitmentProof_zero;
                     header = NewHeader (Some ch) (Some ci) (Some (NewMSPHeaders hs))
                 in then_call (lift (Header_ValidateBasic header)) (\<lambda>_. give header)))))))"

definition GetLatestLightHeight :: "i64 outcome" where
  "GetLatestLightHeight = Ok (- 1)"

definition SetupHeader :: "Header option outcome" where
  "SetupHeader = Ok None"

definition UpdateLightWithHeader ::
    "('w, 'wal, 'gwy, 'net, 'con) gateway_lib \<Rightarrow> ('r, 'coins, 'conn, 'chan) query_lib \<Rightarrow> ('w, 'any, 'cl, 'co, 'conn, 'chan, 'fc, 'mc) prover_lib
       \<Rightarrow> ProverConfig \<Rightarrow> ('w, 'wal, 'gwy, 'net, 'con, 'msg, Header \<times> i64 \<times> i64) chain_call" where
  "UpdateLightWithHeader G Q V config = then_call (QueryLatestHeader G Q V config) (\<lambda>h. give (h, - 1, - 1))"

section \<open>Creating a client\<close>

definition createMSPInitialClientState :: "MSPHeader list \<Rightarrow> MSPInfos outcome" where
  "createMSPInitialClientState headers = fold_outcome (\<lambda>infos mh.
     if mh_Type mh \<noteq> MSPHeaderTypeCreate then Err (ErrorNew ''unexpected fabric type: %v'')
     else Ok (infos\<lparr>mis_Infos := mis_Infos infos @
       [\<lparr>mi_MSPID = mh_MSPID mh, mi_Config = mh_Config mh, mi_Policy = mh_Policy mh, mi_Freezed = False\<rparr>]\<rparr>)) MSPInfos_zero headers"

text \<open>The header is \<open>None\<close> when it is of another type; the text form of the signer is an argument.\<close>

definition CreateMsgCreateClient ::
    "('w, 'any, 'cl, 'co, 'conn, 'chan, 'fc, 'mc) prover_lib \<Rightarrow> string \<Rightarrow> Header option \<Rightarrow> string \<Rightarrow> 'mc outcome" where
  "CreateMsgCreateClient V clientID dstHeader signer =
     (case dstHeader of
        None \<Rightarrow> Panic ''interface conversion''
      | Some h \<Rightarrow>
          and_then (deref (hdr_MSPHeaders h)) (\<lambda>mhs.
            and_then (createMSPInitialClientState (mhs_Headers mhs)) (\<lambda>mspInfos.
              and_then (deref (hdr_ChaincodeHeader h)) (\<lambda>ch.
                and_then (deref (hdr_ChaincodeInfo h)) (\<lambda>ci.
                  NewMsgCreateClient V (NewClientState clientID ch ci mspInfos)
                    (NewConsensusState (seq_Timestamp (ch_Sequence ch))) signer)))))"

section \<open>What the headers carry\<close>

text \<open>A configuration of Fabric that has been stripped, as bytes.\<close>

definition verifying :: "('w, 'any, 'cl, 'co, 'conn, 'chan, 'fc, 'mc) prover_lib \<Rightarrow> msp_MSPConfig \<Rightarrow> bool" where
  "verifying V m \<longleftrightarrow> (\<exists>c bz. mspc_Config m = Some bz \<and> Marshal_FabricMSPConfig V (clear_SigningIdentity V c) = Ok bz)"

lemma getVerifyingConfig_verifying: "getVerifyingConfig V m = Ok m' \<Longrightarrow> verifying V m'"
  by (auto simp: getVerifyingConfig_def verifying_def outcome_simps)

lemma local_msp_configs_Ok:
  assumes "local_msp_configs V config i ps res w = (Ok res', w')" "i + length ps = length (IbcPolicies config)"
    and "map fst res = take i (IbcPolicies config)" "\<forall>x \<in> set res. verifying V (snd x)"
  shows "map fst res' = IbcPolicies config \<and> (\<forall>x \<in> set res'. verifying V (snd x))"
  using assms
proof (induction V config i ps res arbitrary: w rule: local_msp_configs.induct)
  case (1 V config i res)
  then show ?case by (simp add: give_def)
next
  case (2 V config i path rest res)
  from "2.prems"(1) obtain mspId m m' w1 where
    ix: "index (IbcPolicies config) i = Ok mspId" and m': "getVerifyingConfig V m = Ok m'"
    and next_run: "local_msp_configs V config (i + 1) rest (res @ [(mspId, m')]) w1 = (Ok res', w')"
    by (auto simp: then_call_Ok lift_def)
  have i: "i < length (IbcPolicies config)" using "2.prems"(2) by simp
  then have "mspId = IbcPolicies config ! i" using ix by (simp add: index_def)
  then have "map fst (res @ [(mspId, m')]) = take (i + 1) (IbcPolicies config)"
    using "2.prems"(3) i by (simp add: take_Suc_conv_app_nth)
  with "2.IH" next_run "2.prems"(2,4) getVerifyingConfig_verifying [OF m'] show ?case by auto
qed

lemma GetLocalMspConfigs_Ok:
  assumes "GetLocalMspConfigs V config w = (Ok confs, w')"
  shows "map fst confs = IbcPolicies config \<and> (\<forall>x \<in> set confs. verifying V (snd x))"
  using assms local_msp_configs_Ok [of V config 0 "MspConfigPaths config" "[]" w confs w']
  by (auto simp: GetLocalMspConfigs_def fail_def split: if_splits)

text \<open>A creating header of a stripped configuration.\<close>

definition creates :: "('w, 'any, 'cl, 'co, 'conn, 'chan, 'fc, 'mc) prover_lib \<Rightarrow> string \<Rightarrow> MSPHeader \<Rightarrow> bool" where
  "creates V mspId mh \<longleftrightarrow> mh_Type mh = MSPHeaderTypeCreate \<and> mh_MSPID mh = mspId
     \<and> (\<exists>m bz. verifying V m \<and> Marshal_MSPConfig V m = Ok bz \<and> mh_Config mh = Some bz)"

lemma msp_headers_from:
  assumes "fold_outcome (\<lambda>hs (mspId, conf).
      and_then (Marshal_MSPConfig V conf) (\<lambda>mcBytes.
        Ok (hs @ [NewMSPHeader MSPHeaderTypeCreate mspId (Some mcBytes) (Some ipBytes) (Some MessageProof_zero)]))) hs0 confs = Ok hs"
    and "\<forall>x \<in> set confs. verifying V (snd x)"
  shows "\<exists>new. hs = hs0 @ new \<and> list_all2 (creates V) (map fst confs) new"
  using assms
proof (induction confs arbitrary: hs0)
  case Nil
  then show ?case by simp
next
  case (Cons x confs)
  obtain mspId conf where x: "x = (mspId, conf)" by fastforce
  from Cons.prems(1) obtain bz where bz: "Marshal_MSPConfig V conf = Ok bz"
    by (auto simp: x outcome_simps)
  let ?mh = "NewMSPHeader MSPHeaderTypeCreate mspId (Some bz) (Some ipBytes) (Some MessageProof_zero)"
  from Cons.IH [of "hs0 @ [?mh]"] Cons.prems obtain new where
    "hs = (hs0 @ [?mh]) @ new" "list_all2 (creates V) (map fst confs) new" by (auto simp: x bz)
  moreover have "creates V mspId ?mh" using bz Cons.prems(2) by (auto simp: creates_def NewMSPHeader_def x)
  ultimately show ?case by (auto simp: x)
qed

lemma msp_headers_Ok:
  assumes "msp_headers V ipBytes confs = Ok hs" "\<forall>x \<in> set confs. verifying V (snd x)"
  shows "list_all2 (creates V) (map fst confs) hs"
  using msp_headers_from [OF assms(1) [unfolded msp_headers_def] assms(2)] by simp

lemma own_Ok [outcome_simps]: "own f s = (Ok a, t) \<longleftrightarrow> a = f (snd s) \<and> t = s"
  by (auto simp: own_def)

lemma outside_Ok: "outside c s = (Ok a, t) \<longleftrightarrow> c (fst s) = (Ok a, fst t) \<and> snd t = snd s"
  by (cases t) (auto simp: outside_def split: prod.splits)

lemma QueryLatestHeader_Ok:
  assumes "QueryLatestHeader G Q V config s = (Ok h, t)"
  obtains sq :: Sequence and ci hs where "hdr_ChaincodeHeader h = Some (NewChaincodeHeader (seq_Value sq) (seq_Timestamp sq) CommitmentProof_zero)"
    and "hdr_ChaincodeInfo h = Some ci" "ci_Proof ci = None" "hdr_MSPHeaders h = Some \<lparr>mhs_Headers = hs\<rparr>"
    and "list_all2 (creates V) (IbcPolicies config) hs" "sorted_wrt (<) (map mh_MSPID hs)"
proof -
  from assms obtain sq :: Sequence and cfg :: ChainConfig and pc ip confs hs u1 u2 ci where
    confs: "GetLocalMspConfigs V config u1 = (Ok confs, u2)" and hs: "msp_headers V ip confs = Ok hs"
    and h': "h = NewHeader (Some (NewChaincodeHeader (seq_Value sq) (seq_Timestamp sq) CommitmentProof_zero)) (Some ci) (Some (NewMSPHeaders hs))"
    and ci': "ci = NewChaincodeInfo (cfg_Channel cfg) (ChaincodeID_zero\<lparr>ccid_Name := cfg_ChaincodeId cfg, ccid_Version := ''1''\<rparr>)
      (Some pc) (Some ip) None" and valid: "Header_ValidateBasic h = Ok ()"
    unfolding QueryLatestHeader_def then_call_Ok lift_def give_def Let_def outside_Ok
    by auto
  have ci: "ci_Proof ci = None" by (simp add: ci' NewChaincodeInfo_def)
  have h: "hdr_ChaincodeHeader h = Some (NewChaincodeHeader (seq_Value sq) (seq_Timestamp sq) CommitmentProof_zero)"
    "hdr_ChaincodeInfo h = Some ci" "hdr_MSPHeaders h = Some \<lparr>mhs_Headers = hs\<rparr>"
    by (simp_all add: h' NewHeader_def NewMSPHeaders_def)
  from valid h have "MSPHeaders_ValidateBasic \<lparr>mhs_Headers = hs\<rparr> = Ok ()"
    by (auto simp: Header_ValidateBasic_def validate_optional_def ChaincodeHeader_ValidateBasic_def
        ChaincodeInfo_ValidateBasic_def split: option.splits)
  then have "sorted_wrt (<) (map mh_MSPID hs)" by (simp add: MSPHeaders_ValidateBasic_iff)
  with that h ci msp_headers_Ok [OF hs] GetLocalMspConfigs_Ok [OF confs] show ?thesis by auto
qed

section \<open>The client that is created\<close>

text \<open>The MSP information that a creating header becomes.\<close>

definition initial_info :: "MSPHeader \<Rightarrow> MSPInfo" where
  "initial_info mh = \<lparr>mi_MSPID = mh_MSPID mh, mi_Config = mh_Config mh, mi_Policy = mh_Policy mh, mi_Freezed = False\<rparr>"

lemma createMSPInitialClientState_Ok:
  assumes "\<forall>mh \<in> set hs. mh_Type mh = MSPHeaderTypeCreate"
  shows "createMSPInitialClientState hs = Ok \<lparr>mis_Infos = map initial_info hs\<rparr>"
proof -
  have "fold_outcome (\<lambda>infos mh. if mh_Type mh \<noteq> MSPHeaderTypeCreate then Err (ErrorNew ''unexpected fabric type: %v'')
      else Ok (infos\<lparr>mis_Infos := mis_Infos infos @ [\<lparr>mi_MSPID = mh_MSPID mh, mi_Config = mh_Config mh, mi_Policy = mh_Policy mh,
        mi_Freezed = False\<rparr>]\<rparr>)) infos hs = Ok \<lparr>mis_Infos = mis_Infos infos @ map initial_info hs\<rparr>" for infos :: MSPInfos
    using assms by (induction hs arbitrary: infos) (simp_all add: initial_info_def)
  then show ?thesis by (simp add: createMSPInitialClientState_def MSPInfos_zero_def)
qed

lemma created_infos:
  assumes "list_all2 (creates V) ids hs"
  shows "msp_ids (map initial_info hs) = ids" "\<forall>mh \<in> set hs. creates V (mh_MSPID mh) mh"
  using assms by (induction rule: list_all2_induct) (auto simp: creates_def initial_info_def)

text \<open>A connected chain, and libraries in which an MSP configuration is a flag for the signing identity and the rest.\<close>

definition relay_gateway :: "(unit, unit, unit, unit, unit) gateway_lib" where
  "relay_gateway = \<lparr>NewFileSystemWallet = (\<lambda>_. give ()), Wallet_Exists = (\<lambda>_ _ _. True), Wallet_Get = (\<lambda>_ _. fail (ErrorNew ''none'')),
     Wallet_Put = (\<lambda>_ _ _. give ()), ReadFile = (\<lambda>_. give []), gateway_Connect = (\<lambda>_ _ _. give ()), GetNetwork = (\<lambda>_ _. give ()),
     GetContract = (\<lambda>_ _. Some ()), EvaluateTransaction = (\<lambda>_ _ _. give []), SubmitTransaction = (\<lambda>_ _ _. give []),
     Simulate = (\<lambda>_ _ _. give \<lparr>resp_Payload = [], resp_Responses = []\<rparr>)\<rparr>"

definition relay_queries :: "(unit, unit, unit, unit) query_lib" where
  "relay_queries = \<lparr>Marshal_request = (\<lambda>_. Ok []), Unmarshal_response = (\<lambda>_ _. Ok ()), json_Marshal_RequestQuery = (\<lambda>_. Ok []),
     json_Unmarshal_ResponseQuery = (\<lambda>_. Ok \<lparr>crs_Key = [], crs_Value = []\<rparr>),
     json_Unmarshal_Sequence = (\<lambda>_. Ok \<lparr>seq_Value = 3, seq_Timestamp = 7\<rparr>), json_Unmarshal_Packet = (\<lambda>_. Err (ErrorNew ''json'')),
     ErrConnectionNotFound = ''connection not found'', ErrChannelNotFound = ''channel not found'',
     NewConnectionEnd_UNINITIALIZED = (\<lambda>_ _ _ _ _. ()), NewQueryConnectionResponse = (\<lambda>_ _ _. ()),
     NewChannel_UNINITIALIZED_UNORDERED = (\<lambda>_ _ _ _. ()), NewQueryChannelResponse = (\<lambda>_ _ _. ()),
     response_Sequences = (\<lambda>_. []), response_Balances = (\<lambda>_. ())\<rparr>"

definition relay_prover :: "(unit, unit, unit, unit, unit, unit, bool \<times> bytes, ClientState) prover_lib" where
  "relay_prover = \<lparr>json_Unmarshal_Entry = (\<lambda>_. Err (ErrorNew ''json'')), Unmarshal_Any = (\<lambda>_. Ok ()), UnpackAny_ClientState = (\<lambda>_. Ok ()),
     UnpackAny_ConsensusState = (\<lambda>_. Ok ()), PackClientState = (\<lambda>_. Ok ()), PackConsensusState = (\<lambda>_. Ok ()),
     Unmarshal_ConnectionEnd = (\<lambda>_. Ok ()), Unmarshal_Channel = (\<lambda>_. Ok ()), Marshal_SignedByNOutOfGivenRole = (\<lambda>n _ _. Ok [ucast n]),
     GetLocalMspConfig = (\<lambda>_ _. give \<lparr>mspc_Type = 0, mspc_Config = Some [1, 5]\<rparr>),
     Unmarshal_FabricMSPConfig = (\<lambda>bz. case bz of [] \<Rightarrow> Ok (False, []) | b # bs \<Rightarrow> Ok (b \<noteq> 0, bs)),
     clear_SigningIdentity = (\<lambda>c. (False, snd c)), Marshal_FabricMSPConfig = (\<lambda>c. Ok ((if fst c then 1 else 0) # snd c)),
     Marshal_MSPConfig = (\<lambda>m. Ok (slice_bytes (mspc_Config m))), NewMsgCreateClient = (\<lambda>cs _ _. Ok cs)\<rparr>"

definition relay_chain :: "(unit, unit, unit, unit, unit, unit) Chain" where
  "relay_chain = NewChain \<lparr>cfg_ChainId = ''ibc0'', cfg_WalletLabel = ''Org1MSP'', cfg_ConnectionProfilePath = ''c.yaml'',
     cfg_Channel = ''channel1'', cfg_ChaincodeId = ''fabibc''\<rparr>"

definition relay_config :: ProverConfig where
  "relay_config = \<lparr>IbcPolicies = [''Org1MSP'', ''Org2MSP''], EndorsementPolicies = [''Org1MSP''], MspConfigPaths = [''a'', ''b'']\<rparr>"

lemma relay_header:
  "\<exists>h t. QueryLatestHeader relay_gateway relay_queries relay_prover relay_config ((), relay_chain) = (Ok h, t)"
proof -
  have "QueryCurrentSequence relay_gateway relay_queries ((), relay_chain) =
      (Ok \<lparr>seq_Value = 3, seq_Timestamp = 7\<rparr>, ((), relay_chain\<lparr>chain_gateway := \<lparr>gw_Wallet = Some (), gw_Gateway = Some (),
        gw_Network = Some (), gw_Contract = Some ()\<rparr>\<rparr>))"
    by (simp add: QueryCurrentSequence_def contract_call_def Chain_Contract_def relay_chain_def NewChain_def FabricGateway_zero_def
        then_call_def own_def must_call_def Chain_Connect_def on_gateway_def Gateway_Connect_def fileSystemWallet_def assign_def
        current_wallet_def wallet_exists_def modify_def relay_gateway_def relay_queries_def lift_def give_def deref_def outside_def must_def)
  moreover define m where "m = \<lparr>mspc_Type = 0, mspc_Config = Some [0, 5]\<rparr>"
  have "GetLocalMspConfigs relay_prover relay_config () = (Ok [(''Org1MSP'', m), (''Org2MSP'', m)], ())"
    by (simp add: GetLocalMspConfigs_def relay_config_def then_call_def lift_def give_def index_def relay_prover_def getVerifyingConfig_def
        m_def)
  moreover have "makeEndorsementPolicy relay_prover (EndorsementPolicies relay_config) = Ok [1]"
    "makeIBCPolicy relay_prover (IbcPolicies relay_config) = Ok [2]"
    by (simp_all add: makeEndorsementPolicy_def makeIBCPolicy_def relay_prover_def relay_config_def majority_def)
  moreover define hs where "hs = map (\<lambda>mspId. NewMSPHeader MSPHeaderTypeCreate mspId (Some [0, 5]) (Some [2]) (Some MessageProof_zero))
      [''Org1MSP'', ''Org2MSP'']"
  have "msp_headers relay_prover [2] [(''Org1MSP'', m), (''Org2MSP'', m)] = Ok hs"
    by (simp add: msp_headers_def relay_prover_def m_def hs_def)
  moreover have "Header_ValidateBasic (NewHeader (Some ch) (Some ci) (Some (NewMSPHeaders hs))) = Ok ()" for ch ci
    by (simp add: Header_ValidateBasic_def NewHeader_def validate_optional_def ChaincodeHeader_ValidateBasic_def
        ChaincodeInfo_ValidateBasic_def MSPHeaders_ValidateBasic_iff NewMSPHeaders_def hs_def NewMSPHeader_def
        MSPHeader_ValidateBasic_def MSPHeaderTypeCreate_def less_char_def)
  ultimately show ?thesis
    by (simp add: QueryLatestHeader_def then_call_def own_def lift_def give_def outside_def)
qed

lemma created_client:
  assumes "QueryLatestHeader G Q V config s = (Ok h, t)"
  obtains cs where "CreateMsgCreateClient V clientID (Some h) signer =
      NewMsgCreateClient V cs (NewConsensusState (ClientState_GetLatestTimestamp cs)) signer"
    and "cs_Id cs = clientID" "msps_sorted cs" "msp_ids (infos_of cs) = IbcPolicies config"
    and "\<forall>info \<in> set (infos_of cs). \<exists>mh. creates V (mi_MSPID info) mh \<and> info = initial_info mh"
proof (rule QueryLatestHeader_Ok [OF assms])
  fix sq :: Sequence and ci hs
  assume h: "hdr_ChaincodeHeader h = Some (NewChaincodeHeader (seq_Value sq) (seq_Timestamp sq) CommitmentProof_zero)"
    "hdr_ChaincodeInfo h = Some ci" "hdr_MSPHeaders h = Some \<lparr>mhs_Headers = hs\<rparr>"
    and hs: "list_all2 (creates V) (IbcPolicies config) hs" and sorted: "sorted_wrt (<) (map mh_MSPID hs)"
  define cs where "cs = NewClientState clientID (NewChaincodeHeader (seq_Value sq) (seq_Timestamp sq) CommitmentProof_zero) ci
    \<lparr>mis_Infos = map initial_info hs\<rparr>"
  note infos = created_infos [OF hs]
  then have "createMSPInitialClientState hs = Ok \<lparr>mis_Infos = map initial_info hs\<rparr>"
    by (intro createMSPInitialClientState_Ok) (auto simp: creates_def)
  then have msg: "CreateMsgCreateClient V clientID (Some h) signer =
      NewMsgCreateClient V cs (NewConsensusState (ClientState_GetLatestTimestamp cs)) signer"
    by (simp add: CreateMsgCreateClient_def h deref_def cs_def ClientState_GetLatestTimestamp_def NewClientState_def
        NewChaincodeHeader_def)
  have infos_cs: "infos_of cs = map initial_info hs" by (simp add: infos_of_def cs_def NewClientState_def)
  have ids: "msp_ids (map initial_info hs) = map mh_MSPID hs" by (induction hs) (simp_all add: initial_info_def)
  show thesis
  proof (rule that [OF msg])
    show "cs_Id cs = clientID" by (simp add: cs_def NewClientState_def)
    show "msps_sorted cs" unfolding msps_sorted_def infos_cs ids by (rule sorted)
    show "msp_ids (infos_of cs) = IbcPolicies config" unfolding infos_cs by (rule infos(1))
    show "\<forall>info \<in> set (infos_of cs). \<exists>mh. creates V (mi_MSPID info) mh \<and> info = initial_info mh"
      using infos(2) by (auto simp: infos_cs initial_info_def)
  qed
qed

text \<open>
  C31: The client that the relayer creates from the latest header is well formed: its MSPs are those of
  the configuration, strictly sorted and none of them frozen, which is where the invariant of the
  updates starts, its consensus state has the time of its latest sequence, and no MSP configuration
  that is published in it has a signing identity.
\<close>

theorem created_client_well_formed:
  assumes "QueryLatestHeader G Q V config s = (Ok h, t)"
    and "\<And>c bz. Marshal_FabricMSPConfig V c = Ok bz \<Longrightarrow> Unmarshal_FabricMSPConfig V bz = Ok c"
    and "\<And>c. \<not> has_identity (clear_SigningIdentity V c)"
  shows "\<exists>cs. CreateMsgCreateClient V clientID (Some h) signer =
      NewMsgCreateClient V cs (NewConsensusState (ClientState_GetLatestTimestamp cs)) signer
    \<and> cs_Id cs = clientID \<and> msps_sorted cs \<and> msp_ids (infos_of cs) = IbcPolicies config
    \<and> (\<forall>info \<in> set (infos_of cs). \<not> mi_Freezed info \<and> (\<exists>m bz c. mi_Config info = Some bz \<and> Marshal_MSPConfig V m = Ok bz
        \<and> Unmarshal_FabricMSPConfig V (slice_bytes (mspc_Config m)) = Ok c \<and> \<not> has_identity c))"
proof -
  obtain cs where cs: "CreateMsgCreateClient V clientID (Some h) signer =
      NewMsgCreateClient V cs (NewConsensusState (ClientState_GetLatestTimestamp cs)) signer"
    "cs_Id cs = clientID" "msps_sorted cs" "msp_ids (infos_of cs) = IbcPolicies config"
    "\<forall>info \<in> set (infos_of cs). \<exists>mh. creates V (mi_MSPID info) mh \<and> info = initial_info mh"
    by (rule created_client [OF assms(1)])
  have "\<not> mi_Freezed info \<and> (\<exists>m bz c. mi_Config info = Some bz \<and> Marshal_MSPConfig V m = Ok bz
        \<and> Unmarshal_FabricMSPConfig V (slice_bytes (mspc_Config m)) = Ok c \<and> \<not> has_identity c)"
    if info: "info \<in> set (infos_of cs)" for info
  proof -
    from cs(5) info obtain mh where mh: "creates V (mi_MSPID info) mh" "info = initial_info mh" by blast
    then obtain m bz c cb where m: "mspc_Config m = Some cb" "Marshal_FabricMSPConfig V (clear_SigningIdentity V c) = Ok cb"
      "Marshal_MSPConfig V m = Ok bz" "mh_Config mh = Some bz" by (auto simp: creates_def verifying_def)
    from mh(2) m(4) have "\<not> mi_Freezed info" "mi_Config info = Some bz" by (simp_all add: initial_info_def)
    moreover from m(1) assms(2) [OF m(2)] have
      "Unmarshal_FabricMSPConfig V (slice_bytes (mspc_Config m)) = Ok (clear_SigningIdentity V c)" by simp
    ultimately show ?thesis using m(3) assms(3) by blast
  qed
  with cs show ?thesis by blast
qed

theorem created_client_well_formed_witness:
  "\<exists>h t cs. QueryLatestHeader relay_gateway relay_queries relay_prover relay_config ((), relay_chain) = (Ok h, t)
    \<and> CreateMsgCreateClient relay_prover ''fabric-0'' (Some h) ''signer'' = Ok cs \<and> msps_sorted cs
    \<and> msp_ids (infos_of cs) = [''Org1MSP'', ''Org2MSP'']"
proof -
  obtain h t where h: "QueryLatestHeader relay_gateway relay_queries relay_prover relay_config ((), relay_chain) = (Ok h, t)"
    using relay_header by blast
  have "Marshal_FabricMSPConfig relay_prover c = Ok bz \<Longrightarrow> Unmarshal_FabricMSPConfig relay_prover bz = Ok c" for c bz
    by (cases c) (auto simp: relay_prover_def)
  moreover have "\<not> fst (clear_SigningIdentity relay_prover c)" for c by (simp add: relay_prover_def)
  ultimately have "\<exists>cs. CreateMsgCreateClient relay_prover ''fabric-0'' (Some h) ''signer'' =
      NewMsgCreateClient relay_prover cs (NewConsensusState (ClientState_GetLatestTimestamp cs)) ''signer''
    \<and> msps_sorted cs \<and> msp_ids (infos_of cs) = IbcPolicies relay_config"
    using created_client_well_formed [OF h, where has_identity = fst and clientID = "''fabric-0''" and signer = "''signer''"] by blast
  then obtain cs where "CreateMsgCreateClient relay_prover ''fabric-0'' (Some h) ''signer'' =
      NewMsgCreateClient relay_prover cs (NewConsensusState (ClientState_GetLatestTimestamp cs)) ''signer''"
    "msps_sorted cs" "msp_ids (infos_of cs) = IbcPolicies relay_config" by blast
  moreover have "NewMsgCreateClient relay_prover cs co sg = Ok cs" for co sg by (simp add: relay_prover_def)
  moreover have "IbcPolicies relay_config = [''Org1MSP'', ''Org2MSP'']" by (simp add: relay_config_def)
  ultimately show ?thesis using h by metis
qed

text \<open>
  C37: The header that the relayer offers for updates is not accepted by any client, whatever the
  library verifies: the information on the chaincode is in it without a proof. A client that this
  relayer has created is not advanced by it.
\<close>

theorem relayed_header_never_accepted:
  assumes "UpdateLightWithHeader G Q V config s = (Ok (h, n, m), t)"
  shows "CheckHeaderAndUpdateState L EQ cs (FabricHeader (Some h)) \<noteq> Ok r"
proof -
  from assms have "QueryLatestHeader G Q V config s = (Ok h, t)"
    by (auto simp: UpdateLightWithHeader_def then_call_Ok give_def)
  then show ?thesis
  proof (rule QueryLatestHeader_Ok)
    fix ci assume ci: "hdr_ChaincodeInfo h = Some ci" "ci_Proof ci = None"
    then have "check_chaincode_info L cs ci \<noteq> Ok ()" by (simp add: check_chaincode_info_def VerifyChaincodeInfo_def)
    with ci(1) have "checkValidity L EQ cs h \<noteq> Ok ()"
      by (auto simp: checkValidity_def outcome_simps validate_optional_def)
    then show ?thesis by (auto simp: CheckHeaderAndUpdateState_def outcome_simps)
  qed
qed

theorem relayed_header_never_accepted_witness:
  "\<exists>h t. UpdateLightWithHeader relay_gateway relay_queries relay_prover relay_config ((), relay_chain) = (Ok (h, - 1, - 1), t)
    \<and> CheckHeaderAndUpdateState demo_lib (=) demo_client (FabricHeader (Some h)) \<noteq> Ok (demo_client, None)"
proof -
  obtain h t where "QueryLatestHeader relay_gateway relay_queries relay_prover relay_config ((), relay_chain) = (Ok h, t)"
    using relay_header by blast
  then have "UpdateLightWithHeader relay_gateway relay_queries relay_prover relay_config ((), relay_chain) = (Ok (h, - 1, - 1), t)"
    by (simp add: UpdateLightWithHeader_def then_call_Ok give_def)
  with relayed_header_never_accepted [OF this] show ?thesis by blast
qed

end
