(* ===== verification/Relay_Cmd.thy ===== *)
theory Relay_Cmd
  imports Relay_Prover
begin

text \<open>
  The command line of the relayer: \<open>relay/cmd\<close>, with the default genesis of \<open>simapp/app.go\<close> that
  \<open>chaincode init\<close> sends. A command is its place in the tree of \<open>cobra\<close> commands and the function
  \<open>RunE\<close>; the result of a function is the text that it prints. The process ends after one command, so the
  state of the chain object is dropped and the world \<open>'w\<close> is kept.
\<close>

section \<open>The default genesis\<close>

text \<open>
  The encoding configuration of the SDK. The marshaler is made over the registry and sees what is
  registered later: it is a function of the final registry.
\<close>

record ('am, 'reg, 'cdc, 'gen) encoding_lib =
  MakeTestEncodingConfig :: "'am \<times> 'reg"
  std_RegisterLegacyAminoCodec :: "'am \<Rightarrow> 'am"
  std_RegisterInterfaces :: "'reg \<Rightarrow> 'reg"
  ModuleBasics_RegisterLegacyAminoCodec :: "'am \<Rightarrow> 'am"
  ModuleBasics_RegisterInterfaces :: "'reg \<Rightarrow> 'reg"
  encoding_Marshaler :: "'reg \<Rightarrow> 'cdc"
  ModuleBasics_DefaultGenesis :: "'cdc \<Rightarrow> 'gen"

definition MakeEncodingConfig :: "('am, 'reg, 'cdc, 'gen) encoding_lib \<Rightarrow> 'am \<times> 'reg" where
  "MakeEncodingConfig E =
     (let (amino, registry) = MakeTestEncodingConfig E;
          amino = std_RegisterLegacyAminoCodec E amino;
          registry = std_RegisterInterfaces E registry;
          amino = ModuleBasics_RegisterLegacyAminoCodec E amino;
          registry = ModuleBasics_RegisterInterfaces E registry
      in (amino, registry))"

definition NewDefaultGenesisState :: "('am, 'reg, 'cdc, 'gen) encoding_lib \<Rightarrow> 'gen" where
  "NewDefaultGenesisState E =
     (case MakeEncodingConfig E of (amino, registry) \<Rightarrow> ModuleBasics_DefaultGenesis E (encoding_Marshaler E registry))"

section \<open>Commands\<close>

text \<open>A chain of the configuration of the relayer: one of this module, or of another.\<close>

datatype ('w, 'wal, 'gwy, 'net, 'con, 'msg) chain_i =
  FabricChain "('w, 'wal, 'gwy, 'net, 'con, 'msg) Chain"
| OtherChain

text \<open>The relayer, the flags that \<open>viper\<close> has read, and textual forms.\<close>

record ('w, 'wal, 'gwy, 'net, 'con, 'msg, 'pc, 'gen) cmd_lib =
  GetChain :: "string \<Rightarrow> ('w, 'wal, 'gwy, 'net, 'con, 'msg) chain_i outcome"
  viper_GetString :: "string \<Rightarrow> string"
  NewChainProverConfig :: "ChainConfig \<Rightarrow> ProverConfig \<Rightarrow> 'pc outcome"
  json_Marshal_config :: "'pc \<Rightarrow> bytes outcome"
  json_Marshal_genesis :: "'gen \<Rightarrow> bytes outcome"
  AccAddress_String :: "bytes \<Rightarrow> string"
  Sequence_String :: "Sequence \<Rightarrow> string"

definition newline :: string where
  "newline = [CHR 0x0A]"

definition flagFabClientCertPath :: string where
  "flagFabClientCertPath = ''cert''"

definition flagFabClientPrivateKeyPath :: string where
  "flagFabClientPrivateKeyPath = ''key''"

definition flagGenesisFile :: string where
  "flagGenesisFile = ''genesis''"

text \<open>
  \<open>ctx.Config.GetChain(args[0])\<close>, the type assertion to a chain of this module, and the rest of the
  function on it.
\<close>

definition with_chain ::
    "('w, 'wal, 'gwy, 'net, 'con, 'msg, 'pc, 'gen) cmd_lib \<Rightarrow> string list \<Rightarrow> ('w, 'wal, 'gwy, 'net, 'con, 'msg, 'a) chain_call
       \<Rightarrow> ('w, 'a) call" where
  "with_chain X args f =
     then_call (lift (and_then (index args 0) (GetChain X))) (\<lambda>ci w.
       case ci of
         OtherChain \<Rightarrow> (Panic ''interface conversion'', w)
       | FabricChain c \<Rightarrow> (case f (w, c) of (r, (w', _)) \<Rightarrow> (r, w')))"

definition populateWallet_RunE ::
    "('w, 'wal, 'gwy, 'net, 'con, 'msg, 'pc, 'gen) cmd_lib \<Rightarrow> ('w, 'wal, 'gwy, 'net, 'con) gateway_lib \<Rightarrow> string list \<Rightarrow> ('w, string) call" where
  "populateWallet_RunE X G args =
     with_chain X args (then_call (Chain_PopulateWallet G (viper_GetString X flagFabClientCertPath)
         (viper_GetString X flagFabClientPrivateKeyPath)) (\<lambda>_. give ''''))"

definition showAddress_RunE ::
    "('w, 'wal, 'gwy, 'net, 'con, 'msg, 'pc, 'gen) cmd_lib \<Rightarrow> ('w, 'wal, 'gwy, 'net, 'con) gateway_lib \<Rightarrow> (bytes \<Rightarrow> bytes)
       \<Rightarrow> (string \<times> bytes \<Rightarrow> bytes outcome) \<Rightarrow> string list \<Rightarrow> ('w, string) call" where
  "showAddress_RunE X G sha256 marshal_identity args =
     with_chain X args (then_call (Chain_Connect G) (\<lambda>_.
       then_call (own (\<lambda>c. cfg_WalletLabel (chain_config c))) (\<lambda>label.
         then_call (serialized_identity G label) (\<lambda>sid.
           then_call (lift (MakeCreatorAddressWithSerializedIdentity sha256 marshal_identity sid)) (\<lambda>addr.
             give (AccAddress_String X addr @ newline))))))"

definition querySequence_RunE ::
    "('w, 'wal, 'gwy, 'net, 'con, 'msg, 'pc, 'gen) cmd_lib \<Rightarrow> ('w, 'wal, 'gwy, 'net, 'con) gateway_lib
       \<Rightarrow> ('r, 'coins, 'conn, 'chan) query_lib \<Rightarrow> string list \<Rightarrow> ('w, string) call" where
  "querySequence_RunE X G Q args =
     with_chain X args (then_call (Chain_Connect G) (\<lambda>_.
       then_call (QueryCurrentSequence G Q) (\<lambda>seq. give (Sequence_String X seq @ newline))))"

definition initChaincodeFunc :: string where
  "initChaincodeFunc = ''initChaincode''"

definition genesis_bytes ::
    "('w, 'wal, 'gwy, 'net, 'con, 'msg, 'pc, 'gen) cmd_lib \<Rightarrow> ('w, 'wal, 'gwy, 'net, 'con) gateway_lib
       \<Rightarrow> ('am, 'reg, 'cdc, 'gen) encoding_lib \<Rightarrow> ('w, bytes) call" where
  "genesis_bytes X G E =
     (let genesisFile = viper_GetString X flagGenesisFile
      in if genesisFile \<noteq> '''' then ReadFile G (filepath_Clean genesisFile)
         else lift (json_Marshal_genesis X (NewDefaultGenesisState E)))"

definition initChaincode_RunE ::
    "('w, 'wal, 'gwy, 'net, 'con, 'msg, 'pc, 'gen) cmd_lib \<Rightarrow> ('w, 'wal, 'gwy, 'net, 'con) gateway_lib
       \<Rightarrow> ('am, 'reg, 'cdc, 'gen) encoding_lib \<Rightarrow> string list \<Rightarrow> ('w, string) call" where
  "initChaincode_RunE X G E args =
     with_chain X args (then_call (Chain_Connect G) (\<lambda>_.
       then_call (outside (genesis_bytes X G E)) (\<lambda>bz.
         then_call (contract_call G (\<lambda>con. SubmitTransaction G con initChaincodeFunc [string_of_bytes bz])) (\<lambda>_. give ''''))))"

definition generateChainConfig_RunE ::
    "('w, 'wal, 'gwy, 'net, 'con, 'msg, 'pc, 'gen) cmd_lib \<Rightarrow> string list \<Rightarrow> ('w, string) call" where
  "generateChainConfig_RunE X args =
     then_call (lift (index args 0)) (\<lambda>chainId.
       then_call (lift (NewChainProverConfig X
           \<lparr>cfg_ChainId = chainId, cfg_WalletLabel = '''', cfg_ConnectionProfilePath = '''', cfg_Channel = '''', cfg_ChaincodeId = ''''\<rparr>
           \<lparr>IbcPolicies = [], EndorsementPolicies = [], MspConfigPaths = []\<rparr>)) (\<lambda>config.
         then_call (lift (json_Marshal_config X config)) (\<lambda>bz. give (string_of_bytes bz @ newline))))"

text \<open>A command: its usage line, the number of arguments when it is fixed, its flags, its function and its subcommands.\<close>

datatype 'f Command =
  Command (Use: string) (ExactArgs: "nat option") (Flags: "string list") (RunE: "'f option") (commands: "'f Command list")

definition populateWalletFlag :: "'f Command \<Rightarrow> 'f Command" where
  "populateWalletFlag cmd =
     Command (Use cmd) (ExactArgs cmd) (Flags cmd @ [flagFabClientCertPath, flagFabClientPrivateKeyPath]) (RunE cmd) (commands cmd)"

definition initChaincodeFlag :: "'f Command \<Rightarrow> 'f Command" where
  "initChaincodeFlag cmd = Command (Use cmd) (ExactArgs cmd) (Flags cmd @ [flagGenesisFile]) (RunE cmd) (commands cmd)"

text \<open>The tree of commands, over the functions at its leaves.\<close>

definition generateChainConfigCmd :: "'f \<Rightarrow> 'f Command" where
  "generateChainConfigCmd run = Command ''generate'' (Some 1) [] (Some run) []"

definition configCmd :: "'f \<Rightarrow> 'f Command" where
  "configCmd generate = Command ''config'' None [] None [generateChainConfigCmd generate]"

definition populateWalletCmd :: "'f \<Rightarrow> 'f Command" where
  "populateWalletCmd run = populateWalletFlag (Command ''populate [chain-id]'' (Some 1) [] (Some run) [])"

definition showAddressCmd :: "'f \<Rightarrow> 'f Command" where
  "showAddressCmd run = Command ''address [chain-id]'' (Some 1) [] (Some run) []"

definition walletCmd :: "'f \<Rightarrow> 'f \<Rightarrow> 'f Command" where
  "walletCmd populate address = Command ''wallet'' None [] None [populateWalletCmd populate, showAddressCmd address]"

definition initChaincodeCmd :: "'f \<Rightarrow> 'f Command" where
  "initChaincodeCmd run = initChaincodeFlag (Command ''init [chain-id]'' (Some 1) [] (Some run) [])"

definition chaincodeCmd :: "'f \<Rightarrow> 'f Command" where
  "chaincodeCmd run = Command ''chaincode'' None [] None [initChaincodeCmd run]"

definition querySequenceCmd :: "'f \<Rightarrow> 'f Command" where
  "querySequenceCmd run = Command ''sequence [chain-id]'' (Some 1) [] (Some run) []"

definition queryCmd :: "'f \<Rightarrow> 'f Command" where
  "queryCmd run = Command ''query'' None [] None [querySequenceCmd run]"

definition FabricCmd ::
    "('w, 'wal, 'gwy, 'net, 'con, 'msg, 'pc, 'gen) cmd_lib \<Rightarrow> ('w, 'wal, 'gwy, 'net, 'con) gateway_lib
       \<Rightarrow> ('r, 'coins, 'conn, 'chan) query_lib \<Rightarrow> ('am, 'reg, 'cdc, 'gen) encoding_lib
       \<Rightarrow> (bytes \<Rightarrow> bytes) \<Rightarrow> (string \<times> bytes \<Rightarrow> bytes outcome) \<Rightarrow> (string list \<Rightarrow> ('w, string) call) Command" where
  "FabricCmd X G Q E sha256 marshal_identity =
     Command ''fabric'' None [] None
       [configCmd (generateChainConfig_RunE X),
        walletCmd (populateWallet_RunE X G) (showAddress_RunE X G sha256 marshal_identity),
        chaincodeCmd (initChaincode_RunE X G E),
        queryCmd (querySequence_RunE X G Q)]"

section \<open>The wallet commands\<close>

text \<open>
  The documented behaviour of a file system wallet and of the file system: \<open>handle\<close> is the wallet of a
  directory, \<open>stored\<close> what a wallet has under its labels, \<open>file\<close> the content of the files. Opening a wallet,
  reading and connecting change neither.
\<close>

definition same_view ::
    "('wal \<Rightarrow> 'w \<Rightarrow> string \<rightharpoonup> any_identity) \<Rightarrow> ('w \<Rightarrow> string \<rightharpoonup> bytes) \<Rightarrow> 'w \<Rightarrow> 'w \<Rightarrow> bool" where
  "same_view stored file w w' \<longleftrightarrow> (\<forall>a. stored a w' = stored a w) \<and> file w' = file w"

definition wallet_laws ::
    "('w, 'wal, 'gwy, 'net, 'con) gateway_lib \<Rightarrow> (string \<Rightarrow> 'wal) \<Rightarrow> ('wal \<Rightarrow> 'w \<Rightarrow> string \<rightharpoonup> any_identity)
       \<Rightarrow> ('w \<Rightarrow> string \<rightharpoonup> bytes) \<Rightarrow> bool" where
  "wallet_laws G handle stored file \<longleftrightarrow>
     (\<forall>p w a w'. NewFileSystemWallet G p w = (Ok a, w') \<longrightarrow> a = handle p \<and> same_view stored file w w')
   \<and> (\<forall>a l w. Wallet_Exists G a l w \<longleftrightarrow> stored a w l \<noteq> None)
   \<and> (\<forall>a l w i w'. Wallet_Get G a l w = (Ok i, w') \<longrightarrow> stored a w l = Some i)
   \<and> (\<forall>a l i w w'. Wallet_Put G a l i w = (Ok (), w') \<longrightarrow> stored a w' = (stored a w)(l \<mapsto> i))
   \<and> (\<forall>p w bz w'. ReadFile G p w = (Ok bz, w') \<longrightarrow> file w p = Some bz \<and> same_view stored file w w')
   \<and> (\<forall>p a l w y w'. gateway_Connect G p a l w = (Ok y, w') \<longrightarrow> same_view stored file w w')
   \<and> (\<forall>y ch w n w'. GetNetwork G y ch w = (Ok n, w') \<longrightarrow> same_view stored file w w')"

lemma wallet_lawsD:
  assumes "wallet_laws G handle stored file"
  shows "NewFileSystemWallet G p w = (Ok a, w') \<Longrightarrow> a = handle p \<and> same_view stored file w w'"
    and "Wallet_Exists G a l w \<longleftrightarrow> stored a w l \<noteq> None"
    and "Wallet_Get G a l w = (Ok i, w') \<Longrightarrow> stored a w l = Some i"
    and "Wallet_Put G a l i w = (Ok (), w') \<Longrightarrow> stored a w' = (stored a w)(l \<mapsto> i)"
    and "ReadFile G q w = (Ok bz, w') \<Longrightarrow> file w q = Some bz \<and> same_view stored file w w'"
    and "gateway_Connect G q a l w = (Ok y, w') \<Longrightarrow> same_view stored file w w'"
    and "GetNetwork G y ch w = (Ok n, w') \<Longrightarrow> same_view stored file w w'"
  using assms unfolding wallet_laws_def by metis+

lemma same_view_trans: "same_view stored file u v \<Longrightarrow> same_view stored file v w \<Longrightarrow> same_view stored file u w"
  by (simp add: same_view_def)

lemma assign_Ok: "assign upd c ws = (Ok (), t) \<longleftrightarrow> (\<exists>a w. c (fst ws) = (Ok a, w) \<and> t = (w, upd (Some a) (snd ws)))"
  by (auto simp: assign_def split: prod.splits outcome.splits)

lemma current_wallet_Ok: "current_wallet ws = (Ok a, t) \<longleftrightarrow> gw_Wallet (snd ws) = Some a \<and> t = ws"
  by (auto simp: current_wallet_def then_call_Ok own_def lift_def deref_def split: option.splits)

lemma with_chain_Ok:
  "with_chain X args f w = (Ok b, w') \<longleftrightarrow>
     (\<exists>c c'. 0 < length args \<and> GetChain X (args ! 0) = Ok (FabricChain c) \<and> f (w, c) = (Ok b, (w', c')))"
  unfolding with_chain_def then_call_Ok
  by (fastforce simp: lift_def outcome_simps split: chain_i.splits prod.splits)

text \<open>A wallet that has no such label gets the identity of the two files.\<close>

lemma populate_stores:
  assumes laws: "wallet_laws G handle stored file"
    and run: "Gateway_PopulateWallet G path label cert key (w, gw) = (Ok (), (w', gw'))"
    and absent: "stored (handle path) w label = None"
  obtains c k where "file w (filepath_Clean cert) = Some c" "file w (filepath_Clean key) = Some k"
    "stored (handle path) w' label = Some (X509Identity label (string_of_bytes c) (string_of_bytes k))"
proof -
  from run obtain a w1 gw1 where n: "NewFileSystemWallet G path w = (Ok a, w1)" and
      rest: "then_call (wallet_exists G a label) (\<lambda>ex. if ex then give ()
        else then_call (outside (ReadFile G (filepath_Clean cert))) (\<lambda>cert.
          then_call (outside (ReadFile G (filepath_Clean key))) (\<lambda>key.
            outside (Wallet_Put G a label (X509Identity label (string_of_bytes cert) (string_of_bytes key)))))) (w1, gw1) = (Ok (), (w', gw'))"
    unfolding Gateway_PopulateWallet_def fileSystemWallet_def then_call_Ok [of "assign f c" for f c] then_call_Ok [of current_wallet]
    by (auto simp: assign_Ok current_wallet_Ok)
  from wallet_lawsD(1) [OF laws n] have a: "a = handle path" "same_view stored file w w1" by auto
  with absent have "\<not> Wallet_Exists G a label w1" by (simp add: wallet_lawsD(2) [OF laws] same_view_def)
  with rest obtain c w2 k w3 where r: "ReadFile G (filepath_Clean cert) w1 = (Ok c, w2)" "ReadFile G (filepath_Clean key) w2 = (Ok k, w3)"
    and put: "Wallet_Put G a label (X509Identity label (string_of_bytes c) (string_of_bytes k)) w3 = (Ok (), w')"
    by (auto simp: then_call_Ok outside_Ok wallet_exists_def)
  from wallet_lawsD(5) [OF laws r(1)] wallet_lawsD(5) [OF laws r(2)] wallet_lawsD(4) [OF laws put] a show ?thesis
    by (intro that [of c k]) (auto simp: same_view_def)
qed

text \<open>Connecting selects the wallet of the directory and leaves what it has.\<close>

lemma connect_keeps_wallet:
  assumes laws: "wallet_laws G handle stored file"
    and run: "Gateway_Connect G path label ccp channel chaincode (w, gw) = (Ok (), (w', gw'))"
  shows "gw_Wallet gw' = Some (handle path)" "same_view stored file w w'"
proof -
  from run obtain a w1 y w2 n where
      s: "NewFileSystemWallet G path w = (Ok a, w1)" "gateway_Connect G (filepath_Clean ccp) a label w1 = (Ok y, w2)"
        "GetNetwork G y channel w2 = (Ok n, w')" and g: "gw_Wallet gw' = Some a"
    unfolding Gateway_Connect_def fileSystemWallet_def
    by (auto simp: then_call_Ok assign_Ok outside_Ok current_wallet_Ok wallet_exists_def own_def lift_def deref_def modify_def
        split: if_splits option.splits)
  from wallet_lawsD(1) [OF laws s(1)] wallet_lawsD(6) [OF laws s(2)] wallet_lawsD(7) [OF laws s(3)] g
  show "gw_Wallet gw' = Some (handle path)" "same_view stored file w w'" by (auto intro: same_view_trans)
qed

lemma on_gateway_Ok:
  "on_gateway f wc = (Ok a, t) \<longleftrightarrow>
     (\<exists>w gw. f (fst wc, chain_gateway (snd wc)) = (Ok a, (w, gw)) \<and> t = (w, (snd wc)\<lparr>chain_gateway := gw\<rparr>))"
  by (auto simp: on_gateway_def split: prod.splits)

lemma serialized_identity_Ok:
  assumes "serialized_identity G label (w, c) = (Ok sid, t)"
  obtains a i cert key w' where "gw_Wallet (chain_gateway c) = Some a" "Wallet_Get G a label w = (Ok (X509Identity i cert key), w')"
    "sid = (i, bytes_of_string cert)"
proof -
  from assms obtain a i w' where "gw_Wallet (chain_gateway c) = Some a" and g: "Wallet_Get G a label w = (Ok i, w')"
    and "(case i of X509Identity mspID cert key \<Rightarrow> give (mspID, bytes_of_string cert)
      | OtherIdentity \<Rightarrow> lift (Panic ''interface conversion'')) (w', c) = (Ok sid, t)"
    unfolding serialized_identity_def by (auto simp: then_call_Ok on_gateway_Ok current_wallet_Ok outside_Ok)
  then show ?thesis by (cases i) (auto simp: give_def lift_def intro: that)
qed

text \<open>
  C32: The address that the relayer shows after a wallet was filled is the one that the chaincode computes
  for the creator with the certificate of the file: \<open>wallet populate\<close> on a wallet that does not have the
  label of the chain, followed by \<open>wallet address\<close>, prints the creator address of the MSP named by the label
  and the bytes of the certificate file.
\<close>

theorem shown_address_is_creator:
  assumes laws: "wallet_laws G handle stored file"
    and chain: "GetChain X (args ! 0) = Ok (FabricChain c)"
    and absent: "stored (handle (getWalletPath c)) w (cfg_WalletLabel (chain_config c)) = None"
    and populate: "populateWallet_RunE X G args w = (Ok out, w1)"
    and show_: "showAddress_RunE X G sha256 marshal_identity args w1 = (Ok text, w2)"
  shows "\<exists>cert addr. file w (filepath_Clean (viper_GetString X ''cert'')) = Some cert
    \<and> MakeCreatorAddressWithSerializedIdentity sha256 marshal_identity (cfg_WalletLabel (chain_config c), cert) = Ok addr
    \<and> text = AccAddress_String X addr @ newline"
proof -
  let ?label = "cfg_WalletLabel (chain_config c)" and ?h = "handle (getWalletPath c)"
  from populate chain obtain gw where "Gateway_PopulateWallet G (getWalletPath c) ?label (viper_GetString X ''cert'')
      (viper_GetString X flagFabClientPrivateKeyPath) (w, chain_gateway c) = (Ok (), (w1, gw))"
    unfolding populateWallet_RunE_def with_chain_Ok Chain_PopulateWallet_def
    by (auto simp: then_call_Ok own_def on_gateway_Ok give_def flagFabClientCertPath_def)
  from populate_stores [OF laws this absent] obtain cert key where f: "file w (filepath_Clean (viper_GetString X ''cert'')) = Some cert"
    and s: "stored ?h w1 ?label = Some (X509Identity ?label (string_of_bytes cert) key)" by blast
  from show_ chain obtain ccp ch cc w3 gw' sid t addr where
      "Gateway_Connect G (getWalletPath c) ?label ccp ch cc (w1, chain_gateway c) = (Ok (), (w3, gw'))"
    and sid: "serialized_identity G ?label (w3, c\<lparr>chain_gateway := gw'\<rparr>) = (Ok sid, t)"
    and addr: "MakeCreatorAddressWithSerializedIdentity sha256 marshal_identity sid = Ok addr" "text = AccAddress_String X addr @ newline"
    unfolding showAddress_RunE_def with_chain_Ok Chain_Connect_def
    by (auto simp: then_call_Ok own_def on_gateway_Ok give_def lift_def)
  from connect_keeps_wallet [OF laws this(1)] s have "gw_Wallet gw' = Some ?h"
    "stored ?h w3 ?label = Some (X509Identity ?label (string_of_bytes cert) key)" by (auto simp: same_view_def)
  with sid have "sid = (?label, cert)"
    by (elim serialized_identity_Ok) (auto dest!: wallet_lawsD(3) [OF laws])
  with f addr show ?thesis by auto
qed

section \<open>An instance\<close>

text \<open>A world that is one wallet; every file has the content \<open>C\<close>.\<close>

definition cmd_gateway :: "(string \<rightharpoonup> any_identity, unit, unit, unit, unit) gateway_lib" where
  "cmd_gateway = \<lparr>NewFileSystemWallet = (\<lambda>_. give ()), Wallet_Exists = (\<lambda>_ l w. w l \<noteq> None),
     Wallet_Get = (\<lambda>_ l w. case w l of None \<Rightarrow> (Err (ErrorNew ''no such label''), w) | Some i \<Rightarrow> (Ok i, w)),
     Wallet_Put = (\<lambda>_ l i w. (Ok (), w(l \<mapsto> i))), ReadFile = (\<lambda>_. give [67]), gateway_Connect = (\<lambda>_ _ _. give ()),
     GetNetwork = (\<lambda>_ _. give ()), GetContract = (\<lambda>_ _. Some ()), EvaluateTransaction = (\<lambda>_ _ _. give []),
     SubmitTransaction = (\<lambda>_ _ _. give []), Simulate = (\<lambda>_ _ _. give \<lparr>resp_Payload = [], resp_Responses = []\<rparr>)\<rparr>"

definition cmd_chain :: "(string \<rightharpoonup> any_identity, unit, unit, unit, unit, unit) Chain" where
  "cmd_chain = NewChain \<lparr>cfg_ChainId = ''ibc0'', cfg_WalletLabel = ''Org1MSP'', cfg_ConnectionProfilePath = ''c.yaml'',
     cfg_Channel = ''channel1'', cfg_ChaincodeId = ''fabibc''\<rparr>"

definition cmd_relayer :: "(string \<rightharpoonup> any_identity, unit, unit, unit, unit, unit, unit, unit) cmd_lib" where
  "cmd_relayer = \<lparr>GetChain = (\<lambda>_. Ok (FabricChain cmd_chain)), viper_GetString = (\<lambda>f. f), NewChainProverConfig = (\<lambda>_ _. Ok ()),
     json_Marshal_config = (\<lambda>_. Ok []), json_Marshal_genesis = (\<lambda>_. Ok []), AccAddress_String = string_of_bytes,
     Sequence_String = (\<lambda>_. '''')\<rparr>"

lemma cmd_wallet_laws: "wallet_laws cmd_gateway (\<lambda>_. ()) (\<lambda>_ w. w) (\<lambda>_ _. Some [67])"
  by (auto simp: wallet_laws_def cmd_gateway_def same_view_def give_def split: option.splits)

lemma char_letters: "char_of (65 :: nat) = CHR ''A''" "char_of (67 :: nat) = CHR ''C''"
  by (simp_all add: char_of_def bit_0)

lemma cmd_populates:
  "populateWallet_RunE cmd_relayer cmd_gateway [''ibc0''] Map.empty = (Ok '''', [''Org1MSP'' \<mapsto> X509Identity ''Org1MSP'' ''C'' ''C''])"
  by (simp add: populateWallet_RunE_def with_chain_def cmd_relayer_def index_def lift_def then_call_def give_def Chain_PopulateWallet_def
      own_def on_gateway_def Gateway_PopulateWallet_def fileSystemWallet_def assign_def current_wallet_def wallet_exists_def outside_def
      deref_def cmd_gateway_def cmd_chain_def NewChain_def FabricGateway_zero_def string_of_bytes_def char_of_byte_def char_letters)

lemma cmd_shows:
  "showAddress_RunE cmd_relayer cmd_gateway (\<lambda>_. replicate 32 65) (\<lambda>sid. Ok (snd sid)) [''ibc0'']
     [''Org1MSP'' \<mapsto> X509Identity ''Org1MSP'' ''C'' ''C''] =
   (Ok (replicate 20 CHR ''A'' @ newline), [''Org1MSP'' \<mapsto> X509Identity ''Org1MSP'' ''C'' ''C''])"
  by (simp add: showAddress_RunE_def with_chain_def cmd_relayer_def index_def lift_def then_call_def give_def Chain_Connect_def
      own_def on_gateway_def Gateway_Connect_def fileSystemWallet_def assign_def current_wallet_def wallet_exists_def outside_def
      deref_def cmd_gateway_def cmd_chain_def NewChain_def FabricGateway_zero_def string_of_bytes_def char_of_byte_def char_letters modify_def
      serialized_identity_def MakeCreatorAddressWithSerializedIdentity_def MakeCreatorAddressWithBytes_def)

theorem shown_address_is_creator_witness:
  "\<exists>cert addr. cert = [67] \<and> showAddress_RunE cmd_relayer cmd_gateway (\<lambda>_. replicate 32 65) (\<lambda>sid. Ok (snd sid)) [''ibc0'']
       (snd (populateWallet_RunE cmd_relayer cmd_gateway [''ibc0''] Map.empty)) =
     (Ok (string_of_bytes addr @ newline), [''Org1MSP'' \<mapsto> X509Identity ''Org1MSP'' ''C'' ''C''])
   \<and> MakeCreatorAddressWithSerializedIdentity (\<lambda>_. replicate 32 65) (\<lambda>sid. Ok (snd sid)) (''Org1MSP'', cert) = Ok addr"
proof -
  have c: "GetChain cmd_relayer ([''ibc0''] ! 0) = Ok (FabricChain cmd_chain)" by (simp add: cmd_relayer_def)
  have l: "cfg_WalletLabel (chain_config cmd_chain) = ''Org1MSP''" by (simp add: cmd_chain_def NewChain_def)
  have t: "AccAddress_String cmd_relayer = string_of_bytes" by (simp add: cmd_relayer_def)
  from shown_address_is_creator [OF cmd_wallet_laws c _ cmd_populates cmd_shows] show ?thesis
    by (auto simp: l t cmd_populates cmd_shows)
qed

end
