(* ===== verification/Modules.thy ===== *)
theory Modules
  imports Commitment Relay_Cmd
begin

text \<open>
  The glue around the components: the module of the light client (\<open>light-clients/fabric/module.go\<close>,
  \<open>types/codec.go\<close>, \<open>types/errors.go\<close>, \<open>types/config.go\<close>), the configuration of the chaincode
  (\<open>chaincode/config\<close>) and the module of the relayer (\<open>relay/codec.go\<close>, \<open>relay/module\<close>). The interface registry
  of the SDK is an argument; interfaces and types are their names.
\<close>

section \<open>Configurations\<close>

definition envFabricIbcMSPsDir :: string where
  "envFabricIbcMSPsDir = ''FABRIC_IBC_MSPS_DIR''"

record MSPs_Config =
  MSPsDir :: string
  MSPIDs :: "string list"

text \<open>The environment and the names in a directory are arguments.\<close>

definition MSPs_DefaultConfig :: "(string \<Rightarrow> string) \<Rightarrow> (string \<Rightarrow> string list outcome) \<Rightarrow> MSPs_Config outcome" where
  "MSPs_DefaultConfig Getenv ReadDir =
     (let dir = Getenv envFabricIbcMSPsDir
      in if dir = '''' then Err (ErrorNew ''environment variable '%v' must be set'')
         else and_then (ReadDir dir) (\<lambda>fis. Ok \<lparr>MSPsDir = dir, MSPIDs = fis\<rparr>))"

record Chaincode_Config =
  cc_CommitmentConfig :: CommitmentConfig

definition Chaincode_DefaultConfig :: Chaincode_Config where
  "Chaincode_DefaultConfig = \<lparr>cc_CommitmentConfig = DefaultConfig\<rparr>"

section \<open>Registration of types\<close>

text \<open>\<open>RegisterImplementations\<close> of a registry: the interface and the type that implements it.\<close>

type_synonym 'reg register_implementations = "string \<Rightarrow> string \<Rightarrow> 'reg \<Rightarrow> 'reg outcome"

definition light_client_RegisterInterfaces :: "'reg register_implementations \<Rightarrow> 'reg \<Rightarrow> 'reg outcome" where
  "light_client_RegisterInterfaces RegisterImplementations registry =
     and_then (RegisterImplementations ''exported.ClientState'' ''ClientState'' registry) (\<lambda>registry.
       and_then (RegisterImplementations ''exported.ConsensusState'' ''ConsensusState'' registry) (\<lambda>registry.
         and_then (RegisterImplementations ''exported.Header'' ''Header'' registry) (\<lambda>registry.
           RegisterImplementations ''exported.Header'' ''Header'' registry)))"

definition relay_RegisterInterfaces :: "'reg register_implementations \<Rightarrow> 'reg \<Rightarrow> 'reg outcome" where
  "relay_RegisterInterfaces RegisterImplementations registry =
     and_then (light_client_RegisterInterfaces RegisterImplementations registry) (\<lambda>registry.
       and_then (RegisterImplementations ''core.ChainConfigI'' ''ChainConfig'' registry) (\<lambda>registry.
         RegisterImplementations ''core.ProverConfigI'' ''ProverConfig'' registry))"

section \<open>Modules\<close>

definition ModuleName :: string where
  "ModuleName = ''hyperledgerfabric''"

text \<open>The basic module of the light client has no genesis, no routes and no commands.\<close>

record ('reg, 'gen, 'cmd) basic_module =
  basic_Name :: string
  basic_RegisterInterfaces :: "'reg \<Rightarrow> 'reg outcome"
  basic_DefaultGenesis :: "'gen option"
  basic_ValidateGenesis :: "bytes \<Rightarrow> unit outcome"
  basic_GetTxCmd :: "'cmd option"
  basic_GetQueryCmd :: "'cmd option"

definition AppModuleBasic :: "'reg register_implementations \<Rightarrow> ('reg, 'gen, 'cmd) basic_module" where
  "AppModuleBasic RegisterImplementations =
     \<lparr>basic_Name = ModuleName, basic_RegisterInterfaces = light_client_RegisterInterfaces RegisterImplementations,
      basic_DefaultGenesis = None, basic_ValidateGenesis = (\<lambda>_. Ok ()), basic_GetTxCmd = None, basic_GetQueryCmd = None\<rparr>"

text \<open>The module of the relayer: its name, its registrations and its command.\<close>

record ('reg, 'cmd) relay_module =
  module_Name :: string
  module_RegisterInterfaces :: "'reg \<Rightarrow> 'reg outcome"
  module_GetCmd :: 'cmd

definition relay_Module :: "'reg register_implementations \<Rightarrow> 'cmd \<Rightarrow> ('reg, 'cmd) relay_module" where
  "relay_Module RegisterImplementations fabric_cmd =
     \<lparr>module_Name = ''fabric'', module_RegisterInterfaces = relay_RegisterInterfaces RegisterImplementations, module_GetCmd = fabric_cmd\<rparr>"

section \<open>What is registered\<close>

text \<open>
  A registry accepts a type once or again under the same interface, and refuses nothing that is new: then
  both modules register without a failure, although the header is registered twice, and the relayer can
  read every type of the light client.
\<close>

definition registry_laws :: "'reg register_implementations \<Rightarrow> ('reg \<Rightarrow> (string \<times> string) set) \<Rightarrow> bool" where
  "registry_laws RegisterImplementations known \<longleftrightarrow>
     (\<forall>i t reg. (\<forall>j. (j, t) \<in> known reg \<longrightarrow> j = i) \<longrightarrow>
        (\<exists>reg'. RegisterImplementations i t reg = Ok reg' \<and> known reg' = insert (i, t) (known reg)))"

lemma register_one:
  assumes "registry_laws R known" "\<forall>j. (j, t) \<in> known reg \<longrightarrow> j = i"
  shows "\<exists>reg'. R i t reg = Ok reg' \<and> known reg' = insert (i, t) (known reg)"
  using assms(1) [unfolded registry_laws_def, rule_format, of t reg i] assms(2) by simp

lemma light_client_registers:
  assumes laws: "registry_laws R known"
    and new: "\<forall>j. (j, ''ClientState'') \<notin> known reg" "\<forall>j. (j, ''ConsensusState'') \<notin> known reg" "\<forall>j. (j, ''Header'') \<notin> known reg"
  shows "\<exists>reg'. light_client_RegisterInterfaces R reg = Ok reg' \<and> known reg' = {(''exported.Header'', ''Header''),
    (''exported.ConsensusState'', ''ConsensusState''), (''exported.ClientState'', ''ClientState'')} \<union> known reg"
proof -
  obtain r1 where 1: "R ''exported.ClientState'' ''ClientState'' reg = Ok r1"
      "known r1 = insert (''exported.ClientState'', ''ClientState'') (known reg)"
    using register_one [OF laws, of "''ClientState''" reg "''exported.ClientState''"] new by auto
  obtain r2 where 2: "R ''exported.ConsensusState'' ''ConsensusState'' r1 = Ok r2"
      "known r2 = insert (''exported.ConsensusState'', ''ConsensusState'') (known r1)"
    using register_one [OF laws, of "''ConsensusState''" r1 "''exported.ConsensusState''"] new 1(2) by auto
  obtain r3 where 3: "R ''exported.Header'' ''Header'' r2 = Ok r3" "known r3 = insert (''exported.Header'', ''Header'') (known r2)"
    using register_one [OF laws, of "''Header''" r2 "''exported.Header''"] new 1(2) 2(2) by auto
  obtain r4 where 4: "R ''exported.Header'' ''Header'' r3 = Ok r4" "known r4 = insert (''exported.Header'', ''Header'') (known r3)"
    using register_one [OF laws, of "''Header''" r3 "''exported.Header''"] new 1(2) 2(2) 3(2) by auto
  show ?thesis by (rule exI [of _ r4]) (simp add: light_client_RegisterInterfaces_def 1 2 3 4)
qed

lemma relayer_registers:
  assumes laws: "registry_laws R known"
    and new: "\<forall>j. (j, ''ClientState'') \<notin> known reg" "\<forall>j. (j, ''ConsensusState'') \<notin> known reg" "\<forall>j. (j, ''Header'') \<notin> known reg"
      "\<forall>j. (j, ''ChainConfig'') \<notin> known reg" "\<forall>j. (j, ''ProverConfig'') \<notin> known reg"
  shows "\<exists>reg'. module_RegisterInterfaces (relay_Module R cmd) reg = Ok reg' \<and> known reg' =
    {(''core.ProverConfigI'', ''ProverConfig''), (''core.ChainConfigI'', ''ChainConfig''), (''exported.Header'', ''Header''),
     (''exported.ConsensusState'', ''ConsensusState''), (''exported.ClientState'', ''ClientState'')} \<union> known reg"
proof -
  obtain r1 where 1: "light_client_RegisterInterfaces R reg = Ok r1" "known r1 = {(''exported.Header'', ''Header''),
    (''exported.ConsensusState'', ''ConsensusState''), (''exported.ClientState'', ''ClientState'')} \<union> known reg"
    using light_client_registers [OF laws new(1-3)] by blast
  obtain r2 where 2: "R ''core.ChainConfigI'' ''ChainConfig'' r1 = Ok r2"
      "known r2 = insert (''core.ChainConfigI'', ''ChainConfig'') (known r1)"
    using register_one [OF laws, of "''ChainConfig''" r1 "''core.ChainConfigI''"] new 1(2) by auto
  obtain r3 where 3: "R ''core.ProverConfigI'' ''ProverConfig'' r2 = Ok r3"
      "known r3 = insert (''core.ProverConfigI'', ''ProverConfig'') (known r2)"
    using register_one [OF laws, of "''ProverConfig''" r2 "''core.ProverConfigI''"] new 1(2) 2(2) by auto
  show ?thesis by (rule exI [of _ r3]) (simp add: relay_Module_def relay_RegisterInterfaces_def 1 2 3)
qed

end
