(* ===== verification/Grpc_Server.thy ===== *)
theory Grpc_Server
  imports Base_App
begin

text \<open>
  The gRPC server side of the application: the cache of return types of \<open>chaincode/app/grpcrouter.go\<close>,
  \<open>RegisterGRPCServer\<close> of \<open>grpcserver.go\<close> and the client connection of \<open>grpcrouter_helpers.go\<close>. The closure
  that \<open>RegisterService\<close> stores is given here with the cache, and shown to answer as the one without it; the
  last lemmas follow a cache that an undecodable request has filled first.
\<close>

section \<open>The cache of return types\<close>

text \<open>
  A type is \<open>None\<close> when it is the type of a \<open>nil\<close> interface. A handler returns a value of type
  \<open>interface{}\<close>, \<open>None\<close> for \<open>nil\<close>, together with an error, \<open>None\<close> for \<open>nil\<close>.
\<close>

type_synonym 'ty return_types = "string \<rightharpoonup> 'ty option"

type_synonym ('m, 's, 'i, 'v) method_handler = "'s sdk_context \<Rightarrow> 'i outcome \<Rightarrow> ('m, 's, 'v option \<times> error option) cached"

definition save_type :: "string \<Rightarrow> 'ty option \<Rightarrow> 'ty return_types \<Rightarrow> 'ty return_types" where
  "save_type fqName ty returnTypes = (if returnTypes fqName = None then returnTypes(fqName \<mapsto> ty) else returnTypes)"

definition returnTypeOf :: "'ty return_types \<Rightarrow> string \<Rightarrow> 'ty option outcome" where
  "returnTypeOf returnTypes method =
     (case returnTypes method of
        None \<Rightarrow> Err (ErrorWrap (ErrorNew ''internal logic error'') ''cannot find %s return type'')
      | Some ty \<Rightarrow> Ok ty)"

definition typed_handler ::
    "('db, 'm, 's, 'tx, 'msg, 'i, 'v option) sdk_lib \<Rightarrow> ('v \<Rightarrow> 'ty) \<Rightarrow> bool \<Rightarrow> string \<Rightarrow> ('m, 's, 'i, 'v) method_handler
       \<Rightarrow> 's sdk_context \<Rightarrow> RequestQuery \<Rightarrow> 'm \<Rightarrow> ('s \<times> 'ty return_types, ResponseQuery \<times> 'm) call" where
  "typed_handler A TypeOf registry fqName methodHandler ctx req m st =
     (case methodHandler ctx
        (and_then (protoCodec_Unmarshal A (req_Data req)) (\<lambda>i. if registry then UnpackInterfaces A i else Ok i)) m (fst st) of
        (Ok ((res, err), m'), s) \<Rightarrow>
          (let rts = save_type fqName (map_option TypeOf res) (snd st)
           in case err of
                Some e \<Rightarrow> (Err e, (s, rts))
              | None \<Rightarrow> (and_then (protoCodec_Marshal A res) (\<lambda>resBytes.
                  Ok (ResponseQuery_zero\<lparr>res_Height := req_Height req, res_Value := Some resBytes\<rparr>, m')), (s, rts)))
      | (Err e, s) \<Rightarrow> (Err e, (s, snd st))
      | (Panic p, s) \<Rightarrow> (Panic p, (s, snd st)))"

text \<open>A handler with its two results as one outcome, the form that the router of the application has.\<close>

definition as_method :: "('m, 's, 'i, 'v) method_handler \<Rightarrow> ('m, 's, 'i, 'v option) grpc_method" where
  "as_method H ctx dec m =
     then_call (H ctx dec m) (\<lambda>((res, err), m'). case err of Some e \<Rightarrow> fail e | None \<Rightarrow> give (res, m'))"

text \<open>The cache has no influence on an answer or on the ledger.\<close>

lemma typed_handler_answer:
  "typed_handler A TypeOf registry fqName H ctx req m st = (r, (s, rts)) \<Longrightarrow>
     grpc_handler A registry (as_method H) ctx req m (fst st) = (r, s)"
  unfolding typed_handler_def grpc_handler_def as_method_def
  by (auto simp: then_call_def lift_def give_def fail_def Let_def split: prod.splits outcome.splits option.splits)

text \<open>An entry of the cache stays as it is, whatever is called.\<close>

lemma save_type_keeps: "rts f = Some t \<Longrightarrow> save_type g ty rts f = Some t"
  by (auto simp: save_type_def)

lemma typed_handler_keeps:
  assumes "typed_handler A TypeOf registry fqName H ctx req m st = (r, (s, rts))" "snd st f = Some t"
  shows "rts f = Some t"
  using assms unfolding typed_handler_def
  by (auto simp: Let_def save_type_keeps split: prod.splits outcome.splits option.splits)

section \<open>The interceptor\<close>

text \<open>
  The client context of the SDK and the gRPC library, over a world \<open>'w\<close> that has the memory of the process:
  contexts \<open>'c\<close>, requests \<open>'q\<close>, broadcast requests \<open>'btx\<close>, metadata \<open>'md\<close>.
\<close>

record ('w, 'c, 'q, 'btx, 'md, 'v, 'ty) grpc_client =
  as_BroadcastTxRequest :: "'q \<Rightarrow> 'btx option"
  TxServiceBroadcast :: "'c \<Rightarrow> 'btx \<Rightarrow> ('w, 'v) call"
  FromIncomingContext :: "'c \<Rightarrow> 'md"
  RunGRPCQuery :: "'c \<Rightarrow> string \<Rightarrow> 'q \<Rightarrow> 'md \<Rightarrow> ('w, slice \<times> 'md) call"
  cached_types :: "'w \<Rightarrow> 'ty return_types"
  Unmarshal_new :: "'ty \<Rightarrow> slice \<Rightarrow> 'v outcome"
  SendHeader :: "'c \<Rightarrow> 'md \<Rightarrow> ('w, unit) call"

text \<open>
  An interceptor gets the context, the request, the full name of the method and the handler that it may
  call. The test \<open>!ok\<close> within \<open>if \<dots>; ok\<close> never holds.
\<close>

type_synonym ('w, 'c, 'q, 'v) unary_interceptor = "'c \<Rightarrow> 'q \<Rightarrow> string \<Rightarrow> ('c \<Rightarrow> 'q \<Rightarrow> ('w, 'v) call) \<Rightarrow> ('w, 'v) call"

definition interceptor :: "('w, 'c, 'q, 'btx, 'md, 'v, 'ty) grpc_client \<Rightarrow> ('w, 'c, 'q, 'v) unary_interceptor" where
  "interceptor C grpcCtx req fullMethod handler =
     (case as_BroadcastTxRequest C req of
        Some reqProto \<Rightarrow> TxServiceBroadcast C grpcCtx reqProto
      | None \<Rightarrow>
          then_call (RunGRPCQuery C grpcCtx fullMethod req (FromIncomingContext C grpcCtx)) (\<lambda>(abciRes, outMd).
            then_call (reads (\<lambda>w. returnTypeOf (cached_types C w) fullMethod)) (\<lambda>returnType.
              case returnType of
                None \<Rightarrow> lift (Panic ''invalid memory address or nil pointer dereference'')
              | Some ty \<Rightarrow> then_call (lift (Unmarshal_new C ty abciRes)) (\<lambda>res.
                  then_call (SendHeader C grpcCtx outMd) (\<lambda>_. give res)))))"

text \<open>
  A service that is registered with the server: its methods get a context, a decoder and an interceptor.
  The chain of two interceptors, the recovery and the registration at the server are those of the gRPC
  libraries.
\<close>

type_synonym ('w, 'c, 'q, 'v, 'dec) rpc_handler = "'c \<Rightarrow> 'dec \<Rightarrow> ('w, 'c, 'q, 'v) unary_interceptor option \<Rightarrow> ('w, 'v) call"

record ('h, 'ht, 'st, 'meta) service_desc =
  desc_ServiceName :: string
  desc_HandlerType :: 'ht
  desc_Methods :: "(string \<times> 'h) list"
  desc_Streams :: 'st
  desc_Metadata :: 'meta

definition intercepted ::
    "('w, 'c, 'q, 'btx, 'md, 'v, 'ty) grpc_client
       \<Rightarrow> (('w, 'c, 'q, 'v) unary_interceptor \<Rightarrow> ('w, 'c, 'q, 'v) unary_interceptor \<Rightarrow> ('w, 'c, 'q, 'v) unary_interceptor)
       \<Rightarrow> ('w, 'c, 'q, 'v) unary_interceptor \<Rightarrow> (('w, 'c, 'q, 'v, 'dec) rpc_handler, 'ht, 'st, 'meta) service_desc
       \<Rightarrow> (('w, 'c, 'q, 'v, 'dec) rpc_handler, 'ht, 'st, 'meta) service_desc" where
  "intercepted C ChainUnaryServer recovery desc =
     \<lparr>desc_ServiceName = desc_ServiceName desc, desc_HandlerType = desc_HandlerType desc,
      desc_Methods = map (\<lambda>(name, methodHandler).
        (name, \<lambda>ctx dec _. methodHandler ctx dec (Some (ChainUnaryServer recovery (interceptor C))))) (desc_Methods desc),
      desc_Streams = desc_Streams desc, desc_Metadata = desc_Metadata desc\<rparr>"

definition RegisterGRPCServer ::
    "('w, 'c, 'q, 'btx, 'md, 'v, 'ty) grpc_client
       \<Rightarrow> (('w, 'c, 'q, 'v) unary_interceptor \<Rightarrow> ('w, 'c, 'q, 'v) unary_interceptor \<Rightarrow> ('w, 'c, 'q, 'v) unary_interceptor)
       \<Rightarrow> ('w, 'c, 'q, 'v) unary_interceptor
       \<Rightarrow> ((('w, 'c, 'q, 'v, 'dec) rpc_handler, 'ht, 'st, 'meta) service_desc \<Rightarrow> 'obj \<Rightarrow> 'srv \<Rightarrow> 'srv outcome)
       \<Rightarrow> ((('w, 'c, 'q, 'v, 'dec) rpc_handler, 'ht, 'st, 'meta) service_desc \<times> 'obj) list \<Rightarrow> 'srv \<Rightarrow> 'srv outcome" where
  "RegisterGRPCServer C ChainUnaryServer recovery server_RegisterService services server =
     fold_outcome (\<lambda>srv (desc, obj). server_RegisterService (intercepted C ChainUnaryServer recovery desc) obj srv) server services"

text \<open>Every method keeps its name, so the server routes exactly what the router of the application routes.\<close>

lemma intercepted_names: "map fst (desc_Methods (intercepted C ch rc desc)) = map fst (desc_Methods desc)"
  by (simp add: intercepted_def comp_def case_prod_beta)

section \<open>The client connection for tests\<close>

definition NewQueryServerTestHelper ::
    "('m, 's, 'i, 'r) ServiceDesc \<Rightarrow> 's sdk_context \<Rightarrow> (('m, 's, 'i, 'r) GRPCQueryRouter \<times> 's sdk_context) outcome" where
  "NewQueryServerTestHelper reflection_service ctx =
     and_then (SetInterfaceRegistry reflection_service NewGRPCQueryRouter) (\<lambda>qrt. Ok (qrt, ctx))"

text \<open>\<open>abci.RequestQuery{Data: reqBz}\<close>\<close>

definition query_data :: "bytes \<Rightarrow> RequestQuery" where
  "query_data reqBz = \<lparr>req_Data = reqBz, req_Path = '''', req_Height = 0, req_Prove = False\<rparr>"

text \<open>The codec for the arguments and for the reply are arguments.\<close>

definition Invoke ::
    "('db, 'm, 's, 'tx, 'msg, 'i, 'r) sdk_lib \<Rightarrow> ('q \<Rightarrow> bytes outcome) \<Rightarrow> (slice \<Rightarrow> 'v outcome) \<Rightarrow> ('v \<Rightarrow> 'v outcome)
       \<Rightarrow> ('m, 's, 'i, 'r) GRPCQueryRouter \<times> 's sdk_context \<Rightarrow> string \<Rightarrow> 'q \<Rightarrow> ('m, 's, 'v) cached" where
  "Invoke A marshal unmarshal unpack q method args m =
     (case GRPCQueryRouter_Route (fst q) method of
        None \<Rightarrow> fail (ErrorNew ''handler not found for %s'')
      | Some querier \<Rightarrow>
          then_call (lift (marshal args)) (\<lambda>reqBz.
            then_call (grpc_handler A (interfaceRegistry (fst q)) querier (snd q) (query_data reqBz) m) (\<lambda>(res, m').
              then_call (lift (unmarshal (res_Value res))) (\<lambda>reply.
                then_call (lift (if interfaceRegistry (fst q) then unpack reply else Ok reply)) (\<lambda>reply. give (reply, m'))))))"

text \<open>
  A call through the connection reaches the method: when decoding undoes encoding on both sides, it returns
  what the method of the registered service returns for the arguments.
\<close>

lemma invoke_is_call:
  assumes "NewQueryServerTestHelper reflection_service ctx = Ok (qrt, ctx)" "RegisterService qrt sd = Ok qrt'" and h: "(name, h) \<in> set (Methods sd)"
    and c: "marshal args = Ok bz" "protoCodec_Unmarshal A bz = Ok i" "UnpackInterfaces A i = Ok i"
      "h ctx (Ok i) m s = (Ok (r, m'), s')" "protoCodec_Marshal A r = Ok bz'" "unmarshal (Some bz') = Ok v" "unpack v = Ok v"
  shows "Invoke A marshal unmarshal unpack (qrt', ctx) (''/'' @ ServiceName sd @ ''/'' @ name) args m s = (Ok (v, m'), s')"
proof -
  let ?fq = "\<lambda>name. ''/'' @ ServiceName sd @ ''/'' @ name"
  from assms(1) have "interfaceRegistry qrt"
    by (auto simp: NewQueryServerTestHelper_def SetInterfaceRegistry_def RegisterService_def and_then_Ok)
  with assms(2) have reg: "interfaceRegistry qrt'" by (auto simp: RegisterService_def and_then_Ok)
  from RegisterService_ok [OF assms(2)] have
    r: "routes qrt' = routes qrt ++ map_of (map (\<lambda>(name, h). (?fq name, h)) (Methods sd))" and d: "distinct (map fst (Methods sd))"
    by simp_all
  from d have "distinct (map fst (map (\<lambda>(name, h). (?fq name, h)) (Methods sd)))"
    by (induction "Methods sd" rule: rev_induct) (auto simp: distinct_map inj_on_def case_prod_beta)
  moreover from h have "(?fq name, h) \<in> set (map (\<lambda>(name, h). (?fq name, h)) (Methods sd))" by force
  ultimately have "map_of (map (\<lambda>(name, h). (?fq name, h)) (Methods sd)) (?fq name) = Some h" by (rule map_of_is_SomeI)
  with r have "GRPCQueryRouter_Route qrt' (?fq name) = Some h" unfolding GRPCQueryRouter_Route_def by simp
  with reg c show ?thesis
    by (simp add: Invoke_def grpc_handler_def query_data_def then_call_def lift_def give_def del: append.simps)
qed

section \<open>A cache that starts with an undecodable request\<close>

text \<open>The states of the cache, by any calls of any methods.\<close>

inductive cache_step :: "('db, 'm, 's, 'tx, 'msg, 'i, 'v option) sdk_lib \<Rightarrow> ('v \<Rightarrow> 'ty) \<Rightarrow> 'ty return_types \<Rightarrow> 'ty return_types \<Rightarrow> bool"
  for A TypeOf where
  call: "typed_handler A TypeOf registry fqName H ctx req m (s, rts) = (r, (s', rts')) \<Longrightarrow> cache_step A TypeOf rts rts'"

lemma cache_stable: "(cache_step A TypeOf)\<^sup>*\<^sup>* rts rts' \<Longrightarrow> rts f = Some t \<Longrightarrow> rts' f = Some t"
proof (induction rule: rtranclp_induct)
  case (step x y)
  from step.hyps(2) show ?case by cases (use step.IH step.prems in \<open>auto dest: typed_handler_keeps [where f = f and t = t]\<close>)
qed simp

text \<open>
  When the first request for a method has no result, because it could not be decoded, the type of \<open>nil\<close> is
  saved. From then on, whatever is called, a query of this method through the server panics, although the
  query itself succeeds.
\<close>

lemma nil_type_is_kept:
  assumes "H ctx (and_then (protoCodec_Unmarshal A (req_Data req)) (\<lambda>i. if registry then UnpackInterfaces A i else Ok i)) m s
      = (Ok ((None, Some e), m'), s')"
    and "rts f = None" "typed_handler A TypeOf registry f H ctx req m (s, rts) = (r, (s1, rts1))"
    and later: "(cache_step A TypeOf)\<^sup>*\<^sup>* rts1 (cached_types C w')"
    and query: "as_BroadcastTxRequest C q = None" "RunGRPCQuery C c f q (FromIncomingContext C c) w = (Ok res, w')"
  shows "interceptor C c q f k w = (Panic ''invalid memory address or nil pointer dereference'', w')"
proof -
  from assms(1-3) have "rts1 f = Some None" by (auto simp: typed_handler_def save_type_def)
  with cache_stable [OF later] have "cached_types C w' f = Some None" by blast
  with query show ?thesis
    by (simp add: interceptor_def then_call_def reads_def lift_def returnTypeOf_def split: prod.splits)
qed

text \<open>When the cache has the type, the answer is the value of that type, and its header is sent.\<close>

lemma interceptor_answers:
  assumes "as_BroadcastTxRequest C q = None" "RunGRPCQuery C c f q (FromIncomingContext C c) w = (Ok (value, md), w')"
    and "cached_types C w' f = Some (Some ty)" "Unmarshal_new C ty value = Ok v"
  shows "interceptor C c q f k w = then_call (SendHeader C c md) (\<lambda>_. give v) w'"
  using assms by (simp add: interceptor_def then_call_def reads_def lift_def returnTypeOf_def)

end
