(* ===== verification/Spec2Isabelle.thy ===== *)
theory Spec2Isabelle
  imports Sim_Assembly Modules Grpc_Server
begin

text \<open>
  A verification of \<open>yui-fabric-ibc\<close>, which brings the IBC protocol to Hyperledger Fabric.

  The program has three parts. The \<^emph>\<open>chaincode\<close> (\<open>chaincode/\<close>, \<open>simapp/\<close>) runs a Cosmos SDK application with the
  IBC modules on the ledger of a Fabric channel; as Fabric has no block header with a state root, it keeps a
  \<^emph>\<open>sequence\<close>, a number with a timestamp that takes the place of height and time, and \<^emph>\<open>endorses\<close> parts of its
  state by writing them to the ledger at keys that others know. The \<^emph>\<open>light client\<close> (\<open>light-clients/fabric/\<close>) runs on a
  counterparty chain: it holds the last sequence, the policies and the MSPs (the certificate authorities of the
  organisations) of the channel, takes headers that change them, and verifies that peers have endorsed a
  claimed write. The \<^emph>\<open>relayer\<close> (\<open>relay/\<close>) connects to a peer, has functions of the chaincode simulated, makes a
  proof of the signed answers, and creates and updates light clients.

  \<^bold>\<open>Conventions.\<close> A Go call ends with a value, an error or a panic (\<open>'a outcome\<close>); a call that reads or writes
  state is a function from a state to an outcome and a state (\<open>('s, 'a) call\<close>). Structs are records with the field
  names of the source, sometimes with a prefix; integers are words of their width; a byte slice that can be
  \<open>nil\<close> is \<open>slice\<close>; a pointer that can be \<open>nil\<close> is an option, and its use can panic. Code that is not part of the
  repository (the Fabric SDK and shim, the Cosmos SDK, ibc-go, the file system) is an argument of the
  definitions, mostly a field of a record such as \<open>fabric_lib\<close>, \<open>client_lib\<close>, \<open>sdk_lib\<close>, \<open>gateway_lib\<close> or
  \<open>sim_lib\<close>; what is relied on is an explicit hypothesis of the theorem that needs it, and each such theorem is
  applied to concrete functions that satisfy it.

  \<^bold>\<open>Theories.\<close>

  \<^item> \<open>Go_Prelude\<close>, \<open>Go_Text\<close>: outcomes, calls, words, byte strings; decimal, hexadecimal and base64 text, and the functions
    of \<open>strings\<close> that are used.
  \<^item> \<open>Varint\<close>, \<open>Wire\<close>, \<open>Wire_Read\<close>, \<open>Commitment_Codec\<close>, \<open>Fabric_Codec\<close>: the generated protobuf code of
    \<open>chaincode/commitment/types.pb.go\<close> and \<open>light-clients/fabric/types/fabric.pb.go\<close>, with writing backwards into a buffer and
    the reading loops. The locale \<open>wire_message\<close> is the contract of a message and has an interpretation for
    each of the fifteen. Shown: encoding fills the buffer exactly, decoding returns the message, decoding of
    arbitrary bytes ends without a panic.
  \<^item> \<open>Stub\<close>: the ledger through the chaincode stub. The locale \<open>ledger_stub\<close> has a view that reads see and one that writes
    change, which meet at a commit; it covers a peer, where a transaction does not read its own writes, and
    the in-memory stub of \<open>chaincode/tests/stub\<close>, the interpretation \<open>fake\<close>.
  \<^item> \<open>Commitment\<close>, \<open>Sequence_Manager\<close> (\<open>chaincode/commitment\<close>): keys and entries are injective and read back; after \<open>k\<close> sequences
    the entries \<open>1, \<dots>, k\<close> are readable with timestamps that are spaced, the check of timestamps is an interval
    although the arithmetic is that of 64 bits, and the sequence can always be advanced.
  \<^item> \<open>Compat_DB\<close> (\<open>chaincode/x/compat/db.go\<close>), \<open>Multi_Store\<close> (\<open>chaincode/store\<close>): the database over the ledger refines a map
    (locale \<open>kv_db\<close>, for every \<open>ledger_stub\<close>), iteration returns a range in order, the stores of different keys are
    disjoint and a query returns what was set, unless the ledger cannot be read.
  \<^item> \<open>Base_App\<close>, \<open>Grpc_Server\<close> (\<open>chaincode/app\<close>), \<open>Ante\<close> (\<open>chaincode/x/auth\<close>): transactions are atomic, and what a
    successful one reports and writes is what the ante handler and the handlers of its messages made, in order; the ante handler accepts exactly a transaction whose signer is its creator; the cache of
    return types has no influence on an answer, and the first result fixes what the server decodes with.
  \<^item> \<open>Packet_Events\<close>, \<open>App_Runner\<close>, \<open>Chaincode\<close> (\<open>chaincode/*.go\<close>), \<open>Self_Client\<close> (\<open>light-clients/fabric/keeper\<close>): packets announced in events are
    recovered and stored for queries; an endorsement writes the encoded state at its key and nothing else; no
    run of the contract functions disturbs the sequences that are recorded since the last initialisation (the
    function for it can be called again, which starts the sequences anew), so what the chain reports about itself in
    the connection handshake is true.
  \<^item> \<open>Header_Msp\<close>, \<open>Endorsement\<close>, \<open>Client_Update\<close>, \<open>Client_State\<close> (\<open>light-clients/fabric/types\<close>): an accepted header changes the table of MSPs
    by the meaning of its MSP headers, keeps it sorted, never touches a frozen MSP, which also no longer counts for endorsements, and advances the
    sequence by one; the verification functions accept exactly the claims that the proof has as a write, and a proof
    verifies at most one claim.
  \<^item> \<open>Relay_Chain\<close>, \<open>Relay_Prover\<close>, \<open>Relay_Cmd\<close> (\<open>relay\<close>, \<open>relay/cmd\<close>): the gateway, transactions, queries, proofs and commands. Clients that the
    relayer creates are well formed; the address that a command shows is the one the chaincode authenticates.
  \<^item> \<open>Sim_App\<close>, \<open>Sim_Assembly\<close> (\<open>simapp\<close>): the application that is deployed is put together without a failure up to
    the sealing of the capability keeper, which reads the ledger, and its runs have the history shown for the
    chaincode. The laws of the SDK are stated with the conditions under which its constructors do not panic, and
    the instance that shows them consistent panics where they do not hold.
  \<^item> \<open>Modules\<close>: configurations and the registration of types of the light client and the relayer.
  \<^item> This theory: what one chain endorses and the relayer carries is what the light client of another chain
    verifies.

  \<^bold>\<open>Termination and bounds.\<close> No definition has fuel. The loops are recursions with a termination proof: the decoders by
    the distance to the end of the buffer, the variable-length integers by the value, iteration by the items
    left. The two decoding loops have one test that the source does not have, for a round that does not
    advance; it is shown never to hold. The decoding loops compute with the machine integers of the source, so the statements about them
    ask for buffers shorter than \<open>2 ^ 63\<close> bytes, which is what Go can allocate. The statements about time ask for a clock
    between 1970 and \<open>2 ^ 62\<close> seconds and durations that are not negative (\<open>sane\<close>), and those about histories for fewer
    than \<open>2 ^ 64\<close> sequences, after which the number wraps.

  \<^bold>\<open>Properties that show a defect.\<close> Some of the theorems state that the code fails: an index of a proof that is not
    checked, signed bytes without a domain tag, iteration over foreign keys, a batch that is half applied,
    headers of the relayer that no client accepts.

  \<^bold>\<open>Not modelled.\<close> \<open>relay/bin/main.go\<close> only calls a library. \<open>chaincode/app/state.go\<close> is unused; \<open>params.go\<close>, \<open>decoder.go\<close> and \<open>types/keys.go\<close> declare an
    interface or another name. The generated codecs of \<open>relay/config.pb.go\<close> and \<open>chaincode/app/types.pb.go\<close> are instances of the templates
    that are modelled for the other messages; their messages travel as JSON, whose codec is a library. The contents
    of the stores in memory are not part of the state. Logging, tracing output, the dispatch of \<open>cobra\<close>, process start and the accessors of \<open>simapp/app.go\<close> are left out. The cryptography and
    the policy language of Fabric, the keepers of the Cosmos SDK and ibc-go, and the ordering service are not
    part of the repository. Packages under \<open>simapp/testing\<close> and the test utilities are not part of the program.
\<close>

section \<open>From the ledger of one chain to the light client of another\<close>

text \<open>
  What Fabric documents of a simulation: the payload that the peers sign has the identifier of the
  chaincode and the read-write sets of two namespaces, the one of the lifecycle and the one of the
  chaincode, and a simulation that did a single put has that put as its only write.
\<close>

definition simulation_of ::
    "('c, 'm, 'g, 'e, 'p) fabric_lib \<Rightarrow> 's stub \<Rightarrow> 's \<Rightarrow> 's \<Rightarrow> peer_ChaincodeID \<Rightarrow> bytes \<Rightarrow> bool" where
  "simulation_of L S s s' ccID payload \<longleftrightarrow> (\<exists>ns ws. getTxReadWriteSetFromProposalResponsePayload L payload = Ok (Some ccID, [ns, ws])
     \<and> (\<forall>k v. PutState S k v s = (Ok (), s') \<longrightarrow> (\<exists>w. ws = [(k, w)] \<and> slice_bytes w = slice_bytes v)))"

lemma makeCommitmentProof_Ok:
  assumes "makeCommitmentProof response = Ok cp"
  shows "resp_Responses response \<noteq> []" "cp_Proposal cp = Some (er_Payload (hd (resp_Responses response)))"
    "cp_NsIndex cp = 1" "cp_WriteSetIndex cp = 0" "length (cp_Signatures cp) = length (cp_Identities cp)"
  using assms by (auto simp: makeCommitmentProof_def outcome_simps Let_def index_def hd_conv_nth split: if_splits)

text \<open>What the client needs to know before any proof: a consensus state at the height, and its MSPs and policy.\<close>

definition knows ::
    "('c, 'm, 'g, 'e, 'p) fabric_lib \<Rightarrow> ('cl, 'co, 'conn, 'chan) client_lib \<Rightarrow> (bytes \<Rightarrow> slice outcome) \<Rightarrow> ClientState \<Rightarrow> Height
       \<Rightarrow> CommitmentProof \<Rightarrow> bool" where
  "knows L C kvstore cs h cp \<longleftrightarrow> \<not> Height_LT C (ClientState_GetLatestHeight cs) h \<and> (\<exists>cons. GetConsensusState C kvstore h = Ok cons)
     \<and> (\<exists>configs policy. GetMSPPBConfigs (unmarshal_MSPConfig L) (cs_LastMspInfos cs) = Ok configs
          \<and> getPolicyEvaluator L (ci_EndorsementPolicy (cs_LastChaincodeInfo cs)) configs = Ok policy
          \<and> EvaluateSignedData L policy (commitment_signed_data cp) = Ok ())"

lemma committed_by_simulation:
  assumes cp: "makeCommitmentProof response = Ok cp" and size: "CommitmentProof_Size cp < 2 ^ 63"
    and codec: "Unmarshal_CommitmentProof C = (\<lambda>b. CommitmentProof_Unmarshal b CommitmentProof_zero)"
    and known: "knows L C kvstore cs h cp"
    and sim: "simulation_of L S s s' (GetFabricChaincodeID (cs_LastChaincodeInfo cs)) (er_Payload (hd (resp_Responses response)))"
    and put: "PutState S k v s = (Ok (), s')" and bz: "CommitmentProof_Marshal cp = Ok bz"
  shows "committed L C kvstore cs h (Some bz) key x \<longleftrightarrow> key = k \<and> x = slice_bytes v"
proof -
  let ?cp = "CommitmentProof_norm cp"
  note proof_of = makeCommitmentProof_Ok [OF cp]
  have dec: "Unmarshal_CommitmentProof C bz = Ok ?cp"
  proof -
    have "bz = CommitmentProof_enc cp" using bz by (simp add: CommitmentProof_wire.marshal_enc)
    with size show ?thesis by (simp add: codec CommitmentProof_wire.size_enc CommitmentProof_wire.reads_back)
  qed
  from sim put obtain ns w where rw: "getTxReadWriteSetFromProposalResponsePayload L (er_Payload (hd (resp_Responses response))) =
      Ok (Some (GetFabricChaincodeID (cs_LastChaincodeInfo cs)), [ns, [(k, w)]])" and w: "slice_bytes w = slice_bytes v"
    unfolding simulation_of_def by blast
  have norm: "cp_NsIndex ?cp = 1" "cp_WriteSetIndex ?cp = 0" "cp_Signatures ?cp = cp_Signatures cp"
    "cp_Identities ?cp = cp_Identities cp" "slice_bytes (cp_Proposal ?cp) = er_Payload (hd (resp_Responses response))"
    "commitment_signed_data ?cp = commitment_signed_data cp"
    using proof_of by (simp_all add: CommitmentProof_norm_def commitment_signed_data_def)
  from known show ?thesis
    by (auto simp: knows_def committed_def dec VerifyEndorsedCommitment_Ok endorsed_def norm proof_of(5) rw ensureWriteSet_Ok w)
qed

text \<open>
  C1: What one chain endorses, the light client of another verifies, and nothing else. Peers simulate
  one of the endorsing functions of the chaincode, the relayer makes a proof of their answers, and a
  client that has the consensus state, the MSPs and the policy of the chain, and whose policy accepts
  the signatures, is given the encoded proof. Then there is a state of the application such that the
  client accepts a claim if and only if the claim is about the endorsed subject and its bytes are the
  encoding of that state.
\<close>

theorem relayed_proof_is_exact:
  fixes c :: "('db, 'ah, 'm, 's, 'cl, 'co, 'conn, 'chan) ibc_chaincode"
  assumes "reading_chaincode clean c" "endorse H c S q s = (Ok ce, s')"
    and "simulation_of L S s s' (GetFabricChaincodeID (cs_LastChaincodeInfo cs)) (er_Payload (hd (resp_Responses response)))"
    and "makeCommitmentProof response = Ok cp" "CommitmentProof_Marshal cp = Ok bz" "CommitmentProof_Size cp < 2 ^ 63"
    and "Unmarshal_CommitmentProof (ibc_client_lib H) = (\<lambda>b. CommitmentProof_Unmarshal b CommitmentProof_zero)"
    and "ics24_paths (paths (ibc_client_lib H))" "plain_subject (endorsement_subject q)"
    and "knows L (ibc_client_lib H) kvstore cs h cp"
  shows "\<exists>app ctx ms writer v. provides c S s app \<and> app_MakeCacheContext app block_header_zero = ((ctx, ms), writer)
    \<and> app_state (ibc_client_lib H) (app_GetIBCKeeper app) ctx ms s q v
    \<and> (\<forall>x. plain_subject (claim_subject x) \<longrightarrow>
         (verify_claim L (ibc_client_lib H) kvstore cs h (MerklePrefix (Some (Some (host_prefix H)))) (Some bz) x = Ok ()
          \<longleftrightarrow> claim_subject x = endorsement_subject q \<and> claim_value (ibc_client_lib H) x = Some (slice_bytes v)))"
proof -
  let ?C = "ibc_client_lib H" and ?key = "subject_key (paths (ibc_client_lib H)) (host_prefix H)"
  from endorse_Ok [OF assms(1,2)] obtain app ctx ms writer v where
      *: "provides c S s app" "app_MakeCacheContext app block_header_zero = ((ctx, ms), writer)"
      "app_state ?C (app_GetIBCKeeper app) ctx ms s q v" "PutState S (?key (endorsement_subject q)) v s = (Ok (), s')"
    by (auto simp: endorsed_entry_def)
  have "verify_claim L ?C kvstore cs h (MerklePrefix (Some (Some (host_prefix H)))) (Some bz) x = Ok ()
      \<longleftrightarrow> claim_subject x = endorsement_subject q \<and> claim_value ?C x = Some (slice_bytes v)"
    if "plain_subject (claim_subject x)" for x
    using subject_key_injective [OF assms(8) that assms(9), of "host_prefix H"]
    by (auto simp: verify_claim_iff committed_by_simulation [OF assms(4,6,7,10,3) *(4) assms(5)])
  with * show ?thesis by blast
qed

text \<open>One peer, which has simulated the endorsement of the packet of the example chaincode.\<close>

definition relay_response :: channel_Response where
  "relay_response = \<lparr>resp_Payload = [], resp_Responses = [\<lparr>er_Payload = [], er_Signature = [1], er_Endorser = [2]\<rparr>]\<rparr>"

definition relay_proof :: CommitmentProof where
  "relay_proof = \<lparr>cp_Proposal = Some [], cp_NsIndex = 1, cp_WriteSetIndex = 0, cp_Identities = [[2]], cp_Signatures = [[1]]\<rparr>"

definition relay_packet_key :: string where
  "relay_packet_key = MakePacketCommitmentEntryKey standard_lib (bytes_of_string ''ibc'') ''p'' ''c'' 1"

definition relay_fabric_lib :: "(unit, unit, unit, unit, unit) fabric_lib" where
  "relay_fabric_lib = accepting_lib [[], [(relay_packet_key, Some [7])]] (GetFabricChaincodeID ChaincodeInfo_zero)"

lemma relay_endorsed:
  "\<exists>ce. endorse demo_chaincode_lib demo_chaincode MakeFakeStub (EndorsePacket ''p'' ''c'' 1) (empty_ledger None) =
     (Ok ce, snd (fake_PutState relay_packet_key (Some [7]) (empty_ledger None)))"
  by (simp add: endorse_defs endorse_entry_def RunFunc_def demo_provider_def then_call_def base_application_def MakeCacheContext_def
      demo_keeper_def then_make_def make_entry_defs new_cache_store_def CacheMultiStore_def demo_sdk_def put_entry_def fake_PutState_def
      relay_packet_key_def demo_chaincode_lib_def host_prefix_def plain_client_lib_def)

lemma empty_put_inject:
  assumes "fake_PutState k v (empty_ledger tm) = (Ok (), snd (fake_PutState k' v' (empty_ledger tm)))"
  shows "k = k' \<and> v = v'"
proof -
  have "fake_view (snd (fake_PutState k v (empty_ledger tm))) = [k \<mapsto> v]" for k v
    by (simp add: fake_view_def fake_PutState_def empty_ledger_def fun_eq_iff DAList.lookup.rep_eq DAList.empty.rep_eq DAList.update.rep_eq
        update_conv')
  with assms have "[k \<mapsto> v] = [k' \<mapsto> v']" by (metis snd_conv)
  then show ?thesis by (metis fun_upd_same fun_upd_other map_upd_nonempty option.inject option.distinct(1))
qed

lemma relay_simulation:
  "simulation_of relay_fabric_lib MakeFakeStub (empty_ledger None) (snd (fake_PutState relay_packet_key (Some [7]) (empty_ledger None)))
     (GetFabricChaincodeID (cs_LastChaincodeInfo ClientState_zero)) (er_Payload (hd (resp_Responses relay_response)))"
proof -
  have "getTxReadWriteSetFromProposalResponsePayload relay_fabric_lib [] =
      Ok (Some (GetFabricChaincodeID ChaincodeInfo_zero), [[], [(relay_packet_key, Some [7])]])"
    by (simp add: getTxReadWriteSetFromProposalResponsePayload_def relay_fabric_lib_def accepting_lib_def)
  then show ?thesis
    by (auto simp: simulation_of_def relay_response_def ClientState_zero_def dest: empty_put_inject)
qed

theorem relayed_proof_is_exact_witness:
  "\<exists>bz. CommitmentProof_Marshal relay_proof = Ok bz
    \<and> (\<forall>v. verify_claim relay_fabric_lib plain_client_lib (\<lambda>_. Ok (Some [])) ClientState_zero (NewHeight 0 0)
          (MerklePrefix (Some (Some (bytes_of_string ''ibc'')))) (Some bz) (PacketClaim ''p'' ''c'' 1 v) = Ok () \<longleftrightarrow> v = [7])"
proof -
  let ?s = "snd (fake_PutState relay_packet_key (Some [7]) (empty_ledger None))"
  from relay_endorsed obtain ce where
    e: "endorse demo_chaincode_lib demo_chaincode MakeFakeStub (EndorsePacket ''p'' ''c'' 1) (empty_ledger None) = (Ok ce, ?s)" by blast
  obtain bz where bz: "CommitmentProof_Marshal relay_proof = Ok bz" by (simp add: CommitmentProof_wire.marshal_enc)
  have proof_of: "makeCommitmentProof relay_response = Ok relay_proof"
    by (simp add: makeCommitmentProof_def relay_response_def relay_proof_def index_def CommitmentProof_ValidateBasic_def)
  have size: "CommitmentProof_Size relay_proof < 2 ^ 63"
    using sov_bound [of 1]
    by (simp add: relay_proof_def CommitmentProof_Size_def bytes_size_def varint_size_def repeated_size_def element_size_def)
  have libs: "ibc_client_lib demo_chaincode_lib = plain_client_lib" "host_prefix demo_chaincode_lib = bytes_of_string ''ibc''"
    by (simp_all add: demo_chaincode_lib_def host_prefix_def)
  have knows: "knows relay_fabric_lib (ibc_client_lib demo_chaincode_lib) (\<lambda>_. Ok (Some [])) ClientState_zero (NewHeight 0 0) relay_proof"
    by (simp add: libs knows_def plain_client_lib_def demo_unmarshal GetConsensusState_def height_le_def NewHeight_def relay_fabric_lib_def
        accepting_lib_def getPolicyEvaluator_def setupVerifyingMSPManager_def GetMSPPBConfigs_def ClientState_zero_def MSPInfos_zero_def
        ClientState_GetLatestHeight_def)
  have "Unmarshal_CommitmentProof (ibc_client_lib demo_chaincode_lib) = (\<lambda>b. CommitmentProof_Unmarshal b CommitmentProof_zero)"
    "ics24_paths (paths (ibc_client_lib demo_chaincode_lib))" "plain_subject (endorsement_subject (EndorsePacket ''p'' ''c'' 1))"
    by (simp_all add: libs plain_client_lib_def standard_lib_paths plain_def)
  from relayed_proof_is_exact [OF demo_reading e relay_simulation proof_of bz size this knows] obtain app ctx ms writer v where
    "provides demo_chaincode MakeFakeStub (empty_ledger None) app"
    "app_state plain_client_lib (app_GetIBCKeeper app) ctx ms (empty_ledger None) (EndorsePacket ''p'' ''c'' 1) v"
    and x: "plain_subject (claim_subject x) \<Longrightarrow>
      verify_claim relay_fabric_lib plain_client_lib (\<lambda>_. Ok (Some [])) ClientState_zero (NewHeight 0 0)
          (MerklePrefix (Some (Some (bytes_of_string ''ibc'')))) (Some bz) x = Ok ()
        \<longleftrightarrow> claim_subject x = PacketOf ''p'' ''c'' 1 \<and> claim_value plain_client_lib x = Some (slice_bytes v)" for x
    unfolding libs endorsement_subject.simps by blast
  then have "v = Some [7]"
    by (auto simp: demo_provides base_application_def reads_as_def demo_keeper_def)
  with x [of "PacketClaim ''p'' ''c'' 1 _"] bz show ?thesis by (auto simp: plain_def)
qed

end
